(* ===== verification/Prelude.thy ===== *)
theory Prelude
  imports Main "HOL-Library.Sublist" "HOL-Library.Multiset"
begin

text \<open>
  The shared base of the development. It holds

  \<^item> the named fact collections the component theories use: \<open>go_simps\<close> (how the effect
    monad computes), \<open>spec_intros\<close> (the syntax-directed rules of the contract logic) and
    \<open>dec_simps\<close> (how the struct decoders compute);
  \<^item> the Go standard library functions on strings the operator calls
    (\<open>strings.Contains\<close>, \<open>strings.ToLower\<close>, \<open>strconv.Itoa\<close>);
  \<^item> generic lemmas on lists and association lists that several components use.

  Go strings are byte strings; a \<^typ>\<open>string\<close> is a list of 8-bit characters, so
  \<^term>\<open>length\<close> counts what Go's \<open>len\<close> counts.
\<close>

named_theorems go_simps \<open>evaluation of the effect monad\<close>
named_theorems spec_intros \<open>syntax-directed rules for operation contracts\<close>
named_theorems dec_simps \<open>evaluation of JSON struct decoders\<close>

section \<open>Strings\<close>

definition contains_str :: "string \<Rightarrow> string \<Rightarrow> bool" where
  "contains_str s sub = sublist sub s"

lemma contains_str_code [code]:
  "contains_str s sub = list_ex (\<lambda>t. prefix sub t) (suffixes s)"
proof
  assume "contains_str s sub"
  then obtain a b where "s = a @ sub @ b" by (auto simp: contains_str_def sublist_def)
  then have "suffix (sub @ b) s \<and> prefix sub (sub @ b)" by (auto simp: suffix_def)
  then show "list_ex (\<lambda>t. prefix sub t) (suffixes s)"
    by (auto simp: list_ex_iff intro!: bexI [of _ "sub @ b"])
next
  assume "list_ex (\<lambda>t. prefix sub t) (suffixes s)"
  then obtain a b where "s = a @ sub @ b" by (auto simp: list_ex_iff prefix_def suffix_def)
  then show "contains_str s sub" unfolding contains_str_def sublist_def by blast
qed

lemma contains_strI: "contains_str (a @ sub @ b) sub"
  by (auto simp: contains_str_def sublist_def)

definition to_lower_char :: "char \<Rightarrow> char" where
  "to_lower_char c =
     (if 65 \<le> (of_char c :: nat) \<and> (of_char c :: nat) \<le> 90
      then char_of ((of_char c :: nat) + 32) else c)"

definition to_lower :: "string \<Rightarrow> string" where
  "to_lower s = map to_lower_char s"

lemma length_to_lower [simp]: "length (to_lower s) = length s"
  by (simp add: to_lower_def)

definition newline :: char where
  "newline = CHR 0x0A"

fun join_lines :: "string list \<Rightarrow> string" where
  "join_lines [] = []"
| "join_lines [l] = l"
| "join_lines (l # ls) = l @ newline # join_lines ls"

section \<open>Decimal numbers\<close>

text \<open>\<open>strconv.Itoa\<close> and the \<open>%d\<close> verb: most significant digit first.\<close>

definition digit_char :: "nat \<Rightarrow> char" where
  "digit_char d = char_of (48 + d mod 10)"

definition char_digit :: "char \<Rightarrow> nat" where
  "char_digit c = (of_char c :: nat) - 48"

definition is_digit :: "char \<Rightarrow> bool" where
  "is_digit c \<longleftrightarrow> 48 \<le> (of_char c :: nat) \<and> (of_char c :: nat) \<le> 57"

fun show_nat :: "nat \<Rightarrow> string" where
  "show_nat n = (if n < 10 then [digit_char n] else show_nat (n div 10) @ [digit_char n])"

declare show_nat.simps [simp del]

definition show_int :: "int \<Rightarrow> string" where
  "show_int i = (if i < 0 then CHR ''-'' # show_nat (nat (- i)) else show_nat (nat i))"

fun read_nat :: "nat \<Rightarrow> string \<Rightarrow> nat" where
  "read_nat acc [] = acc"
| "read_nat acc (c # cs) = read_nat (10 * acc + char_digit c) cs"

lemma of_char_char_of_small [simp]: "n < 256 \<Longrightarrow> (of_char (char_of n :: char) :: nat) = n"
  by simp

lemma is_digit_digit_char [simp]: "is_digit (digit_char d)"
proof -
  have "48 + d mod 10 < 256" by (simp add: trans_less_add2)
  then have "(of_char (digit_char d) :: nat) = 48 + d mod 10"
    unfolding digit_char_def by (rule of_char_char_of_small)
  moreover have "d mod 10 < 10" by simp
  ultimately show ?thesis by (simp add: is_digit_def)
qed

lemma char_digit_digit_char [simp]: "char_digit (digit_char d) = d mod 10"
proof -
  have "48 + d mod 10 < 256" by (simp add: trans_less_add2)
  then have "(of_char (digit_char d) :: nat) = 48 + d mod 10"
    unfolding digit_char_def by (rule of_char_char_of_small)
  then show ?thesis by (simp add: char_digit_def)
qed

lemma show_nat_digits: "\<forall>c \<in> set (show_nat n). is_digit c"
proof (induction n rule: show_nat.induct)
  case (1 n)
  then show ?case by (subst show_nat.simps) auto
qed

lemma show_nat_nonempty [simp]: "show_nat n \<noteq> []"
  by (subst show_nat.simps) simp

lemma read_nat_append: "read_nat acc (xs @ ys) = read_nat (read_nat acc xs) ys"
  by (induction xs arbitrary: acc) auto

lemma read_nat_show_nat: "read_nat 0 (show_nat n) = n"
proof (induction n rule: show_nat.induct)
  case (1 n)
  show ?case
  proof (cases "n < 10")
    case True
    then show ?thesis by (subst show_nat.simps) simp
  next
    case False
    with "1.IH" have "read_nat 0 (show_nat (n div 10)) = n div 10" by simp
    with False show ?thesis
      by (subst show_nat.simps) (simp add: read_nat_append)
  qed
qed

lemma show_nat_hd_zero: "hd (show_nat n) = CHR ''0'' \<Longrightarrow> n = 0"
proof (induction n rule: show_nat.induct)
  case (1 n)
  show ?case
  proof (cases "n < 10")
    case True
    with "1.prems" have "digit_char n = CHR ''0''" by (simp add: show_nat.simps)
    then have "char_digit (digit_char n) = char_digit CHR ''0''" by simp
    with True show ?thesis by (simp only: char_digit_digit_char) (simp add: char_digit_def)
  next
    case False
    with "1.prems" have "hd (show_nat (n div 10)) = CHR ''0''"
      by (subst (asm) show_nat.simps) simp
    with "1.IH" False have "n div 10 = 0" by simp
    with False show ?thesis by simp
  qed
qed

section \<open>Lists\<close>

lemma hd_filter_find: "filter P xs = y # ys \<Longrightarrow> find P xs = Some y"
  by (induction xs) (auto split: if_splits)

lemma find_None_filter: "find P xs = None \<longleftrightarrow> filter P xs = []"
  by (induction xs) auto

lemma length_filter_append1:
  "length (filter P (xs @ [x])) = length (filter P xs) + (if P x then 1 else 0)"
  by simp

end
