(* ===== verification/GoEffects.thy ===== *)
theory GoEffects
  imports Prelude
begin

text \<open>
  Effects of a Go function, as a shallow embedding.

  A function that talks to the Kubernetes API or to the cloud is a value of
  \<open>('w, 'c, 'a) go\<close>: from the state \<open>'w\<close> of everything outside the program it
  computes an outcome, the list of the external calls it made, in order, and the new
  outside state. The outcome is \<open>Inr x\<close> for a normal return and \<open>Inl\<close> of a
  \<open>stop\<close> for the three ways Go code leaves a function early: \<open>Fail e\<close> for
  \<open>return err\<close>, \<open>Panicked\<close> for a run-time panic or \<open>panic(...)\<close>, and
  \<open>Exited\<close> for \<open>logger.Fatal\<close>, which ends the process. \<open>bindG\<close> is the
  sequencing \<open>x, err := m(); if err != nil { return err }\<close>; \<open>tryG\<close> is a call whose
  error the caller inspects.

  \<open>spec\<close> is the contract of an operation: what every external call it makes
  satisfies, what it returns, and how it can stop, whatever the outside world answers. The
  rules in \<open>spec_intros\<close> follow the shape of the program.
\<close>

section \<open>Errors\<close>

text \<open>
  \<open>ApiError\<close> is an error of the Kubernetes API client with its status reason,
  \<open>NewError\<close> one of \<open>errors.New\<close> or \<open>fmt.Errorf\<close>, \<open>Wrapped\<close> one built
  with the \<open>%w\<close> verb, \<open>IOError\<close> and \<open>JsonError\<close> those of \<open>net/http\<close>,
  \<open>io\<close> and \<open>encoding/json\<close>.
\<close>

datatype api_reason = NotFound | AlreadyExists | Conflict | OtherReason

datatype gerror =
    NewError string
  | ApiError api_reason string
  | IOError string
  | JsonError string
  | Wrapped string gerror

fun error_text :: "gerror \<Rightarrow> string" where
  "error_text (NewError t) = t"
| "error_text (ApiError r t) = t"
| "error_text (IOError t) = t"
| "error_text (JsonError t) = t"
| "error_text (Wrapped t e) = t @ error_text e"

text \<open>\<open>apierrors.IsNotFound\<close> reads the reason through \<open>errors.As\<close>, so it sees through
  \<open>%w\<close>; \<open>client.IgnoreNotFound(err) == nil\<close> is the same test for a non-nil error.\<close>

fun is_not_found :: "gerror \<Rightarrow> bool" where
  "is_not_found (ApiError r t) \<longleftrightarrow> r = NotFound"
| "is_not_found (Wrapped t e) \<longleftrightarrow> is_not_found e"
| "is_not_found e \<longleftrightarrow> False"

datatype stop = Fail gerror | Panicked string | Exited

fun is_fail :: "stop \<Rightarrow> bool" where
  "is_fail (Fail e) \<longleftrightarrow> True"
| "is_fail s \<longleftrightarrow> False"

section \<open>The monad\<close>

type_synonym ('w, 'c, 'a) go = "'w \<Rightarrow> (stop + 'a) \<times> 'c list \<times> 'w"

definition outcome :: "('w, 'c, 'a) go \<Rightarrow> 'w \<Rightarrow> stop + 'a" where
  "outcome m w = fst (m w)"

definition trace :: "('w, 'c, 'a) go \<Rightarrow> 'w \<Rightarrow> 'c list" where
  "trace m w = fst (snd (m w))"

definition world :: "('w, 'c, 'a) go \<Rightarrow> 'w \<Rightarrow> 'w" where
  "world m w = snd (snd (m w))"

definition retG :: "'a \<Rightarrow> ('w, 'c, 'a) go" where
  "retG x = (\<lambda>w. (Inr x, [], w))"

definition stopG :: "stop \<Rightarrow> ('w, 'c, 'a) go" where
  "stopG e = (\<lambda>w. (Inl e, [], w))"

abbreviation failG :: "gerror \<Rightarrow> ('w, 'c, 'a) go" where
  "failG e \<equiv> stopG (Fail e)"

abbreviation panicG :: "string \<Rightarrow> ('w, 'c, 'a) go" where
  "panicG t \<equiv> stopG (Panicked t)"

definition bindG :: "('w, 'c, 'a) go \<Rightarrow> ('a \<Rightarrow> ('w, 'c, 'b) go) \<Rightarrow> ('w, 'c, 'b) go" where
  "bindG m f = (\<lambda>w. case m w of
     (Inl e, cs, w1) \<Rightarrow> (Inl e, cs, w1)
   | (Inr x, cs, w1) \<Rightarrow> (case f x w1 of (r, cs', w2) \<Rightarrow> (r, cs @ cs', w2)))"

text \<open>A call whose error value the caller looks at; panics and exits still propagate.\<close>

definition tryG :: "('w, 'c, 'a) go \<Rightarrow> ('w, 'c, gerror + 'a) go" where
  "tryG m = (\<lambda>w. case m w of
     (Inl (Fail e), cs, w1) \<Rightarrow> (Inr (Inl e), cs, w1)
   | (Inl e, cs, w1) \<Rightarrow> (Inl e, cs, w1)
   | (Inr x, cs, w1) \<Rightarrow> (Inr (Inr x), cs, w1))"

text \<open>One external call: it is logged, and the outside world answers and moves on.\<close>

definition askG :: "'c \<Rightarrow> ('w \<Rightarrow> 'a \<times> 'w) \<Rightarrow> ('w, 'c, 'a) go" where
  "askG c f = (\<lambda>w. case f w of (x, w1) \<Rightarrow> (Inr x, [c], w1))"

text \<open>The same for a call that answers with a value or an error.\<close>

definition callG :: "'c \<Rightarrow> ('w \<Rightarrow> (gerror + 'a) \<times> 'w) \<Rightarrow> ('w, 'c, 'a) go" where
  "callG c f = (\<lambda>w. case f w of
     (Inl e, w1) \<Rightarrow> (Inl (Fail e), [c], w1)
   | (Inr x, w1) \<Rightarrow> (Inr x, [c], w1))"

text \<open>A choice of the run-time system that is no call (the order of a map iteration).\<close>

definition pickG :: "('w \<Rightarrow> 'a \<times> 'w) \<Rightarrow> ('w, 'c, 'a) go" where
  "pickG f = (\<lambda>w. case f w of (x, w1) \<Rightarrow> (Inr x, [], w1))"

text \<open>A pure computation that may return an error.\<close>

definition liftG :: "gerror + 'a \<Rightarrow> ('w, 'c, 'a) go" where
  "liftG r = (case r of Inl e \<Rightarrow> failG e | Inr x \<Rightarrow> retG x)"

text \<open>\<open>for _, x := range xs { f(x) }\<close> with an early return on error.\<close>

fun forG :: "'a list \<Rightarrow> ('a \<Rightarrow> ('w, 'c, unit) go) \<Rightarrow> ('w, 'c, unit) go" where
  "forG [] f = retG ()"
| "forG (x # xs) f = bindG (f x) (\<lambda>_. forG xs f)"

section \<open>How the monad computes\<close>

lemma retG_apply [go_simps]: "retG x w = (Inr x, [], w)"
  by (simp add: retG_def)

lemma stopG_apply [go_simps]: "stopG e w = (Inl e, [], w)"
  by (simp add: stopG_def)

lemma callG_apply [go_simps]:
  "callG c f w = (case f w of (Inl e, w1) \<Rightarrow> (Inl (Fail e), [c], w1) | (Inr x, w1) \<Rightarrow> (Inr x, [c], w1))"
  by (simp add: callG_def)

lemma askG_apply [go_simps]: "askG c f w = (case f w of (x, w1) \<Rightarrow> (Inr x, [c], w1))"
  by (simp add: askG_def)

lemma pickG_apply [go_simps]: "pickG f w = (case f w of (x, w1) \<Rightarrow> (Inr x, [], w1))"
  by (simp add: pickG_def)

lemma bindG_apply [go_simps]:
  "bindG m f w = (case m w of
     (Inl e, cs, w1) \<Rightarrow> (Inl e, cs, w1)
   | (Inr x, cs, w1) \<Rightarrow> (case f x w1 of (r, cs', w2) \<Rightarrow> (r, cs @ cs', w2)))"
  by (simp add: bindG_def)

lemma tryG_apply [go_simps]:
  "tryG m w = (case m w of
     (Inl (Fail e), cs, w1) \<Rightarrow> (Inr (Inl e), cs, w1)
   | (Inl e, cs, w1) \<Rightarrow> (Inl e, cs, w1)
   | (Inr x, cs, w1) \<Rightarrow> (Inr (Inr x), cs, w1))"
  by (simp add: tryG_def)

lemma liftG_simps [go_simps, simp]:
  "liftG (Inl e) = failG e"
  "liftG (Inr x) = retG x"
  by (simp_all add: liftG_def)

lemma bindG_retG [simp]: "bindG (retG x) f = f x"
  by (rule ext) (simp add: go_simps)

lemma bindG_stopG [simp]: "bindG (stopG e) f = stopG e"
  by (rule ext) (simp add: go_simps)

lemma bindG_retG_right [simp]: "bindG m retG = m"
  by (rule ext) (simp add: go_simps split: prod.splits sum.splits)

lemma bindG_assoc: "bindG (bindG m f) g = bindG m (\<lambda>x. bindG (f x) g)"
  by (rule ext) (simp add: go_simps split: prod.splits sum.splits)

lemma tryG_retG [simp]: "tryG (retG x) = retG (Inr x)"
  by (rule ext) (simp add: go_simps)

lemma tryG_failG [simp]: "tryG (failG e) = retG (Inl e)"
  by (rule ext) (simp add: go_simps)

lemma forG_append: "forG (xs @ ys) f = bindG (forG xs f) (\<lambda>_. forG ys f)"
  by (induction xs) (simp_all add: bindG_assoc)

lemmas run_defs = outcome_def trace_def world_def

section \<open>Contracts\<close>

text \<open>
  \<open>spec P m Q S\<close>: whatever the outside world answers, every call of \<open>m\<close> satisfies
  \<open>P\<close>, a normal return satisfies \<open>Q\<close> and an early stop satisfies \<open>S\<close>.
\<close>

definition spec :: "('c \<Rightarrow> bool) \<Rightarrow> ('w, 'c, 'a) go \<Rightarrow> ('a \<Rightarrow> bool) \<Rightarrow> (stop \<Rightarrow> bool) \<Rightarrow> bool" where
  "spec P m Q S \<longleftrightarrow> (\<forall>w. (\<forall>c \<in> set (trace m w). P c) \<and>
     (case outcome m w of Inl e \<Rightarrow> S e | Inr x \<Rightarrow> Q x))"

lemma spec_trace: "spec P m Q S \<Longrightarrow> c \<in> set (trace m w) \<Longrightarrow> P c"
  by (auto simp: spec_def)

lemma spec_return: "spec P m Q S \<Longrightarrow> outcome m w = Inr x \<Longrightarrow> Q x"
  unfolding spec_def by (drule spec [where x = w]) simp

lemma spec_stop: "spec P m Q S \<Longrightarrow> outcome m w = Inl e \<Longrightarrow> S e"
  unfolding spec_def by (drule spec [where x = w]) simp

lemma spec_weaken:
  assumes "spec P m Q S"
    and "\<And>c. P c \<Longrightarrow> P' c" and "\<And>x. Q x \<Longrightarrow> Q' x" and "\<And>e. S e \<Longrightarrow> S' e"
  shows "spec P' m Q' S'"
  unfolding spec_def
proof (intro allI conjI ballI)
  fix w
  show "case outcome m w of Inl e \<Rightarrow> S' e | Inr x \<Rightarrow> Q' x"
    using assms(1,3,4) by (auto simp: spec_def split: sum.splits)
next
  fix w c
  assume "c \<in> set (trace m w)"
  then show "P' c" using assms(1,2) by (blast dest: spec_trace)
qed

lemma spec_ret [spec_intros]: "Q x \<Longrightarrow> spec P (retG x) Q S"
  by (simp add: spec_def run_defs go_simps)

lemma spec_stopI [spec_intros]: "S e \<Longrightarrow> spec P (stopG e) Q S"
  by (simp add: spec_def run_defs go_simps)

lemma spec_bind:
  assumes m: "spec P m R S" and f: "\<And>x. R x \<Longrightarrow> spec P (f x) Q S"
  shows "spec P (bindG m f) Q S"
  unfolding spec_def
proof (intro allI)
  fix w
  obtain r cs w1 where mw: "m w = (r, cs, w1)" by (cases "m w")
  from m have cs: "\<forall>c \<in> set cs. P c" and r: "case r of Inl e \<Rightarrow> S e | Inr x \<Rightarrow> R x"
    unfolding spec_def by (auto simp: run_defs mw dest: spec [where x = w])
  show "(\<forall>c \<in> set (trace (bindG m f) w). P c) \<and>
      (case outcome (bindG m f) w of Inl e \<Rightarrow> S e | Inr x \<Rightarrow> Q x)"
  proof (cases r)
    case (Inl e)
    with cs r show ?thesis by (simp add: run_defs go_simps mw)
  next
    case (Inr x)
    with r have "spec P (f x) Q S" by (simp add: f)
    then have "(\<forall>c \<in> set (trace (f x) w1). P c) \<and>
        (case outcome (f x) w1 of Inl e \<Rightarrow> S e | Inr x \<Rightarrow> Q x)"
      by (simp add: spec_def)
    with cs Inr show ?thesis
      by (auto simp: run_defs go_simps mw split: prod.splits sum.splits)
  qed
qed

lemma spec_call [spec_intros]:
  assumes "P c" and "\<And>x w w1. f w = (Inr x, w1) \<Longrightarrow> Q x" and "\<And>e w w1. f w = (Inl e, w1) \<Longrightarrow> S (Fail e)"
  shows "spec P (callG c f) Q S"
  unfolding spec_def
proof (intro allI)
  fix w
  obtain r w1 where "f w = (r, w1)" by (cases "f w")
  with assms show "(\<forall>c' \<in> set (trace (callG c f) w). P c') \<and>
      (case outcome (callG c f) w of Inl e \<Rightarrow> S e | Inr x \<Rightarrow> Q x)"
    by (cases r) (auto simp: run_defs go_simps)
qed

lemma spec_ask [spec_intros]:
  assumes "P c" and "\<And>x w w1. f w = (x, w1) \<Longrightarrow> Q x"
  shows "spec P (askG c f) Q S"
  using assms by (auto simp: spec_def run_defs go_simps split: prod.splits)

lemma spec_pick [spec_intros]:
  assumes "\<And>x w w1. f w = (x, w1) \<Longrightarrow> Q x"
  shows "spec P (pickG f) Q S"
  using assms by (auto simp: spec_def run_defs go_simps split: prod.splits)

lemma spec_try [spec_intros]:
  assumes "spec P m (\<lambda>x. Q (Inr x)) (\<lambda>e. case e of Fail g \<Rightarrow> Q (Inl g) | _ \<Rightarrow> S e)"
  shows "spec P (tryG m) Q S"
  unfolding spec_def
proof (intro allI)
  fix w
  from assms have "(\<forall>c \<in> set (trace m w). P c) \<and> (case outcome m w of
      Inl e \<Rightarrow> (case e of Fail g \<Rightarrow> Q (Inl g) | _ \<Rightarrow> S e) | Inr x \<Rightarrow> Q (Inr x))"
    by (simp add: spec_def)
  then show "(\<forall>c \<in> set (trace (tryG m) w). P c) \<and>
      (case outcome (tryG m) w of Inl e \<Rightarrow> S e | Inr x \<Rightarrow> Q x)"
    by (auto simp: run_defs go_simps split: prod.splits sum.splits stop.splits)
qed

lemma spec_lift [spec_intros]:
  "(\<And>x. r = Inr x \<Longrightarrow> Q x) \<Longrightarrow> (\<And>e. r = Inl e \<Longrightarrow> S (Fail e)) \<Longrightarrow> spec P (liftG r) Q S"
  by (cases r) (simp_all add: spec_ret spec_stopI)

lemma spec_if [spec_intros]:
  "(b \<Longrightarrow> spec P m Q S) \<Longrightarrow> (\<not> b \<Longrightarrow> spec P n Q S) \<Longrightarrow> spec P (if b then m else n) Q S"
  by simp

lemma spec_option [spec_intros]:
  "(x = None \<Longrightarrow> spec P m Q S) \<Longrightarrow> (\<And>y. x = Some y \<Longrightarrow> spec P (f y) Q S) \<Longrightarrow>
   spec P (case x of None \<Rightarrow> m | Some y \<Rightarrow> f y) Q S"
  by (cases x) simp_all

lemma spec_sum [spec_intros]:
  "(\<And>e. x = Inl e \<Longrightarrow> spec P (g e) Q S) \<Longrightarrow> (\<And>y. x = Inr y \<Longrightarrow> spec P (f y) Q S) \<Longrightarrow>
   spec P (case x of Inl e \<Rightarrow> g e | Inr y \<Rightarrow> f y) Q S"
  by (cases x) simp_all

lemma spec_list [spec_intros]:
  "(x = [] \<Longrightarrow> spec P m Q S) \<Longrightarrow> (\<And>y ys. x = y # ys \<Longrightarrow> spec P (f y ys) Q S) \<Longrightarrow>
   spec P (case x of [] \<Rightarrow> m | y # ys \<Rightarrow> f y ys) Q S"
  by (cases x) simp_all

lemma spec_for [spec_intros]:
  assumes "\<And>x. x \<in> set xs \<Longrightarrow> spec P (f x) (\<lambda>_. True) S" and "Q ()"
  shows "spec P (forG xs f) Q S"
  using assms(1)
proof (induction xs)
  case Nil
  with assms(2) show ?case by (simp add: spec_ret)
next
  case (Cons x xs)
  have "spec P (f x) (\<lambda>_. True) S" using Cons.prems by simp
  moreover have "spec P (forG xs f) Q S" by (rule Cons.IH) (simp add: Cons.prems)
  ultimately show ?case by (auto intro: spec_bind)
qed

lemmas spec_bind_any = spec_bind [where R = "\<lambda>_. True"]

lemma spec_outcome: "spec P m Q S \<Longrightarrow> spec P m (\<lambda>x. Q x \<and> (\<exists>w. outcome m w = Inr x)) S"
  by (auto simp: spec_def split: sum.splits)

section \<open>Counting calls\<close>

text \<open>\<open>atmost P n m\<close>: a run of \<open>m\<close> makes at most \<open>n\<close> calls that satisfy \<open>P\<close>,
  whatever the outside world answers.\<close>

definition atmost :: "('c \<Rightarrow> bool) \<Rightarrow> nat \<Rightarrow> ('w, 'c, 'a) go \<Rightarrow> bool" where
  "atmost P n m \<longleftrightarrow> (\<forall>w. length (filter P (trace m w)) \<le> n)"

lemma atmostD: "atmost P n m \<Longrightarrow> length (filter P (trace m w)) \<le> n"
  by (simp add: atmost_def)

lemma atmost_mono: "atmost P a m \<Longrightarrow> a \<le> b \<Longrightarrow> atmost P b m"
  by (auto simp: atmost_def intro: order_trans)

lemma trace_bindG:
  "trace (bindG m f) w = trace m w @
     (case outcome m w of Inl e \<Rightarrow> [] | Inr x \<Rightarrow> trace (f x) (world m w))"
  by (simp add: run_defs go_simps split: prod.splits sum.splits)

lemma outcome_bindG:
  "outcome (bindG m f) w = (case outcome m w of Inl e \<Rightarrow> Inl e | Inr x \<Rightarrow> outcome (f x) (world m w))"
  by (simp add: run_defs go_simps split: prod.splits sum.splits)

lemma world_bindG:
  "world (bindG m f) w = (case outcome m w of Inl e \<Rightarrow> world m w | Inr x \<Rightarrow> world (f x) (world m w))"
  by (simp add: run_defs go_simps split: prod.splits sum.splits)

lemma trace_tryG [simp]: "trace (tryG m) w = trace m w"
  by (simp add: run_defs go_simps split: prod.splits sum.splits stop.splits)

lemma world_tryG [simp]: "world (tryG m) w = world m w"
  by (simp add: run_defs go_simps split: prod.splits sum.splits stop.splits)

lemma outcome_tryG:
  "outcome (tryG m) w = (case outcome m w of
     Inr x \<Rightarrow> Inr (Inr x) | Inl e \<Rightarrow> (case e of Fail g \<Rightarrow> Inr (Inl g) | _ \<Rightarrow> Inl e))"
  by (simp add: run_defs go_simps split: prod.splits sum.splits stop.splits)

lemma world_callG: "world (callG c f) w = snd (f w)"
  by (simp add: world_def callG_apply split: prod.split sum.split)

lemma outcome_callG: "outcome (callG c f) w = (case fst (f w) of Inl e \<Rightarrow> Inl (Fail e) | Inr x \<Rightarrow> Inr x)"
  by (simp add: outcome_def callG_apply split: prod.split sum.split)

lemma run_retG [simp]: "outcome (retG x) w = Inr x" "trace (retG x) w = []" "world (retG x) w = w"
  by (simp_all add: run_defs go_simps)

lemma run_stopG [simp]: "outcome (stopG e) w = Inl e" "trace (stopG e) w = []" "world (stopG e) w = w"
  by (simp_all add: run_defs go_simps)

lemma atmost_ret [spec_intros]: "atmost P n (retG x)"
  by (simp add: atmost_def)

lemma atmost_stop [spec_intros]: "atmost P n (stopG e)"
  by (simp add: atmost_def)

lemma atmost_lift [spec_intros]: "atmost P n (liftG r)"
  by (cases r) (simp_all add: atmost_def)

lemma atmost_pick [spec_intros]: "atmost P n (pickG f)"
  by (simp add: atmost_def run_defs go_simps split: prod.split)

lemma atmost_call: "(P c \<Longrightarrow> 1 \<le> n) \<Longrightarrow> atmost P n (callG c f)"
  by (auto simp: atmost_def run_defs go_simps split: prod.splits sum.splits)

lemma atmost_ask: "(P c \<Longrightarrow> 1 \<le> n) \<Longrightarrow> atmost P n (askG c f)"
  by (auto simp: atmost_def run_defs go_simps split: prod.splits)

lemma atmost_try: "atmost P n m \<Longrightarrow> atmost P n (tryG m)"
  by (simp add: atmost_def)

lemma atmost_bind:
  assumes "atmost P a m" and "\<And>x. atmost P b (f x)"
  shows "atmost P (a + b) (bindG m f)"
  unfolding atmost_def
proof
  fix w
  have "length (filter P (trace m w)) \<le> a" using assms(1) by (rule atmostD)
  moreover have "length (filter P (trace (f x) w')) \<le> b" for x w' using assms(2) by (rule atmostD)
  ultimately show "length (filter P (trace (bindG m f) w)) \<le> a + b"
    by (auto simp: trace_bindG split: sum.split intro: add_mono trans_le_add1)
qed

lemma trace_callG [simp]: "trace (callG c f) w = [c]"
  by (simp add: trace_def callG_apply split: prod.split sum.split)

lemma trace_askG [simp]: "trace (askG c f) w = [c]"
  by (simp add: trace_def askG_apply split: prod.split)

lemma trace_liftG [simp]: "trace (liftG r) w = []"
  by (cases r) simp_all

text \<open>The rules a proof uses when one of the two parts makes no such call.\<close>

lemma atmost_bind_quiet: "atmost P 0 m \<Longrightarrow> (\<And>x. atmost P n (f x)) \<Longrightarrow> atmost P n (bindG m f)"
  using atmost_bind [of P 0 m n f] by simp

lemma atmost_bind_then_quiet: "atmost P n m \<Longrightarrow> (\<And>x. atmost P 0 (f x)) \<Longrightarrow> atmost P n (bindG m f)"
  using atmost_bind [of P n m 0 f] by simp

lemma atmost_for: "(\<And>x. atmost P 0 (f x)) \<Longrightarrow> atmost P 0 (forG xs f)"
  by (induction xs) (auto intro: atmost_ret atmost_bind_quiet)

lemma spec_atmost: "spec Q m R S \<Longrightarrow> (\<And>c. Q c \<Longrightarrow> \<not> P c) \<Longrightarrow> atmost P n m"
proof (unfold atmost_def, rule allI)
  fix w
  assume m: "spec Q m R S" and PQ: "\<And>c. Q c \<Longrightarrow> \<not> P c"
  have "filter P (trace m w) = []" using PQ spec_trace [OF m] by (force simp: filter_empty_conv)
  then show "length (filter P (trace m w)) \<le> n" by simp
qed

section \<open>What a run leaves alone\<close>

text \<open>\<open>keeps f m\<close>: no run of \<open>m\<close> changes the part \<open>f\<close> of the outside state.\<close>

definition keeps :: "('w \<Rightarrow> 'b) \<Rightarrow> ('w, 'c, 'a) go \<Rightarrow> bool" where
  "keeps f m \<longleftrightarrow> (\<forall>w. f (world m w) = f w)"

lemma keepsD: "keeps f m \<Longrightarrow> f (world m w) = f w"
  by (simp add: keeps_def)

lemma keeps_ret [spec_intros]: "keeps f (retG x)"
  by (simp add: keeps_def)

lemma keeps_stop [spec_intros]: "keeps f (stopG e)"
  by (simp add: keeps_def)

lemma keeps_lift [spec_intros]: "keeps f (liftG r)"
  by (cases r) (simp_all add: keeps_def)

lemma keeps_try [spec_intros]: "keeps f m \<Longrightarrow> keeps f (tryG m)"
  by (simp add: keeps_def)

lemma keeps_call [spec_intros]: "(\<And>w. f (snd (g w)) = f w) \<Longrightarrow> keeps f (callG c g)"
  by (auto simp: keeps_def run_defs go_simps split: prod.splits sum.splits) (metis snd_conv)+

lemma keeps_bind [spec_intros]: "keeps f m \<Longrightarrow> (\<And>x. keeps f (g x)) \<Longrightarrow> keeps f (bindG m g)"
  by (auto simp: keeps_def world_bindG split: sum.split)

lemma keeps_for [spec_intros]: "(\<And>x. x \<in> set xs \<Longrightarrow> keeps f (g x)) \<Longrightarrow> keeps f (forG xs g)"
  by (induction xs) (auto intro: keeps_ret keeps_bind)

end
