(* ===== verification/ApiTypes.thy ===== *)
theory ApiTypes
  imports GoEffects
begin

text \<open>
  The custom resources of \<^verbatim>\<open>api/v1beta1\<close>, one record per Go struct with the struct's
  fields in the struct's order, and their Go zero values. Record fields carry a short prefix of
  their struct because several structs share field names.

  \<^item> A Go \<open>int\<close> is an \<^typ>\<open>int\<close>; where a value enters from outside, the 64-bit range is
    enforced by the decoder.
  \<^item> A Go pointer field is an \<open>option\<close>; a Go map is an association list with one entry per key
    (\<open>None\<close> for a nil map where the code tests for nil).
  \<^item> \<open>metav1.TypeMeta\<close>, \<open>metav1.ObjectMeta\<close> and \<open>metav1.OwnerReference\<close> belong to
    Kubernetes; the records hold the fields this program reads or writes, and the resource
    version, which the API server uses for optimistic locking.
\<close>

section \<open>Kubernetes object metadata\<close>

record OwnerReference =
  or_APIVersion :: string
  or_Kind :: string
  or_Name :: string
  or_UID :: string
  or_Controller :: "bool option"
  or_BlockOwnerDeletion :: "bool option"

record ObjectMeta =
  om_Name :: string
  om_Namespace :: string
  om_UID :: string
  om_ResourceVersion :: string
  om_OwnerReferences :: "OwnerReference list"
  om_Annotations :: "(string \<times> string) list option"
  om_Labels :: "(string \<times> string) list option"

record TypeMeta =
  tm_Kind :: string
  tm_APIVersion :: string

definition zero_ObjectMeta :: ObjectMeta where
  "zero_ObjectMeta = \<lparr>om_Name = '''', om_Namespace = '''', om_UID = '''', om_ResourceVersion = '''',
     om_OwnerReferences = [], om_Annotations = None, om_Labels = None\<rparr>"

definition zero_TypeMeta :: TypeMeta where
  "zero_TypeMeta = \<lparr>tm_Kind = '''', tm_APIVersion = ''''\<rparr>"

section \<open>KTMachineTemplate\<close>

record BlockDeviceMapping =
  bd_DestinationType :: string
  bd_BootIndex :: int
  bd_SourceType :: string
  bd_VolumeSize :: int
  bd_ID :: string

record NetworkTier =
  nt_ID :: string

record Network =
  nw_Name :: string
  nw_Tags :: string
  nw_ID :: string

record Subnet =
  sn_ID :: string

record FixedIP =
  fi_Subnet :: "Subnet option"

record Port =
  po_Network :: "Network option"
  po_FixedIPs :: "FixedIP list"

text \<open>The struct \<open>Spec\<close> of the template; \<open>Template\<close> and
  \<open>KTMachineTemplateSpec\<close> only nest it.\<close>

record Spec =
  sp_Flavor :: string
  sp_SSHKeyName :: string
  sp_BlockDeviceMapping :: "BlockDeviceMapping list"
  sp_NetworkTier :: "NetworkTier list"
  sp_Ports :: "Port list"

record Template =
  te_Spec :: Spec

record KTMachineTemplateSpec =
  ts_Template :: Template

record KTMachineTemplate =
  mt_TypeMeta :: TypeMeta
  mt_Meta :: ObjectMeta
  mt_Spec :: KTMachineTemplateSpec

section \<open>KTMachine\<close>

record Networks =
  ns_ID :: string

record KTMachineSpec =
  ks_ClusterName :: string
  ks_Flavor :: string
  ks_SSHKeyName :: string
  ks_BlockDeviceMapping :: "BlockDeviceMapping list"
  ks_NetworkTier :: "NetworkTier list"
  ks_Networks :: "Networks list"
  ks_Ports :: "Port list"
  ks_AvailabilityZone :: string
  ks_UserData :: string
  ks_ControlPlaneNumber :: int

record PairedPvtNetwork =
  pp_NetworkName :: string
  pp_NetworkID :: string
  pp_NetworkOsID :: string
  pp_VMPvtIP :: string

record AssignedPublicIps =
  ap_IP :: string
  ap_Id :: string
  ap_StaticNatId :: string
  ap_PairedPvtNetwork :: PairedPvtNetwork

record WorkerRef =
  wr_JoinedControlPlane :: bool

record ControlPlaneRef =
  cr_Type :: string
  cr_LastTransactionTime :: string
  cr_Status :: bool

record Links =
  li_Rel :: string
  li_Href :: string

record SecurityGroups =
  sg_Name :: string

record Address =
  ad_MACAddr :: string
  ad_Type :: string
  ad_Addr :: string
  ad_Version :: int

record VolumeAttached =
  va_DeleteOnTermination :: bool
  va_ID :: string

record Flavor =
  fl_Disk :: int
  fl_Swap :: int
  fl_Original :: string
  fl_ExtraSpecs :: "(string \<times> string) list"
  fl_Ephemeral :: int
  fl_VCPUs :: int
  fl_RAM :: int

record KTMachineStatus =
  st_ID :: string
  st_AdminPass :: string
  st_Links :: "Links list"
  st_SecurityGroups :: "SecurityGroups list"
  st_AssignedPublicIps :: "AssignedPublicIps list"
  st_TenantID :: string
  st_Addresses :: "(string \<times> Address list) list"
  st_TaskState :: "string option"
  st_Description :: "string option"
  st_DiskConfig :: string
  st_TrustedImageCerts :: "string option"
  st_AvailabilityZone :: string
  st_PowerState :: int
  st_VolumesAttached :: "VolumeAttached list"
  st_Locked :: bool
  st_Image :: string
  st_AccessIPv4 :: string
  st_AccessIPv6 :: string
  st_Created :: string
  st_HostID :: string
  st_Tags :: "string list"
  st_Flavor :: Flavor
  st_KeyName :: string
  st_VMState :: string
  st_UserID :: string
  st_Name :: string
  st_Progress :: int
  st_LaunchedAt :: string
  st_Updated :: string
  st_Status :: string
  st_TerminatedAt :: "string option"
  st_ConfigDrive :: string
  st_ControlPlaneRef :: ControlPlaneRef
  st_WorkerRef :: WorkerRef

record KTMachine =
  m_TypeMeta :: TypeMeta
  m_Meta :: ObjectMeta
  m_Spec :: KTMachineSpec
  m_Status :: KTMachineStatus

definition zero_PairedPvtNetwork :: PairedPvtNetwork where
  "zero_PairedPvtNetwork = \<lparr>pp_NetworkName = '''', pp_NetworkID = '''', pp_NetworkOsID = '''', pp_VMPvtIP = ''''\<rparr>"

definition zero_AssignedPublicIps :: AssignedPublicIps where
  "zero_AssignedPublicIps = \<lparr>ap_IP = '''', ap_Id = '''', ap_StaticNatId = '''', ap_PairedPvtNetwork = zero_PairedPvtNetwork\<rparr>"

definition zero_ControlPlaneRef :: ControlPlaneRef where
  "zero_ControlPlaneRef = \<lparr>cr_Type = '''', cr_LastTransactionTime = '''', cr_Status = False\<rparr>"

definition zero_WorkerRef :: WorkerRef where
  "zero_WorkerRef = \<lparr>wr_JoinedControlPlane = False\<rparr>"

definition zero_Links :: Links where
  "zero_Links = \<lparr>li_Rel = '''', li_Href = ''''\<rparr>"

definition zero_SecurityGroups :: SecurityGroups where
  "zero_SecurityGroups = \<lparr>sg_Name = ''''\<rparr>"

definition zero_Address :: Address where
  "zero_Address = \<lparr>ad_MACAddr = '''', ad_Type = '''', ad_Addr = '''', ad_Version = 0\<rparr>"

definition zero_VolumeAttached :: VolumeAttached where
  "zero_VolumeAttached = \<lparr>va_DeleteOnTermination = False, va_ID = ''''\<rparr>"

definition zero_Flavor :: Flavor where
  "zero_Flavor = \<lparr>fl_Disk = 0, fl_Swap = 0, fl_Original = '''', fl_ExtraSpecs = [], fl_Ephemeral = 0,
     fl_VCPUs = 0, fl_RAM = 0\<rparr>"

definition zero_KTMachineStatus :: KTMachineStatus where
  "zero_KTMachineStatus = \<lparr>st_ID = '''', st_AdminPass = '''', st_Links = [], st_SecurityGroups = [],
     st_AssignedPublicIps = [], st_TenantID = '''', st_Addresses = [], st_TaskState = None,
     st_Description = None, st_DiskConfig = '''', st_TrustedImageCerts = None,
     st_AvailabilityZone = '''', st_PowerState = 0, st_VolumesAttached = [], st_Locked = False,
     st_Image = '''', st_AccessIPv4 = '''', st_AccessIPv6 = '''', st_Created = '''', st_HostID = '''',
     st_Tags = [], st_Flavor = zero_Flavor, st_KeyName = '''', st_VMState = '''', st_UserID = '''',
     st_Name = '''', st_Progress = 0, st_LaunchedAt = '''', st_Updated = '''', st_Status = '''',
     st_TerminatedAt = None, st_ConfigDrive = '''', st_ControlPlaneRef = zero_ControlPlaneRef,
     st_WorkerRef = zero_WorkerRef\<rparr>"

definition zero_KTMachineSpec :: KTMachineSpec where
  "zero_KTMachineSpec = \<lparr>ks_ClusterName = '''', ks_Flavor = '''', ks_SSHKeyName = '''',
     ks_BlockDeviceMapping = [], ks_NetworkTier = [], ks_Networks = [], ks_Ports = [],
     ks_AvailabilityZone = '''', ks_UserData = '''', ks_ControlPlaneNumber = 0\<rparr>"

definition zero_KTMachine :: KTMachine where
  "zero_KTMachine = \<lparr>m_TypeMeta = zero_TypeMeta, m_Meta = zero_ObjectMeta, m_Spec = zero_KTMachineSpec,
     m_Status = zero_KTMachineStatus\<rparr>"

abbreviation m_Name :: "KTMachine \<Rightarrow> string" where
  "m_Name m \<equiv> om_Name (m_Meta m)"

abbreviation m_Namespace :: "KTMachine \<Rightarrow> string" where
  "m_Namespace m \<equiv> om_Namespace (m_Meta m)"

section \<open>KTCluster and Cluster\<close>

record APIServerLoadBalancer =
  lb_Enabled :: bool

record IdentityRef =
  ir_CloudName :: string
  ir_Name :: string

record SecurityGroupRule =
  sr_Direction :: string
  sr_StartPort :: string
  sr_EndPort :: string
  sr_Protocol :: string
  sr_Action :: string
  sr_Dstip :: string

record ManagedSecurityGroups =
  ms_EnableOutboundInternetTraffic :: bool
  ms_ControlPlaneRules :: SecurityGroupRule
  ms_WorkerRules :: SecurityGroupRule

record KTClusterSpec =
  cs_APIServerLoadBalancer :: APIServerLoadBalancer
  cs_ControlPlaneExternalNetworkEnable :: bool
  cs_IdentityRef :: IdentityRef
  cs_ManagedSecurityGroups :: ManagedSecurityGroups

record KTCluster =
  kc_TypeMeta :: TypeMeta
  kc_Meta :: ObjectMeta
  kc_Spec :: KTClusterSpec

record ClusterSpec =
  ce_Foo :: string

record Cluster =
  cl_TypeMeta :: TypeMeta
  cl_Meta :: ObjectMeta
  cl_Spec :: ClusterSpec

abbreviation kc_Name :: "KTCluster \<Rightarrow> string" where
  "kc_Name c \<equiv> om_Name (kc_Meta c)"

section \<open>MachineDeployment\<close>

record ConfigRef =
  cf_APIVersion :: string
  cf_Kind :: string
  cf_Name :: string

record InfrastructureRef =
  if_APIVersion :: string
  if_Kind :: string
  if_Name :: string

record Bootstrap =
  bo_ConfigRef :: ConfigRef

record MachineSpecDetails =
  sd_Bootstrap :: Bootstrap
  sd_ClusterName :: string
  sd_FailureDomain :: string
  sd_InfrastructureRef :: InfrastructureRef
  sd_Version :: string

record MachineSpec =
  mp_Spec :: MachineSpecDetails

record Selector =
  sl_MatchLabels :: "(string \<times> string) list"

record MachineDeploymentSpec =
  ds_Replicas :: int
  ds_Type :: string
  ds_Selector :: Selector
  ds_Template :: MachineSpec

record MachineDeployment =
  md_TypeMeta :: TypeMeta
  md_Meta :: ObjectMeta
  md_Spec :: MachineDeploymentSpec

section \<open>KTSubjectToken\<close>

record Token =
  tk_ExpiresAt :: string
  tk_IsDomain :: bool

record ClusterRef =
  rf_ApiVersion :: string
  rf_Kind :: string
  rf_Name :: string

record KTSubjectTokenSpec =
  us_SubjectToken :: string
  us_Token :: Token
  us_ClusterRef :: ClusterRef

record KTSubjectTokenStatus =
  ut_SubjectToken :: string
  ut_Token :: Token
  ut_CreatedAt :: string

record KTSubjectToken =
  kt_TypeMeta :: TypeMeta
  kt_Meta :: ObjectMeta
  kt_Spec :: KTSubjectTokenSpec
  kt_Status :: KTSubjectTokenStatus

section \<open>KTNetworkFirewall\<close>

record FirewallRules =
  fr_SrcNat :: bool
  fr_StartPort :: string
  fr_EndPort :: string
  fr_Protocol :: string
  fr_Action :: string
  fr_SrcNetwork :: "string list"
  fr_DstNetwork :: "string list"
  fr_StaticNatId :: string
  fr_SrcAddress :: "string list"
  fr_DstAddress :: "string list"

record FirewallJobs =
  fj_JobId :: string
  fj_VPCId :: string
  fj_PolicyId :: string
  fj_Detail :: string

record KTNetworkFirewallSpec =
  fs_FirewallRules :: "FirewallRules list"

record KTNetworkFirewallStatus =
  ft_FirewallJobs :: "FirewallJobs list"

record KTNetworkFirewall =
  kf_TypeMeta :: TypeMeta
  kf_Meta :: ObjectMeta
  kf_Spec :: KTNetworkFirewallSpec
  kf_Status :: KTNetworkFirewallStatus

section \<open>Secret\<close>

text \<open>\<open>corev1.Secret\<close> as far as the program builds and reads it.\<close>

record Secret =
  se_Meta :: ObjectMeta
  se_Type :: string
  se_Data :: "(string \<times> string) list"

end
