(* ===== verification/Json.thy ===== *)
theory Json
  imports Prelude "HOL-Library.AList" "HOL-Library.Monad_Syntax"
begin

text \<open>
  The part of Go's \<open>encoding/json\<close> the operator uses: the text syntax
  (\<open>json_parse\<close>, \<open>print_json\<close>) and the rules by which \<open>json.Unmarshal\<close> fills a
  struct (\<open>dec_field\<close> and the decoders).

  A decoder is given the value already there and returns the value after decoding, as
  \<open>json.Unmarshal\<close> decodes into existing memory: \<open>null\<close> leaves a non-pointer value
  alone, an absent key leaves the field alone, an unknown key is ignored, a key is matched
  case-insensitively, a repeated key decodes again into the same field. \<open>None\<close> is the
  \<open>UnmarshalTypeError\<close>. A number keeps its literal, as Go's scanner keeps it, and
  \<open>dec_int\<close> is \<open>strconv.ParseInt(_, 10, 64)\<close>.

  The parser runs on fuel; \<open>parse_fuel_enough\<close> shows that the fuel
  \<^term>\<open>2 * length s + 2\<close> that \<open>json_parse\<close> gives is never what makes it fail. Bytes of
  value 128 and more pass through unchanged: the replacement of invalid UTF-8 by U+FFFD, the escapes
  that \<open>json.Marshal\<close> writes for U+2028 and U+2029, and the nesting limit of 10000, are not modelled,
  and an array under a repeated key replaces the earlier one instead of being decoded into its
  elements. Keys are folded as ASCII; \<open>encoding/json\<close> also takes the Kelvin sign for a k and the
  long s for an s.
\<close>

datatype json =
    JNull
  | JBool bool
  | JNum string
  | JStr string
  | JArr "json list"
  | JObj "(string \<times> json) list"

section \<open>Lexical syntax\<close>

definition is_ws :: "char \<Rightarrow> bool" where
  "is_ws c \<longleftrightarrow> c = CHR 0x20 \<or> c = CHR 0x09 \<or> c = CHR 0x0A \<or> c = CHR 0x0D"

definition skip_ws :: "string \<Rightarrow> string" where
  "skip_ws s = dropWhile is_ws s"

definition quote :: char where "quote = CHR 0x22"

definition backslash :: char where "backslash = CHR 0x5C"

definition hex_val :: "char \<Rightarrow> nat option" where
  "hex_val c = (let n = (of_char c :: nat) in
     if 48 \<le> n \<and> n \<le> 57 then Some (n - 48)
     else if 97 \<le> n \<and> n \<le> 102 then Some (n - 87)
     else if 65 \<le> n \<and> n \<le> 70 then Some (n - 55)
     else None)"

definition hex_digit :: "nat \<Rightarrow> char" where
  "hex_digit n = (if n < 10 then char_of (48 + n) else char_of (87 + n))"

definition hex4 :: "char \<Rightarrow> char \<Rightarrow> char \<Rightarrow> char \<Rightarrow> nat option" where
  "hex4 a b c d = do {
     w \<leftarrow> hex_val a; x \<leftarrow> hex_val b; y \<leftarrow> hex_val c; z \<leftarrow> hex_val d;
     Some (4096 * w + 256 * x + 16 * y + z)
   }"

definition utf8_encode :: "nat \<Rightarrow> string" where
  "utf8_encode r =
     (if r < 128 then [char_of r]
      else if r < 2048 then [char_of (192 + r div 64), char_of (128 + r mod 64)]
      else if r < 65536 then
        [char_of (224 + r div 4096), char_of (128 + r div 64 mod 64), char_of (128 + r mod 64)]
      else
        [char_of (240 + r div 262144), char_of (128 + r div 4096 mod 64),
         char_of (128 + r div 64 mod 64), char_of (128 + r mod 64)])"

definition simple_escape :: "char \<Rightarrow> char option" where
  "simple_escape c =
     (if c = quote \<or> c = backslash \<or> c = CHR ''/'' then Some c
      else if c = CHR ''b'' then Some (CHR 0x08)
      else if c = CHR ''f'' then Some (CHR 0x0C)
      else if c = CHR ''n'' then Some (CHR 0x0A)
      else if c = CHR ''r'' then Some (CHR 0x0D)
      else if c = CHR ''t'' then Some (CHR 0x09)
      else None)"

definition is_surrogate :: "nat \<Rightarrow> bool" where
  "is_surrogate r \<longleftrightarrow> 55296 \<le> r \<and> r < 57344"

text \<open>\<open>utf16.DecodeRune\<close>: the code point of a valid high and low half.\<close>

definition surrogate_pair :: "nat \<Rightarrow> nat \<Rightarrow> nat option" where
  "surrogate_pair hi lo =
     (if 55296 \<le> hi \<and> hi < 56320 \<and> 56320 \<le> lo \<and> lo < 57344
      then Some ((hi - 55296) * 1024 + (lo - 56320) + 65536) else None)"

text \<open>The second half of a surrogate pair, when the text goes on with one.\<close>

fun low_half :: "nat \<Rightarrow> string \<Rightarrow> nat option" where
  "low_half hi (b # u # p # q # r # t # rest) =
     (if b = backslash \<and> u = CHR ''u''
      then Option.bind (hex4 p q r t) (surrogate_pair hi) else None)"
| "low_half hi _ = None"

text \<open>One step of a string literal: a plain byte or an escape, as the bytes it stands for and
  the text after it.\<close>

definition scan_escape :: "string \<Rightarrow> (string \<times> string) option" where
  "scan_escape ds =
     (case ds of [] \<Rightarrow> None
      | e # es \<Rightarrow>
        (case simple_escape e of
           Some x \<Rightarrow> Some ([x], es)
         | None \<Rightarrow>
           (case ds of
              u # p # q # r # t # rest \<Rightarrow>
                (if u \<noteq> CHR ''u'' then None else
                 case hex4 p q r t of
                   None \<Rightarrow> None
                 | Some h \<Rightarrow>
                   (if is_surrogate h then
                      (case low_half h rest of
                         Some cp \<Rightarrow> Some (utf8_encode cp, drop 6 rest)
                       | None \<Rightarrow> Some (utf8_encode 65533, rest))
                    else Some (utf8_encode h, rest)))
            | _ \<Rightarrow> None)))"

definition scan_unit :: "string \<Rightarrow> (string \<times> string) option" where
  "scan_unit s = (case s of [] \<Rightarrow> None
     | c # cs \<Rightarrow> if c = backslash then scan_escape cs
                 else if (of_char c :: nat) < 32 then None else Some ([c], cs))"

lemma scan_escape_length: "scan_escape s = Some (t, r) \<Longrightarrow> length r < length s"
  by (auto simp: scan_escape_def split: list.splits option.splits if_splits)

lemma scan_unit_length: "scan_unit s = Some (t, r) \<Longrightarrow> length r < length s"
  by (auto simp: scan_unit_def less_SucI dest: scan_escape_length split: list.splits if_splits)

text \<open>The rest of a string literal after its opening quote: its bytes and the text after it.\<close>

function scan_string :: "string \<Rightarrow> (string \<times> string) option" where
  "scan_string s = (case s of [] \<Rightarrow> None
     | c # cs \<Rightarrow> if c = quote then Some ([], cs)
       else (case scan_unit s of None \<Rightarrow> None
             | Some (b, r) \<Rightarrow> map_option (apfst ((@) b)) (scan_string r)))"
  by pat_completeness auto
termination
  by (relation "measure length") (auto dest: scan_unit_length)

declare scan_string.simps [simp del]

definition is_num_char :: "char \<Rightarrow> bool" where
  "is_num_char c \<longleftrightarrow> is_digit c \<or> c = CHR ''-'' \<or> c = CHR ''+'' \<or> c = CHR ''.'' \<or> c = CHR ''e'' \<or> c = CHR ''E''"

definition valid_exp :: "string \<Rightarrow> bool" where
  "valid_exp s = (case s of [] \<Rightarrow> True
     | c # cs \<Rightarrow> (c = CHR ''e'' \<or> c = CHR ''E'') \<and>
         (let t = (case cs of x # xs \<Rightarrow> if x = CHR ''-'' \<or> x = CHR ''+'' then xs else cs | [] \<Rightarrow> [])
          in t \<noteq> [] \<and> list_all is_digit t))"

definition valid_frac :: "string \<Rightarrow> bool" where
  "valid_frac s = (case s of [] \<Rightarrow> True
     | c # cs \<Rightarrow> if c = CHR ''.''
         then (case cs of [] \<Rightarrow> False | d # ds \<Rightarrow> is_digit d \<and> valid_exp (dropWhile is_digit ds))
         else valid_exp s)"

definition valid_number :: "string \<Rightarrow> bool" where
  "valid_number s =
     (let t = (case s of [] \<Rightarrow> [] | c # cs \<Rightarrow> if c = CHR ''-'' then cs else s)
      in case t of [] \<Rightarrow> False
         | d # ds \<Rightarrow> if d = CHR ''0'' then valid_frac ds
                     else is_digit d \<and> valid_frac (dropWhile is_digit ds))"

section \<open>The parser\<close>

definition scan_scalar :: "string \<Rightarrow> (json \<times> string) option" where
  "scan_scalar s =
     (if prefix ''true'' s then Some (JBool True, drop 4 s)
      else if prefix ''false'' s then Some (JBool False, drop 5 s)
      else if prefix ''null'' s then Some (JNull, drop 4 s)
      else if valid_number (takeWhile is_num_char s)
        then Some (JNum (takeWhile is_num_char s), dropWhile is_num_char s)
      else None)"

fun parse_value :: "nat \<Rightarrow> string \<Rightarrow> (json \<times> string) option"
  and parse_elems :: "nat \<Rightarrow> string \<Rightarrow> (json list \<times> string) option"
  and parse_members :: "nat \<Rightarrow> string \<Rightarrow> ((string \<times> json) list \<times> string) option"
where
  "parse_value 0 s = None"
| "parse_value (Suc n) s =
    (case skip_ws s of [] \<Rightarrow> None
     | c # cs \<Rightarrow>
       if c = quote then map_option (apfst JStr) (scan_string cs)
       else if c = CHR ''['' then
         (case skip_ws cs of [] \<Rightarrow> None
          | d # ds \<Rightarrow> if d = CHR '']'' then Some (JArr [], ds)
                      else map_option (apfst JArr) (parse_elems n (d # ds)))
       else if c = CHR ''{'' then
         (case skip_ws cs of [] \<Rightarrow> None
          | d # ds \<Rightarrow> if d = CHR ''}'' then Some (JObj [], ds)
                      else map_option (apfst JObj) (parse_members n (d # ds)))
       else scan_scalar (c # cs))"
| "parse_elems 0 s = None"
| "parse_elems (Suc n) s =
    (case parse_value n s of None \<Rightarrow> None
     | Some (v, r) \<Rightarrow>
       (case skip_ws r of [] \<Rightarrow> None
        | c # cs \<Rightarrow> if c = CHR '','' then map_option (apfst ((#) v)) (parse_elems n cs)
                    else if c = CHR '']'' then Some ([v], cs) else None))"
| "parse_members 0 s = None"
| "parse_members (Suc n) s =
    (case skip_ws s of [] \<Rightarrow> None
     | q # qs \<Rightarrow> if q \<noteq> quote then None else
       (case scan_string qs of None \<Rightarrow> None
        | Some (k, r) \<Rightarrow>
          (case skip_ws r of [] \<Rightarrow> None
           | c # cs \<Rightarrow> if c \<noteq> CHR '':'' then None else
             (case parse_value n cs of None \<Rightarrow> None
              | Some (v, r') \<Rightarrow>
                (case skip_ws r' of [] \<Rightarrow> None
                 | d # ds \<Rightarrow> if d = CHR '','' then map_option (apfst ((#) (k, v))) (parse_members n ds)
                             else if d = CHR ''}'' then Some ([(k, v)], ds) else None)))))"

definition json_parse :: "string \<Rightarrow> json option" where
  "json_parse s = (case parse_value (2 * length s + 2) s of
     None \<Rightarrow> None
   | Some (v, r) \<Rightarrow> if skip_ws r = [] then Some v else None)"

section \<open>The printer\<close>

text \<open>\<open>json.Marshal\<close> writes no white space and escapes the characters that are special
  in HTML.\<close>

definition print_char :: "char \<Rightarrow> string" where
  "print_char c =
     (let n = (of_char c :: nat) in
      if c = quote \<or> c = backslash then [backslash, c]
      else if n = 8 then [backslash, CHR ''b'']
      else if n = 12 then [backslash, CHR ''f'']
      else if n = 10 then [backslash, CHR ''n'']
      else if n = 13 then [backslash, CHR ''r'']
      else if n = 9 then [backslash, CHR ''t'']
      else if n < 32 \<or> c = CHR ''<'' \<or> c = CHR ''>'' \<or> c = CHR ''&''
        then [backslash, CHR ''u'', CHR ''0'', CHR ''0'', hex_digit (n div 16), hex_digit (n mod 16)]
      else [c])"

definition print_string :: "string \<Rightarrow> string" where
  "print_string s = quote # concat (map print_char s) @ [quote]"

fun comma_sep :: "string list \<Rightarrow> string" where
  "comma_sep [] = []"
| "comma_sep [x] = x"
| "comma_sep (x # xs) = x @ CHR '','' # comma_sep xs"

fun print_json :: "json \<Rightarrow> string" where
  "print_json JNull = ''null''"
| "print_json (JBool b) = (if b then ''true'' else ''false'')"
| "print_json (JNum n) = n"
| "print_json (JStr s) = print_string s"
| "print_json (JArr js) = CHR ''['' # comma_sep (map print_json js) @ '']''"
| "print_json (JObj kvs) =
     CHR ''{'' # comma_sep (map (\<lambda>(k, j). print_string k @ CHR '':'' # print_json j) kvs) @ ''}''"

section \<open>Struct decoding\<close>

type_synonym 'a decoder = "json \<Rightarrow> 'a \<Rightarrow> 'a option"

definition parse_int :: "string \<Rightarrow> int option" where
  "parse_int s =
     (let neg = (case s of [] \<Rightarrow> False | c # _ \<Rightarrow> c = CHR ''-'');
          ds = (if neg then tl s else s);
          v = (if neg then - int (read_nat 0 ds) else int (read_nat 0 ds))
      in if ds \<noteq> [] \<and> list_all is_digit ds \<and> - (2 ^ 63) \<le> v \<and> v < 2 ^ 63 then Some v else None)"

definition dec_string :: "string decoder" where
  "dec_string j cur = (case j of JNull \<Rightarrow> Some cur | JStr s \<Rightarrow> Some s | _ \<Rightarrow> None)"

definition dec_bool :: "bool decoder" where
  "dec_bool j cur = (case j of JNull \<Rightarrow> Some cur | JBool b \<Rightarrow> Some b | _ \<Rightarrow> None)"

definition dec_int :: "int decoder" where
  "dec_int j cur = (case j of JNull \<Rightarrow> Some cur | JNum n \<Rightarrow> parse_int n | _ \<Rightarrow> None)"

definition dec_ptr :: "'a decoder \<Rightarrow> 'a \<Rightarrow> 'a option decoder" where
  "dec_ptr d z j cur = (case j of JNull \<Rightarrow> Some None
     | _ \<Rightarrow> map_option Some (d j (case cur of None \<Rightarrow> z | Some x \<Rightarrow> x)))"

fun dec_elems :: "'a decoder \<Rightarrow> 'a \<Rightarrow> json list \<Rightarrow> 'a list option" where
  "dec_elems d z [] = Some []"
| "dec_elems d z (j # js) = do { x \<leftarrow> d j z; xs \<leftarrow> dec_elems d z js; Some (x # xs) }"

definition dec_list :: "'a decoder \<Rightarrow> 'a \<Rightarrow> 'a list decoder" where
  "dec_list d z j cur = (case j of JNull \<Rightarrow> Some [] | JArr js \<Rightarrow> dec_elems d z js | _ \<Rightarrow> None)"

fun dec_entries :: "'a decoder \<Rightarrow> 'a \<Rightarrow> (string \<times> json) list \<Rightarrow> (string \<times> 'a) list \<Rightarrow> (string \<times> 'a) list option" where
  "dec_entries d z [] cur = Some cur"
| "dec_entries d z ((k, j) # kvs) cur = do { x \<leftarrow> d j z; dec_entries d z kvs (AList.update k x cur) }"

definition dec_map :: "'a decoder \<Rightarrow> 'a \<Rightarrow> (string \<times> 'a) list decoder" where
  "dec_map d z j cur = (case j of JNull \<Rightarrow> Some [] | JObj kvs \<Rightarrow> dec_entries d z kvs cur | _ \<Rightarrow> None)"

definition dec_struct :: "((string \<times> json) list \<Rightarrow> 'a \<Rightarrow> 'a option) \<Rightarrow> 'a decoder" where
  "dec_struct f j cur = (case j of JNull \<Rightarrow> Some cur | JObj kvs \<Rightarrow> f kvs cur | _ \<Rightarrow> None)"

fun dec_field :: "string \<Rightarrow> 'a decoder \<Rightarrow> (string \<times> json) list \<Rightarrow> 'a \<Rightarrow> 'a option" where
  "dec_field n d [] cur = Some cur"
| "dec_field n d ((k, j) # kvs) cur =
     (if to_lower k = to_lower n then Option.bind (d j cur) (dec_field n d kvs)
      else dec_field n d kvs cur)"

section \<open>The fuel is enough\<close>

lemma skip_ws_length: "length (skip_ws s) \<le> length s"
  by (simp add: skip_ws_def length_dropWhile_le)

lemma skip_ws_Cons_length: "skip_ws s = c # cs \<Longrightarrow> length cs < length s"
  using skip_ws_length [of s] by simp

lemma scan_string_length: "scan_string s = Some (t, r) \<Longrightarrow> length r < length s"
proof (induction s arbitrary: t r rule: scan_string.induct)
  case (1 s)
  then show ?case
    by (subst (asm) (2) scan_string.simps)
      (fastforce split: list.splits if_splits option.splits dest: scan_unit_length)
qed

lemma scan_scalar_length: "scan_scalar s = Some (v, r) \<Longrightarrow> length r < length s"
proof -
  assume *: "scan_scalar s = Some (v, r)"
  have "length (dropWhile is_num_char s) < length s" if "valid_number (takeWhile is_num_char s)"
  proof -
    from that have "takeWhile is_num_char s \<noteq> []" by (auto simp: valid_number_def)
    then show ?thesis
      using arg_cong [OF takeWhile_dropWhile_id [of is_num_char s], of length]
      by (simp only: length_append) (cases "takeWhile is_num_char s"; simp)
  qed
  with * show ?thesis
    by (auto simp: scan_scalar_def prefix_def split: if_splits)
qed

lemma parse_length:
  "parse_value n s = Some (v, r) \<Longrightarrow> length r < length s"
  "parse_elems n s = Some (vs, r) \<Longrightarrow> length r < length s"
  "parse_members n s = Some (kvs, r) \<Longrightarrow> length r < length s"
proof (induction n s and n s and n s arbitrary: v r and vs r and kvs r
    rule: parse_value_parse_elems_parse_members.induct)
  case (2 n s)
  then show ?case 
   by (fastforce split: list.splits if_splits option.splits dest!: scan_string_length skip_ws_Cons_length scan_scalar_length)
next
  case (4 n s)
  then show ?case 
   by (fastforce split: list.splits if_splits option.splits dest: skip_ws_Cons_length)
next
  case (6 n s)
  then show ?case 
   by (fastforce split: list.splits if_splits option.splits dest: skip_ws_Cons_length scan_string_length)
qed simp_all

declare parse_value.simps [simp del] parse_elems.simps [simp del] parse_members.simps [simp del]

definition fuel_step_ok :: "nat \<Rightarrow> string \<Rightarrow> bool" where
  "fuel_step_ok n s \<longleftrightarrow>
     (2 * length s + 1 \<le> n \<longrightarrow> parse_value (Suc n) s = parse_value n s) \<and>
     (2 * length s + 2 \<le> n \<longrightarrow> parse_elems (Suc n) s = parse_elems n s \<and>
        parse_members (Suc n) s = parse_members n s)"

lemma parse_fuel_step: "fuel_step_ok n s"
proof (induction n arbitrary: s)
  case 0
  show ?case by (simp add: fuel_step_ok_def)
next
  case (Suc n)
  have IH: "parse_value (Suc n) t = parse_value n t" if "2 * length t + 1 \<le> n" for t
    using Suc.IH [of t] that by (simp add: fuel_step_ok_def)
  have IHs: "parse_elems (Suc n) t = parse_elems n t" "parse_members (Suc n) t = parse_members n t"
    if "2 * length t + 2 \<le> n" for t
    using Suc.IH [of t] that by (simp_all add: fuel_step_ok_def)
  have len: "2 * length ds + 2 \<le> n" if "skip_ws r = d # ds" "length r < length s" "2 * length s + 1 \<le> Suc n" for r d ds
    using skip_ws_length [of r] that by simp
  have len2: "2 * length (d # ds) + 2 \<le> n" if "skip_ws s = c # cs" "skip_ws cs = d # ds" "2 * length s + 1 \<le> Suc n"
    for c cs d ds
    using skip_ws_Cons_length [OF that(1)] skip_ws_length [of cs] that(2,3) by simp
  have V: "parse_value (Suc (Suc n)) s = parse_value (Suc n) s" if "2 * length s + 1 \<le> Suc n"
    using that by (subst (1 2) parse_value.simps) (auto split: list.splits dest!: len2 simp: IHs)
  have E: "parse_elems (Suc (Suc n)) s = parse_elems (Suc n) s" if l: "2 * length s + 2 \<le> Suc n"
  proof -
    have 1: "parse_value (Suc n) s = parse_value n s" using l by (intro IH) simp
    have 2: "parse_elems (Suc n) cs = parse_elems n cs"
      if "parse_value n s = Some (v, r)" "skip_ws r = c # cs" for v r c cs
      using len [OF that(2) parse_length(1) [OF that(1)]] l by (intro IHs) simp
    show ?thesis
      by (subst (1 2) parse_elems.simps, unfold 1) (auto split: option.splits list.splits simp: 2)
  qed
  have M: "parse_members (Suc (Suc n)) s = parse_members (Suc n) s" if l: "2 * length s + 2 \<le> Suc n"
  proof -
    have 1: "parse_value (Suc n) cs = parse_value n cs" and 2: "length cs < length s"
      if "skip_ws s = q # qs" "scan_string qs = Some (k, r)" "skip_ws r = c # cs" for q qs k r c cs
      using skip_ws_Cons_length [OF that(1)] scan_string_length [OF that(2)] skip_ws_Cons_length [OF that(3)] l
      by (auto intro: IH)
    have 3: "parse_members (Suc n) ds = parse_members n ds"
      if "skip_ws s = q # qs" "scan_string qs = Some (k, r)" "skip_ws r = c # cs"
        "parse_value n cs = Some (v, r')" "skip_ws r' = d # ds" for q qs k r c cs v r' d ds
      using len [OF that(5)] parse_length(1) [OF that(4)] 2 [OF that(1-3)] l by (intro IHs) simp
    show ?thesis
      by (subst (1 2) parse_members.simps) (auto split: option.splits list.splits simp: 1 3)
  qed
  show ?case using V E M by (simp add: fuel_step_ok_def)
qed

text \<open>More fuel than \<open>json_parse\<close> gives never changes the result.\<close>

lemma parse_fuel_enough: "2 * length s + 1 \<le> n \<Longrightarrow> parse_value n s = parse_value (2 * length s + 1) s"
proof (induction n rule: dec_induct)
  case base
  show ?case by simp
next
  case (step n)
  then show ?case using parse_fuel_step [of n s] by (simp add: fuel_step_ok_def)
qed

lemma json_parse_fuel:
  "2 * length s + 1 \<le> n \<Longrightarrow> json_parse s = (case parse_value n s of
     None \<Rightarrow> None | Some (v, r) \<Rightarrow> if skip_ws r = [] then Some v else None)"
  using parse_fuel_enough [of s n] parse_fuel_enough [of s "2 * length s + 2"]
  by (simp add: json_parse_def)

section \<open>Fuel-free equations\<close>

definition value_at :: "string \<Rightarrow> (json \<times> string) option" where
  "value_at s = parse_value (2 * length s + 1) s"

definition elems_at :: "string \<Rightarrow> (json list \<times> string) option" where
  "elems_at s = parse_elems (2 * length s + 2) s"

definition members_at :: "string \<Rightarrow> ((string \<times> json) list \<times> string) option" where
  "members_at s = parse_members (2 * length s + 2) s"

lemma fuel_any:
  "2 * length s + 1 \<le> n \<Longrightarrow> parse_value n s = value_at s"
  "2 * length s + 2 \<le> n \<Longrightarrow> parse_elems n s = elems_at s"
  "2 * length s + 2 \<le> n \<Longrightarrow> parse_members n s = members_at s"
proof -
  show "2 * length s + 1 \<le> n \<Longrightarrow> parse_value n s = value_at s"
    unfolding value_at_def by (rule parse_fuel_enough)
  have "parse_elems n s = elems_at s \<and> parse_members n s = members_at s" if "2 * length s + 2 \<le> n"
    using that
  proof (induction n rule: dec_induct)
    case base
    show ?case by (simp add: elems_at_def members_at_def)
  next
    case (step n)
    then show ?case using parse_fuel_step [of n s] by (simp add: fuel_step_ok_def)
  qed
  then show "2 * length s + 2 \<le> n \<Longrightarrow> parse_elems n s = elems_at s"
    "2 * length s + 2 \<le> n \<Longrightarrow> parse_members n s = members_at s" by simp_all
qed

lemma value_at_eq:
  assumes "\<not> is_ws c"
  shows "value_at (c # cs) =
    (if c = quote then map_option (apfst JStr) (scan_string cs)
     else if c = CHR ''['' then
       (case skip_ws cs of [] \<Rightarrow> None
        | d # ds \<Rightarrow> if d = CHR '']'' then Some (JArr [], ds)
                    else map_option (apfst JArr) (elems_at (d # ds)))
     else if c = CHR ''{'' then
       (case skip_ws cs of [] \<Rightarrow> None
        | d # ds \<Rightarrow> if d = CHR ''}'' then Some (JObj [], ds)
                    else map_option (apfst JObj) (members_at (d # ds)))
     else scan_scalar (c # cs))"
proof -
  have "2 * length (d # ds) + 2 \<le> 2 * length (c # cs)" if "skip_ws cs = d # ds" for d ds
    using that skip_ws_length [of cs] by simp
  then have 1: "parse_elems (Suc (Suc (2 * length cs))) (d # ds) = elems_at (d # ds)"
    "parse_members (Suc (Suc (2 * length cs))) (d # ds) = members_at (d # ds)" if "skip_ws cs = d # ds" for d ds
    using that by (auto intro!: fuel_any)
  have ws: "skip_ws (c # cs) = c # cs" using assms by (simp add: skip_ws_def)
  have "value_at (c # cs) = parse_value (Suc (Suc (Suc (2 * length cs)))) (c # cs)"
    by (simp add: value_at_def)
  then show ?thesis
    by (subst (asm) parse_value.simps) (auto simp: ws 1 split: list.splits)
qed

lemma elems_at_eq:
  "elems_at s =
    (case value_at s of None \<Rightarrow> None
     | Some (v, r) \<Rightarrow>
       (case skip_ws r of [] \<Rightarrow> None
        | c # cs \<Rightarrow> if c = CHR '','' then map_option (apfst ((#) v)) (elems_at cs)
                    else if c = CHR '']'' then Some ([v], cs) else None))"
proof -
  have "2 * length cs + 2 \<le> 2 * length s + 1" if "value_at s = Some (v, r)" "skip_ws r = c # cs" for v r c cs
    using parse_length(1) [OF that(1) [unfolded value_at_def]] skip_ws_Cons_length [OF that(2)] by simp
  then have 1: "parse_elems (Suc (2 * length s)) cs = elems_at cs"
    if "value_at s = Some (v, r)" "skip_ws r = c # cs" for v r c cs
    using that by (intro fuel_any) fastforce
  have "elems_at s = parse_elems (Suc (Suc (2 * length s))) s" by (simp add: elems_at_def)
  then show ?thesis
    by (subst (asm) parse_elems.simps) (auto simp: fuel_any 1 split: option.splits list.splits)
qed

lemma members_at_eq:
  "members_at (quote # qs) =
     (case scan_string qs of None \<Rightarrow> None
      | Some (k, r) \<Rightarrow>
        (case skip_ws r of [] \<Rightarrow> None
         | c # cs \<Rightarrow> if c \<noteq> CHR '':'' then None else
           (case value_at cs of None \<Rightarrow> None
            | Some (v, r') \<Rightarrow>
              (case skip_ws r' of [] \<Rightarrow> None
               | d # ds \<Rightarrow> if d = CHR '','' then map_option (apfst ((#) (k, v))) (members_at ds)
                           else if d = CHR ''}'' then Some ([(k, v)], ds) else None))))"
proof -
  let ?n = "Suc (Suc (Suc (2 * length qs)))"
  have 1: "2 * length cs + 1 \<le> ?n" if "scan_string qs = Some (k, r)" "skip_ws r = c # cs" for k r c cs
    using scan_string_length [OF that(1)] skip_ws_Cons_length [OF that(2)] by simp
  have 2: "2 * length ds + 2 \<le> ?n"
    if "scan_string qs = Some (k, r)" "skip_ws r = c # cs" "value_at cs = Some (v, r')" "skip_ws r' = d # ds"
    for k r c cs v r' d ds
    using 1 [OF that(1,2)] parse_length(1) [OF that(3) [unfolded value_at_def]] skip_ws_Cons_length [OF that(4)] by simp
  have 3: "parse_value ?n cs = value_at cs" if "scan_string qs = Some (k, r)" "skip_ws r = c # cs" for k r c cs
    using 1 [OF that] by (rule fuel_any)
  have 4: "parse_members ?n ds = members_at ds"
    if "scan_string qs = Some (k, r)" "skip_ws r = c # cs" "value_at cs = Some (v, r')" "skip_ws r' = d # ds"
    for k r c cs v r' d ds
    using 2 [OF that] by (rule fuel_any)
  have ws: "skip_ws (quote # qs) = quote # qs" by (simp add: skip_ws_def is_ws_def quote_def)
  have "members_at (quote # qs) = parse_members (Suc ?n) (quote # qs)" by (simp add: members_at_def)
  then show ?thesis
    by (subst (asm) parse_members.simps) (auto simp: ws 3 4 split: option.splits list.splits)
qed

section \<open>Printing and parsing again\<close>

fun wf_json :: "json \<Rightarrow> bool" where
  "wf_json (JNum n) = valid_number n"
| "wf_json (JArr js) = list_all wf_json js"
| "wf_json (JObj kvs) = list_all (\<lambda>(k, j). wf_json j) kvs"
| "wf_json _ = True"

lemma char_of_of_char_nat [simp]: "(char_of (of_char c :: nat) :: char) = c"
  by simp

lemma hex_val_digit [simp]: "n < 16 \<Longrightarrow> hex_val (hex_digit n) = Some n"
  by (auto simp: hex_val_def hex_digit_def Let_def)

lemma print_char_unit: "scan_unit (print_char c @ rest) = Some ([c], rest)"
proof -
  define n where "n = (of_char c :: nat)"
  have n: "n < 256" and c: "c = char_of n" by (simp_all add: n_def)
  have sp: "c = quote \<or> c = backslash \<Longrightarrow> simple_escape c = Some c"
    by (auto simp: simple_escape_def)
  have u: "simple_escape CHR ''u'' = None" by (simp add: simple_escape_def quote_def backslash_def)
  have h: "hex4 CHR ''0'' CHR ''0'' (hex_digit (n div 16)) (hex_digit (n mod 16)) = Some n"
    using n by (simp add: hex4_def) (simp add: hex_val_def)
  have nc: "n < 32 \<or> c = CHR ''<'' \<or> c = CHR ''>'' \<or> c = CHR ''&'' \<Longrightarrow> n < 128"
    by (auto simp: n_def)
  have ctl: "(char_of (8::nat) :: char) = CHR 0x08" "(char_of (12::nat) :: char) = CHR 0x0C"
    "(char_of (10::nat) :: char) = CHR 0x0A" "(char_of (13::nat) :: char) = CHR 0x0D"
    "(char_of (9::nat) :: char) = CHR 0x09"
    by code_simp+
  have esc: "simple_escape CHR ''b'' = Some (CHR 0x08)" "simple_escape CHR ''f'' = Some (CHR 0x0C)"
     "simple_escape CHR ''n'' = Some (CHR 0x0A)" "simple_escape CHR ''r'' = Some (CHR 0x0D)"
     "simple_escape CHR ''t'' = Some (CHR 0x09)"
    by (simp_all add: simple_escape_def quote_def backslash_def)
  consider "c = quote \<or> c = backslash" | "n = 8" | "n = 12" | "n = 10" | "n = 13" | "n = 9"
    | "\<not> (c = quote \<or> c = backslash)" "n \<notin> {8, 12, 10, 13, 9}" "n < 32 \<or> c = CHR ''<'' \<or> c = CHR ''>'' \<or> c = CHR ''&''"
    | "\<not> (c = quote \<or> c = backslash)" "\<not> (n < 32 \<or> c = CHR ''<'' \<or> c = CHR ''>'' \<or> c = CHR ''&'')"
    by blast
  then show ?thesis
  proof cases
    case 1
    then show ?thesis using sp
      by (auto simp: print_char_def Let_def scan_unit_def scan_escape_def)
  next
    case 7
    have "print_char c = [backslash, CHR ''u'', CHR ''0'', CHR ''0'', hex_digit (n div 16), hex_digit (n mod 16)]"
      using 7 by (simp add: print_char_def Let_def flip: n_def)
    then show ?thesis
      using nc [OF 7(3)] h c
      by (simp add: scan_unit_def scan_escape_def u is_surrogate_def utf8_encode_def)
  next
    case 8
    then have "print_char c = [c]" by (auto simp: print_char_def Let_def simp flip: n_def)
    with 8 show ?thesis by (simp add: scan_unit_def flip: n_def)
  qed (simp_all add: print_char_def Let_def scan_unit_def scan_escape_def c ctl esc quote_def backslash_def)
qed

lemma print_char_hd: "\<exists>d ds. print_char c = d # ds \<and> d \<noteq> quote"
  by (auto simp: print_char_def Let_def quote_def backslash_def)

lemma scan_print_chars: "scan_string (concat (map print_char s) @ quote # rest) = Some (s, rest)"
proof (induction s)
  case Nil
  show ?case by (subst scan_string.simps) simp
next
  case (Cons c s)
  obtain d ds where d: "print_char c = d # ds" "d \<noteq> quote" using print_char_hd [of c] by blast
  let ?t = "concat (map print_char s) @ quote # rest"
  have "scan_unit (d # ds @ ?t) = Some ([c], ?t)"
    using print_char_unit [of c ?t] d by simp
  with d Cons.IH show ?case
    by (subst scan_string.simps) simp
qed

lemma scan_print_string: "print_string s @ rest = quote # concat (map print_char s) @ quote # rest"
  by (simp add: print_string_def)

lemma is_digit_num: "is_digit c \<Longrightarrow> is_num_char c"
  by (simp add: is_num_char_def)

lemma valid_exp_chars: "valid_exp s \<Longrightarrow> list_all is_num_char s"
  by (auto simp: valid_exp_def Let_def is_num_char_def list_all_iff split: list.splits if_splits)

lemma digits_then: "list_all is_num_char (dropWhile is_digit s) \<Longrightarrow> list_all is_num_char s"
  by (induction s) (auto simp: is_digit_num split: if_splits)

lemma valid_frac_chars: "valid_frac s \<Longrightarrow> list_all is_num_char s"
  by (auto simp: valid_frac_def is_num_char_def [of "CHR ''.''"] is_digit_num
      dest!: valid_exp_chars digits_then split: list.splits if_splits)

lemma valid_number_chars:
  assumes "valid_number s"
  shows "list_all is_num_char s"
proof -
  have 1: "list_all is_num_char (d # ds)"
    if "if d = CHR ''0'' then valid_frac ds else is_digit d \<and> valid_frac (dropWhile is_digit ds)" for d ds
  proof -
    from that have "is_digit d" by (auto simp: is_digit_def split: if_splits)
    then show ?thesis
      using that by (auto dest!: valid_frac_chars digits_then simp: is_digit_num split: if_splits)
  qed
  have 2: "is_num_char CHR ''-''" by (simp add: is_num_char_def)
  obtain c cs where s: "s = c # cs" using assms by (cases s) (simp_all add: valid_number_def)
  show ?thesis
  proof (cases "c = CHR ''-''")
    case True
    with assms s obtain d ds where cs: "cs = d # ds" by (cases cs) (simp_all add: valid_number_def)
    with True assms s have "list_all is_num_char (d # ds)"
      by (intro 1) (simp add: valid_number_def)
    with True s 2 cs show ?thesis by simp
  next
    case False
    with assms s show ?thesis
      by (intro 1 [of c cs, folded s]) (auto simp: valid_number_def Let_def split: if_splits)
  qed
qed

lemma valid_number_hd: "valid_number s \<Longrightarrow> \<exists>c cs. s = c # cs \<and> (c = CHR ''-'' \<or> is_digit c)"
  by (auto simp: valid_number_def Let_def is_digit_def split: list.splits if_splits)

definition ends_number :: "string \<Rightarrow> bool" where
  "ends_number rest \<longleftrightarrow> (case rest of [] \<Rightarrow> True | c # _ \<Rightarrow> \<not> is_num_char c)"

lemma digit_not: "is_digit c \<Longrightarrow> c \<notin> {quote, CHR ''['', CHR '']'', CHR ''{'', CHR ''}'', CHR ''t'', CHR ''f'', CHR ''n'', CHR '',''} \<and> \<not> is_ws c"
  by (auto simp: is_digit_def quote_def is_ws_def)

lemma scan_scalar_number:
  assumes "valid_number n" "ends_number rest"
  shows "scan_scalar (n @ rest) = Some (JNum n, rest)"
proof -
  obtain c cs where n: "n = c # cs" "c = CHR ''-'' \<or> is_digit c" using valid_number_hd [OF assms(1)] by blast
  have ct: "c \<noteq> CHR ''t''" "c \<noteq> CHR ''f''" "c \<noteq> CHR ''n''"
    using n(2) digit_not [of c] by auto
  have all: "\<forall>x \<in> set n. is_num_char x" using valid_number_chars [OF assms(1)] by (simp add: list_all_iff)
  have "takeWhile is_num_char rest = []" "dropWhile is_num_char rest = rest"
    using assms(2) by (auto simp: ends_number_def split: list.splits)
  then have "takeWhile is_num_char (n @ rest) = n" "dropWhile is_num_char (n @ rest) = rest"
    using all by simp_all
  moreover have "\<not> prefix ''true'' (n @ rest)" "\<not> prefix ''false'' (n @ rest)" "\<not> prefix ''null'' (n @ rest)"
    using n(1) ct by simp_all
  ultimately show ?thesis using assms(1) by (simp add: scan_scalar_def)
qed

lemma print_hd:
  assumes "wf_json j"
  shows "\<exists>c cs. print_json j = c # cs \<and> \<not> is_ws c \<and> c \<noteq> CHR '']'' \<and> c \<noteq> CHR ''}''"
proof (cases j)
  case (JNum n)
  with assms obtain c cs where n: "n = c # cs" "c = CHR ''-'' \<or> is_digit c"
    using valid_number_hd [of n] by auto
  have "\<not> is_ws c \<and> c \<noteq> CHR '']'' \<and> c \<noteq> CHR ''}''"
    using n(2)
  proof
    assume "is_digit c"
    then show ?thesis using digit_not by blast
  qed (simp add: is_ws_def)
  with n JNum show ?thesis by simp
qed (auto simp: print_string_def quote_def is_ws_def)

lemma ends_number_simps [simp]:
  "ends_number []" "ends_number (CHR '','' # r)" "ends_number (CHR '']'' # r)" "ends_number (CHR ''}'' # r)"
  by (simp_all add: ends_number_def is_num_char_def is_digit_def)

lemma skip_ws_simps [simp]:
  "skip_ws (CHR '','' # r) = CHR '','' # r" "skip_ws (CHR '']'' # r) = CHR '']'' # r"
  "skip_ws (CHR ''}'' # r) = CHR ''}'' # r" "skip_ws (CHR '':'' # r) = CHR '':'' # r"
  "skip_ws (quote # r) = quote # r" "skip_ws [] = []"
  by (simp_all add: skip_ws_def is_ws_def quote_def)

lemma is_ws_quote: "\<not> is_ws quote"
  by (simp add: is_ws_def quote_def)

lemma skip_ws_not: "\<not> is_ws c \<Longrightarrow> skip_ws (c # r) = c # r"
  by (simp add: skip_ws_def)

lemma elems_at_print:
  assumes "\<And>x r. x \<in> set (j # js) \<Longrightarrow> ends_number r \<Longrightarrow> value_at (print_json x @ r) = Some (x, r)"
  shows "elems_at (comma_sep (map print_json (j # js)) @ CHR '']'' # rest) = Some (j # js, rest)"
  using assms
proof (induction js arbitrary: j)
  case Nil
  then show ?case by (subst elems_at_eq) simp
next
  case (Cons k ks)
  have "elems_at (comma_sep (map print_json (k # ks)) @ CHR '']'' # rest) = Some (k # ks, rest)"
    by (rule Cons.IH) (rule Cons.prems, auto)
  with Cons.prems [of j "CHR '','' # comma_sep (map print_json (k # ks)) @ CHR '']'' # rest"]
  show ?case by (subst elems_at_eq) simp
qed

definition print_member :: "string \<times> json \<Rightarrow> string" where
  "print_member = (\<lambda>(k, j). print_string k @ CHR '':'' # print_json j)"

lemma members_at_print:
  assumes "\<And>k x r. (k, x) \<in> set (kv # kvs) \<Longrightarrow> ends_number r \<Longrightarrow> value_at (print_json x @ r) = Some (x, r)"
  shows "members_at (comma_sep (map print_member (kv # kvs)) @ CHR ''}'' # rest) = Some (kv # kvs, rest)"
  using assms
proof (induction kvs arbitrary: kv)
  case Nil
  obtain k x where kv: "kv = (k, x)" by (cases kv)
  have "value_at (print_json x @ CHR ''}'' # rest) = Some (x, CHR ''}'' # rest)"
    by (rule Nil) (simp_all add: kv)
  then show ?case
    by (simp add: kv print_member_def scan_print_string members_at_eq scan_print_chars)
next
  case (Cons kv' kvs)
  obtain k x where kv: "kv = (k, x)" by (cases kv)
  let ?r = "CHR '','' # comma_sep (map print_member (kv' # kvs)) @ CHR ''}'' # rest"
  have 1: "members_at (comma_sep (map print_member (kv' # kvs)) @ CHR ''}'' # rest) = Some (kv' # kvs, rest)"
    using Cons.prems by (intro Cons.IH) auto
  have "value_at (print_json x @ ?r) = Some (x, ?r)"
    by (rule Cons.prems [of k]) (simp_all add: kv)
  with 1 show ?case
    by (simp add: kv print_member_def [of] scan_print_string members_at_eq scan_print_chars del: comma_sep.simps(3))
      (simp add: print_member_def scan_print_string members_at_eq scan_print_chars)
qed

lemma value_at_print: "wf_json j \<Longrightarrow> ends_number rest \<Longrightarrow> value_at (print_json j @ rest) = Some (j, rest)"
proof (induction j arbitrary: rest)
  case JNull
  show ?case by (simp add: value_at_eq is_ws_def quote_def scan_scalar_def)
next
  case (JBool b)
  show ?case by (simp add: value_at_eq is_ws_def quote_def scan_scalar_def)
next
  case (JNum n)
  then obtain c cs where n: "n = c # cs" "c = CHR ''-'' \<or> is_digit c" using valid_number_hd [of n] by auto
  with JNum scan_scalar_number [of n rest] digit_not [of c] show ?case
    by (auto simp: value_at_eq is_ws_def quote_def)
next
  case (JStr s)
  show ?case
    by (simp add: scan_print_string value_at_eq scan_print_chars is_ws_quote)
next
  case (JArr js)
  show ?case
  proof (cases js)
    case Nil
    then show ?thesis by (simp add: value_at_eq is_ws_def quote_def)
  next
    case (Cons k ks)
    obtain c cs where c: "print_json k = c # cs" "\<not> is_ws c" "c \<noteq> CHR '']''"
      using print_hd [of k] JArr.prems Cons by auto
    let ?t = "comma_sep (map print_json (k # ks)) @ CHR '']'' # rest"
    have "elems_at ?t = Some (k # ks, rest)"
      by (rule elems_at_print) (use JArr Cons in \<open>auto simp: list_all_iff\<close>)
    moreover have "\<exists>ds. ?t = c # ds" using c by (cases ks) auto
    ultimately show ?thesis
      using Cons c by (auto simp: value_at_eq is_ws_def quote_def skip_ws_not)
  qed
next
  case (JObj kvs)
  show ?case
  proof (cases kvs)
    case Nil
    then show ?thesis by (simp add: value_at_eq is_ws_def quote_def)
  next
    case (Cons k ks)
    let ?t = "comma_sep (map print_member (k # ks)) @ CHR ''}'' # rest"
    have "members_at ?t = Some (k # ks, rest)"
      by (rule members_at_print) (use JObj Cons in \<open>fastforce simp: list_all_iff\<close>)
    moreover have "\<exists>ds. ?t = quote # ds"
      by (cases ks; cases k) (auto simp: print_member_def print_string_def)
    moreover have "print_json (JObj kvs) @ rest = CHR ''{'' # ?t"
      using Cons by (simp add: print_member_def)
    ultimately show ?thesis
      using Cons by (auto simp: value_at_eq is_ws_def quote_def skip_ws_not)
  qed
qed

lemma json_parse_value_at: "json_parse s = (case value_at s of
     None \<Rightarrow> None | Some (v, r) \<Rightarrow> if skip_ws r = [] then Some v else None)"
  unfolding json_parse_def value_at_def by (subst parse_fuel_enough) simp_all

text \<open>Text that \<open>json.Marshal\<close> writes for a request is parsed by
  \<open>json.Unmarshal\<close>'s scanner back to the value it was written for, whatever bytes the
  strings hold (quotes, backslashes, control characters, the characters escaped for HTML).\<close>

lemma json_roundtrip: "wf_json j \<Longrightarrow> json_parse (print_json j) = Some j"
  using value_at_print [of j "[]"] by (simp add: json_parse_value_at)

end
