(* ===== verification/Services.thy ===== *)
theory Services
  imports ApiTypes Json
begin

text \<open>
  Everything outside the repository, as one parameter of the model: an \<open>env\<close> is a record
  of functions, one for each operation of a library or service that the operator calls. Each
  answers a request in the current outside state \<open>'w\<close> and gives the next one, so between
  two calls anything may have changed (other controllers, the cloud, the run-time system). No
  function is given a definition here; a theorem that needs documented behaviour of one of them
  says so in a hypothesis.

  \<^item> \<open>e_http\<close>: \<open>http.Client.Do\<close>, the KT Cloud API and the HTTP server on a new control
    plane. \<open>e_url_parse\<close>: the URL parser behind \<open>http.NewRequest\<close> and \<open>url.Parse\<close>.
  \<^item> \<open>e_get_...\<close>, \<open>e_list_machines\<close>, \<open>e_create_...\<close>, \<open>e_update_...\<close>,
    \<open>e_status_update_...\<close>, \<open>e_delete_firewall\<close>: the Kubernetes client. An update
    answers with the object as the server returned it, which the client writes back into the
    caller's object.
  \<^item> \<open>e_set_controller_ref\<close>: \<open>controllerutil.SetControllerReference\<close>.
  \<^item> \<open>e_rand\<close>: \<open>crypto/rand.Int\<close>; \<open>e_now\<close>: the clock; \<open>e_sleep\<close>: what happens during a sleep; \<open>e_map_order\<close>: the order
    in which a \<open>range\<close> over a Go map visits the keys.
  \<^item> \<open>e_yaml_unmarshal\<close>, \<open>e_yaml_marshal\<close>: \<open>gopkg.in/yaml.v2\<close> on a client
    configuration.

  Every call is recorded as a \<open>call\<close>, so a theorem can speak of the sequence of requests.
\<close>

section \<open>Configuration\<close>

record Config =
  c_ApiBaseURL :: string
  c_Zone :: string
  c_IdentityMethods :: string
  c_IdentityPasswordUserDomainId :: string
  c_IdentityPasswordUserName :: string
  c_IdentityPassword :: string
  c_ScopeProjectDomainId :: string
  c_ScopeProjectName :: string
  c_LogLevel :: string
  c_ClientAuthAutoRenew :: bool
  c_RemoteBackendTimeout :: int
  c_Kubeconfig :: string

section \<open>Requests\<close>

record http_request =
  rq_Method :: string
  rq_URL :: string
  rq_Header :: "(string \<times> string) list"
  rq_Body :: string

text \<open>\<open>hr_Body\<close> is what \<open>io.ReadAll\<close> of the response body gives.\<close>

record http_response =
  hr_StatusCode :: int
  hr_Status :: string
  hr_Header :: "(string \<times> string list) list"
  hr_Body :: "gerror + string"

text \<open>The client configuration of a kubeconfig file: the server URL of each named cluster, and
  the rest of the file.\<close>

record Kubeconfig =
  kb_Clusters :: "(string \<times> string) list"
  kb_Rest :: string

record url_parts =
  u_Scheme :: string
  u_Host :: string
  u_Path :: string

datatype kind = KindKTMachine | KindKTCluster | KindCluster | KindKTMachineTemplate
  | KindMachineDeployment | KindKTSubjectToken | KindKTNetworkFirewall | KindSecret

datatype obj = OMachine KTMachine | OKTCluster KTCluster | OTemplate KTMachineTemplate
  | ODeployment MachineDeployment | OToken KTSubjectToken | OFirewall KTNetworkFirewall
  | OSecret Secret

datatype call =
    GetCall kind "string \<times> string"
  | ListMachines string
  | CreateCall obj
  | UpdateCall obj
  | StatusUpdate obj
  | DeleteCall obj
  | HttpCall http_request
  | BuildConfig string
  | DefaultConfig
  | NewClient
  | RandInt nat
  | Now
  | Sleep nat

type_synonym 'a answer = "gerror + 'a"

text \<open>An object key: name and namespace.\<close>

type_synonym key = "string \<times> string"

record 'w env =
  e_config :: Config
  e_http :: "http_request \<Rightarrow> 'w \<Rightarrow> http_response answer \<times> 'w"
  e_url_parse :: "string \<Rightarrow> url_parts answer"
  e_url_string :: "url_parts \<Rightarrow> string"
  e_map_order :: "string list \<Rightarrow> 'w \<Rightarrow> string list \<times> 'w"
  e_build_config :: "string \<Rightarrow> 'w \<Rightarrow> unit answer \<times> 'w"
  e_default_config :: "'w \<Rightarrow> unit answer \<times> 'w"
  e_new_client :: "'w \<Rightarrow> unit answer \<times> 'w"
  e_get_machine :: "key \<Rightarrow> 'w \<Rightarrow> KTMachine answer \<times> 'w"
  e_get_ktcluster :: "key \<Rightarrow> 'w \<Rightarrow> KTCluster answer \<times> 'w"
  e_get_cluster :: "key \<Rightarrow> 'w \<Rightarrow> Cluster answer \<times> 'w"
  e_get_template :: "key \<Rightarrow> 'w \<Rightarrow> KTMachineTemplate answer \<times> 'w"
  e_get_deployment :: "key \<Rightarrow> 'w \<Rightarrow> MachineDeployment answer \<times> 'w"
  e_get_token :: "key \<Rightarrow> 'w \<Rightarrow> KTSubjectToken answer \<times> 'w"
  e_get_firewall :: "key \<Rightarrow> 'w \<Rightarrow> KTNetworkFirewall answer \<times> 'w"
  e_get_secret :: "key \<Rightarrow> 'w \<Rightarrow> Secret answer \<times> 'w"
  e_list_machines :: "string \<Rightarrow> 'w \<Rightarrow> KTMachine list answer \<times> 'w"
  e_create_machine :: "KTMachine \<Rightarrow> 'w \<Rightarrow> KTMachine answer \<times> 'w"
  e_create_firewall :: "KTNetworkFirewall \<Rightarrow> 'w \<Rightarrow> KTNetworkFirewall answer \<times> 'w"
  e_create_token :: "KTSubjectToken \<Rightarrow> 'w \<Rightarrow> KTSubjectToken answer \<times> 'w"
  e_create_secret :: "Secret \<Rightarrow> 'w \<Rightarrow> Secret answer \<times> 'w"
  e_update_ktcluster :: "KTCluster \<Rightarrow> 'w \<Rightarrow> KTCluster answer \<times> 'w"
  e_update_template :: "KTMachineTemplate \<Rightarrow> 'w \<Rightarrow> KTMachineTemplate answer \<times> 'w"
  e_update_deployment :: "MachineDeployment \<Rightarrow> 'w \<Rightarrow> MachineDeployment answer \<times> 'w"
  e_update_token :: "KTSubjectToken \<Rightarrow> 'w \<Rightarrow> KTSubjectToken answer \<times> 'w"
  e_update_secret :: "Secret \<Rightarrow> 'w \<Rightarrow> Secret answer \<times> 'w"
  e_status_update_machine :: "KTMachine \<Rightarrow> 'w \<Rightarrow> KTMachine answer \<times> 'w"
  e_status_update_firewall :: "KTNetworkFirewall \<Rightarrow> 'w \<Rightarrow> KTNetworkFirewall answer \<times> 'w"
  e_status_update_token :: "KTSubjectToken \<Rightarrow> 'w \<Rightarrow> KTSubjectToken answer \<times> 'w"
  e_delete_firewall :: "KTNetworkFirewall \<Rightarrow> 'w \<Rightarrow> unit answer \<times> 'w"
  e_set_controller_ref :: "kind \<times> ObjectMeta \<Rightarrow> ObjectMeta \<Rightarrow> ObjectMeta answer"
  e_rand :: "nat \<Rightarrow> 'w \<Rightarrow> nat answer \<times> 'w"
  e_now :: "'w \<Rightarrow> string \<times> 'w"
  e_sleep :: "nat \<Rightarrow> 'w \<Rightarrow> 'w"
  e_yaml_unmarshal :: "string \<Rightarrow> Kubeconfig answer"
  e_yaml_marshal :: "Kubeconfig \<Rightarrow> string answer"

type_synonym ('w, 'a) op = "('w, call, 'a) go"

section \<open>HTTP\<close>

definition status_ok :: "int \<Rightarrow> bool" where
  "status_ok code \<longleftrightarrow> 200 \<le> code \<and> code < 300"

text \<open>\<open>http.NewRequest\<close>, which fails on a URL that does not parse, the headers, and
  \<open>client.Do\<close>.\<close>

definition http_do :: "'w env \<Rightarrow> http_request \<Rightarrow> ('w, http_response) op" where
  "http_do env rq =
     bindG (liftG (e_url_parse env (rq_URL rq))) (\<lambda>_. callG (HttpCall rq) (e_http env rq))"

definition cloud_request :: "string \<Rightarrow> string \<Rightarrow> string \<Rightarrow> string \<Rightarrow> http_request" where
  "cloud_request meth url token body =
     \<lparr>rq_Method = meth, rq_URL = url,
      rq_Header = [(''Content-Type'', ''application/json''), (''X-Auth-Token'', token)],
      rq_Body = body\<rparr>"

definition read_body :: "http_response \<Rightarrow> ('w, string) op" where
  "read_body resp = liftG (hr_Body resp)"

definition json_unmarshal :: "'a decoder \<Rightarrow> 'a \<Rightarrow> string \<Rightarrow> gerror + 'a" where
  "json_unmarshal d z body =
     (case json_parse body of
        None \<Rightarrow> Inl (JsonError ''invalid JSON'')
      | Some j \<Rightarrow> (case d j z of
          None \<Rightarrow> Inl (JsonError ''cannot unmarshal'')
        | Some x \<Rightarrow> Inr x))"

section \<open>Kubernetes client set-up\<close>

definition getRestConfig :: "'w env \<Rightarrow> string \<Rightarrow> ('w, unit) op" where
  "getRestConfig env kubeconfigPath =
     (if kubeconfigPath \<noteq> '''' then callG (BuildConfig kubeconfigPath) (e_build_config env kubeconfigPath)
      else callG DefaultConfig (e_default_config env))"

definition getClient :: "'w env \<Rightarrow> ('w, unit) op" where
  "getClient env = callG NewClient (e_new_client env)"

text \<open>The two ways the callers react to a missing client configuration.\<close>

definition rest_config_or_panic :: "'w env \<Rightarrow> ('w, unit) op" where
  "rest_config_or_panic env =
     bindG (tryG (getRestConfig env (c_Kubeconfig (e_config env)))) (\<lambda>r. case r of
       Inl e \<Rightarrow> panicG (error_text e) | Inr _ \<Rightarrow> retG ())"

text \<open>\<open>logger1.Fatalf\<close> ends the process.\<close>

definition client_or_exit :: "'w env \<Rightarrow> ('w, unit) op" where
  "client_or_exit env =
     bindG (tryG (getClient env)) (\<lambda>r. case r of Inl e \<Rightarrow> stopG Exited | Inr _ \<Rightarrow> retG ())"

definition sleep_for :: "'w env \<Rightarrow> nat \<Rightarrow> ('w, unit) op" where
  "sleep_for env n = askG (Sleep n) (\<lambda>w. ((), e_sleep env n w))"

section \<open>Contracts of the calls\<close>

lemma spec_sleep_for [spec_intros]: "P (Sleep n) \<Longrightarrow> Q () \<Longrightarrow> spec P (sleep_for env n) Q S"
  unfolding sleep_for_def by (rule spec_ask) simp_all


lemma spec_http_do [spec_intros]:
  assumes "P (HttpCall rq)" and "\<And>resp. Q resp" and "\<And>e. S (Fail e)"
  shows "spec P (http_do env rq) Q S"
  unfolding http_do_def by (intro spec_bind_any spec_intros assms TrueI)

lemma spec_read_body [spec_intros]:
  assumes "\<And>body. Q body" and "\<And>e. S (Fail e)"
  shows "spec P (read_body resp) Q S"
  unfolding read_body_def by (intro spec_intros assms)

lemma spec_getRestConfig [spec_intros]:
  assumes "P DefaultConfig" and "\<And>p. P (BuildConfig p)" and "Q ()" and "\<And>e. S (Fail e)"
  shows "spec P (getRestConfig env path) Q S"
  unfolding getRestConfig_def by (intro spec_intros assms) (simp_all add: assms)

lemma spec_rest_config_or_panic [spec_intros]:
  assumes "P DefaultConfig" and "\<And>p. P (BuildConfig p)" and "Q ()" and "\<And>t. S (Panicked t)"
  shows "spec P (rest_config_or_panic env) Q S"
  unfolding rest_config_or_panic_def by (intro spec_bind_any spec_intros assms) (simp_all add: assms)

lemma spec_client_or_exit [spec_intros]:
  assumes "P NewClient" and "Q ()" and "S Exited"
  shows "spec P (client_or_exit env) Q S"
  unfolding client_or_exit_def getClient_def by (intro spec_bind_any spec_intros assms) (simp_all add: assms)

section \<open>Classes of calls\<close>

fun is_http :: "call \<Rightarrow> bool" where
  "is_http (HttpCall rq) \<longleftrightarrow> True"
| "is_http c \<longleftrightarrow> False"

text \<open>A request that the cloud may act on.\<close>

fun is_cloud_write :: "call \<Rightarrow> bool" where
  "is_cloud_write (HttpCall rq) \<longleftrightarrow> rq_Method rq \<noteq> ''GET''"
| "is_cloud_write c \<longleftrightarrow> False"

text \<open>A call that changes an object in the cluster.\<close>

fun is_k8s_write :: "call \<Rightarrow> bool" where
  "is_k8s_write (CreateCall x) \<longleftrightarrow> True"
| "is_k8s_write (UpdateCall x) \<longleftrightarrow> True"
| "is_k8s_write (StatusUpdate x) \<longleftrightarrow> True"
| "is_k8s_write (DeleteCall x) \<longleftrightarrow> True"
| "is_k8s_write c \<longleftrightarrow> False"

text \<open>A call that prepares the Kubernetes client.\<close>

fun is_setup :: "call \<Rightarrow> bool" where
  "is_setup (BuildConfig p) \<longleftrightarrow> True"
| "is_setup DefaultConfig \<longleftrightarrow> True"
| "is_setup NewClient \<longleftrightarrow> True"
| "is_setup c \<longleftrightarrow> False"

definition read_only :: "call \<Rightarrow> bool" where
  "read_only c \<longleftrightarrow> \<not> is_cloud_write c \<and> \<not> is_k8s_write c"

lemma atmost_setup [spec_intros]:
  "(\<And>c. is_setup c \<Longrightarrow> \<not> P c) \<Longrightarrow> atmost P n (rest_config_or_panic env)"
  "(\<And>c. is_setup c \<Longrightarrow> \<not> P c) \<Longrightarrow> atmost P n (client_or_exit env)"
  by (rule spec_atmost [where Q = is_setup and R = "\<lambda>_. True" and S = "\<lambda>_. True"];
      (intro spec_intros)?; simp)+

lemma atmost_http_do: "(P (HttpCall rq) \<Longrightarrow> 1 \<le> n) \<Longrightarrow> atmost P n (http_do env rq)"
  unfolding http_do_def by (rule atmost_bind_quiet) (auto intro: atmost_lift atmost_call)

lemma atmost_read_body [spec_intros]: "atmost P n (read_body resp)"
  unfolding read_body_def by (rule atmost_lift)

lemma outcome_http_do:
  "e_url_parse env (rq_URL rq) = Inr u \<Longrightarrow>
   http_do env rq w = (case e_http env rq w of
     (Inl e, w1) \<Rightarrow> (Inl (Fail e), [HttpCall rq], w1) | (Inr resp, w1) \<Rightarrow> (Inr resp, [HttpCall rq], w1))"
  by (simp add: http_do_def go_simps)

section \<open>Queries\<close>

text \<open>
  The contract of an operation that only looks: its calls are GETs of the cloud, reads of the
  cluster and client set-up. A client may run it first without any effect; what its run writes
  comes from what follows. A \<open>safe_query\<close> moreover never panics and never ends the process.
\<close>

locale query =
  fixes q :: "('w, 'a) op"
  assumes reads: "spec read_only q (\<lambda>_. True) (\<lambda>_. True)"
begin

lemma reads_as: "(\<And>c. read_only c \<Longrightarrow> P c) \<Longrightarrow> spec P q (\<lambda>x. \<exists>w. outcome q w = Inr x) (\<lambda>_. True)"
  by (rule spec_weaken [OF spec_outcome [OF reads]]) auto

lemma no_cloud_write: "filter is_cloud_write (trace q w) = []"
  using reads by (auto simp: filter_empty_conv read_only_def dest: spec_trace)

lemma no_k8s_write: "filter is_k8s_write (trace q w) = []"
  using reads by (auto simp: filter_empty_conv read_only_def dest: spec_trace)

lemma write_after:
  assumes "c \<in> set (trace (bindG q f) w)" and "\<not> read_only c"
  shows "\<exists>x. outcome q w = Inr x \<and> c \<in> set (trace (f x) (world q w))"
proof (cases "outcome q w")
  case (Inl e)
  with assms spec_trace [OF reads] show ?thesis by (auto simp: trace_bindG)
next
  case (Inr x)
  with assms spec_trace [OF reads] show ?thesis by (auto simp: trace_bindG)
qed

lemma spec_first: "(\<And>x. spec P (f x) Q S) \<Longrightarrow> (\<And>c. read_only c \<Longrightarrow> P c) \<Longrightarrow> (\<And>e. S e) \<Longrightarrow> spec P (bindG q f) Q S"
  by (rule spec_bind_any) (auto intro: spec_weaken [OF reads])

lemma at_most_after: "(\<And>x. atmost is_cloud_write n (f x)) \<Longrightarrow> atmost is_cloud_write n (bindG q f)"
  by (rule atmost_bind_quiet) (auto simp: atmost_def no_cloud_write)

end

locale safe_query = query +
  assumes only_fails: "spec (\<lambda>_. True) q (\<lambda>_. True) is_fail"
begin

lemma stops_with_error: "outcome q w = Inl e \<Longrightarrow> \<exists>g. e = Fail g"
  using spec_stop [OF only_fails, of w e] by (cases e) simp_all

lemma try_returns: "\<exists>r. outcome (tryG q) w = Inr r"
  using stops_with_error [of w] by (auto simp: outcome_tryG split: sum.split stop.split)

end

section \<open>A concrete outside world\<close>

text \<open>An environment with an unreachable cloud and an empty cluster, in which a write succeeds and
  answers with the object written. The instances of theorems below replace the entries that a
  case needs.\<close>

definition no_config :: Config where
  "no_config = \<lparr>c_ApiBaseURL = '''', c_Zone = '''', c_IdentityMethods = '''',
     c_IdentityPasswordUserDomainId = '''', c_IdentityPasswordUserName = '''',
     c_IdentityPassword = '''', c_ScopeProjectDomainId = '''', c_ScopeProjectName = '''',
     c_LogLevel = '''', c_ClientAuthAutoRenew = False, c_RemoteBackendTimeout = 0,
     c_Kubeconfig = ''''\<rparr>"

abbreviation absent :: gerror where
  "absent \<equiv> ApiError NotFound ''not found''"

definition down_env :: "'w env" where
  "down_env = \<lparr>e_config = no_config, e_http = (\<lambda>_ w. (Inl (IOError ''down''), w)),
     e_url_parse = (\<lambda>s. Inr \<lparr>u_Scheme = '''', u_Host = s, u_Path = ''''\<rparr>), e_url_string = u_Host,
     e_map_order = (\<lambda>ks w. (ks, w)), e_build_config = (\<lambda>_ w. (Inr (), w)),
     e_default_config = (\<lambda>w. (Inr (), w)), e_new_client = (\<lambda>w. (Inr (), w)),
     e_get_machine = (\<lambda>_ w. (Inl absent, w)), e_get_ktcluster = (\<lambda>_ w. (Inl absent, w)),
     e_get_cluster = (\<lambda>_ w. (Inl absent, w)), e_get_template = (\<lambda>_ w. (Inl absent, w)),
     e_get_deployment = (\<lambda>_ w. (Inl absent, w)), e_get_token = (\<lambda>_ w. (Inl absent, w)),
     e_get_firewall = (\<lambda>_ w. (Inl absent, w)), e_get_secret = (\<lambda>_ w. (Inl absent, w)),
     e_list_machines = (\<lambda>_ w. (Inr [], w)), e_create_machine = (\<lambda>x w. (Inr x, w)),
     e_create_firewall = (\<lambda>x w. (Inr x, w)), e_create_token = (\<lambda>x w. (Inr x, w)),
     e_create_secret = (\<lambda>x w. (Inr x, w)), e_update_ktcluster = (\<lambda>x w. (Inr x, w)),
     e_update_template = (\<lambda>x w. (Inr x, w)), e_update_deployment = (\<lambda>x w. (Inr x, w)),
     e_update_token = (\<lambda>x w. (Inr x, w)), e_update_secret = (\<lambda>x w. (Inr x, w)),
     e_status_update_machine = (\<lambda>x w. (Inr x, w)), e_status_update_firewall = (\<lambda>x w. (Inr x, w)),
     e_status_update_token = (\<lambda>x w. (Inr x, w)), e_delete_firewall = (\<lambda>_ w. (Inr (), w)),
     e_set_controller_ref = (\<lambda>_ meta. Inr meta), e_rand = (\<lambda>_ w. (Inr 0, w)),
     e_now = (\<lambda>w. ('''', w)), e_sleep = (\<lambda>_ w. w), e_yaml_unmarshal = (\<lambda>_. Inl (NewError ''yaml'')),
     e_yaml_marshal = (\<lambda>_. Inl (NewError ''yaml''))\<rparr>"

text \<open>What the cloud answers in the samples: the status line and the body.\<close>

definition answer :: "int \<Rightarrow> string \<Rightarrow> string \<Rightarrow> http_response" where
  "answer code line body =
     \<lparr>hr_StatusCode = code, hr_Status = line, hr_Header = [], hr_Body = Inr body\<rparr>"

lemma down_env_simps [simp]:
  "e_config down_env = no_config" "e_http down_env rq w = (Inl (IOError ''down''), w)"
  "e_url_parse down_env s = Inr \<lparr>u_Scheme = '''', u_Host = s, u_Path = ''''\<rparr>"
  "e_url_string down_env = u_Host" "e_map_order down_env ks w = (ks, w)"
  "e_build_config down_env p w = (Inr (), w)" "e_default_config down_env w = (Inr (), w)"
  "e_new_client down_env w = (Inr (), w)" "e_get_machine down_env k w = (Inl absent, w)"
  "e_get_ktcluster down_env k w = (Inl absent, w)" "e_get_cluster down_env k w = (Inl absent, w)"
  "e_get_template down_env k w = (Inl absent, w)" "e_get_deployment down_env k w = (Inl absent, w)"
  "e_get_token down_env k w = (Inl absent, w)" "e_get_firewall down_env k w = (Inl absent, w)"
  "e_get_secret down_env k w = (Inl absent, w)" "e_list_machines down_env ns w = (Inr [], w)"
  "e_create_machine down_env m w = (Inr m, w)" "e_create_firewall down_env f w = (Inr f, w)"
  "e_create_token down_env t w = (Inr t, w)" "e_create_secret down_env s' w = (Inr s', w)"
  "e_update_ktcluster down_env c w = (Inr c, w)" "e_update_template down_env tm w = (Inr tm, w)"
  "e_update_deployment down_env d w = (Inr d, w)" "e_update_token down_env t w = (Inr t, w)"
  "e_update_secret down_env s' w = (Inr s', w)" "e_status_update_machine down_env m w = (Inr m, w)"
  "e_status_update_firewall down_env f w = (Inr f, w)" "e_status_update_token down_env t w = (Inr t, w)"
  "e_delete_firewall down_env f w = (Inr (), w)" "e_set_controller_ref down_env o1 meta = Inr meta"
  "e_rand down_env n w = (Inr 0, w)" "e_now down_env w = ('''', w)"
  "e_sleep down_env n w = w"
  by (simp_all add: down_env_def)

lemma answer_simps [simp]:
  "hr_StatusCode (answer code line body) = code" "hr_Status (answer code line body) = line"
  "hr_Body (answer code line body) = Inr body"
  by (simp_all add: answer_def)

lemma no_config_simps [simp]: "c_Kubeconfig no_config = []" "c_ApiBaseURL no_config = []" "c_Zone no_config = []"
  by (simp_all add: no_config_def)

end
