(* ===== verification/Reconciler.thy ===== *)
theory Reconciler
  imports Services
begin

text \<open>
  What the reconcilers of \<^verbatim>\<open>internal/controller\<close> share: the result they return to
  controller-runtime and the way they begin, reading the object of the request. The locale
  \<open>reconciler\<close> is the contract controller-runtime relies on for an object that is gone or
  cannot be read; each controller theory interprets it on its own \<open>Reconcile\<close>.
\<close>

text \<open>\<open>ctrl.Result\<close>: the seconds after which the request is queued again, 0 for never.\<close>

record Result =
  rs_RequeueAfter :: nat

definition no_requeue :: Result where
  "no_requeue = \<lparr>rs_RequeueAfter = 0\<rparr>"

definition requeue_minute :: Result where
  "requeue_minute = \<lparr>rs_RequeueAfter = 60\<rparr>"

text \<open>\<open>r.Get(...)\<close> with the NotFound test that every \<open>Reconcile\<close> starts with.\<close>

definition with_object :: "kind \<Rightarrow> (key \<Rightarrow> 'w \<Rightarrow> 'a answer \<times> 'w) \<Rightarrow> key \<Rightarrow> ('a \<Rightarrow> ('w, Result) op) \<Rightarrow> ('w, Result) op" where
  "with_object kd get req body =
     bindG (tryG (callG (GetCall kd req) (get req))) (\<lambda>r. case r of
       Inl e \<Rightarrow> (if is_not_found e then retG no_requeue else failG e)
     | Inr x \<Rightarrow> body x)"

locale reconciler =
  fixes kd :: kind and get :: "'w env \<Rightarrow> key \<Rightarrow> 'w \<Rightarrow> 'a answer \<times> 'w"
    and reconcile :: "'w env \<Rightarrow> key \<Rightarrow> ('w, Result) op"
    and body :: "'w env \<Rightarrow> key \<Rightarrow> 'a \<Rightarrow> ('w, Result) op"
  assumes reads_first: "reconcile env req = with_object kd (get env) req (body env req)"
begin

lemma gone:
  "get env req w = (Inl e, w1) \<Longrightarrow> is_not_found e \<Longrightarrow>
   reconcile env req w = (Inr no_requeue, [GetCall kd req], w1)"
  by (simp add: reads_first with_object_def go_simps)

lemma unreadable:
  "get env req w = (Inl e, w1) \<Longrightarrow> \<not> is_not_found e \<Longrightarrow>
   reconcile env req w = (Inl (Fail e), [GetCall kd req], w1)"
  by (simp add: reads_first with_object_def go_simps)

lemma present:
  "get env req w = (Inr x, w1) \<Longrightarrow>
   reconcile env req w = (case body env req x w1 of (r, cs, w2) \<Rightarrow> (r, GetCall kd req # cs, w2))"
  by (simp add: reads_first with_object_def go_simps split: prod.split)

text \<open>A call other than the first read is a call of the body, on an object that was read.\<close>

lemma call_of_body:
  assumes "c \<in> set (trace (reconcile env req) w)" and "c \<noteq> GetCall kd req"
  shows "\<exists>x w1. get env req w = (Inr x, w1) \<and> c \<in> set (trace (body env req x) w1)"
proof -
  obtain r w1 where g: "get env req w = (r, w1)" by (cases "get env req w")
  show ?thesis
  proof (cases r)
    case (Inl e)
    with assms g show ?thesis by (cases "is_not_found e") (simp_all add: run_defs gone unreadable)
  next
    case (Inr x)
    with assms g show ?thesis by (auto simp: run_defs present split: prod.splits)
  qed
qed

lemma spec_reconcile:
  assumes "P (GetCall kd req)" and "\<And>x. spec P (body env req x) Q S" and "Q no_requeue" and "\<And>e. S (Fail e)"
  shows "spec P (reconcile env req) Q S"
  unfolding reads_first with_object_def
  by (rule spec_bind_any, rule spec_try, rule spec_call)
    (auto simp: assms split: sum.split intro: spec_ret spec_stopI)

lemma atmost_reconcile:
  assumes "\<not> P (GetCall kd req)" and "\<And>x. atmost P n (body env req x)"
  shows "atmost P n (reconcile env req)"
  unfolding reads_first with_object_def
  by (rule atmost_bind_quiet, rule atmost_try, rule atmost_call)
    (auto simp: assms split: sum.split intro: atmost_ret atmost_stop)

end

end
