(* ===== verification/StatusJson.thy ===== *)
theory StatusJson
  imports Services
begin

text \<open>
  The JSON form of a machine's status: the decoders that \<open>json.Unmarshal\<close> derives from the
  struct tags of \<^verbatim>\<open>api/v1beta1/ktmachine_types.go\<close>, used on every server description the
  cloud sends, and the encoders that \<open>json.Marshal\<close> derives from the same tags, used by the
  Kubernetes client to store the status. Every tag of the status has \<open>omitempty\<close>, so a zero
  value is left out of the text and is what decoding leaves when the key is absent.
\<close>

section \<open>Decoders\<close>

definition dec_Links :: "Links decoder" where
  "dec_Links = dec_struct (\<lambda>kvs z. do {
     rel \<leftarrow> dec_field ''rel'' dec_string kvs (li_Rel z);
     href \<leftarrow> dec_field ''href'' dec_string kvs (li_Href z);
     Some \<lparr>li_Rel = rel, li_Href = href\<rparr> })"

definition dec_SecurityGroups :: "SecurityGroups decoder" where
  "dec_SecurityGroups = dec_struct (\<lambda>kvs z. do {
     n \<leftarrow> dec_field ''name'' dec_string kvs (sg_Name z);
     Some \<lparr>sg_Name = n\<rparr> })"

definition dec_PairedPvtNetwork :: "PairedPvtNetwork decoder" where
  "dec_PairedPvtNetwork = dec_struct (\<lambda>kvs z. do {
     n \<leftarrow> dec_field ''networkName'' dec_string kvs (pp_NetworkName z);
     i \<leftarrow> dec_field ''networkID'' dec_string kvs (pp_NetworkID z);
     os \<leftarrow> dec_field ''networkOsID'' dec_string kvs (pp_NetworkOsID z);
     ip \<leftarrow> dec_field ''vmPvtIp'' dec_string kvs (pp_VMPvtIP z);
     Some \<lparr>pp_NetworkName = n, pp_NetworkID = i, pp_NetworkOsID = os, pp_VMPvtIP = ip\<rparr> })"

definition dec_AssignedPublicIps :: "AssignedPublicIps decoder" where
  "dec_AssignedPublicIps = dec_struct (\<lambda>kvs z. do {
     ip \<leftarrow> dec_field ''ip'' dec_string kvs (ap_IP z);
     i \<leftarrow> dec_field ''id'' dec_string kvs (ap_Id z);
     nat_id \<leftarrow> dec_field ''staticNatId'' dec_string kvs (ap_StaticNatId z);
     paired \<leftarrow> dec_field ''pairedPvtNetwork'' dec_PairedPvtNetwork kvs (ap_PairedPvtNetwork z);
     Some \<lparr>ap_IP = ip, ap_Id = i, ap_StaticNatId = nat_id, ap_PairedPvtNetwork = paired\<rparr> })"

definition dec_Address :: "Address decoder" where
  "dec_Address = dec_struct (\<lambda>kvs z. do {
     mac \<leftarrow> dec_field ''OS-EXT-IPS-MAC:mac_addr'' dec_string kvs (ad_MACAddr z);
     t \<leftarrow> dec_field ''OS-EXT-IPS:type'' dec_string kvs (ad_Type z);
     a \<leftarrow> dec_field ''addr'' dec_string kvs (ad_Addr z);
     v \<leftarrow> dec_field ''version'' dec_int kvs (ad_Version z);
     Some \<lparr>ad_MACAddr = mac, ad_Type = t, ad_Addr = a, ad_Version = v\<rparr> })"

definition dec_VolumeAttached :: "VolumeAttached decoder" where
  "dec_VolumeAttached = dec_struct (\<lambda>kvs z. do {
     d \<leftarrow> dec_field ''delete_on_termination'' dec_bool kvs (va_DeleteOnTermination z);
     i \<leftarrow> dec_field ''id'' dec_string kvs (va_ID z);
     Some \<lparr>va_DeleteOnTermination = d, va_ID = i\<rparr> })"

definition dec_Flavor :: "Flavor decoder" where
  "dec_Flavor = dec_struct (\<lambda>kvs z. do {
     disk \<leftarrow> dec_field ''disk'' dec_int kvs (fl_Disk z);
     swap \<leftarrow> dec_field ''swap'' dec_int kvs (fl_Swap z);
     orig \<leftarrow> dec_field ''original_name'' dec_string kvs (fl_Original z);
     extra \<leftarrow> dec_field ''extra_specs'' (dec_map dec_string '''') kvs (fl_ExtraSpecs z);
     eph \<leftarrow> dec_field ''ephemeral'' dec_int kvs (fl_Ephemeral z);
     cpus \<leftarrow> dec_field ''vcpus'' dec_int kvs (fl_VCPUs z);
     ram \<leftarrow> dec_field ''ram'' dec_int kvs (fl_RAM z);
     Some \<lparr>fl_Disk = disk, fl_Swap = swap, fl_Original = orig, fl_ExtraSpecs = extra,
       fl_Ephemeral = eph, fl_VCPUs = cpus, fl_RAM = ram\<rparr> })"

definition dec_ControlPlaneRef :: "ControlPlaneRef decoder" where
  "dec_ControlPlaneRef = dec_struct (\<lambda>kvs z. do {
     t \<leftarrow> dec_field ''type'' dec_string kvs (cr_Type z);
     l \<leftarrow> dec_field ''lastTransactionTime'' dec_string kvs (cr_LastTransactionTime z);
     s \<leftarrow> dec_field ''status'' dec_bool kvs (cr_Status z);
     Some \<lparr>cr_Type = t, cr_LastTransactionTime = l, cr_Status = s\<rparr> })"

definition dec_WorkerRef :: "WorkerRef decoder" where
  "dec_WorkerRef = dec_struct (\<lambda>kvs z. do {
     j \<leftarrow> dec_field ''joinedControlPlane'' dec_bool kvs (wr_JoinedControlPlane z);
     Some \<lparr>wr_JoinedControlPlane = j\<rparr> })"

definition dec_KTMachineStatus :: "KTMachineStatus decoder" where
  "dec_KTMachineStatus = dec_struct (\<lambda>kvs z. do {
     i \<leftarrow> dec_field ''id'' dec_string kvs (st_ID z);
     pass \<leftarrow> dec_field ''adminPass'' dec_string kvs (st_AdminPass z);
     links \<leftarrow> dec_field ''links'' (dec_list dec_Links zero_Links) kvs (st_Links z);
     groups \<leftarrow> dec_field ''securityGroups'' (dec_list dec_SecurityGroups zero_SecurityGroups) kvs (st_SecurityGroups z);
     ips \<leftarrow> dec_field ''AssignedPublicIPs'' (dec_list dec_AssignedPublicIps zero_AssignedPublicIps) kvs (st_AssignedPublicIps z);
     tenant \<leftarrow> dec_field ''tenant_id'' dec_string kvs (st_TenantID z);
     addrs \<leftarrow> dec_field ''addresses'' (dec_map (dec_list dec_Address zero_Address) []) kvs (st_Addresses z);
     task \<leftarrow> dec_field ''OS-EXT-STS:task_state'' (dec_ptr dec_string '''') kvs (st_TaskState z);
     descr \<leftarrow> dec_field ''description'' (dec_ptr dec_string '''') kvs (st_Description z);
     disk \<leftarrow> dec_field ''OS-DCF:diskConfig'' dec_string kvs (st_DiskConfig z);
     certs \<leftarrow> dec_field ''trusted_image_certificates'' (dec_ptr dec_string '''') kvs (st_TrustedImageCerts z);
     az \<leftarrow> dec_field ''OS-EXT-AZ:availability_zone'' dec_string kvs (st_AvailabilityZone z);
     power \<leftarrow> dec_field ''OS-EXT-STS:power_state'' dec_int kvs (st_PowerState z);
     vols \<leftarrow> dec_field ''os-extended-volumes:volumes_attached'' (dec_list dec_VolumeAttached zero_VolumeAttached) kvs (st_VolumesAttached z);
     locked \<leftarrow> dec_field ''locked'' dec_bool kvs (st_Locked z);
     image \<leftarrow> dec_field ''image'' dec_string kvs (st_Image z);
     ip4 \<leftarrow> dec_field ''accessIPv4'' dec_string kvs (st_AccessIPv4 z);
     ip6 \<leftarrow> dec_field ''accessIPv6'' dec_string kvs (st_AccessIPv6 z);
     created \<leftarrow> dec_field ''created'' dec_string kvs (st_Created z);
     host \<leftarrow> dec_field ''hostId'' dec_string kvs (st_HostID z);
     tags \<leftarrow> dec_field ''tags'' (dec_list dec_string '''') kvs (st_Tags z);
     flavor \<leftarrow> dec_field ''flavor'' dec_Flavor kvs (st_Flavor z);
     key_name \<leftarrow> dec_field ''key_name'' dec_string kvs (st_KeyName z);
     vm \<leftarrow> dec_field ''OS-EXT-STS:vm_state'' dec_string kvs (st_VMState z);
     user \<leftarrow> dec_field ''user_id'' dec_string kvs (st_UserID z);
     n \<leftarrow> dec_field ''name'' dec_string kvs (st_Name z);
     prog \<leftarrow> dec_field ''progress'' dec_int kvs (st_Progress z);
     launched \<leftarrow> dec_field ''OS-SRV-USG:launched_at'' dec_string kvs (st_LaunchedAt z);
     upd \<leftarrow> dec_field ''updated'' dec_string kvs (st_Updated z);
     status \<leftarrow> dec_field ''status'' dec_string kvs (st_Status z);
     term_at \<leftarrow> dec_field ''OS-SRV-USG:terminated_at'' (dec_ptr dec_string '''') kvs (st_TerminatedAt z);
     drive \<leftarrow> dec_field ''config_drive'' dec_string kvs (st_ConfigDrive z);
     cp \<leftarrow> dec_field ''controlPlaneRef'' dec_ControlPlaneRef kvs (st_ControlPlaneRef z);
     worker \<leftarrow> dec_field ''workerRef'' dec_WorkerRef kvs (st_WorkerRef z);
     Some \<lparr>st_ID = i, st_AdminPass = pass, st_Links = links, st_SecurityGroups = groups,
       st_AssignedPublicIps = ips, st_TenantID = tenant, st_Addresses = addrs, st_TaskState = task,
       st_Description = descr, st_DiskConfig = disk, st_TrustedImageCerts = certs,
       st_AvailabilityZone = az, st_PowerState = power, st_VolumesAttached = vols, st_Locked = locked,
       st_Image = image, st_AccessIPv4 = ip4, st_AccessIPv6 = ip6, st_Created = created,
       st_HostID = host, st_Tags = tags, st_Flavor = flavor, st_KeyName = key_name, st_VMState = vm,
       st_UserID = user, st_Name = n, st_Progress = prog, st_LaunchedAt = launched, st_Updated = upd,
       st_Status = status, st_TerminatedAt = term_at, st_ConfigDrive = drive,
       st_ControlPlaneRef = cp, st_WorkerRef = worker\<rparr> })"

text \<open>The cloud's answer to a request about one server is an object with the key \<open>server\<close>.\<close>

record ServerResponse =
  sv_Server :: KTMachineStatus

definition dec_ServerResponse :: "ServerResponse decoder" where
  "dec_ServerResponse = dec_struct (\<lambda>kvs z. do {
     s \<leftarrow> dec_field ''server'' dec_KTMachineStatus kvs (sv_Server z);
     Some \<lparr>sv_Server = s\<rparr> })"

definition zero_ServerResponse :: ServerResponse where
  "zero_ServerResponse = \<lparr>sv_Server = zero_KTMachineStatus\<rparr>"

section \<open>Encoders\<close>

definition enc_string :: "string \<Rightarrow> json" where "enc_string s = JStr s"

definition enc_bool :: "bool \<Rightarrow> json" where "enc_bool b = JBool b"

definition enc_int :: "int \<Rightarrow> json" where "enc_int i = JNum (show_int i)"

definition enc_list :: "('a \<Rightarrow> json) \<Rightarrow> 'a list \<Rightarrow> json" where
  "enc_list e xs = JArr (map e xs)"

definition enc_ptr :: "('a \<Rightarrow> json) \<Rightarrow> 'a option \<Rightarrow> json" where
  "enc_ptr e x = (case x of None \<Rightarrow> JNull | Some y \<Rightarrow> e y)"

definition enc_map :: "('a \<Rightarrow> json) \<Rightarrow> (string \<times> 'a) list \<Rightarrow> json" where
  "enc_map e kvs = JObj (map (\<lambda>(k, x). (k, e x)) kvs)"

text \<open>One member of an object: left out when the tag has \<open>omitempty\<close> and the value is empty.
  A struct value is never empty.\<close>

definition omit :: "string \<Rightarrow> bool \<Rightarrow> json \<Rightarrow> (string \<times> json) list" where
  "omit k drop_it j = (if drop_it then [] else [(k, j)])"

definition enc_Links :: "Links \<Rightarrow> json" where
  "enc_Links x = JObj (omit ''rel'' (li_Rel x = []) (enc_string (li_Rel x))
     @ omit ''href'' (li_Href x = []) (enc_string (li_Href x)))"

definition enc_SecurityGroups :: "SecurityGroups \<Rightarrow> json" where
  "enc_SecurityGroups x = JObj (omit ''name'' (sg_Name x = []) (enc_string (sg_Name x)))"

definition enc_PairedPvtNetwork :: "PairedPvtNetwork \<Rightarrow> json" where
  "enc_PairedPvtNetwork x = JObj (
       omit ''networkName'' (pp_NetworkName x = []) (enc_string (pp_NetworkName x))
     @ omit ''networkID'' (pp_NetworkID x = []) (enc_string (pp_NetworkID x))
     @ omit ''networkOsID'' (pp_NetworkOsID x = []) (enc_string (pp_NetworkOsID x))
     @ omit ''vmPvtIp'' (pp_VMPvtIP x = []) (enc_string (pp_VMPvtIP x)))"

definition enc_AssignedPublicIps :: "AssignedPublicIps \<Rightarrow> json" where
  "enc_AssignedPublicIps x = JObj (
       omit ''ip'' (ap_IP x = []) (enc_string (ap_IP x))
     @ omit ''id'' (ap_Id x = []) (enc_string (ap_Id x))
     @ omit ''staticNatId'' (ap_StaticNatId x = []) (enc_string (ap_StaticNatId x))
     @ omit ''pairedPvtNetwork'' False (enc_PairedPvtNetwork (ap_PairedPvtNetwork x)))"

definition enc_Address :: "Address \<Rightarrow> json" where
  "enc_Address x = JObj (
       omit ''OS-EXT-IPS-MAC:mac_addr'' (ad_MACAddr x = []) (enc_string (ad_MACAddr x))
     @ omit ''OS-EXT-IPS:type'' (ad_Type x = []) (enc_string (ad_Type x))
     @ omit ''addr'' (ad_Addr x = []) (enc_string (ad_Addr x))
     @ omit ''version'' (ad_Version x = 0) (enc_int (ad_Version x)))"

definition enc_VolumeAttached :: "VolumeAttached \<Rightarrow> json" where
  "enc_VolumeAttached x = JObj (
       omit ''delete_on_termination'' (\<not> va_DeleteOnTermination x) (enc_bool (va_DeleteOnTermination x))
     @ omit ''id'' (va_ID x = []) (enc_string (va_ID x)))"

definition enc_Flavor :: "Flavor \<Rightarrow> json" where
  "enc_Flavor x = JObj (
       omit ''disk'' (fl_Disk x = 0) (enc_int (fl_Disk x))
     @ omit ''swap'' (fl_Swap x = 0) (enc_int (fl_Swap x))
     @ omit ''original_name'' (fl_Original x = []) (enc_string (fl_Original x))
     @ omit ''extra_specs'' (fl_ExtraSpecs x = []) (enc_map enc_string (fl_ExtraSpecs x))
     @ omit ''ephemeral'' (fl_Ephemeral x = 0) (enc_int (fl_Ephemeral x))
     @ omit ''vcpus'' (fl_VCPUs x = 0) (enc_int (fl_VCPUs x))
     @ omit ''ram'' (fl_RAM x = 0) (enc_int (fl_RAM x)))"

definition enc_ControlPlaneRef :: "ControlPlaneRef \<Rightarrow> json" where
  "enc_ControlPlaneRef x = JObj (
       omit ''type'' (cr_Type x = []) (enc_string (cr_Type x))
     @ omit ''lastTransactionTime'' (cr_LastTransactionTime x = []) (enc_string (cr_LastTransactionTime x))
     @ omit ''status'' (\<not> cr_Status x) (enc_bool (cr_Status x)))"

definition enc_WorkerRef :: "WorkerRef \<Rightarrow> json" where
  "enc_WorkerRef x = JObj (omit ''joinedControlPlane'' (\<not> wr_JoinedControlPlane x) (enc_bool (wr_JoinedControlPlane x)))"

text \<open>The members of a status in the order of the struct: key, whether the member is left out,
  and its value.\<close>

definition status_fields :: "KTMachineStatus \<Rightarrow> (string \<times> bool \<times> json) list" where
  "status_fields x = [
     (''id'', st_ID x = [], enc_string (st_ID x)),
     (''adminPass'', st_AdminPass x = [], enc_string (st_AdminPass x)),
     (''links'', st_Links x = [], enc_list enc_Links (st_Links x)),
     (''securityGroups'', st_SecurityGroups x = [], enc_list enc_SecurityGroups (st_SecurityGroups x)),
     (''AssignedPublicIPs'', st_AssignedPublicIps x = [], enc_list enc_AssignedPublicIps (st_AssignedPublicIps x)),
     (''tenant_id'', st_TenantID x = [], enc_string (st_TenantID x)),
     (''addresses'', st_Addresses x = [], enc_map (enc_list enc_Address) (st_Addresses x)),
     (''OS-EXT-STS:task_state'', st_TaskState x = None, enc_ptr enc_string (st_TaskState x)),
     (''description'', st_Description x = None, enc_ptr enc_string (st_Description x)),
     (''OS-DCF:diskConfig'', st_DiskConfig x = [], enc_string (st_DiskConfig x)),
     (''trusted_image_certificates'', st_TrustedImageCerts x = None, enc_ptr enc_string (st_TrustedImageCerts x)),
     (''OS-EXT-AZ:availability_zone'', st_AvailabilityZone x = [], enc_string (st_AvailabilityZone x)),
     (''OS-EXT-STS:power_state'', st_PowerState x = 0, enc_int (st_PowerState x)),
     (''os-extended-volumes:volumes_attached'', st_VolumesAttached x = [], enc_list enc_VolumeAttached (st_VolumesAttached x)),
     (''locked'', \<not> st_Locked x, enc_bool (st_Locked x)),
     (''image'', st_Image x = [], enc_string (st_Image x)),
     (''accessIPv4'', st_AccessIPv4 x = [], enc_string (st_AccessIPv4 x)),
     (''accessIPv6'', st_AccessIPv6 x = [], enc_string (st_AccessIPv6 x)),
     (''created'', st_Created x = [], enc_string (st_Created x)),
     (''hostId'', st_HostID x = [], enc_string (st_HostID x)),
     (''tags'', st_Tags x = [], enc_list enc_string (st_Tags x)),
     (''flavor'', False, enc_Flavor (st_Flavor x)),
     (''key_name'', st_KeyName x = [], enc_string (st_KeyName x)),
     (''OS-EXT-STS:vm_state'', st_VMState x = [], enc_string (st_VMState x)),
     (''user_id'', st_UserID x = [], enc_string (st_UserID x)),
     (''name'', st_Name x = [], enc_string (st_Name x)),
     (''progress'', st_Progress x = 0, enc_int (st_Progress x)),
     (''OS-SRV-USG:launched_at'', st_LaunchedAt x = [], enc_string (st_LaunchedAt x)),
     (''updated'', st_Updated x = [], enc_string (st_Updated x)),
     (''status'', st_Status x = [], enc_string (st_Status x)),
     (''OS-SRV-USG:terminated_at'', st_TerminatedAt x = None, enc_ptr enc_string (st_TerminatedAt x)),
     (''config_drive'', st_ConfigDrive x = [], enc_string (st_ConfigDrive x)),
     (''controlPlaneRef'', False, enc_ControlPlaneRef (st_ControlPlaneRef x)),
     (''workerRef'', False, enc_WorkerRef (st_WorkerRef x))
   ]"

definition members :: "(string \<times> bool \<times> json) list \<Rightarrow> (string \<times> json) list" where
  "members fs = concat (map (\<lambda>(k, b, j). omit k b j) fs)"

definition enc_KTMachineStatus :: "KTMachineStatus \<Rightarrow> json" where
  "enc_KTMachineStatus x = JObj (members (status_fields x))"

section \<open>What is encoded is decoded\<close>

text \<open>
  The contract of an encoder and a decoder of one Go type: decoding what was encoded, into the
  zero value, gives the value back, and the text written for it is a JSON document. The
  composite types (slices, pointers, maps) and the text form follow inside the locale.
\<close>

locale codec =
  fixes enc :: "'a \<Rightarrow> json" and dec :: "'a decoder" and zero :: 'a and ok :: "'a \<Rightarrow> bool"
  assumes dec_enc: "ok x \<Longrightarrow> dec (enc x) zero = Some x"
    and enc_not_null: "enc x \<noteq> JNull"
    and enc_wf: "wf_json (enc x)"
begin

lemma list_wf: "wf_json (enc_list enc xs)"
  by (simp add: enc_list_def list_all_iff enc_wf)

lemma ptr_wf: "wf_json (enc_ptr enc p)"
  by (simp add: enc_ptr_def enc_wf split: option.split)

lemma map_wf: "wf_json (enc_map enc kvs)"
  by (auto simp: enc_map_def list_all_iff enc_wf)

lemma dec_elems_enc: "list_all ok xs \<Longrightarrow> dec_elems dec zero (map enc xs) = Some xs"
  by (induction xs) (simp_all add: dec_enc)

lemma dec_list_enc: "list_all ok xs \<Longrightarrow> dec_list dec zero (enc_list enc xs) ys = Some xs"
  by (simp add: dec_list_def enc_list_def dec_elems_enc)

lemma dec_ptr_enc: "(\<And>x. p = Some x \<Longrightarrow> ok x) \<Longrightarrow> dec_ptr dec zero (enc_ptr enc p) None = Some p"
proof (cases p)
  case None
  then show ?thesis by (simp add: dec_ptr_def enc_ptr_def)
next
  case (Some y)
  assume "\<And>x. p = Some x \<Longrightarrow> ok x"
  with Some have "dec (enc y) zero = Some y" by (simp add: dec_enc)
  with Some enc_not_null [of y] show ?thesis by (cases "enc y") (simp_all add: dec_ptr_def enc_ptr_def)
qed

lemma dec_entries_enc:
  "list_all (\<lambda>(k, x). ok x) kvs \<Longrightarrow> distinct (map fst (done @ kvs)) \<Longrightarrow>
   dec_entries dec zero (map (\<lambda>(k, x). (k, enc x)) kvs) done = Some (done @ kvs)"
proof (induction kvs arbitrary: "done")
  case Nil
  then show ?case by simp
next
  case (Cons kv kvs)
  obtain k x where kv: "kv = (k, x)" by (cases kv)
  have "k \<notin> fst ` set done" using Cons.prems(2) kv by auto
  then have "AList.update k x done = done @ [(k, x)]"
    by (induction "done") auto
  with Cons kv show ?case by (simp add: dec_enc)
qed

lemma dec_map_enc:
  "list_all (\<lambda>(k, x). ok x) kvs \<Longrightarrow> distinct (map fst kvs) \<Longrightarrow> dec_map dec zero (enc_map enc kvs) [] = Some kvs"
  using dec_entries_enc [of kvs "[]"] by (simp add: dec_map_def enc_map_def)

end

context codec
begin

lemma unmarshal_marshal: "ok x \<Longrightarrow> json_unmarshal dec zero (print_json (enc x)) = Inr x"
  by (simp add: json_unmarshal_def value_at_print [of _ "[]", simplified] json_parse_value_at enc_wf dec_enc)

end

lemma omit_wf [simp]: "list_all (\<lambda>(k, j). wf_json j) (omit k b j) \<longleftrightarrow> b \<or> wf_json j"
  by (simp add: omit_def)

lemma valid_show_nat: "valid_number (show_nat n)"
proof -
  obtain c cs where s: "show_nat n = c # cs" by (cases "show_nat n") simp_all
  have "list_all is_digit (c # cs)" using show_nat_digits [of n] s by (simp add: list_all_iff)
  moreover have "cs = []" if "c = CHR ''0''"
    using show_nat_hd_zero [of n] that s by (simp add: show_nat.simps [of 0])
  moreover have "c \<noteq> CHR ''-''" using calculation(1) by (auto simp: is_digit_def)
  ultimately show ?thesis
    by (auto simp: s valid_number_def valid_frac_def valid_exp_def list_all_iff dropWhile_eq_Nil_conv [THEN iffD2])
qed

lemma valid_show_int: "valid_number (show_int i)"
proof -
  have "valid_number (CHR ''-'' # show_nat n)" for n
  proof -
    obtain c cs where s: "show_nat n = c # cs" by (cases "show_nat n") simp_all
    then have "c \<noteq> CHR ''-''" using show_nat_digits [of n] by (auto simp: is_digit_def)
    with valid_show_nat [of n] s show ?thesis by (simp add: valid_number_def)
  qed
  then show ?thesis by (simp add: show_int_def valid_show_nat)
qed

lemma dec_field_omit [dec_simps]:
  "dec_field n d (omit k b j @ rest) cur =
     (if to_lower k = to_lower n \<and> \<not> b then Option.bind (d j cur) (dec_field n d rest)
      else dec_field n d rest cur)"
  by (simp add: omit_def)

lemma dec_field_omit_last [dec_simps]:
  "dec_field n d (omit k b j) cur = (if to_lower k = to_lower n \<and> \<not> b then d j cur else Some cur)"
  by (cases "d j cur") (simp_all add: omit_def)

lemma dec_struct_JObj [dec_simps]: "dec_struct f (JObj kvs) z = f kvs z"
  by (simp add: dec_struct_def)

definition int64 :: "int \<Rightarrow> bool" where
  "int64 i \<longleftrightarrow> - (2 ^ 63) \<le> i \<and> i < 2 ^ 63"

lemma show_nat_all_digits: "list_all is_digit (show_nat n)"
  using show_nat_digits [of n] by (simp add: list_all_iff)

lemma parse_show_int: "int64 i \<Longrightarrow> parse_int (show_int i) = Some i"
proof (cases "i < 0")
  case True
  assume "int64 i"
  with True show ?thesis
    by (simp add: parse_int_def show_int_def Let_def show_nat_all_digits read_nat_show_nat int64_def)
next
  case False
  assume "int64 i"
  obtain c cs where s: "show_nat (nat i) = c # cs" by (cases "show_nat (nat i)") simp_all
  then have "is_digit c" using show_nat_digits [of "nat i"] by simp
  then have "c \<noteq> CHR ''-''" by (auto simp: is_digit_def)
  with False s \<open>int64 i\<close> show ?thesis
    using show_nat_all_digits [of "nat i"] read_nat_show_nat [of "nat i"]
    by (simp add: parse_int_def show_int_def Let_def int64_def)
qed

interpretation string_codec: codec enc_string dec_string "''''" "\<lambda>_. True"
  by unfold_locales (simp_all add: enc_string_def dec_string_def)

interpretation bool_codec: codec enc_bool dec_bool False "\<lambda>_. True"
  by unfold_locales (simp_all add: enc_bool_def dec_bool_def)

interpretation int_codec: codec enc_int dec_int 0 int64
  by unfold_locales (simp_all add: enc_int_def dec_int_def parse_show_int valid_show_int)

lemma keys_lower [dec_simps]:
  "to_lower ''rel'' = ''rel''" "to_lower ''href'' = ''href''" "to_lower ''name'' = ''name''"
  "to_lower ''networkName'' = ''networkname''" "to_lower ''networkID'' = ''networkid''"
  "to_lower ''networkOsID'' = ''networkosid''" "to_lower ''vmPvtIp'' = ''vmpvtip''"
  "to_lower ''ip'' = ''ip''" "to_lower ''id'' = ''id''" "to_lower ''staticNatId'' = ''staticnatid''"
  "to_lower ''pairedPvtNetwork'' = ''pairedpvtnetwork''"
  "to_lower ''OS-EXT-IPS-MAC:mac_addr'' = ''os-ext-ips-mac:mac_addr''"
  "to_lower ''OS-EXT-IPS:type'' = ''os-ext-ips:type''" "to_lower ''addr'' = ''addr''"
  "to_lower ''version'' = ''version''" "to_lower ''delete_on_termination'' = ''delete_on_termination''"
  "to_lower ''disk'' = ''disk''" "to_lower ''swap'' = ''swap''" "to_lower ''original_name'' = ''original_name''"
  "to_lower ''extra_specs'' = ''extra_specs''" "to_lower ''ephemeral'' = ''ephemeral''"
  "to_lower ''vcpus'' = ''vcpus''" "to_lower ''ram'' = ''ram''" "to_lower ''type'' = ''type''"
  "to_lower ''lastTransactionTime'' = ''lasttransactiontime''" "to_lower ''status'' = ''status''"
  "to_lower ''joinedControlPlane'' = ''joinedcontrolplane''" "to_lower ''adminPass'' = ''adminpass''"
  "to_lower ''links'' = ''links''" "to_lower ''securityGroups'' = ''securitygroups''"
  "to_lower ''AssignedPublicIPs'' = ''assignedpublicips''" "to_lower ''tenant_id'' = ''tenant_id''"
  "to_lower ''addresses'' = ''addresses''" "to_lower ''OS-EXT-STS:task_state'' = ''os-ext-sts:task_state''"
  "to_lower ''description'' = ''description''" "to_lower ''OS-DCF:diskConfig'' = ''os-dcf:diskconfig''"
  "to_lower ''trusted_image_certificates'' = ''trusted_image_certificates''"
  "to_lower ''OS-EXT-AZ:availability_zone'' = ''os-ext-az:availability_zone''"
  "to_lower ''OS-EXT-STS:power_state'' = ''os-ext-sts:power_state''"
  "to_lower ''os-extended-volumes:volumes_attached'' = ''os-extended-volumes:volumes_attached''"
  "to_lower ''locked'' = ''locked''" "to_lower ''image'' = ''image''" "to_lower ''accessIPv4'' = ''accessipv4''"
  "to_lower ''accessIPv6'' = ''accessipv6''" "to_lower ''created'' = ''created''" "to_lower ''hostId'' = ''hostid''"
  "to_lower ''tags'' = ''tags''" "to_lower ''flavor'' = ''flavor''" "to_lower ''key_name'' = ''key_name''"
  "to_lower ''OS-EXT-STS:vm_state'' = ''os-ext-sts:vm_state''" "to_lower ''user_id'' = ''user_id''"
  "to_lower ''progress'' = ''progress''" "to_lower ''OS-SRV-USG:launched_at'' = ''os-srv-usg:launched_at''"
  "to_lower ''updated'' = ''updated''" "to_lower ''OS-SRV-USG:terminated_at'' = ''os-srv-usg:terminated_at''"
  "to_lower ''config_drive'' = ''config_drive''" "to_lower ''controlPlaneRef'' = ''controlplaneref''"
  "to_lower ''workerRef'' = ''workerref''" "to_lower ''server'' = ''server''"
  by (simp_all add: to_lower_def to_lower_char_def char_of_def bit_0)

lemma if_zero [dec_simps]: "(if x = z then Some z else Some x) = Some x" "(if \<not> b then Some False else Some b) = Some b"
  by simp_all

interpretation links_codec: codec enc_Links dec_Links zero_Links "\<lambda>_. True"
  by unfold_locales
    (simp_all add: enc_Links_def dec_Links_def zero_Links_def dec_simps string_codec.dec_enc string_codec.enc_wf cong: option.case_cong)

interpretation groups_codec: codec enc_SecurityGroups dec_SecurityGroups zero_SecurityGroups "\<lambda>_. True"
  by unfold_locales
    (simp_all add: enc_SecurityGroups_def dec_SecurityGroups_def zero_SecurityGroups_def dec_simps
      string_codec.dec_enc string_codec.enc_wf)

interpretation paired_codec: codec enc_PairedPvtNetwork dec_PairedPvtNetwork zero_PairedPvtNetwork "\<lambda>_. True"
  by unfold_locales
    (simp_all add: enc_PairedPvtNetwork_def dec_PairedPvtNetwork_def zero_PairedPvtNetwork_def dec_simps
      string_codec.dec_enc string_codec.enc_wf)

interpretation ips_codec: codec enc_AssignedPublicIps dec_AssignedPublicIps zero_AssignedPublicIps "\<lambda>_. True"
  by unfold_locales
    (simp_all add: enc_AssignedPublicIps_def dec_AssignedPublicIps_def zero_AssignedPublicIps_def dec_simps
      string_codec.dec_enc string_codec.enc_wf paired_codec.dec_enc paired_codec.enc_wf)

interpretation address_codec: codec enc_Address dec_Address zero_Address "\<lambda>a. int64 (ad_Version a)"
  by unfold_locales
    (simp_all add: enc_Address_def dec_Address_def zero_Address_def dec_simps
      string_codec.dec_enc string_codec.enc_wf int_codec.dec_enc int_codec.enc_wf)

interpretation volume_codec: codec enc_VolumeAttached dec_VolumeAttached zero_VolumeAttached "\<lambda>_. True"
  by unfold_locales
    (simp_all add: enc_VolumeAttached_def dec_VolumeAttached_def zero_VolumeAttached_def dec_simps
      string_codec.dec_enc string_codec.enc_wf bool_codec.dec_enc bool_codec.enc_wf)

definition flavor_ok :: "Flavor \<Rightarrow> bool" where
  "flavor_ok f \<longleftrightarrow> int64 (fl_Disk f) \<and> int64 (fl_Swap f) \<and> int64 (fl_Ephemeral f) \<and> int64 (fl_VCPUs f)
     \<and> int64 (fl_RAM f) \<and> distinct (map fst (fl_ExtraSpecs f))"

lemma list_all_any [simp]: "list_all (\<lambda>_. True) xs" "list_all (\<lambda>(k, x). True) ys"
  by (simp_all add: list_all_iff)

interpretation flavor_codec: codec enc_Flavor dec_Flavor zero_Flavor flavor_ok
  by unfold_locales
    (simp_all add: enc_Flavor_def dec_Flavor_def zero_Flavor_def dec_simps flavor_ok_def
      string_codec.dec_enc string_codec.enc_wf int_codec.dec_enc int_codec.enc_wf string_codec.dec_map_enc string_codec.map_wf)

interpretation cpref_codec: codec enc_ControlPlaneRef dec_ControlPlaneRef zero_ControlPlaneRef "\<lambda>_. True"
  by unfold_locales
    (simp_all add: enc_ControlPlaneRef_def dec_ControlPlaneRef_def zero_ControlPlaneRef_def dec_simps
      string_codec.dec_enc string_codec.enc_wf bool_codec.dec_enc bool_codec.enc_wf)

interpretation worker_codec: codec enc_WorkerRef dec_WorkerRef zero_WorkerRef "\<lambda>_. True"
  by unfold_locales
    (simp_all add: enc_WorkerRef_def dec_WorkerRef_def zero_WorkerRef_def dec_simps bool_codec.dec_enc bool_codec.enc_wf)

text \<open>The values a status can hold in Go and in the API: 64-bit integers, maps with one entry
  per key.\<close>

definition machine_status_ok :: "KTMachineStatus \<Rightarrow> bool" where
  "machine_status_ok x \<longleftrightarrow> int64 (st_PowerState x) \<and> int64 (st_Progress x) \<and> flavor_ok (st_Flavor x)
     \<and> distinct (map fst (st_Addresses x))
     \<and> list_all (\<lambda>(k, as). list_all (\<lambda>a. int64 (ad_Version a)) as) (st_Addresses x)"

interpretation address_list_codec:
  codec "enc_list enc_Address" "dec_list dec_Address zero_Address" "[]" "list_all (\<lambda>a. int64 (ad_Version a))"
  by unfold_locales (simp_all add: address_codec.dec_list_enc address_codec.list_wf, simp add: enc_list_def)

lemmas codec_facts = string_codec.dec_enc int_codec.dec_enc bool_codec.dec_enc
  links_codec.dec_list_enc groups_codec.dec_list_enc ips_codec.dec_list_enc volume_codec.dec_list_enc
  string_codec.dec_list_enc string_codec.dec_ptr_enc flavor_codec.dec_enc cpref_codec.dec_enc
  worker_codec.dec_enc address_list_codec.dec_map_enc

lemma dec_field_members:
  "distinct (map (\<lambda>f. to_lower (fst f)) fs) \<Longrightarrow>
   dec_field n d (members fs) cur =
     (case find (\<lambda>f. to_lower (fst f) = to_lower n) fs of
        None \<Rightarrow> Some cur
      | Some (k, b, j) \<Rightarrow> if b then Some cur else d j cur)"
proof (induction fs)
  case Nil
  then show ?case by (simp add: members_def)
next
  case (Cons f fs)
  obtain k b j where f: "f = (k, b, j)" by (cases f)
  have "dec_field n d (members fs) y = Some y" if "to_lower k = to_lower n" for y
  proof -
    have "find (\<lambda>f. to_lower (fst f) = to_lower n) fs = None"
      using Cons.prems that f by (force simp: find_None_iff)
    then show ?thesis using that Cons by (induction fs arbitrary: y) (auto simp: members_def omit_def split: if_splits)
  qed
  with Cons f show ?case
    by (cases "d j cur") (auto simp: members_def omit_def)
qed

lemma status_keys: "distinct (map (\<lambda>f. to_lower (fst f)) (status_fields x))"
  by (simp add: status_fields_def dec_simps)

lemma status_lookup:
  "dec_field ''id'' d (members (status_fields x)) zd = (if st_ID x = [] then Some zd else d (enc_string (st_ID x)) zd)"
  "dec_field ''adminPass'' d (members (status_fields x)) zd = (if st_AdminPass x = [] then Some zd else d (enc_string (st_AdminPass x)) zd)"
  "dec_field ''links'' d1 (members (status_fields x)) zd1 = (if st_Links x = [] then Some zd1 else d1 (enc_list enc_Links (st_Links x)) zd1)"
  "dec_field ''securityGroups'' d2 (members (status_fields x)) zd2 = (if st_SecurityGroups x = [] then Some zd2 else d2 (enc_list enc_SecurityGroups (st_SecurityGroups x)) zd2)"
  "dec_field ''AssignedPublicIPs'' d3 (members (status_fields x)) zd3 = (if st_AssignedPublicIps x = [] then Some zd3 else d3 (enc_list enc_AssignedPublicIps (st_AssignedPublicIps x)) zd3)"
  "dec_field ''tenant_id'' d (members (status_fields x)) zd = (if st_TenantID x = [] then Some zd else d (enc_string (st_TenantID x)) zd)"
  "dec_field ''addresses'' d4 (members (status_fields x)) zd4 = (if st_Addresses x = [] then Some zd4 else d4 (enc_map (enc_list enc_Address) (st_Addresses x)) zd4)"
  "dec_field ''OS-EXT-STS:task_state'' dp (members (status_fields x)) zdp = (if st_TaskState x = None then Some zdp else dp (enc_ptr enc_string (st_TaskState x)) zdp)"
  "dec_field ''description'' dp (members (status_fields x)) zdp = (if st_Description x = None then Some zdp else dp (enc_ptr enc_string (st_Description x)) zdp)"
  "dec_field ''OS-DCF:diskConfig'' d (members (status_fields x)) zd = (if st_DiskConfig x = [] then Some zd else d (enc_string (st_DiskConfig x)) zd)"
  "dec_field ''trusted_image_certificates'' dp (members (status_fields x)) zdp = (if st_TrustedImageCerts x = None then Some zdp else dp (enc_ptr enc_string (st_TrustedImageCerts x)) zdp)"
  "dec_field ''OS-EXT-AZ:availability_zone'' d (members (status_fields x)) zd = (if st_AvailabilityZone x = [] then Some zd else d (enc_string (st_AvailabilityZone x)) zd)"
  "dec_field ''OS-EXT-STS:power_state'' di (members (status_fields x)) zdi = (if st_PowerState x = 0 then Some zdi else di (enc_int (st_PowerState x)) zdi)"
  "dec_field ''os-extended-volumes:volumes_attached'' d5 (members (status_fields x)) zd5 = (if st_VolumesAttached x = [] then Some zd5 else d5 (enc_list enc_VolumeAttached (st_VolumesAttached x)) zd5)"
  "dec_field ''locked'' db (members (status_fields x)) zdb = (if \<not> st_Locked x then Some zdb else db (enc_bool (st_Locked x)) zdb)"
  "dec_field ''image'' d (members (status_fields x)) zd = (if st_Image x = [] then Some zd else d (enc_string (st_Image x)) zd)"
  "dec_field ''accessIPv4'' d (members (status_fields x)) zd = (if st_AccessIPv4 x = [] then Some zd else d (enc_string (st_AccessIPv4 x)) zd)"
  "dec_field ''accessIPv6'' d (members (status_fields x)) zd = (if st_AccessIPv6 x = [] then Some zd else d (enc_string (st_AccessIPv6 x)) zd)"
  "dec_field ''created'' d (members (status_fields x)) zd = (if st_Created x = [] then Some zd else d (enc_string (st_Created x)) zd)"
  "dec_field ''hostId'' d (members (status_fields x)) zd = (if st_HostID x = [] then Some zd else d (enc_string (st_HostID x)) zd)"
  "dec_field ''tags'' d6 (members (status_fields x)) zd6 = (if st_Tags x = [] then Some zd6 else d6 (enc_list enc_string (st_Tags x)) zd6)"
  "dec_field ''flavor'' d7 (members (status_fields x)) zd7 = (d7 (enc_Flavor (st_Flavor x)) zd7)"
  "dec_field ''key_name'' d (members (status_fields x)) zd = (if st_KeyName x = [] then Some zd else d (enc_string (st_KeyName x)) zd)"
  "dec_field ''OS-EXT-STS:vm_state'' d (members (status_fields x)) zd = (if st_VMState x = [] then Some zd else d (enc_string (st_VMState x)) zd)"
  "dec_field ''user_id'' d (members (status_fields x)) zd = (if st_UserID x = [] then Some zd else d (enc_string (st_UserID x)) zd)"
  "dec_field ''name'' d (members (status_fields x)) zd = (if st_Name x = [] then Some zd else d (enc_string (st_Name x)) zd)"
  "dec_field ''progress'' di (members (status_fields x)) zdi = (if st_Progress x = 0 then Some zdi else di (enc_int (st_Progress x)) zdi)"
  "dec_field ''OS-SRV-USG:launched_at'' d (members (status_fields x)) zd = (if st_LaunchedAt x = [] then Some zd else d (enc_string (st_LaunchedAt x)) zd)"
  "dec_field ''updated'' d (members (status_fields x)) zd = (if st_Updated x = [] then Some zd else d (enc_string (st_Updated x)) zd)"
  "dec_field ''status'' d (members (status_fields x)) zd = (if st_Status x = [] then Some zd else d (enc_string (st_Status x)) zd)"
  "dec_field ''OS-SRV-USG:terminated_at'' dp (members (status_fields x)) zdp = (if st_TerminatedAt x = None then Some zdp else dp (enc_ptr enc_string (st_TerminatedAt x)) zdp)"
  "dec_field ''config_drive'' d (members (status_fields x)) zd = (if st_ConfigDrive x = [] then Some zd else d (enc_string (st_ConfigDrive x)) zd)"
  "dec_field ''controlPlaneRef'' d8 (members (status_fields x)) zd8 = (d8 (enc_ControlPlaneRef (st_ControlPlaneRef x)) zd8)"
  "dec_field ''workerRef'' d9 (members (status_fields x)) zd9 = (d9 (enc_WorkerRef (st_WorkerRef x)) zd9)"
  by (subst dec_field_members [OF status_keys], simp add: status_fields_def dec_simps)+

lemma status_decode_fields:
  assumes "machine_status_ok x"
  shows
    "dec_field ''id'' dec_string (members (status_fields x)) (st_ID zero_KTMachineStatus) = Some (st_ID x)"
    "dec_field ''adminPass'' dec_string (members (status_fields x)) (st_AdminPass zero_KTMachineStatus) = Some (st_AdminPass x)"
    "dec_field ''links'' (dec_list dec_Links zero_Links) (members (status_fields x)) (st_Links zero_KTMachineStatus) = Some (st_Links x)"
    "dec_field ''securityGroups'' (dec_list dec_SecurityGroups zero_SecurityGroups) (members (status_fields x)) (st_SecurityGroups zero_KTMachineStatus) = Some (st_SecurityGroups x)"
    "dec_field ''AssignedPublicIPs'' (dec_list dec_AssignedPublicIps zero_AssignedPublicIps) (members (status_fields x)) (st_AssignedPublicIps zero_KTMachineStatus) = Some (st_AssignedPublicIps x)"
    "dec_field ''tenant_id'' dec_string (members (status_fields x)) (st_TenantID zero_KTMachineStatus) = Some (st_TenantID x)"
    "dec_field ''addresses'' (dec_map (dec_list dec_Address zero_Address) []) (members (status_fields x)) (st_Addresses zero_KTMachineStatus) = Some (st_Addresses x)"
    "dec_field ''OS-EXT-STS:task_state'' (dec_ptr dec_string '''') (members (status_fields x)) (st_TaskState zero_KTMachineStatus) = Some (st_TaskState x)"
    "dec_field ''description'' (dec_ptr dec_string '''') (members (status_fields x)) (st_Description zero_KTMachineStatus) = Some (st_Description x)"
    "dec_field ''OS-DCF:diskConfig'' dec_string (members (status_fields x)) (st_DiskConfig zero_KTMachineStatus) = Some (st_DiskConfig x)"
    "dec_field ''trusted_image_certificates'' (dec_ptr dec_string '''') (members (status_fields x)) (st_TrustedImageCerts zero_KTMachineStatus) = Some (st_TrustedImageCerts x)"
    "dec_field ''OS-EXT-AZ:availability_zone'' dec_string (members (status_fields x)) (st_AvailabilityZone zero_KTMachineStatus) = Some (st_AvailabilityZone x)"
    "dec_field ''OS-EXT-STS:power_state'' dec_int (members (status_fields x)) (st_PowerState zero_KTMachineStatus) = Some (st_PowerState x)"
    "dec_field ''os-extended-volumes:volumes_attached'' (dec_list dec_VolumeAttached zero_VolumeAttached) (members (status_fields x)) (st_VolumesAttached zero_KTMachineStatus) = Some (st_VolumesAttached x)"
    "dec_field ''locked'' dec_bool (members (status_fields x)) (st_Locked zero_KTMachineStatus) = Some (st_Locked x)"
    "dec_field ''image'' dec_string (members (status_fields x)) (st_Image zero_KTMachineStatus) = Some (st_Image x)"
    "dec_field ''accessIPv4'' dec_string (members (status_fields x)) (st_AccessIPv4 zero_KTMachineStatus) = Some (st_AccessIPv4 x)"
    "dec_field ''accessIPv6'' dec_string (members (status_fields x)) (st_AccessIPv6 zero_KTMachineStatus) = Some (st_AccessIPv6 x)"
    "dec_field ''created'' dec_string (members (status_fields x)) (st_Created zero_KTMachineStatus) = Some (st_Created x)"
    "dec_field ''hostId'' dec_string (members (status_fields x)) (st_HostID zero_KTMachineStatus) = Some (st_HostID x)"
    "dec_field ''tags'' (dec_list dec_string '''') (members (status_fields x)) (st_Tags zero_KTMachineStatus) = Some (st_Tags x)"
    "dec_field ''flavor'' dec_Flavor (members (status_fields x)) (st_Flavor zero_KTMachineStatus) = Some (st_Flavor x)"
    "dec_field ''key_name'' dec_string (members (status_fields x)) (st_KeyName zero_KTMachineStatus) = Some (st_KeyName x)"
    "dec_field ''OS-EXT-STS:vm_state'' dec_string (members (status_fields x)) (st_VMState zero_KTMachineStatus) = Some (st_VMState x)"
    "dec_field ''user_id'' dec_string (members (status_fields x)) (st_UserID zero_KTMachineStatus) = Some (st_UserID x)"
    "dec_field ''name'' dec_string (members (status_fields x)) (st_Name zero_KTMachineStatus) = Some (st_Name x)"
    "dec_field ''progress'' dec_int (members (status_fields x)) (st_Progress zero_KTMachineStatus) = Some (st_Progress x)"
    "dec_field ''OS-SRV-USG:launched_at'' dec_string (members (status_fields x)) (st_LaunchedAt zero_KTMachineStatus) = Some (st_LaunchedAt x)"
    "dec_field ''updated'' dec_string (members (status_fields x)) (st_Updated zero_KTMachineStatus) = Some (st_Updated x)"
    "dec_field ''status'' dec_string (members (status_fields x)) (st_Status zero_KTMachineStatus) = Some (st_Status x)"
    "dec_field ''OS-SRV-USG:terminated_at'' (dec_ptr dec_string '''') (members (status_fields x)) (st_TerminatedAt zero_KTMachineStatus) = Some (st_TerminatedAt x)"
    "dec_field ''config_drive'' dec_string (members (status_fields x)) (st_ConfigDrive zero_KTMachineStatus) = Some (st_ConfigDrive x)"
    "dec_field ''controlPlaneRef'' dec_ControlPlaneRef (members (status_fields x)) (st_ControlPlaneRef zero_KTMachineStatus) = Some (st_ControlPlaneRef x)"
    "dec_field ''workerRef'' dec_WorkerRef (members (status_fields x)) (st_WorkerRef zero_KTMachineStatus) = Some (st_WorkerRef x)"
  using assms
  by (simp_all add: status_lookup zero_KTMachineStatus_def machine_status_ok_def if_zero codec_facts)

lemma status_roundtrip:
  assumes "machine_status_ok x"
  shows "dec_KTMachineStatus (enc_KTMachineStatus x) zero_KTMachineStatus = Some x"
  unfolding dec_KTMachineStatus_def enc_KTMachineStatus_def dec_struct_JObj
  by (simp only: status_decode_fields [OF assms] Option.bind.bind_lunit) simp

lemma status_wf: "wf_json (enc_KTMachineStatus x)"
  by (simp add: enc_KTMachineStatus_def members_def status_fields_def string_codec.enc_wf int_codec.enc_wf
      bool_codec.enc_wf links_codec.list_wf groups_codec.list_wf ips_codec.list_wf volume_codec.list_wf
      string_codec.list_wf string_codec.ptr_wf flavor_codec.enc_wf cpref_codec.enc_wf worker_codec.enc_wf
      address_list_codec.map_wf)

interpretation status_codec: codec enc_KTMachineStatus dec_KTMachineStatus zero_KTMachineStatus machine_status_ok
  by unfold_locales (simp_all add: status_roundtrip status_wf, simp add: enc_KTMachineStatus_def)

text \<open>C38: A machine status that the operator hands to the Kubernetes client as JSON is read back
  field for field: no two of the 34 tags collide, and what \<open>omitempty\<close> leaves out is exactly
  what decoding into a zero status restores.\<close>

theorem status_text_roundtrip:
  assumes "machine_status_ok st"
  shows "json_unmarshal dec_KTMachineStatus zero_KTMachineStatus (print_json (enc_KTMachineStatus st)) = Inr st"
  using assms by (rule status_codec.unmarshal_marshal)

definition sample_status :: KTMachineStatus where
  "sample_status = zero_KTMachineStatus\<lparr>st_ID := ''vm-1'', st_Status := ''ACTIVE'', st_PowerState := 1,
     st_Addresses := [(''tier'', [zero_Address\<lparr>ad_Addr := ''172.25.0.8'', ad_Version := 4\<rparr>])]\<rparr>"

theorem status_text_roundtrip_witness:
  "json_unmarshal dec_KTMachineStatus zero_KTMachineStatus (print_json (enc_KTMachineStatus sample_status))
     = Inr sample_status"
  by (rule status_text_roundtrip)
    (simp add: machine_status_ok_def sample_status_def zero_KTMachineStatus_def zero_Flavor_def
      flavor_ok_def int64_def)

end
