(* ===== verification/Base64.thy ===== *)
theory Base64
  imports Prelude
begin

text \<open>
  Go's \<open>encoding/base64\<close>, the standard alphabet with padding (\<open>StdEncoding\<close>).

  \<open>b64_encode\<close> is \<open>EncodeToString\<close>, used for the cloud-init user data of a new
  server; \<open>b64_decode\<close> is \<open>DecodeString\<close>, used on the stored kubeconfig. As in Go, the
  decoder skips line feeds and carriage returns, wants full groups of four, allows padding only
  at the very end and does not check the unused bits of the last digit; \<open>None\<close> is the
  \<open>CorruptInputError\<close>.
\<close>

definition b64_char :: "nat \<Rightarrow> char" where
  "b64_char n =
     (if n < 26 then char_of (65 + n)
      else if n < 52 then char_of (71 + n)
      else if n < 62 then char_of (n - 4)
      else if n = 62 then CHR ''+'' else CHR ''/'')"

definition b64_val :: "char \<Rightarrow> nat option" where
  "b64_val c = (let n = (of_char c :: nat) in
     if 65 \<le> n \<and> n \<le> 90 then Some (n - 65)
     else if 97 \<le> n \<and> n \<le> 122 then Some (n - 71)
     else if 48 \<le> n \<and> n \<le> 57 then Some (n + 4)
     else if n = 43 then Some 62
     else if n = 47 then Some 63 else None)"

definition pad :: char where "pad = CHR ''=''"

definition byte :: "char \<Rightarrow> nat" where "byte c = of_char c"

fun b64_encode :: "string \<Rightarrow> string" where
  "b64_encode [] = []"
| "b64_encode [a] = [b64_char (byte a div 4), b64_char (byte a mod 4 * 16), pad, pad]"
| "b64_encode [a, b] =
     [b64_char (byte a div 4), b64_char (byte a mod 4 * 16 + byte b div 16),
      b64_char (byte b mod 16 * 4), pad]"
| "b64_encode (a # b # c # cs) =
     b64_char (byte a div 4) # b64_char (byte a mod 4 * 16 + byte b div 16)
       # b64_char (byte b mod 16 * 4 + byte c div 64) # b64_char (byte c mod 64) # b64_encode cs"

definition byte1 :: "nat \<Rightarrow> nat \<Rightarrow> char" where
  "byte1 w x = char_of (w * 4 + x div 16)"

definition byte2 :: "nat \<Rightarrow> nat \<Rightarrow> char" where
  "byte2 x y = char_of (x mod 16 * 16 + y div 4)"

definition byte3 :: "nat \<Rightarrow> nat \<Rightarrow> char" where
  "byte3 y z = char_of (y mod 4 * 64 + z)"

text \<open>Decoding of the input with its line ends removed, four characters at a time.\<close>

fun b64_groups :: "string \<Rightarrow> string option" where
  "b64_groups [] = Some []"
| "b64_groups (p # q # r # s # rest) =
     (case (b64_val p, b64_val q) of
        (Some w, Some x) \<Rightarrow>
          (if r = pad then
             (if s = pad \<and> rest = [] then Some [byte1 w x] else None)
           else
             (case b64_val r of None \<Rightarrow> None
              | Some y \<Rightarrow>
                (if s = pad then (if rest = [] then Some [byte1 w x, byte2 x y] else None)
                 else
                   (case b64_val s of None \<Rightarrow> None
                    | Some z \<Rightarrow> map_option (\<lambda>t. byte1 w x # byte2 x y # byte3 y z # t) (b64_groups rest)))))
      | _ \<Rightarrow> None)"
| "b64_groups _ = None"

definition b64_decode :: "string \<Rightarrow> string option" where
  "b64_decode s = b64_groups (filter (\<lambda>c. c \<noteq> CHR 0x0A \<and> c \<noteq> CHR 0x0D) s)"

section \<open>Digits\<close>

lemma byte_less [simp]: "byte c < 256"
  by (simp add: byte_def)

lemma b64_val_char [simp]: "n < 64 \<Longrightarrow> b64_val (b64_char n) = Some n"
  by (auto simp: b64_val_def b64_char_def Let_def)

lemma b64_char_clean:
  assumes "n < 64"
  shows "b64_char n \<noteq> pad \<and> b64_char n \<noteq> CHR 0x0A \<and> b64_char n \<noteq> CHR 0x0D"
proof -
  have "b64_val (b64_char n) = Some n" using assms by simp
  moreover have "b64_val pad = None" "b64_val CHR 0x0A = None" "b64_val CHR 0x0D = None"
    by (simp_all add: b64_val_def pad_def)
  ultimately show ?thesis by force
qed

lemma quotients: "byte a div 4 < 64" "byte a div 16 < 16" "byte a div 64 < 4"
  by (rule less_mult_imp_div_less, simp)+

lemma remainders: "byte a mod 4 < 4" "byte a mod 16 < 16" "byte a mod 64 < 64"
  by simp_all

lemma mixed_less:
  fixes x y i k :: nat
  assumes "x < i" "y < k"
  shows "x * k + y < i * k"
proof -
  have "x * k + y < Suc x * k" using assms(2) by simp
  also have "\<dots> \<le> i * k" using assms(1) by (intro mult_le_mono1) simp
  finally show ?thesis .
qed

lemma b64_digits [simp]:
  "byte a div 4 < 64"
  "byte a mod 4 * 16 + byte b div 16 < 64"
  "byte b mod 16 * 4 + byte c div 64 < 64"
  "byte c mod 64 < 64"
  "byte a mod 4 * 16 < 64"
  "byte b mod 16 * 4 < 64"
  using quotients(1) [of a] remainders(3) [of c]
    mixed_less [OF remainders(1) [of a] quotients(2) [of b]]
    mixed_less [OF remainders(2) [of b] quotients(3) [of c]]
    mixed_less [OF remainders(1) [of a], of 0 16] mixed_less [OF remainders(2) [of b], of 0 4]
  by simp_all

lemma split_number:
  fixes x y k :: nat
  assumes "y < k"
  shows "(x * k + y) div k = x" "(x * k + y) mod k = y"
  using assms by simp_all

lemma char_of_byte: "char_of (byte a) = a"
  by (simp add: byte_def)

lemma bytes_back:
  "byte1 (byte a div 4) (byte a mod 4 * 16 + byte b div 16) = a"
  "byte1 (byte a div 4) (byte a mod 4 * 16) = a"
  "byte2 (byte a mod 4 * 16 + byte b div 16) (byte b mod 16 * 4 + byte c div 64) = b"
  "byte2 (byte a mod 4 * 16 + byte b div 16) (byte b mod 16 * 4) = b"
  "byte3 (byte b mod 16 * 4 + byte c div 64) (byte c mod 64) = c"
  unfolding byte1_def byte2_def byte3_def
  using split_number [OF quotients(2) [of b], of "byte a mod 4"]
    split_number [OF quotients(3) [of c], of "byte b mod 16"]
  by (simp_all only: div_mult_mod_eq char_of_byte) (simp_all add: char_of_byte)

section \<open>Round trip\<close>

lemma b64_encode_clean: "filter (\<lambda>c. c \<noteq> CHR 0x0A \<and> c \<noteq> CHR 0x0D) (b64_encode s) = b64_encode s"
  by (induction s rule: b64_encode.induct) (simp_all add: b64_char_clean pad_def)

lemma b64_groups_encode: "b64_groups (b64_encode s) = Some s"
  by (induction s rule: b64_encode.induct) (simp_all add: b64_char_clean bytes_back)

text \<open>The user data a new server gets decodes to the cloud-init script it was built from.\<close>

lemma b64_roundtrip: "b64_decode (b64_encode s) = Some s"
  by (simp add: b64_decode_def b64_encode_clean b64_groups_encode)

lemma b64_encode_length: "length (b64_encode s) = 4 * ((length s + 2) div 3)"
proof (induction s rule: b64_encode.induct)
  case (4 a b c cs)
  have "(length (a # b # c # cs) + 2) div 3 = (length cs + 2) div 3 + 1" by simp
  with 4 show ?case by simp
qed simp_all

section \<open>What does not decode\<close>

lemma b64_groups_alphabet: "b64_groups s = Some t \<Longrightarrow> c \<in> set s \<Longrightarrow> c = pad \<or> b64_val c \<noteq> None"
  by (induction s arbitrary: t rule: b64_groups.induct)
    (auto split: option.splits if_splits)

lemma b64_decode_alphabet:
  assumes "c \<in> set s" "b64_val c = None" "c \<notin> {pad, CHR 0x0A, CHR 0x0D}"
  shows "b64_decode s = None"
proof (rule ccontr)
  assume "b64_decode s \<noteq> None"
  then obtain t where "b64_decode s = Some t" by blast
  with assms show False by (auto simp: b64_decode_def dest: b64_groups_alphabet)
qed

end
