(* ===== verification/CloudVM.thy ===== *)
theory CloudVM
  imports StatusJson Base64
begin

text \<open>
  Virtual machines on the cloud: \<^verbatim>\<open>cmd/httpapi/cp_vm.go\<close>, \<^verbatim>\<open>worker_vm.go\<close>,
  \<^verbatim>\<open>cp_bootstrap.go\<close> and \<open>GetCreatedVM\<close> of \<^verbatim>\<open>common.go\<close>. A function that changes the
  machine it is given through a pointer returns the changed machine; one that is given the
  machine by value does not. Log output is left out. The lemmas show what request each operation
  sends, what it stores, and on which branches it fails.
\<close>

section \<open>Request payload\<close>

record NetworkTierUUID =
  nu_UUID :: string

record BlockDeviceMappingV2 =
  bv_DestinationType :: string
  bv_BootIndex :: int
  bv_SourceType :: string
  bv_VolumeSize :: int
  bv_UUID :: string

record Server =
  svr_Name :: string
  svr_KeyName :: string
  svr_FlavorRef :: string
  svr_AvailabilityZone :: string
  svr_Networks :: "NetworkTierUUID list"
  svr_BlockDeviceMappingV2 :: "BlockDeviceMappingV2 list"
  svr_UserData :: string

record RequestPayload =
  pl_Server :: Server

definition enc_NetworkTierUUID :: "NetworkTierUUID \<Rightarrow> json" where
  "enc_NetworkTierUUID n = JObj [(''uuid'', enc_string (nu_UUID n))]"

definition enc_BlockDeviceMappingV2 :: "BlockDeviceMappingV2 \<Rightarrow> json" where
  "enc_BlockDeviceMappingV2 b = JObj [
     (''destination_type'', enc_string (bv_DestinationType b)),
     (''boot_index'', enc_int (bv_BootIndex b)),
     (''source_type'', enc_string (bv_SourceType b)),
     (''volume_size'', enc_int (bv_VolumeSize b)),
     (''uuid'', enc_string (bv_UUID b))]"

definition enc_Server :: "Server \<Rightarrow> json" where
  "enc_Server s = JObj [
     (''name'', enc_string (svr_Name s)),
     (''key_name'', enc_string (svr_KeyName s)),
     (''flavorRef'', enc_string (svr_FlavorRef s)),
     (''availability_zone'', enc_string (svr_AvailabilityZone s)),
     (''networks'', enc_list enc_NetworkTierUUID (svr_Networks s)),
     (''block_device_mapping_v2'', enc_list enc_BlockDeviceMappingV2 (svr_BlockDeviceMappingV2 s)),
     (''user_data'', enc_string (svr_UserData s))]"

definition enc_RequestPayload :: "RequestPayload \<Rightarrow> json" where
  "enc_RequestPayload p = JObj [(''server'', enc_Server (pl_Server p))]"

definition build_networks :: "KTMachine \<Rightarrow> NetworkTierUUID list" where
  "build_networks machine = map (\<lambda>n. \<lparr>nu_UUID = nt_ID n\<rparr>) (ks_NetworkTier (m_Spec machine))"

definition build_block_devices :: "KTMachine \<Rightarrow> BlockDeviceMappingV2 list" where
  "build_block_devices machine = map (\<lambda>b.
     \<lparr>bv_DestinationType = bd_DestinationType b, bv_BootIndex = bd_BootIndex b,
      bv_SourceType = bd_SourceType b, bv_VolumeSize = bd_VolumeSize b, bv_UUID = bd_ID b\<rparr>)
     (ks_BlockDeviceMapping (m_Spec machine))"

definition server_payload :: "KTMachine \<Rightarrow> string \<Rightarrow> RequestPayload" where
  "server_payload machine user_data = \<lparr>pl_Server =
     \<lparr>svr_Name = m_Name machine, svr_KeyName = ks_SSHKeyName (m_Spec machine),
      svr_FlavorRef = ks_Flavor (m_Spec machine),
      svr_AvailabilityZone = ks_AvailabilityZone (m_Spec machine),
      svr_Networks = build_networks machine,
      svr_BlockDeviceMappingV2 = build_block_devices machine,
      svr_UserData = user_data\<rparr>\<rparr>"

section \<open>Cloud-init scripts\<close>

definition dq :: string where "dq = [CHR 0x22]"

definition bs :: string where "bs = [CHR 0x5C]"

definition cp_cloudInit :: string where
  \<open>cp_cloudInit = join_lines [
     ''#cloud-config'',
     ''runcmd:'',
     ''  - export K8S_API=$(hostname -I | awk '{print $1}')  # Replace with your actual K8s API server address'',
     ''  - export INTERNALIP=$(hostname -I | awk '{print $1}')'',
     ''  - sudo swapoff -a'',
     ''  - sudo sed -i '/'' @ bs @ ''bswap'' @ bs @ ''b/d' /etc/fstab'',
     ''  - sudo swapoff /swap.img'',
     ''  - sudo kubeadm init --control-plane-endpoint='' @ dq @ ''${INTERNALIP}:6443'' @ dq @ '' || echo '' @ dq @ ''kubeadm init failed'' @ dq,
     ''  - if [ -f /etc/kubernetes/admin.conf ]; then'',
     ''      mkdir -p /home/ubuntu/.kube;'',
     ''      cp -i /etc/kubernetes/admin.conf /home/ubuntu/.kube/config;'',
     ''      chown $(id -u ubuntu):$(id -g ubuntu) /home/ubuntu/.kube/config;'',
     ''    else'',
     ''      echo '' @ dq @ ''admin.conf not found. kubeadm init may have failed.'' @ dq @ '';'',
     ''      exit;'',
     ''    fi'',
     ''  - mkdir -p /tmp/metadata'',
     ''  - cd /tmp/metadata'',
     ''  - CAHASH=$(openssl x509 -pubkey -in /etc/kubernetes/pki/ca.crt | openssl rsa -pubin -outform der 2>/dev/null | openssl dgst -sha256 -hex | sed 's/^.* //')'',
     ''  - TOKEN=$(kubeadm token list | awk '/authentication/{print $1}')'',
     ''  - cp /etc/kubernetes/admin.conf admin.conf'',
     ''  - cp /etc/kubernetes/pki/etcd/ca.crt etcd-ca.crt'',
     ''  - cp /etc/kubernetes/pki/etcd/ca.key etcd-ca.key'',
     ''  - cp /etc/kubernetes/pki/ca.crt ca.crt'',
     ''  - cp /etc/kubernetes/pki/ca.key ca.key'',
     ''  - cp /etc/kubernetes/pki/front-proxy-ca.crt front-proxy-ca.crt'',
     ''  - cp /etc/kubernetes/pki/front-proxy-ca.key front-proxy-ca.key'',
     ''  - cp /etc/kubernetes/pki/sa.key sa.key'',
     ''  - cp /etc/kubernetes/pki/sa.pub sa.pub'',
     ''  - echo '' @ dq @ ''${K8S_API} ${CAHASH} ${TOKEN}'' @ dq @ '' > k8s'',
     ''  - python3 -m http.server'']\<close>

definition worker_cloudInit :: "string \<Rightarrow> string" where
  \<open>worker_cloudInit controlPlaneIP = join_lines [
     ''#cloud-config'',
     ''runcmd:'',
     ''  - export K8S_API=$(echo '' @ dq @ controlPlaneIP @ dq @ '')'',
     ''  - export DEFAULT_PORT=${DEFAULT_PORT:-8000}'',
     ''  - sudo swapoff -a && sudo sed -i '/'' @ bs @ ''bswap'' @ bs @ ''b/d' /etc/fstab && [ -f /swap.img ] && sudo swapoff /swap.img'',
     ''  - count=0'',
     ''  - |'',
     ''    while :; do'',
     ''      if DATA=$(curl -s '' @ dq @ ''$K8S_API:$DEFAULT_PORT/k8s'' @ dq @ ''); then'',
     ''        export K8S_API=$(echo '' @ dq @ ''$DATA'' @ dq @ '' | cut -d' ' -f1)'',
     ''        export CAHASH=$(echo '' @ dq @ ''$DATA'' @ dq @ '' | cut -d' ' -f2)'',
     ''        export TOKEN=$(echo '' @ dq @ ''$DATA'' @ dq @ '' | cut -d' ' -f3)'',
     ''        break'',
     ''      fi'',
     ''      ((++count == 3600)) && break'',
     ''      sleep 1'',
     ''    done'',
     ''  - |'',
     ''    if [ -z '' @ dq @ ''$K8S_API'' @ dq @ '' ] || [ -z '' @ dq @ ''$CAHASH'' @ dq @ '' ] || [ -z '' @ dq @ ''$TOKEN'' @ dq @ '' ]; then'',
     ''      echo '' @ dq @ ''empty value'' @ dq @ ''; exit 0'',
     ''    fi'',
     ''  - |'',
     ''      sudo kubeadm join $K8S_API:6443 --token $TOKEN --discovery-token-ca-cert-hash sha256:$CAHASH'']\<close>

section \<open>Operations\<close>

definition api_url :: "'w env \<Rightarrow> string \<Rightarrow> string" where
  "api_url env path = c_ApiBaseURL (e_config env) @ c_Zone (e_config env) @ path"

text \<open>\<open>Status().Update\<close> writes what the server stored back into the object.\<close>

definition updateVMStatus :: "'w env \<Rightarrow> KTMachine \<Rightarrow> KTMachineStatus \<Rightarrow> string \<Rightarrow> ('w, KTMachine) op" where
  "updateVMStatus env machine newStatus state =
     (let m' = machine\<lparr>m_Status := newStatus\<lparr>st_Status := state\<rparr>\<rparr>
      in callG (StatusUpdate (OMachine m')) (e_status_update_machine env m'))"

definition create_request :: "'w env \<Rightarrow> string \<Rightarrow> KTMachine \<Rightarrow> string \<Rightarrow> http_request" where
  "create_request env token machine cloudInit =
     cloud_request ''POST'' (api_url env ''/server/servers'') token
       (print_json (enc_RequestPayload (server_payload machine (b64_encode cloudInit))))"

text \<open>The part that \<open>CreateVM\<close> and \<open>CreateWorkerVM\<close> share line by line; they differ in
  the script.\<close>

definition create_server :: "'w env \<Rightarrow> string \<Rightarrow> KTMachine \<Rightarrow> string \<Rightarrow> ('w, KTMachine) op" where
  "create_server env token machine cloudInit =
     bindG (http_do env (create_request env token machine cloudInit)) (\<lambda>resp.
     bindG (read_body resp) (\<lambda>body.
     if status_ok (hr_StatusCode resp) then
       bindG (liftG (json_unmarshal dec_ServerResponse zero_ServerResponse body)) (\<lambda>sr.
       bindG (rest_config_or_panic env) (\<lambda>_.
       bindG (client_or_exit env) (\<lambda>_.
       updateVMStatus env machine (sv_Server sr) ''Creating'')))
     else retG machine))"

definition CreateVM :: "'w env \<Rightarrow> KTMachine \<Rightarrow> string \<Rightarrow> ('w, KTMachine) op" where
  "CreateVM env machine token = create_server env token machine cp_cloudInit"

definition CreateWorkerVM :: "'w env \<Rightarrow> KTMachine \<Rightarrow> string \<Rightarrow> string \<Rightarrow> ('w, KTMachine) op" where
  "CreateWorkerVM env machine token controlPlaneIP =
     create_server env token machine (worker_cloudInit controlPlaneIP)"

definition GetCreatedVM :: "'w env \<Rightarrow> KTMachine \<Rightarrow> string \<Rightarrow> ('w, KTMachineStatus) op" where
  "GetCreatedVM env machine token =
     bindG (http_do env (cloud_request ''GET''
       (api_url env (''/server/servers/'' @ st_ID (m_Status machine))) token '''')) (\<lambda>resp.
     bindG (read_body resp) (\<lambda>body.
     if status_ok (hr_StatusCode resp) then
       bindG (liftG (json_unmarshal dec_ServerResponse zero_ServerResponse body)) (\<lambda>sr.
       retG (sv_Server sr))
     else failG (NewError (''GET request failed with status: '' @ hr_Status resp))))"

section \<open>Joining a control plane\<close>

definition index_panic :: string where
  "index_panic = ''runtime error: index out of range [0] with length 0''"

definition ready_request :: "AssignedPublicIps \<Rightarrow> http_request" where
  "ready_request a = \<lparr>rq_Method = ''GET'', rq_URL = ''http://'' @ ap_IP a @ '':8000'',
     rq_Header = [(''Content-Type'', ''application/json'')], rq_Body = ''''\<rparr>"

definition CheckControlPlaneMachineReady :: "'w env \<Rightarrow> KTMachine \<Rightarrow> ('w, unit) op" where
  "CheckControlPlaneMachineReady env machine =
     (case st_AssignedPublicIps (m_Status machine) of
        [] \<Rightarrow> panicG index_panic
      | a # _ \<Rightarrow> bindG (http_do env (ready_request a)) (\<lambda>resp.
          if status_ok (hr_StatusCode resp) then retG ()
          else failG (NewError (''GET control-plane status request failed with status: '' @ hr_Status resp))))"

text \<open>The loop of \<open>JoinControlPlane\<close>: the first machine whose server answers, or the zero
  machine that \<open>controlPlaneMachine\<close> starts as.\<close>

fun first_ready :: "'w env \<Rightarrow> KTMachine list \<Rightarrow> ('w, KTMachine) op" where
  "first_ready env [] = retG zero_KTMachine"
| "first_ready env (m # ms) =
     bindG (tryG (CheckControlPlaneMachineReady env m)) (\<lambda>r. case r of
       Inr _ \<Rightarrow> retG m
     | Inl _ \<Rightarrow> first_ready env ms)"

definition JoinControlPlane :: "'w env \<Rightarrow> KTMachine list \<Rightarrow> KTMachine \<Rightarrow> string \<Rightarrow> ('w, unit) op" where
  "JoinControlPlane env cps ktMachine token =
     bindG (first_ready env cps) (\<lambda>cp.
     if cps = [] then failG (NewError ''ready and boostrapped control plane list is zero'')
     else (case st_AssignedPublicIps (m_Status cp) of
        [] \<Rightarrow> panicG index_panic
      | a # _ \<Rightarrow>
          bindG (CreateWorkerVM env ktMachine token (pp_VMPvtIP (ap_PairedPvtNetwork a))) (\<lambda>_. retG ())))"

section \<open>Contracts of the operations\<close>

lemma spec_updateVMStatus [spec_intros]:
  assumes "P (StatusUpdate (OMachine (m\<lparr>m_Status := st\<lparr>st_Status := s\<rparr>\<rparr>)))" and "\<And>x. Q x"
    and "\<And>e. S (Fail e)"
  shows "spec P (updateVMStatus env m st s) Q S"
  unfolding updateVMStatus_def Let_def by (intro spec_intros assms)

lemma spec_create_server:
  assumes "P (HttpCall (create_request env token m script))" and "\<And>c. is_setup c \<Longrightarrow> P c"
    and "\<And>st. P (StatusUpdate (OMachine (m\<lparr>m_Status := st\<lparr>st_Status := ''Creating''\<rparr>\<rparr>)))"
    and "\<And>x. Q x" and "\<And>e. S e"
  shows "spec P (create_server env token m script) Q S"
  unfolding create_server_def
  by (intro spec_bind_any spec_intros assms) (simp_all add: assms)

lemma spec_GetCreatedVM [spec_intros]:
  assumes "\<And>rq. rq_Method rq = ''GET'' \<Longrightarrow> P (HttpCall rq)" and "\<And>st. Q st" and "\<And>e. S (Fail e)"
  shows "spec P (GetCreatedVM env m token) Q S"
  unfolding GetCreatedVM_def
  by (intro spec_bind_any spec_intros assms) (simp_all add: assms cloud_request_def)

lemma spec_CheckReady [spec_intros]:
  assumes "\<And>rq. rq_Method rq = ''GET'' \<Longrightarrow> P (HttpCall rq)" and "Q ()" and "\<And>e. S e"
  shows "spec P (CheckControlPlaneMachineReady env m) Q S"
  unfolding CheckControlPlaneMachineReady_def
  by (intro spec_bind_any spec_intros assms) (simp_all add: assms ready_request_def)

lemma spec_first_ready:
  assumes "\<And>rq. rq_Method rq = ''GET'' \<Longrightarrow> P (HttpCall rq)" and "\<And>e. S e"
    and "\<And>m. m \<in> set ms \<Longrightarrow> Q m" and "Q zero_KTMachine"
  shows "spec P (first_ready env ms) Q S"
  using assms(3)
proof (induction ms)
  case Nil
  with assms(4) show ?case by (simp add: spec_ret)
next
  case (Cons m ms)
  have m: "Q m" and ms: "spec P (first_ready env ms) Q S"
    using Cons by auto
  show ?case
    unfolding first_ready.simps
  proof (rule spec_bind_any)
    show "spec P (tryG (CheckControlPlaneMachineReady env m)) (\<lambda>_. True) S"
      by (intro spec_intros) (simp_all add: assms(1,2) split: stop.split)
    show "spec P (case x of Inl y \<Rightarrow> first_ready env ms | Inr y \<Rightarrow> retG m) Q S" for x
      by (intro spec_sum ms spec_ret m)
  qed
qed

lemma atmost_create_server: "atmost is_http 1 (create_server env token m script)"
  unfolding create_server_def updateVMStatus_def Let_def
  by (intro atmost_bind_then_quiet atmost_http_do atmost_bind_quiet atmost_read_body)
    (auto intro!: atmost_bind_quiet spec_intros atmost_call elim: is_setup.elims)

section \<open>Properties\<close>

lemma enc_payload_wf: "wf_json (enc_RequestPayload p)"
  by (simp add: enc_RequestPayload_def enc_Server_def enc_list_def enc_NetworkTierUUID_def
      enc_BlockDeviceMappingV2_def enc_string_def enc_int_def valid_show_int list_all_iff)

text \<open>The members of the server description of a request, as the cloud parses it.\<close>

definition server_members :: "http_request \<Rightarrow> (string \<times> json) list option" where
  "server_members rq = (case json_parse (rq_Body rq) of
     Some (JObj [(k, JObj kvs)]) \<Rightarrow> (if k = ''server'' then Some kvs else None)
   | _ \<Rightarrow> None)"

definition describes :: "KTMachine \<Rightarrow> string \<Rightarrow> (string \<times> json) list \<Rightarrow> bool" where
  "describes m script kvs \<longleftrightarrow>
     map_of kvs ''name'' = Some (JStr (m_Name m)) \<and>
     map_of kvs ''key_name'' = Some (JStr (ks_SSHKeyName (m_Spec m))) \<and>
     map_of kvs ''flavorRef'' = Some (JStr (ks_Flavor (m_Spec m))) \<and>
     map_of kvs ''availability_zone'' = Some (JStr (ks_AvailabilityZone (m_Spec m))) \<and>
     map_of kvs ''networks'' =
       Some (JArr (map (\<lambda>n. JObj [(''uuid'', JStr (nt_ID n))]) (ks_NetworkTier (m_Spec m)))) \<and>
     map_of kvs ''block_device_mapping_v2'' =
       Some (JArr (map (\<lambda>b. JObj [(''destination_type'', JStr (bd_DestinationType b)),
         (''boot_index'', JNum (show_int (bd_BootIndex b))), (''source_type'', JStr (bd_SourceType b)),
         (''volume_size'', JNum (show_int (bd_VolumeSize b))), (''uuid'', JStr (bd_ID b))])
         (ks_BlockDeviceMapping (m_Spec m)))) \<and>
     (\<exists>u. map_of kvs ''user_data'' = Some (JStr u) \<and> b64_decode u = Some script)"

lemma create_request_describes:
  "\<exists>kvs. server_members (create_request env token m script) = Some kvs \<and> describes m script kvs"
proof -
  have "json_parse (print_json (enc_RequestPayload p)) = Some (enc_RequestPayload p)" for p
    by (rule json_roundtrip) (rule enc_payload_wf)
  then have "json_parse (rq_Body (create_request env token m script)) =
      Some (enc_RequestPayload (server_payload m (b64_encode script)))"
    by (simp only: create_request_def cloud_request_def http_request.simps)
  then show ?thesis
    by (simp add: server_members_def describes_def enc_RequestPayload_def enc_Server_def server_payload_def build_networks_def
        build_block_devices_def enc_list_def enc_string_def enc_int_def enc_NetworkTierUUID_def
        enc_BlockDeviceMappingV2_def b64_roundtrip comp_def)
qed

lemma create_server_requests:
  "spec (\<lambda>c. is_http c \<longrightarrow> c = HttpCall (create_request env token m script))
     (create_server env token m script) (\<lambda>_. True) (\<lambda>_. True)"
  by (rule spec_create_server) (auto elim: is_setup.elims)

text \<open>C19: Every request that \<open>CreateVM\<close> sends is a POST to the server collection of the
  configured zone, and the JSON body the cloud parses describes the machine of the spec: name,
  key, flavor, zone, every network tier and block device in order, and user data that decodes
  to the control-plane script.\<close>

theorem create_vm_request_faithful:
  assumes "HttpCall rq \<in> set (trace (CreateVM env m token) w)"
  shows "rq_Method rq = ''POST''
    \<and> rq_URL rq = c_ApiBaseURL (e_config env) @ c_Zone (e_config env) @ ''/server/servers''
    \<and> (\<exists>kvs. server_members rq = Some kvs \<and> describes m cp_cloudInit kvs)"
proof -
  have "rq = create_request env token m cp_cloudInit"
    using spec_trace [OF create_server_requests assms [unfolded CreateVM_def]] by simp
  then show ?thesis
    using create_request_describes [of env token m cp_cloudInit]
    by (simp add: create_request_def cloud_request_def api_url_def)
qed

theorem create_vm_request_faithful_witness:
  "\<exists>kvs. server_members (create_request (down_env :: unit env) ''t'' zero_KTMachine cp_cloudInit) = Some kvs
     \<and> describes zero_KTMachine cp_cloudInit kvs"
proof -
  have "HttpCall (create_request (down_env :: unit env) ''t'' zero_KTMachine cp_cloudInit)
      \<in> set (trace (CreateVM down_env zero_KTMachine ''t'') ())"
    by (simp add: CreateVM_def create_server_def trace_def http_do_def go_simps)
  then show ?thesis by (rule create_vm_request_faithful [THEN conjunct2, THEN conjunct2])
qed

text \<open>When the cloud accepts the server and the client can be set up, the machine is stored
  with the status the cloud sent and the state \<open>Creating\<close>, after one POST, and the result is
  what the API server stored.\<close>

theorem create_vm_accepted:
  assumes "e_url_parse env (rq_URL (create_request env token m cp_cloudInit)) = Inr u"
    and "e_http env (create_request env token m cp_cloudInit) w = (Inr resp, w1)"
    and "status_ok (hr_StatusCode resp)" and "hr_Body resp = Inr body"
    and "json_unmarshal dec_ServerResponse zero_ServerResponse body = Inr sr"
    and "c_Kubeconfig (e_config env) = []"
    and "e_default_config env w1 = (Inr (), w2)" and "e_new_client env w2 = (Inr (), w3)"
    and "e_status_update_machine env (m\<lparr>m_Status := (sv_Server sr)\<lparr>st_Status := ''Creating''\<rparr>\<rparr>) w3 = (Inr m', w4)"
  shows "CreateVM env m token w = (Inr m',
     [HttpCall (create_request env token m cp_cloudInit), DefaultConfig, NewClient,
      StatusUpdate (OMachine (m\<lparr>m_Status := (sv_Server sr)\<lparr>st_Status := ''Creating''\<rparr>\<rparr>))], w4)"
  using assms
  by (simp add: CreateVM_def create_server_def http_do_def read_body_def rest_config_or_panic_def Let_def
      getRestConfig_def client_or_exit_def getClient_def updateVMStatus_def go_simps)

definition vm_body :: string where
  "vm_body = print_json (JObj [(''server'', JObj [(''id'', JStr ''vm-1'')])])"

definition vm_env :: "unit env" where
  "vm_env = down_env\<lparr>e_http := (\<lambda>_ w. (Inr (answer 202 ''202 Accepted'' vm_body), w))\<rparr>"

lemma vm_answer:
  "json_unmarshal dec_ServerResponse zero_ServerResponse vm_body =
   Inr \<lparr>sv_Server = zero_KTMachineStatus\<lparr>st_ID := ''vm-1''\<rparr>\<rparr>"
  by (simp add: vm_body_def json_unmarshal_def json_roundtrip dec_ServerResponse_def dec_KTMachineStatus_def
      dec_simps zero_ServerResponse_def dec_string_def del: print_json.simps)

theorem create_vm_accepted_witness:
  "\<exists>m' cs. CreateVM vm_env zero_KTMachine ''t'' () = (Inr m', cs, ()) \<and> st_ID (m_Status m') = ''vm-1''
     \<and> st_Status (m_Status m') = ''Creating''"
proof -
  have "CreateVM vm_env zero_KTMachine ''t'' () =
      (Inr (zero_KTMachine\<lparr>m_Status := zero_KTMachineStatus\<lparr>st_ID := ''vm-1'', st_Status := ''Creating''\<rparr>\<rparr>),
       [HttpCall (create_request vm_env ''t'' zero_KTMachine cp_cloudInit), DefaultConfig, NewClient,
        StatusUpdate (OMachine (zero_KTMachine\<lparr>m_Status :=
          zero_KTMachineStatus\<lparr>st_ID := ''vm-1'', st_Status := ''Creating''\<rparr>\<rparr>))], ())"
    using create_vm_accepted [of vm_env "''t''" zero_KTMachine _ "()" "answer 202 ''202 Accepted'' vm_body" "()"
        vm_body "\<lparr>sv_Server = zero_KTMachineStatus\<lparr>st_ID := ''vm-1''\<rparr>\<rparr>" "()" "()"]
    by (simp add: vm_env_def status_ok_def vm_answer)
  then show ?thesis by simp
qed

text \<open>C29: When the cloud refuses the server (any status outside 200-299), \<open>CreateVM\<close>
  reports success: it returns no error, the machine is unchanged and nothing is stored, so the
  caller cannot tell a refused machine from a created one.\<close>

theorem create_vm_refusal_swallowed:
  assumes "e_url_parse env (rq_URL (create_request env token m cp_cloudInit)) = Inr u"
    and "e_http env (create_request env token m cp_cloudInit) w = (Inr resp, w1)"
    and "\<not> status_ok (hr_StatusCode resp)" and "hr_Body resp = Inr body"
  shows "CreateVM env m token w = (Inr m, [HttpCall (create_request env token m cp_cloudInit)], w1)"
  using assms by (simp add: CreateVM_def create_server_def http_do_def read_body_def go_simps)

definition quota_env :: "unit env" where
  "quota_env = down_env\<lparr>e_http := (\<lambda>_ w. (Inr (answer 403 ''403 Forbidden'' ''quota''), w))\<rparr>"

theorem create_vm_refusal_swallowed_witness:
  "outcome (CreateVM quota_env zero_KTMachine ''t'') () = Inr zero_KTMachine"
  using create_vm_refusal_swallowed [of quota_env "''t''" zero_KTMachine _ "()" "answer 403 ''403 Forbidden'' ''quota''"]
  by (simp add: quota_env_def status_ok_def outcome_def)

definition always_ready :: "'w env \<Rightarrow> KTMachine \<Rightarrow> bool" where
  "always_ready env m \<longleftrightarrow> (\<forall>w. outcome (CheckControlPlaneMachineReady env m) w = Inr ())"

definition never_ready :: "'w env \<Rightarrow> KTMachine \<Rightarrow> bool" where
  "never_ready env m \<longleftrightarrow> (\<forall>w. \<exists>e. outcome (CheckControlPlaneMachineReady env m) w = Inl (Fail e))"

lemma ready_has_ip: "always_ready env m \<Longrightarrow> st_AssignedPublicIps (m_Status m) \<noteq> []"
  by (auto simp: always_ready_def CheckControlPlaneMachineReady_def split: list.splits)

lemma first_ready_none:
  "(\<And>m. m \<in> set ms \<Longrightarrow> never_ready env m) \<Longrightarrow> outcome (first_ready env ms) w = Inr zero_KTMachine"
proof (induction ms arbitrary: w)
  case Nil
  then show ?case by simp
next
  case (Cons m ms)
  obtain e where "outcome (CheckControlPlaneMachineReady env m) w = Inl (Fail e)"
    using Cons.prems [of m] by (auto simp: never_ready_def)
  with Cons show ?case by (simp add: outcome_bindG outcome_tryG)
qed

lemma first_ready_split:
  "(\<And>m. m \<in> set pre \<Longrightarrow> never_ready env m) \<Longrightarrow> always_ready env cp \<Longrightarrow>
   outcome (first_ready env (pre @ cp # post)) w = Inr cp"
proof (induction pre arbitrary: w)
  case Nil
  then show ?case by (simp add: outcome_bindG outcome_tryG always_ready_def)
next
  case (Cons m ms)
  obtain e where "outcome (CheckControlPlaneMachineReady env m) w = Inl (Fail e)"
    using Cons.prems(1) [of m] by (auto simp: never_ready_def)
  with Cons show ?case by (simp add: outcome_bindG outcome_tryG)
qed

interpretation ready_loop: query "first_ready env ms" for env :: "'w env" and ms
  by unfold_locales (rule spec_first_ready; simp add: read_only_def)

text \<open>C20: Joining a worker uses the first control plane in the list that answers. If the
  machines before it never answer and it always does, the calls of joining are the requests of the
  readiness loop, all of which only read, followed by exactly the calls of the creation of the
  worker with that machine's first paired private address, from the state the loop left; and the
  outcome and the final state are those of the creation.\<close>

theorem join_uses_first_ready:
  assumes "\<And>m. m \<in> set pre \<Longrightarrow> never_ready env m" and "always_ready env cp"
  shows "\<exists>a rest. st_AssignedPublicIps (m_Status cp) = a # rest \<and>
    (let create = CreateWorkerVM env km token (pp_VMPvtIP (ap_PairedPvtNetwork a));
         w' = world (first_ready env (pre @ cp # post)) w
     in trace (JoinControlPlane env (pre @ cp # post) km token) w = trace (first_ready env (pre @ cp # post)) w @ trace create w'
      \<and> list_all read_only (trace (first_ready env (pre @ cp # post)) w)
      \<and> outcome (JoinControlPlane env (pre @ cp # post) km token) w = map_sum id (\<lambda>_. ()) (outcome create w')
      \<and> world (JoinControlPlane env (pre @ cp # post) km token) w = world create w')"
proof -
  obtain a rest where a: "st_AssignedPublicIps (m_Status cp) = a # rest"
    using ready_has_ip [OF assms(2)] by (cases "st_AssignedPublicIps (m_Status cp)") simp_all
  have fr: "outcome (first_ready env (pre @ cp # post)) w = Inr cp"
    using assms by (rule first_ready_split)
  have "list_all read_only (trace (first_ready env (pre @ cp # post)) w)"
    unfolding list_all_iff by (blast intro: spec_trace [OF ready_loop.reads])
  with a fr show ?thesis
    by (simp add: Let_def JoinControlPlane_def outcome_bindG trace_bindG world_bindG split: sum.split)
qed

definition cp_with_ip :: "string \<Rightarrow> KTMachine" where
  "cp_with_ip ip = zero_KTMachine\<lparr>m_Status := zero_KTMachineStatus\<lparr>st_AssignedPublicIps :=
     [zero_AssignedPublicIps\<lparr>ap_IP := ip, ap_PairedPvtNetwork := zero_PairedPvtNetwork\<lparr>pp_VMPvtIP := ''10.0.0.7''\<rparr>\<rparr>]\<rparr>\<rparr>"

definition join_env :: "unit env" where
  "join_env = down_env\<lparr>e_http := (\<lambda>rq w.
     (if rq_URL rq = ''http://1.1.1.1:8000'' then Inl (IOError ''refused'')
      else Inr (answer 200 ''200 OK'' ''x''), w))\<rparr>"

lemma join_env_ready: "never_ready join_env (cp_with_ip ''1.1.1.1'')" "always_ready join_env (cp_with_ip ''2.2.2.2'')"
  by (simp_all add: never_ready_def always_ready_def CheckControlPlaneMachineReady_def cp_with_ip_def
      http_do_def join_env_def outcome_def go_simps ready_request_def status_ok_def)

theorem join_uses_first_ready_witness:
  "trace (JoinControlPlane join_env [cp_with_ip ''1.1.1.1'', cp_with_ip ''2.2.2.2''] zero_KTMachine ''t'') () =
     trace (first_ready join_env [cp_with_ip ''1.1.1.1'', cp_with_ip ''2.2.2.2'']) ()
       @ trace (CreateWorkerVM join_env zero_KTMachine ''t'' ''10.0.0.7'') ()
   \<and> list_all read_only (trace (first_ready join_env [cp_with_ip ''1.1.1.1'', cp_with_ip ''2.2.2.2'']) ())"
  using join_uses_first_ready [of "[cp_with_ip ''1.1.1.1'']" join_env "cp_with_ip ''2.2.2.2''" zero_KTMachine "''t''" "[]" "()"]
    join_env_ready by (auto simp: cp_with_ip_def Let_def)

text \<open>C30: If there are control planes but none of them answers, joining does not return the
  intended error: the zero machine is indexed and the reconcile panics; no worker is created.\<close>

theorem join_none_ready_panics:
  assumes "cps \<noteq> []" and "\<And>m. m \<in> set cps \<Longrightarrow> never_ready env m"
  shows "outcome (JoinControlPlane env cps km token) w = Inl (Panicked index_panic)
    \<and> filter is_cloud_write (trace (JoinControlPlane env cps km token) w) = []"
proof -
  have "outcome (first_ready env cps) w = Inr zero_KTMachine"
    by (rule first_ready_none) (rule assms(2))
  with assms(1) ready_loop.no_cloud_write [of env cps w] show ?thesis
    by (simp add: JoinControlPlane_def outcome_bindG trace_bindG zero_KTMachine_def zero_KTMachineStatus_def)
qed

theorem join_none_ready_panics_witness:
  "outcome (JoinControlPlane join_env [cp_with_ip ''1.1.1.1''] zero_KTMachine ''t'') () = Inl (Panicked index_panic)"
  by (rule join_none_ready_panics [THEN conjunct1]) (simp_all add: join_env_ready)

section \<open>Requests that read\<close>

text \<open>The body of every GET of the cloud API: headers, \<open>io.ReadAll\<close>, the status check and
  \<open>json.Unmarshal\<close> into a zero value.\<close>

definition cloud_get :: "'w env \<Rightarrow> string \<Rightarrow> string \<Rightarrow> 'a decoder \<Rightarrow> 'a \<Rightarrow> ('w, 'a) op" where
  "cloud_get env token path d z =
     bindG (http_do env (cloud_request ''GET'' (api_url env path) token '''')) (\<lambda>resp.
     bindG (read_body resp) (\<lambda>body.
     if status_ok (hr_StatusCode resp) then liftG (json_unmarshal d z body)
     else failG (NewError (''GET request failed with status: '' @ hr_Status resp))))"

lemma GetCreatedVM_eq:
  "GetCreatedVM env m token = bindG (cloud_get env token (''/server/servers/'' @ st_ID (m_Status m))
     dec_ServerResponse zero_ServerResponse) (\<lambda>sr. retG (sv_Server sr))"
  unfolding GetCreatedVM_def cloud_get_def
  by (rule ext) (simp add: go_simps split: prod.splits sum.splits)

lemma spec_cloud_get [spec_intros]:
  assumes "\<And>rq. rq_Method rq = ''GET'' \<Longrightarrow> P (HttpCall rq)" and "\<And>x. Q x" and "\<And>e. S (Fail e)"
  shows "spec P (cloud_get env token path d z) Q S"
  unfolding cloud_get_def
  by (intro spec_bind_any spec_intros assms) (simp_all add: assms cloud_request_def)

text \<open>The cloud answered a request with success and a body that decodes to \<open>x\<close>; and with a
  status that is no success.\<close>

definition accepted :: "'w env \<Rightarrow> http_request \<Rightarrow> 'w \<Rightarrow> 'a decoder \<Rightarrow> 'a \<Rightarrow> 'a \<Rightarrow> 'w \<Rightarrow> bool" where
  "accepted env rq w d z x w1 \<longleftrightarrow> (\<exists>u resp body. e_url_parse env (rq_URL rq) = Inr u
     \<and> e_http env rq w = (Inr resp, w1) \<and> status_ok (hr_StatusCode resp)
     \<and> hr_Body resp = Inr body \<and> json_unmarshal d z body = Inr x)"

definition refused :: "'w env \<Rightarrow> http_request \<Rightarrow> 'w \<Rightarrow> string \<Rightarrow> 'w \<Rightarrow> bool" where
  "refused env rq w line w1 \<longleftrightarrow> (\<exists>u resp body. e_url_parse env (rq_URL rq) = Inr u
     \<and> e_http env rq w = (Inr resp, w1) \<and> \<not> status_ok (hr_StatusCode resp) \<and> hr_Status resp = line
     \<and> hr_Body resp = Inr body)"

definition get_request :: "'w env \<Rightarrow> string \<Rightarrow> string \<Rightarrow> http_request" where
  "get_request env token path = cloud_request ''GET'' (api_url env path) token ''''"

lemma cloud_get_accepted [go_simps]:
  "accepted env (get_request env token path) w d z x w1 \<Longrightarrow>
   cloud_get env token path d z w = (Inr x, [HttpCall (get_request env token path)], w1)"
  by (auto simp: accepted_def cloud_get_def get_request_def http_do_def read_body_def go_simps)

lemma cloud_get_refused [go_simps]:
  "refused env (get_request env token path) w line w1 \<Longrightarrow>
   cloud_get env token path d z w =
     (Inl (Fail (NewError (''GET request failed with status: '' @ line))),
      [HttpCall (get_request env token path)], w1)"
  by (auto simp: refused_def cloud_get_def get_request_def http_do_def read_body_def go_simps)

text \<open>The request for a machine's server.\<close>

definition vm_request :: "'w env \<Rightarrow> string \<Rightarrow> KTMachine \<Rightarrow> http_request" where
  "vm_request env token m = get_request env token (''/server/servers/'' @ st_ID (m_Status m))"

lemma vm_request_GET [simp]: "rq_Method (vm_request env token m) = ''GET''"
  by (simp add: vm_request_def get_request_def cloud_request_def)

lemma GetCreatedVM_accepted:
  "accepted env (vm_request env token m) w dec_ServerResponse zero_ServerResponse sr w1 \<Longrightarrow>
   GetCreatedVM env m token w = (Inr (sv_Server sr), [HttpCall (vm_request env token m)], w1)"
  unfolding GetCreatedVM_eq vm_request_def by (subst bindG_apply) (simp only: cloud_get_accepted, simp add: go_simps)

lemma GetCreatedVM_refused:
  "refused env (vm_request env token m) w line w1 \<Longrightarrow>
   GetCreatedVM env m token w = (Inl (Fail (NewError (''GET request failed with status: '' @ line))),
     [HttpCall (vm_request env token m)], w1)"
  unfolding GetCreatedVM_eq vm_request_def by (subst bindG_apply) (simp only: cloud_get_refused, simp add: go_simps)

text \<open>The Kubernetes client comes up.\<close>

definition client_up :: "'w env \<Rightarrow> 'w \<Rightarrow> 'w \<Rightarrow> bool" where
  "client_up env w w2 \<longleftrightarrow> c_Kubeconfig (e_config env) = [] \<and>
     (\<exists>w1. e_default_config env w = (Inr (), w1) \<and> e_new_client env w1 = (Inr (), w2))"

lemma client_up_steps:
  assumes "client_up env w w2"
  obtains w1 where "rest_config_or_panic env w = (Inr (), [DefaultConfig], w1)"
    and "client_or_exit env w1 = (Inr (), [NewClient], w2)"
  using assms by (auto simp: client_up_def rest_config_or_panic_def client_or_exit_def getRestConfig_def
      getClient_def go_simps)

interpretation cloud_get: safe_query "cloud_get env token path d z" for env :: "'w env" and token path d z
  by unfold_locales (intro spec_intros; simp add: read_only_def)+

interpretation get_vm: safe_query "GetCreatedVM env m token" for env :: "'w env" and m token
  by unfold_locales (intro spec_intros; simp add: read_only_def)+

end
