(* ===== verification/CloudTypes.thy ===== *)
theory CloudTypes
  imports StatusJson
begin

text \<open>
  The requests and answers of the network part of the KT Cloud API:
  \<^verbatim>\<open>cmd/httpapi/common-types.go\<close> and \<^verbatim>\<open>cmd/httpapi/network-types.go\<close>, the types that the
  operations use, each with the decoder or encoder that its JSON tags give.
\<close>

section \<open>Public addresses\<close>

record StaticNat =
  stn_ID :: string
  stn_Name :: string
  stn_VPCId :: string
  stn_MappedIP :: string
  stn_NetworkId :: string
  stn_PublicIpId :: string
  stn_PublicIp :: string

record PublicIp =
  pi_Account :: string
  pi_VPCId :: string
  pi_ZoneId :: string
  pi_ID :: string
  pi_Type :: string
  pi_CIDR :: string
  pi_IP :: string
  pi_PortalZoneId :: string
  pi_SerialIP :: string
  pi_VLANId :: int
  pi_PublicIpPoolId :: string
  pi_IsAllocate :: bool
  pi_StaticNats :: "StaticNat list"
  pi_PortForwardings :: "json list"

record NcListentPublicIpsResponse =
  nl_HttpStatus :: int
  nl_Data :: "PublicIp list"

definition zero_StaticNat :: StaticNat where
  "zero_StaticNat = \<lparr>stn_ID = '''', stn_Name = '''', stn_VPCId = '''', stn_MappedIP = '''',
     stn_NetworkId = '''', stn_PublicIpId = '''', stn_PublicIp = ''''\<rparr>"

definition zero_PublicIp :: PublicIp where
  "zero_PublicIp = \<lparr>pi_Account = '''', pi_VPCId = '''', pi_ZoneId = '''', pi_ID = '''', pi_Type = '''',
     pi_CIDR = '''', pi_IP = '''', pi_PortalZoneId = '''', pi_SerialIP = '''', pi_VLANId = 0,
     pi_PublicIpPoolId = '''', pi_IsAllocate = False, pi_StaticNats = [], pi_PortForwardings = []\<rparr>"

definition zero_NcListentPublicIpsResponse :: NcListentPublicIpsResponse where
  "zero_NcListentPublicIpsResponse = \<lparr>nl_HttpStatus = 0, nl_Data = []\<rparr>"

definition dec_StaticNat :: "StaticNat decoder" where
  "dec_StaticNat = dec_struct (\<lambda>kvs z. do {
     i \<leftarrow> dec_field ''staticNatId'' dec_string kvs (stn_ID z);
     n \<leftarrow> dec_field ''name'' dec_string kvs (stn_Name z);
     v \<leftarrow> dec_field ''vpcId'' dec_string kvs (stn_VPCId z);
     m \<leftarrow> dec_field ''mappedIp'' dec_string kvs (stn_MappedIP z);
     net \<leftarrow> dec_field ''networkId'' dec_string kvs (stn_NetworkId z);
     pid \<leftarrow> dec_field ''publicIpId'' dec_string kvs (stn_PublicIpId z);
     pip \<leftarrow> dec_field ''publicIp'' dec_string kvs (stn_PublicIp z);
     Some \<lparr>stn_ID = i, stn_Name = n, stn_VPCId = v, stn_MappedIP = m, stn_NetworkId = net,
       stn_PublicIpId = pid, stn_PublicIp = pip\<rparr> })"

text \<open>An element of \<open>[]any\<close> takes whatever value is there.\<close>

definition dec_any :: "json decoder" where
  "dec_any j z = Some j"

definition dec_PublicIp :: "PublicIp decoder" where
  "dec_PublicIp = dec_struct (\<lambda>kvs z. do {
     acc \<leftarrow> dec_field ''accountId'' dec_string kvs (pi_Account z);
     vpc \<leftarrow> dec_field ''vpcId'' dec_string kvs (pi_VPCId z);
     zone \<leftarrow> dec_field ''zoneId'' dec_string kvs (pi_ZoneId z);
     i \<leftarrow> dec_field ''publicIpId'' dec_string kvs (pi_ID z);
     t \<leftarrow> dec_field ''type'' dec_string kvs (pi_Type z);
     cidr \<leftarrow> dec_field ''cidr'' dec_string kvs (pi_CIDR z);
     ip \<leftarrow> dec_field ''publicIp'' dec_string kvs (pi_IP z);
     portal \<leftarrow> dec_field ''portalZoneId'' dec_string kvs (pi_PortalZoneId z);
     ser \<leftarrow> dec_field ''serialIp'' dec_string kvs (pi_SerialIP z);
     vlan \<leftarrow> dec_field ''vlanId'' dec_int kvs (pi_VLANId z);
     pool \<leftarrow> dec_field ''publicIpPoolId'' dec_string kvs (pi_PublicIpPoolId z);
     alloc \<leftarrow> dec_field ''isAllocate'' dec_bool kvs (pi_IsAllocate z);
     nats \<leftarrow> dec_field ''staticNats'' (dec_list dec_StaticNat zero_StaticNat) kvs (pi_StaticNats z);
     fwd \<leftarrow> dec_field ''portForwardings'' (dec_list dec_any JNull) kvs (pi_PortForwardings z);
     Some \<lparr>pi_Account = acc, pi_VPCId = vpc, pi_ZoneId = zone, pi_ID = i, pi_Type = t, pi_CIDR = cidr,
       pi_IP = ip, pi_PortalZoneId = portal, pi_SerialIP = ser, pi_VLANId = vlan,
       pi_PublicIpPoolId = pool, pi_IsAllocate = alloc, pi_StaticNats = nats,
       pi_PortForwardings = fwd\<rparr> })"

definition dec_NcListentPublicIpsResponse :: "NcListentPublicIpsResponse decoder" where
  "dec_NcListentPublicIpsResponse = dec_struct (\<lambda>kvs z. do {
     h \<leftarrow> dec_field ''httpStatus'' dec_int kvs (nl_HttpStatus z);
     ips \<leftarrow> dec_field ''data'' (dec_list dec_PublicIp zero_PublicIp) kvs (nl_Data z);
     Some \<lparr>nl_HttpStatus = h, nl_Data = ips\<rparr> })"

section \<open>Attaching an address\<close>

record PostPayload =
  po_MappedIP :: string
  po_PublicIPId :: string

definition enc_PostPayload :: "PostPayload \<Rightarrow> json" where
  "enc_PostPayload p = JObj [(''mappedIp'', enc_string (po_MappedIP p)),
     (''publicIpId'', enc_string (po_PublicIPId p))]"

record MachinePrivateAddresses =
  ma_NetworkName :: string
  ma_Address :: string

record StaticNatIdResponse =
  ni_StaticNatId :: string

record NATAttachResponse =
  na_HttpStatus :: int
  na_Data :: StaticNatIdResponse

definition zero_NATAttachResponse :: NATAttachResponse where
  "zero_NATAttachResponse = \<lparr>na_HttpStatus = 0, na_Data = \<lparr>ni_StaticNatId = ''''\<rparr>\<rparr>"

definition dec_StaticNatIdResponse :: "StaticNatIdResponse decoder" where
  "dec_StaticNatIdResponse = dec_struct (\<lambda>kvs z. do {
     i \<leftarrow> dec_field ''staticNatId'' dec_string kvs (ni_StaticNatId z);
     Some \<lparr>ni_StaticNatId = i\<rparr> })"

definition dec_NATAttachResponse :: "NATAttachResponse decoder" where
  "dec_NATAttachResponse = dec_struct (\<lambda>kvs z. do {
     h \<leftarrow> dec_field ''httpStatus'' dec_int kvs (na_HttpStatus z);
     x \<leftarrow> dec_field ''data'' dec_StaticNatIdResponse kvs (na_Data z);
     Some \<lparr>na_HttpStatus = h, na_Data = x\<rparr> })"

section \<open>Firewall rules\<close>

record FirewallRuleRequest =
  fq_SrcNat :: bool
  fq_StartPort :: string
  fq_EndPort :: string
  fq_Protocol :: string
  fq_Action :: string
  fq_SrcNetwork :: "string list"
  fq_DstNetwork :: "string list"
  fq_StaticNatId :: string
  fq_SrcAddress :: "string list"
  fq_DstAddress :: "string list"

definition enc_FirewallRuleRequest :: "FirewallRuleRequest \<Rightarrow> json" where
  "enc_FirewallRuleRequest r = JObj (
       [(''srcNat'', enc_bool (fq_SrcNat r)), (''startport'', enc_string (fq_StartPort r)),
        (''endport'', enc_string (fq_EndPort r)), (''protocol'', enc_string (fq_Protocol r)),
        (''action'', enc_string (fq_Action r)), (''srcNetwork'', enc_list enc_string (fq_SrcNetwork r))]
     @ omit ''dstNetwork'' (fq_DstNetwork r = []) (enc_list enc_string (fq_DstNetwork r))
     @ [(''staticNatId'', enc_string (fq_StaticNatId r))]
     @ omit ''srcAddress'' (fq_SrcAddress r = []) (enc_list enc_string (fq_SrcAddress r))
     @ omit ''dstAddress'' (fq_DstAddress r = []) (enc_list enc_string (fq_DstAddress r)))"

record NcCreateFirewallRuleResponse =
  nf_HttpStatus :: int
  nf_JobId :: string
  nf_Detail :: string
  nf_VpcId :: string
  nf_PolicyId :: string

definition zero_NcCreateFirewallRuleResponse :: NcCreateFirewallRuleResponse where
  "zero_NcCreateFirewallRuleResponse =
     \<lparr>nf_HttpStatus = 0, nf_JobId = '''', nf_Detail = '''', nf_VpcId = '''', nf_PolicyId = ''''\<rparr>"

definition dec_NcCreateFirewallRuleResponse :: "NcCreateFirewallRuleResponse decoder" where
  "dec_NcCreateFirewallRuleResponse = dec_struct (\<lambda>kvs z. do {
     h \<leftarrow> dec_field ''httpStatus'' dec_int kvs (nf_HttpStatus z);
     j \<leftarrow> dec_field ''jobId'' dec_string kvs (nf_JobId z);
     d \<leftarrow> dec_field ''detail'' dec_string kvs (nf_Detail z);
     v \<leftarrow> dec_field ''vpcId'' dec_string kvs (nf_VpcId z);
     p \<leftarrow> dec_field ''policyId'' dec_string kvs (nf_PolicyId z);
     Some \<lparr>nf_HttpStatus = h, nf_JobId = j, nf_Detail = d, nf_VpcId = v, nf_PolicyId = p\<rparr> })"

section \<open>Networks\<close>

text \<open>The last four fields have no tag; \<open>encoding/json\<close> reads them under their own names.\<close>

record NetworkData =
  nd_Account :: string
  nd_ID :: string
  nd_ZoneID :: string
  nd_Type :: string
  nd_VLAN :: string
  nd_VPCID :: string
  nd_ProjectID :: string
  nd_Gateway :: string
  nd_CIDR :: string
  nd_StartIP :: string
  nd_EndIP :: string
  nd_ISCSIStartIP :: string
  nd_ISCSIEndIP :: string
  nd_Name :: string
  nd_Netmask :: string
  nd_Status :: string
  nd_MainNetworkID :: string
  nd_DataLakeYN :: string
  nd_OSNetworkID :: string
  nd_SSLVPN :: string

record ListNetworksResponse =
  ln_HttpStatus :: int
  ln_Data :: "NetworkData list"

definition zero_NetworkData :: NetworkData where
  "zero_NetworkData = \<lparr>nd_Account = '''', nd_ID = '''', nd_ZoneID = '''', nd_Type = '''', nd_VLAN = '''',
     nd_VPCID = '''', nd_ProjectID = '''', nd_Gateway = '''', nd_CIDR = '''', nd_StartIP = '''',
     nd_EndIP = '''', nd_ISCSIStartIP = '''', nd_ISCSIEndIP = '''', nd_Name = '''', nd_Netmask = '''',
     nd_Status = '''', nd_MainNetworkID = '''', nd_DataLakeYN = '''', nd_OSNetworkID = '''',
     nd_SSLVPN = ''''\<rparr>"

definition zero_ListNetworksResponse :: ListNetworksResponse where
  "zero_ListNetworksResponse = \<lparr>ln_HttpStatus = 0, ln_Data = []\<rparr>"

definition dec_NetworkData :: "NetworkData decoder" where
  "dec_NetworkData = dec_struct (\<lambda>kvs z. do {
     acc \<leftarrow> dec_field ''accountId'' dec_string kvs (nd_Account z);
     i \<leftarrow> dec_field ''networkId'' dec_string kvs (nd_ID z);
     zone \<leftarrow> dec_field ''zoneId'' dec_string kvs (nd_ZoneID z);
     t \<leftarrow> dec_field ''type'' dec_string kvs (nd_Type z);
     vlan \<leftarrow> dec_field ''interface'' dec_string kvs (nd_VLAN z);
     vpc \<leftarrow> dec_field ''vpcId'' dec_string kvs (nd_VPCID z);
     proj \<leftarrow> dec_field ''projectId'' dec_string kvs (nd_ProjectID z);
     gw \<leftarrow> dec_field ''gatewayIp'' dec_string kvs (nd_Gateway z);
     cidr \<leftarrow> dec_field ''cidr'' dec_string kvs (nd_CIDR z);
     st \<leftarrow> dec_field ''startIp'' dec_string kvs (nd_StartIP z);
     en \<leftarrow> dec_field ''endIp'' dec_string kvs (nd_EndIP z);
     ist \<leftarrow> dec_field ''iscsiStartIp'' dec_string kvs (nd_ISCSIStartIP z);
     ien \<leftarrow> dec_field ''iscsiEndIp'' dec_string kvs (nd_ISCSIEndIP z);
     n \<leftarrow> dec_field ''networkName'' dec_string kvs (nd_Name z);
     mask \<leftarrow> dec_field ''netmaskIp'' dec_string kvs (nd_Netmask z);
     status \<leftarrow> dec_field ''status'' dec_string kvs (nd_Status z);
     main_id \<leftarrow> dec_field ''MainNetworkID'' dec_string kvs (nd_MainNetworkID z);
     lake \<leftarrow> dec_field ''DataLakeYN'' dec_string kvs (nd_DataLakeYN z);
     os \<leftarrow> dec_field ''OSNetworkID'' dec_string kvs (nd_OSNetworkID z);
     vpn \<leftarrow> dec_field ''SSLVPN'' dec_string kvs (nd_SSLVPN z);
     Some \<lparr>nd_Account = acc, nd_ID = i, nd_ZoneID = zone, nd_Type = t, nd_VLAN = vlan, nd_VPCID = vpc,
       nd_ProjectID = proj, nd_Gateway = gw, nd_CIDR = cidr, nd_StartIP = st, nd_EndIP = en,
       nd_ISCSIStartIP = ist, nd_ISCSIEndIP = ien, nd_Name = n, nd_Netmask = mask, nd_Status = status,
       nd_MainNetworkID = main_id, nd_DataLakeYN = lake, nd_OSNetworkID = os, nd_SSLVPN = vpn\<rparr> })"

definition dec_ListNetworksResponse :: "ListNetworksResponse decoder" where
  "dec_ListNetworksResponse = dec_struct (\<lambda>kvs z. do {
     h \<leftarrow> dec_field ''httpStatus'' dec_int kvs (ln_HttpStatus z);
     ns \<leftarrow> dec_field ''data'' (dec_list dec_NetworkData zero_NetworkData) kvs (ln_Data z);
     Some \<lparr>ln_HttpStatus = h, ln_Data = ns\<rparr> })"

section \<open>Asynchronous jobs\<close>

record AsyncJobResultData =
  aj_JobId :: "string option"
  aj_Detail :: "string option"
  aj_VpcId :: "string option"
  aj_PolicyId :: "string option"

record QueryAsyncJobResultResponse =
  qa_HttpStatus :: int
  qa_JobId :: string
  qa_Data :: AsyncJobResultData
  qa_JobStatus :: string

definition zero_QueryAsyncJobResultResponse :: QueryAsyncJobResultResponse where
  "zero_QueryAsyncJobResultResponse = \<lparr>qa_HttpStatus = 0, qa_JobId = '''',
     qa_Data = \<lparr>aj_JobId = None, aj_Detail = None, aj_VpcId = None, aj_PolicyId = None\<rparr>,
     qa_JobStatus = ''''\<rparr>"

definition dec_AsyncJobResultData :: "AsyncJobResultData decoder" where
  "dec_AsyncJobResultData = dec_struct (\<lambda>kvs z. do {
     j \<leftarrow> dec_field ''jobId'' (dec_ptr dec_string '''') kvs (aj_JobId z);
     d \<leftarrow> dec_field ''detail'' (dec_ptr dec_string '''') kvs (aj_Detail z);
     v \<leftarrow> dec_field ''vpcId'' (dec_ptr dec_string '''') kvs (aj_VpcId z);
     p \<leftarrow> dec_field ''policyId'' (dec_ptr dec_string '''') kvs (aj_PolicyId z);
     Some \<lparr>aj_JobId = j, aj_Detail = d, aj_VpcId = v, aj_PolicyId = p\<rparr> })"

definition dec_QueryAsyncJobResultResponse :: "QueryAsyncJobResultResponse decoder" where
  "dec_QueryAsyncJobResultResponse = dec_struct (\<lambda>kvs z. do {
     h \<leftarrow> dec_field ''httpStatus'' dec_int kvs (qa_HttpStatus z);
     j \<leftarrow> dec_field ''jobId'' dec_string kvs (qa_JobId z);
     x \<leftarrow> dec_field ''data'' dec_AsyncJobResultData kvs (qa_Data z);
     s \<leftarrow> dec_field ''jobStatus'' dec_string kvs (qa_JobStatus z);
     Some \<lparr>qa_HttpStatus = h, qa_JobId = j, qa_Data = x, qa_JobStatus = s\<rparr> })"

section \<open>Deleting a server\<close>

record RequestPayloadDelete =
  rd_ForceDelete :: string

definition enc_RequestPayloadDelete :: "RequestPayloadDelete \<Rightarrow> json" where
  "enc_RequestPayloadDelete p = JObj [(''forceDelete'', enc_string (rd_ForceDelete p))]"

end
