(* ===== verification/CloudNetwork.thy ===== *)
theory CloudNetwork
  imports CloudVM CloudTypes
begin

text \<open>
  Public addresses, networks and firewall rules: \<^verbatim>\<open>cmd/httpapi/network.go\<close>.

  Go visits the keys of the map \<open>Status.Addresses\<close> in no fixed order: \<open>e_map_order\<close> chooses
  it, and a key that is not in the map contributes nothing. The lemmas show which address, which
  public address and which network a request names, what is stored for them, and on which
  branches each operation fails.
\<close>

section \<open>Reading\<close>

definition GetAvailablePublicIpAddresses :: "'w env \<Rightarrow> string \<Rightarrow> ('w, PublicIp list) op" where
  "GetAvailablePublicIpAddresses env token =
     bindG (cloud_get env token ''/nsm/v1/publicIp'' dec_NcListentPublicIpsResponse zero_NcListentPublicIpsResponse)
       (\<lambda>resp. retG (filter (\<lambda>ip. pi_Type ip = ''ASSOCIATE'') (nl_Data resp)))"

definition GetAssignedPublicIpAddresses :: "'w env \<Rightarrow> string \<Rightarrow> ('w, PublicIp list) op" where
  "GetAssignedPublicIpAddresses env token =
     bindG (cloud_get env token ''/nsm/v1/publicIp'' dec_NcListentPublicIpsResponse zero_NcListentPublicIpsResponse)
       (\<lambda>resp. retG (filter (\<lambda>ip. pi_Type ip = ''STATICNAT'' \<and> 0 < length (pi_StaticNats ip)) (nl_Data resp)))"

definition GetNetworkIdByName :: "'w env \<Rightarrow> string \<Rightarrow> string \<Rightarrow> ('w, NetworkData) op" where
  "GetNetworkIdByName env token network_name =
     bindG (cloud_get env token ''/nsm/v1/network?networkType=ALL'' dec_ListNetworksResponse zero_ListNetworksResponse)
       (\<lambda>resp. case find (\<lambda>n. nd_Name n = network_name) (ln_Data resp) of
          Some network \<Rightarrow> retG network
        | None \<Rightarrow> failG (NewError (''network with name '' @ [CHR 0x27] @ network_name @ [CHR 0x27] @ '' not found'')))"

definition GetNetworkAllNetworks :: "'w env \<Rightarrow> string \<Rightarrow> ('w, NetworkData list) op" where
  "GetNetworkAllNetworks env token =
     bindG (cloud_get env token ''/nsm/v1/network?networkType=ALL'' dec_ListNetworksResponse zero_ListNetworksResponse)
       (\<lambda>resp. retG (ln_Data resp))"

definition GetNetworkingJobId :: "'w env \<Rightarrow> string \<Rightarrow> string \<Rightarrow> string \<Rightarrow> ('w, string) op" where
  "GetNetworkingJobId env token job_id job_type =
     bindG (http_do env (cloud_request ''GET'' (api_url env (''/nsm/v1/job/status/'' @ job_id)) token '''')) (\<lambda>resp.
     bindG (read_body resp) (\<lambda>body.
     if status_ok (hr_StatusCode resp) then
       bindG (liftG (json_unmarshal dec_QueryAsyncJobResultResponse zero_QueryAsyncJobResultResponse body)) (\<lambda>r.
       if job_type = ''Firewall_Create'' then
         (case aj_PolicyId (qa_Data r) of
            Some p \<Rightarrow> retG p | None \<Rightarrow> failG (NewError ''PolicyId is nil''))
       else
         (case aj_VpcId (qa_Data r) of
            Some v \<Rightarrow> retG v | None \<Rightarrow> failG (NewError ''VpcId is nil'')))
     else failG (NewError (''get request failed with status: '' @ hr_Status resp))))"

section \<open>Attaching a public address\<close>

definition private_addresses :: "(string \<times> Address list) list \<Rightarrow> string list \<Rightarrow> MachinePrivateAddresses list" where
  "private_addresses addrs order = concat (map (\<lambda>network.
     map (\<lambda>a. \<lparr>ma_NetworkName = network, ma_Address = ad_Addr a\<rparr>)
       (case map_of addrs network of None \<Rightarrow> [] | Some as \<Rightarrow> as)) order)"

definition attach_request :: "'w env \<Rightarrow> string \<Rightarrow> string \<Rightarrow> string \<Rightarrow> http_request" where
  "attach_request env token mappedIp publicIpId =
     cloud_request ''POST'' (api_url env ''/nsm/v1/staticNat'') token
       (print_json (enc_PostPayload \<lparr>po_MappedIP = mappedIp, po_PublicIPId = publicIpId\<rparr>))"

definition assigned_ip :: "PublicIp \<Rightarrow> string \<Rightarrow> MachinePrivateAddresses \<Rightarrow> AssignedPublicIps" where
  "assigned_ip ip natId priv =
     \<lparr>ap_IP = pi_IP ip, ap_Id = pi_ID ip, ap_StaticNatId = natId,
      ap_PairedPvtNetwork = zero_PairedPvtNetwork\<lparr>pp_NetworkName := ma_NetworkName priv,
        pp_VMPvtIP := ma_Address priv\<rparr>\<rparr>"

text \<open>The error of \<open>getRestConfig\<close> is returned here, where the other operations panic.\<close>

definition AttachPublicIP :: "'w env \<Rightarrow> KTMachine \<Rightarrow> string \<Rightarrow> ('w, KTMachine) op" where
  "AttachPublicIP env machine token =
     bindG (pickG (e_map_order env (map fst (st_Addresses (m_Status machine))))) (\<lambda>order.
     case private_addresses (st_Addresses (m_Status machine)) order of
       [] \<Rightarrow> failG (NewError ''failed to get machine address to pair with public ip address for firewall settings'')
     | priv # _ \<Rightarrow>
       bindG (GetAvailablePublicIpAddresses env token) (\<lambda>publicIPs.
       case publicIPs of
         [] \<Rightarrow> failG (NewError ''no available public ip addresses on the cloud, maybe try creating in the cloud in same zone as the cluster'')
       | ip # _ \<Rightarrow>
         bindG (http_do env (attach_request env token (ma_Address priv) (pi_ID ip))) (\<lambda>resp.
         bindG (read_body resp) (\<lambda>body.
         if status_ok (hr_StatusCode resp) then
           bindG (liftG (json_unmarshal dec_NATAttachResponse zero_NATAttachResponse body)) (\<lambda>r.
           if na_HttpStatus r < 200 \<or> 300 \<le> na_HttpStatus r then
             failG (NewError (''Failed to attach public IP: '' @ ni_StaticNatId (na_Data r)))
           else
             bindG (getRestConfig env (c_Kubeconfig (e_config env))) (\<lambda>_.
             bindG (client_or_exit env) (\<lambda>_.
             let st = m_Status machine;
                 st' = st\<lparr>st_AssignedPublicIps :=
                   st_AssignedPublicIps st @ [assigned_ip ip (ni_StaticNatId (na_Data r)) priv]\<rparr>
             in updateVMStatus env machine st' (st_Status st'))))
         else failG (NewError (''post request failed with status:'' @ hr_Status resp))))))"

section \<open>Firewall objects in the cluster\<close>

definition firewall_job :: "NcCreateFirewallRuleResponse \<Rightarrow> FirewallJobs" where
  "firewall_job r = \<lparr>fj_JobId = nf_JobId r, fj_VPCId = nf_VpcId r, fj_PolicyId = nf_PolicyId r,
     fj_Detail = nf_Detail r\<rparr>"

definition new_firewall :: "KTMachine \<Rightarrow> FirewallRules \<Rightarrow> FirewallJobs \<Rightarrow> KTNetworkFirewall" where
  "new_firewall machine rule job =
     \<lparr>kf_TypeMeta = zero_TypeMeta,
      kf_Meta = zero_ObjectMeta\<lparr>om_Name := m_Name machine, om_Namespace := m_Namespace machine,
        om_OwnerReferences := [\<lparr>or_APIVersion = tm_APIVersion (m_TypeMeta machine),
          or_Kind = tm_Kind (m_TypeMeta machine), or_Name = m_Name machine,
          or_UID = om_UID (m_Meta machine), or_Controller = Some True,
          or_BlockOwnerDeletion = Some True\<rparr>]\<rparr>,
      kf_Spec = \<lparr>fs_FirewallRules = [rule]\<rparr>,
      kf_Status = \<lparr>ft_FirewallJobs = [job]\<rparr>\<rparr>"

definition add_job :: "FirewallJobs \<Rightarrow> KTNetworkFirewall \<Rightarrow> KTNetworkFirewall" where
  "add_job job fw = fw\<lparr>kf_Status := \<lparr>ft_FirewallJobs = ft_FirewallJobs (kf_Status fw) @ [job]\<rparr>\<rparr>"

definition add_rule :: "FirewallRules \<Rightarrow> KTNetworkFirewall \<Rightarrow> KTNetworkFirewall" where
  "add_rule rule fw = fw\<lparr>kf_Spec := \<lparr>fs_FirewallRules = fs_FirewallRules (kf_Spec fw) @ [rule]\<rparr>\<rparr>"

definition get_firewall :: "'w env \<Rightarrow> KTMachine \<Rightarrow> ('w, KTNetworkFirewall) op" where
  "get_firewall env machine =
     callG (GetCall KindKTNetworkFirewall (m_Name machine, m_Namespace machine))
       (e_get_firewall env (m_Name machine, m_Namespace machine))"

definition update_firewall_status :: "'w env \<Rightarrow> KTNetworkFirewall \<Rightarrow> ('w, unit) op" where
  "update_firewall_status env fw =
     bindG (callG (StatusUpdate (OFirewall fw)) (e_status_update_firewall env fw)) (\<lambda>_. retG ())"

definition createFirewallObjectInK8s ::
    "'w env \<Rightarrow> KTMachine \<Rightarrow> NcCreateFirewallRuleResponse \<Rightarrow> FirewallRules \<Rightarrow> ('w, unit) op" where
  "createFirewallObjectInK8s env machine serverResponse rule =
     bindG (rest_config_or_panic env) (\<lambda>_.
     bindG (client_or_exit env) (\<lambda>_.
     let job = firewall_job serverResponse in
     bindG (tryG (get_firewall env machine)) (\<lambda>r. case r of
       Inl e \<Rightarrow>
         (if is_not_found e then
            let fw = new_firewall machine rule job in
            bindG (callG (CreateCall (OFirewall fw)) (e_create_firewall env fw)) (\<lambda>_.
            bindG (get_firewall env machine) (\<lambda>existing.
            update_firewall_status env (add_job job existing)))
          else failG e)
     | Inr existing \<Rightarrow> update_firewall_status env (add_job job (add_rule rule existing)))))"

section \<open>Adding firewall settings\<close>

definition external_network :: "NetworkData list \<Rightarrow> string" where
  "external_network nets =
     (case find (\<lambda>n. nd_Name n = ''external'' \<or> nd_Type n = ''UNTRUST'') nets of
        None \<Rightarrow> '''' | Some n \<Rightarrow> nd_ID n)"

text \<open>The loop assigns each id in turn, so the last one stays.\<close>

definition last_static_nat :: "KTMachine \<Rightarrow> string" where
  "last_static_nat machine =
     foldl (\<lambda>_ a. ap_StaticNatId a) '''' (st_AssignedPublicIps (m_Status machine))"

definition firewall_request :: "'w env \<Rightarrow> string \<Rightarrow> SecurityGroupRule \<Rightarrow> string \<Rightarrow> string \<Rightarrow> http_request" where
  "firewall_request env token rule externalNetworkID staticNatId =
     cloud_request ''POST'' (api_url env ''/nsm/v1/firewall/policy'') token
       (print_json (enc_FirewallRuleRequest
         \<lparr>fq_SrcNat = False, fq_StartPort = sr_StartPort rule, fq_EndPort = sr_EndPort rule,
          fq_Protocol = sr_Protocol rule, fq_Action = sr_Action rule,
          fq_SrcNetwork = [externalNetworkID], fq_DstNetwork = [], fq_StaticNatId = staticNatId,
          fq_SrcAddress = [], fq_DstAddress = []\<rparr>))"

definition group_rules :: "SecurityGroupRule \<Rightarrow> string \<Rightarrow> string \<Rightarrow> FirewallRules" where
  "group_rules rule externalNetworkID staticNatId =
     \<lparr>fr_SrcNat = False, fr_StartPort = sr_StartPort rule, fr_EndPort = sr_EndPort rule,
      fr_Protocol = sr_Protocol rule, fr_Action = sr_Action rule, fr_SrcNetwork = [externalNetworkID],
      fr_DstNetwork = [], fr_StaticNatId = staticNatId, fr_SrcAddress = [], fr_DstAddress = []\<rparr>"

text \<open>The flag for outbound traffic is a parameter of the Go function that it does not read.\<close>

definition AddFirewallSettings :: "'w env \<Rightarrow> KTMachine \<Rightarrow> string \<Rightarrow> SecurityGroupRule \<Rightarrow> bool \<Rightarrow> ('w, unit) op" where
  "AddFirewallSettings env machine token rule enableOutboundInternetTraffic =
     bindG (GetAssignedPublicIpAddresses env token) (\<lambda>publicIPs.
     if publicIPs = [] then
       failG (NewError ''no ip addresses have been assigned to find public address for this machine'')
     else
     bindG (GetNetworkAllNetworks env token) (\<lambda>networkList.
     if networkList = [] then failG (NewError ''failed to get external network from cloud api call'')
     else if external_network networkList = [] then failG (NewError ''failed to find external network ID'')
     else
     bindG (http_do env (firewall_request env token rule (external_network networkList) (last_static_nat machine))) (\<lambda>resp.
     bindG (read_body resp) (\<lambda>body.
     if status_ok (hr_StatusCode resp) then
       bindG (liftG (json_unmarshal dec_NcCreateFirewallRuleResponse zero_NcCreateFirewallRuleResponse body)) (\<lambda>r.
       if nf_HttpStatus r < 200 \<or> 300 \<le> nf_HttpStatus r then
         failG (NewError (''failed to add firewall settings - http code: '' @ show_int (nf_HttpStatus r)))
       else createFirewallObjectInK8s env machine r
              (group_rules rule (external_network networkList) (last_static_nat machine)))
     else failG (NewError (''post request failed with status:'' @ hr_Status resp))))))"

section \<open>Contracts\<close>

text \<open>The calls of a run that change something, in order. A query contributes none of them.\<close>

abbreviation writes :: "('w, 'a) op \<Rightarrow> 'w \<Rightarrow> call list" where
  "writes m w \<equiv> filter (\<lambda>c. \<not> read_only c) (trace m w)"

context query
begin

lemma no_writes: "writes q w = []"
  using reads by (auto simp: filter_empty_conv dest: spec_trace)

lemma writes_after: "writes (bindG q f) w = (case outcome q w of Inl e \<Rightarrow> [] | Inr x \<Rightarrow> writes (f x) (world q w))"
  using no_writes [of w] by (simp add: trace_bindG split: sum.split)

end

interpretation rest_config: query "getRestConfig env p" for env :: "'w env" and p
  by unfold_locales (intro spec_intros TrueI; simp add: read_only_def)

interpretation config_or_panic: query "rest_config_or_panic env" for env :: "'w env"
  by unfold_locales (intro spec_intros TrueI; simp add: read_only_def)

interpretation k8s_client: query "client_or_exit env" for env :: "'w env"
  by unfold_locales (intro spec_intros TrueI; simp add: read_only_def)

text \<open>An answer that was read came from the cloud with success.\<close>

lemma http_answer:
  assumes "outcome (http_do env rq) w = Inr resp"
  shows "(\<exists>u. e_url_parse env (rq_URL rq) = Inr u) \<and> e_http env rq w = (Inr resp, world (http_do env rq) w)
    \<and> trace (http_do env rq) w = [HttpCall rq]"
  using assms by (cases "e_url_parse env (rq_URL rq)") (auto simp: http_do_def run_defs go_simps split: prod.splits sum.splits)

lemma http_writes: "\<not> read_only (HttpCall rq) \<Longrightarrow> writes (http_do env rq) w \<in> {[], [HttpCall rq]}"
  by (cases "e_url_parse env (rq_URL rq)") (auto simp: http_do_def)

lemma cloud_get_answer:
  assumes "outcome (cloud_get env token path d z) w = Inr x"
  shows "accepted env (get_request env token path) w d z x (world (cloud_get env token path d z) w)"
proof -
  let ?rq = "get_request env token path"
  have o: "outcome (bindG (http_do env ?rq) (\<lambda>resp. bindG (read_body resp) (\<lambda>body.
      if status_ok (hr_StatusCode resp) then liftG (json_unmarshal d z body)
      else failG (NewError (''GET request failed with status: '' @ hr_Status resp))))) w = Inr x"
    using assms by (simp add: cloud_get_def get_request_def)
  then obtain resp where resp: "outcome (http_do env ?rq) w = Inr resp"
    by (auto simp: outcome_bindG split: sum.splits)
  obtain body where body: "hr_Body resp = Inr body" and ok: "status_ok (hr_StatusCode resp)"
      and x: "json_unmarshal d z body = Inr x"
    using o resp by (auto simp: outcome_bindG read_body_def liftG_def split: sum.splits if_splits)
  have "world (cloud_get env token path d z) w = world (http_do env ?rq) w"
    using resp body ok x by (simp add: cloud_get_def get_request_def world_bindG outcome_bindG read_body_def)
  with http_answer [OF resp] body ok x show ?thesis unfolding accepted_def by auto
qed

interpretation available_ips: safe_query "GetAvailablePublicIpAddresses env token" for env :: "'w env" and token
  by unfold_locales (unfold GetAvailablePublicIpAddresses_def,
    (intro spec_bind_any spec_intros TrueI; simp add: read_only_def)+)

interpretation assigned_ips: safe_query "GetAssignedPublicIpAddresses env token" for env :: "'w env" and token
  by unfold_locales (unfold GetAssignedPublicIpAddresses_def,
    (intro spec_bind_any spec_intros TrueI; simp add: read_only_def)+)

interpretation all_networks: safe_query "GetNetworkAllNetworks env token" for env :: "'w env" and token
  by unfold_locales (unfold GetNetworkAllNetworks_def,
    (intro spec_bind_any spec_intros TrueI; simp add: read_only_def)+)

interpretation network_by_name: safe_query "GetNetworkIdByName env token n" for env :: "'w env" and token n
  by unfold_locales (unfold GetNetworkIdByName_def,
    (intro spec_bind_any spec_intros TrueI; simp add: read_only_def)+)

interpretation job_id: safe_query "GetNetworkingJobId env token j t" for env :: "'w env" and token j t
  by unfold_locales (unfold GetNetworkingJobId_def,
    (intro spec_bind_any spec_intros TrueI; simp add: read_only_def cloud_request_def)+)

interpretation firewall_object: safe_query "get_firewall env m" for env :: "'w env" and m
  by unfold_locales (unfold get_firewall_def, (intro spec_intros TrueI; simp add: read_only_def)+)

text \<open>The addresses that the machine has on some network.\<close>

definition machine_addresses :: "KTMachine \<Rightarrow> (string \<times> string) set" where
  "machine_addresses m = {(k, ad_Addr a) | k as a.
     map_of (st_Addresses (m_Status m)) k = Some as \<and> a \<in> set as}"

lemma private_addresses_machine:
  "p \<in> set (private_addresses (st_Addresses (m_Status m)) order) \<Longrightarrow>
   (ma_NetworkName p, ma_Address p) \<in> machine_addresses m"
  by (auto simp: private_addresses_def machine_addresses_def dest!: sym [of "Some _"] split: option.splits)

definition with_ip :: "KTMachine \<Rightarrow> AssignedPublicIps \<Rightarrow> KTMachine" where
  "with_ip m a = m\<lparr>m_Status := (m_Status m)\<lparr>st_AssignedPublicIps := st_AssignedPublicIps (m_Status m) @ [a]\<rparr>\<rparr>"

text \<open>A call of \<open>AttachPublicIP\<close> that writes: the NAT request for one of the machine's own
  addresses, or the update that adds that address's public one to the status.\<close>

definition attach_write :: "'w env \<Rightarrow> KTMachine \<Rightarrow> string \<Rightarrow> call \<Rightarrow> bool" where
  "attach_write env m token c \<longleftrightarrow> read_only c
     \<or> (\<exists>net addr ip. (net, addr) \<in> machine_addresses m
         \<and> (c = HttpCall (attach_request env token addr (pi_ID ip))
            \<or> (\<exists>natId. c = StatusUpdate (OMachine (with_ip m (assigned_ip ip natId
                 \<lparr>ma_NetworkName = net, ma_Address = addr\<rparr>))))))"

lemma attach_calls: "spec (attach_write env m token) (AttachPublicIP env m token) (\<lambda>_. True) (\<lambda>_. True)"
proof -
  have ro: "read_only c \<Longrightarrow> attach_write env m token c" for c by (simp add: attach_write_def)
  have look: "spec (attach_write env m token) (GetAvailablePublicIpAddresses env token) (\<lambda>_. True) (\<lambda>_. True)"
    by (rule spec_weaken [OF available_ips.reads]) (simp_all add: ro)
  have post: "attach_write env m token (HttpCall (attach_request env token (ma_Address priv) (pi_ID ip)))"
    if "private_addresses (st_Addresses (m_Status m)) order = priv # ps" for priv ps order and ip :: PublicIp
    using private_addresses_machine [of priv m order] that unfolding attach_write_def by fastforce
  have upd: "attach_write env m token (StatusUpdate (OMachine (m\<lparr>m_Status := (m_Status m)\<lparr>
      st_AssignedPublicIps := st_AssignedPublicIps (m_Status m) @ [assigned_ip ip natId priv]\<rparr>\<rparr>)))"
    if "private_addresses (st_Addresses (m_Status m)) order = priv # ps" for priv ps order natId and ip :: PublicIp
  proof -
    have "assigned_ip ip natId priv =
        assigned_ip ip natId \<lparr>ma_NetworkName = ma_NetworkName priv, ma_Address = ma_Address priv\<rparr>" by (simp add: assigned_ip_def)
    with private_addresses_machine [of priv m order] that show ?thesis
      unfolding attach_write_def with_ip_def by (metis list.set_intros(1))
  qed
  show ?thesis
    unfolding AttachPublicIP_def updateVMStatus_def Let_def
    by (intro spec_bind_any [OF look] spec_bind_any [OF spec_pick] spec_bind_any [OF spec_http_do]
        spec_bind_any [OF spec_read_body] spec_bind_any [OF spec_lift] spec_bind_any [OF spec_getRestConfig]
        spec_bind_any [OF spec_client_or_exit] spec_list spec_stopI TrueI spec_if spec_call post)
      (auto simp: ro read_only_def upd)
qed

section \<open>Properties of attaching\<close>

lemma enc_PostPayload_wf: "wf_json (enc_PostPayload p)"
  by (simp add: enc_PostPayload_def enc_string_def)

lemma attach_request_body:
  "json_parse (rq_Body (attach_request env token addr i)) =
     Some (JObj [(''mappedIp'', JStr addr), (''publicIpId'', JStr i)])"
proof -
  have "json_parse (rq_Body (attach_request env token addr i)) = Some (enc_PostPayload \<lparr>po_MappedIP = addr, po_PublicIPId = i\<rparr>)"
    by (simp only: attach_request_def cloud_request_def http_request.simps json_roundtrip enc_PostPayload_wf)
  then show ?thesis by (simp add: enc_PostPayload_def enc_string_def)
qed

text \<open>The public addresses that the code may attach, in the cloud's order.\<close>

abbreviation free_ips :: "NcListentPublicIpsResponse \<Rightarrow> PublicIp list" where
  "free_ips resp \<equiv> filter (\<lambda>x. pi_Type x = ''ASSOCIATE'') (nl_Data resp)"

lemma available_answer:
  assumes "outcome (GetAvailablePublicIpAddresses env token) w = Inr ips"
  shows "\<exists>resp. accepted env (get_request env token ''/nsm/v1/publicIp'') w
      dec_NcListentPublicIpsResponse zero_NcListentPublicIpsResponse resp (world (GetAvailablePublicIpAddresses env token) w)
    \<and> ips = free_ips resp"
  using assms by (auto simp: GetAvailablePublicIpAddresses_def outcome_bindG world_bindG split: sum.splits
      dest!: cloud_get_answer)

text \<open>What follows the NAT request: its answer decides whether the pair is stored.\<close>

definition after_nat :: "'w env \<Rightarrow> KTMachine \<Rightarrow> PublicIp \<Rightarrow> MachinePrivateAddresses \<Rightarrow> http_response \<Rightarrow> ('w, KTMachine) op" where
  "after_nat env m ip priv resp =
     bindG (read_body resp) (\<lambda>body.
     if status_ok (hr_StatusCode resp) then
       bindG (liftG (json_unmarshal dec_NATAttachResponse zero_NATAttachResponse body)) (\<lambda>r.
       if na_HttpStatus r < 200 \<or> 300 \<le> na_HttpStatus r then
         failG (NewError (''Failed to attach public IP: '' @ ni_StaticNatId (na_Data r)))
       else
         bindG (getRestConfig env (c_Kubeconfig (e_config env))) (\<lambda>_.
         bindG (client_or_exit env) (\<lambda>_.
         callG (StatusUpdate (OMachine (with_ip m (assigned_ip ip (ni_StaticNatId (na_Data r)) priv))))
           (e_status_update_machine env (with_ip m (assigned_ip ip (ni_StaticNatId (na_Data r)) priv))))))
     else failG (NewError (''post request failed with status:'' @ hr_Status resp)))"

lemma write_after_setup:
  assumes "\<not> read_only c"
  shows "writes (bindG (getRestConfig env p) (\<lambda>_. bindG (client_or_exit env) (\<lambda>_. callG c f))) w \<in> {[], [c]}"
  using assms by (simp add: rest_config.writes_after k8s_client.writes_after split: sum.split)

lemma after_nat_writes:
  "writes (after_nat env m ip priv resp) w = []
   \<or> (\<exists>body r. hr_Body resp = Inr body \<and> status_ok (hr_StatusCode resp)
      \<and> json_unmarshal dec_NATAttachResponse zero_NATAttachResponse body = Inr r \<and> status_ok (na_HttpStatus r)
      \<and> writes (after_nat env m ip priv resp) w
          = [StatusUpdate (OMachine (with_ip m (assigned_ip ip (ni_StaticNatId (na_Data r)) priv)))])"
proof (cases "hr_Body resp")
  case (Inl e)
  then show ?thesis by (simp add: after_nat_def read_body_def)
next
  case (Inr body)
  show ?thesis
  proof (cases "json_unmarshal dec_NATAttachResponse zero_NATAttachResponse body")
    case (Inl e)
    with Inr show ?thesis by (simp add: after_nat_def read_body_def)
  next
    case r: (Inr r)
    have "\<not> (na_HttpStatus r < 200 \<or> 300 \<le> na_HttpStatus r) \<longleftrightarrow> status_ok (na_HttpStatus r)"
      unfolding status_ok_def by linarith
    moreover have "\<not> read_only (StatusUpdate x)" for x by (simp add: read_only_def)
    ultimately show ?thesis
      using Inr r write_after_setup [of "StatusUpdate (OMachine (with_ip m (assigned_ip ip (ni_StaticNatId (na_Data r)) priv)))"
          env "c_Kubeconfig (e_config env)" "e_status_update_machine env (with_ip m (assigned_ip ip (ni_StaticNatId (na_Data r)) priv))" w]
      by (auto simp: after_nat_def read_body_def)
  qed
qed

lemma AttachPublicIP_eq:
  "AttachPublicIP env m token w = (case e_map_order env (map fst (st_Addresses (m_Status m))) w of (order, w0) \<Rightarrow>
     (case private_addresses (st_Addresses (m_Status m)) order of
       [] \<Rightarrow> failG (NewError ''failed to get machine address to pair with public ip address for firewall settings'')
     | priv # _ \<Rightarrow> bindG (GetAvailablePublicIpAddresses env token) (\<lambda>publicIPs. case publicIPs of
         [] \<Rightarrow> failG (NewError ''no available public ip addresses on the cloud, maybe try creating in the cloud in same zone as the cluster'')
       | ip # _ \<Rightarrow> bindG (http_do env (attach_request env token (ma_Address priv) (pi_ID ip))) (after_nat env m ip priv))) w0)"
proof -
  have same: "a\<lparr>st_Status := st_Status a\<rparr> = a" for a :: KTMachineStatus by simp
  show ?thesis
    unfolding AttachPublicIP_def after_nat_def [abs_def] updateVMStatus_def Let_def with_ip_def same
    by (cases "e_map_order env (map fst (st_Addresses (m_Status m))) w") (simp add: bindG_apply pickG_apply)
qed

text \<open>C21: Attaching a public address makes at most two changes. The first is the request that
  maps the first free public address of the cloud's list to an address of the machine; when the
  cloud accepts it, the machine is stored once, with one more assigned address and otherwise as it
  was, and that entry pairs the same public address, with the static NAT of that answer, with the
  same private address and its network. In every other case nothing else is changed.\<close>

theorem attach_pairs_own_address:
  "filter (\<lambda>c. \<not> read_only c) (trace (AttachPublicIP env m token) w) = []
   \<or> (\<exists>net addr w0 resp w1 ip rest. (net, addr) \<in> machine_addresses m
      \<and> accepted env (get_request env token ''/nsm/v1/publicIp'') w0
          dec_NcListentPublicIpsResponse zero_NcListentPublicIpsResponse resp w1
      \<and> filter (\<lambda>x. pi_Type x = ''ASSOCIATE'') (nl_Data resp) = ip # rest
      \<and> (filter (\<lambda>c. \<not> read_only c) (trace (AttachPublicIP env m token) w)
            = [HttpCall (attach_request env token addr (pi_ID ip))]
         \<or> (\<exists>r w2. accepted env (attach_request env token addr (pi_ID ip)) w1
                dec_NATAttachResponse zero_NATAttachResponse r w2
            \<and> status_ok (na_HttpStatus r)
            \<and> filter (\<lambda>c. \<not> read_only c) (trace (AttachPublicIP env m token) w)
                = [HttpCall (attach_request env token addr (pi_ID ip)),
                   StatusUpdate (OMachine (with_ip m (assigned_ip ip (ni_StaticNatId (na_Data r))
                     \<lparr>ma_NetworkName = net, ma_Address = addr\<rparr>)))])))"
proof -
  obtain order w0 where order: "e_map_order env (map fst (st_Addresses (m_Status m))) w = (order, w0)" by fastforce
  show ?thesis
  proof (cases "private_addresses (st_Addresses (m_Status m)) order")
    case Nil
    then show ?thesis by (simp add: trace_def AttachPublicIP_eq order stopG_apply)
  next
    case (Cons priv ps)
    let ?avail = "GetAvailablePublicIpAddresses env token" and ?w1 = "world (GetAvailablePublicIpAddresses env token) w0"
    define k where "k = (\<lambda>publicIPs. case publicIPs of
         [] \<Rightarrow> failG (NewError ''no available public ip addresses on the cloud, maybe try creating in the cloud in same zone as the cluster'')
       | ip # _ \<Rightarrow> bindG (http_do env (attach_request env token (ma_Address priv) (pi_ID ip))) (after_nat env m ip priv))"
    have "trace (AttachPublicIP env m token) w = trace (bindG ?avail k) w0"
      by (simp add: trace_def AttachPublicIP_eq order Cons k_def)
    then have W: "writes (AttachPublicIP env m token) w
        = (case outcome ?avail w0 of Inl e \<Rightarrow> [] | Inr ips \<Rightarrow> writes (k ips) ?w1)"
      by (simp add: available_ips.writes_after)
    show ?thesis
    proof (cases "\<exists>ip rest. outcome ?avail w0 = Inr (ip # rest)")
      case False
      then have "writes (AttachPublicIP env m token) w = []"
        unfolding W k_def by (auto split: sum.split list.split)
      then show ?thesis ..
    next
      case True
      then obtain ip rest where ips: "outcome ?avail w0 = Inr (ip # rest)" by blast
      let ?rq = "attach_request env token (ma_Address priv) (pi_ID ip)"
      have rq: "\<not> read_only (HttpCall ?rq)" by (simp add: read_only_def attach_request_def cloud_request_def)
      from ips W have W': "writes (AttachPublicIP env m token) w = writes (http_do env ?rq) ?w1
          @ (case outcome (http_do env ?rq) ?w1 of Inl e \<Rightarrow> [] | Inr x \<Rightarrow> writes (after_nat env m ip priv x) (world (http_do env ?rq) ?w1))"
        by (simp add: k_def trace_bindG split: sum.split)
      have own: "(ma_NetworkName priv, ma_Address priv) \<in> machine_addresses m"
        by (rule private_addresses_machine [of _ m order]) (simp add: Cons)
      obtain resp where get: "accepted env (get_request env token ''/nsm/v1/publicIp'') w0
          dec_NcListentPublicIpsResponse zero_NcListentPublicIpsResponse resp ?w1" "ip # rest = free_ips resp"
        using available_answer [OF ips] by blast
      consider "writes (AttachPublicIP env m token) w \<in> {[], [HttpCall ?rq]}"
        | x body r where "outcome (http_do env ?rq) ?w1 = Inr x" "hr_Body x = Inr body" "status_ok (hr_StatusCode x)"
          "json_unmarshal dec_NATAttachResponse zero_NATAttachResponse body = Inr r" "status_ok (na_HttpStatus r)"
          "writes (AttachPublicIP env m token) w = [HttpCall ?rq,
            StatusUpdate (OMachine (with_ip m (assigned_ip ip (ni_StaticNatId (na_Data r)) priv)))]"
      proof (cases "outcome (http_do env ?rq) ?w1")
        case (Inl e)
        with W' http_writes [OF rq, of env ?w1] that(1) show thesis by simp
      next
        case (Inr x)
        then have "writes (http_do env ?rq) ?w1 = [HttpCall ?rq]"
          using http_answer rq by fastforce
        with W' Inr after_nat_writes [of env m ip priv x "world (http_do env ?rq) ?w1"] that show thesis by auto
      qed
      then show ?thesis
      proof cases
        case 1
        with own get show ?thesis by (metis (no_types, lifting) empty_iff insert_iff)
      next
        case 2
        have "accepted env ?rq ?w1 dec_NATAttachResponse zero_NATAttachResponse r (world (http_do env ?rq) ?w1)"
          using http_answer [OF 2(1)] 2(2-4) unfolding accepted_def by blast
        moreover have "priv = \<lparr>ma_NetworkName = ma_NetworkName priv, ma_Address = ma_Address priv\<rparr>" by simp
        ultimately show ?thesis using own get 2(5,6) by metis
      qed
    qed
  qed
qed

definition free_ip :: PublicIp where
  "free_ip = zero_PublicIp\<lparr>pi_ID := ''p1'', pi_Type := ''ASSOCIATE'', pi_IP := ''9.9.9.9''\<rparr>"

definition ip_list_body :: string where
  "ip_list_body = print_json (JObj [(''data'', JArr [JObj [(''publicIpId'', JStr ''p1''),
     (''type'', JStr ''ASSOCIATE''), (''publicIp'', JStr ''9.9.9.9'')]])])"

definition nat_body :: string where
  "nat_body = print_json (JObj [(''httpStatus'', JNum ''200''), (''data'', JObj [(''staticNatId'', JStr ''n1'')])])"

definition nat_env :: "unit env" where
  "nat_env = down_env\<lparr>e_http := (\<lambda>rq w. (Inr (answer 200 ''200 OK''
     (if rq_Method rq = ''GET'' then ip_list_body else nat_body)), w))\<rparr>"

definition addressed_machine :: KTMachine where
  "addressed_machine = zero_KTMachine\<lparr>m_Status := zero_KTMachineStatus\<lparr>st_Addresses :=
     [(''tier'', [zero_Address\<lparr>ad_Addr := ''10.0.0.7''\<rparr>])]\<rparr>\<rparr>"

lemma network_keys [dec_simps]:
  "to_lower ''data'' = ''data''" "to_lower ''publicIpId'' = ''publicipid''" "to_lower ''publicIp'' = ''publicip''"
  "to_lower ''httpStatus'' = ''httpstatus''" "to_lower ''accountId'' = ''accountid''" "to_lower ''vpcId'' = ''vpcid''"
  "to_lower ''zoneId'' = ''zoneid''" "to_lower ''cidr'' = ''cidr''" "to_lower ''portalZoneId'' = ''portalzoneid''"
  "to_lower ''serialIp'' = ''serialip''" "to_lower ''vlanId'' = ''vlanid''" "to_lower ''publicIpPoolId'' = ''publicippoolid''"
  "to_lower ''isAllocate'' = ''isallocate''" "to_lower ''staticNats'' = ''staticnats''"
  "to_lower ''portForwardings'' = ''portforwardings''" "to_lower ''jobId'' = ''jobid''"
  "to_lower ''detail'' = ''detail''" "to_lower ''policyId'' = ''policyid''" "to_lower ''mappedIp'' = ''mappedip''"
  by (simp_all add: to_lower_def to_lower_char_def char_of_def bit_0)

lemma ip_list_answer:
  "json_unmarshal dec_NcListentPublicIpsResponse zero_NcListentPublicIpsResponse ip_list_body =
     Inr \<lparr>nl_HttpStatus = 0, nl_Data = [free_ip]\<rparr>"
  by (simp add: ip_list_body_def json_unmarshal_def json_roundtrip dec_NcListentPublicIpsResponse_def
      zero_NcListentPublicIpsResponse_def dec_PublicIp_def dec_list_def zero_PublicIp_def dec_simps
      dec_string_def free_ip_def del: print_json.simps)

lemma parse_200: "parse_int ''200'' = Some 200"
  by (simp add: parse_int_def is_digit_def char_digit_def)

lemma valid_200: "valid_number ''200''"
  by (simp add: valid_number_def valid_frac_def valid_exp_def is_digit_def)

lemma nat_answer:
  "json_unmarshal dec_NATAttachResponse zero_NATAttachResponse nat_body =
     Inr \<lparr>na_HttpStatus = 200, na_Data = \<lparr>ni_StaticNatId = ''n1''\<rparr>\<rparr>"
  by (simp add: nat_body_def json_unmarshal_def json_roundtrip valid_200 dec_NATAttachResponse_def
      zero_NATAttachResponse_def dec_StaticNatIdResponse_def dec_int_def parse_200 dec_simps dec_string_def
      del: print_json.simps)

text \<open>A machine with no private address is not attached: the error is returned and the
  cloud is not even asked for its public addresses, whatever order the map is visited in.\<close>

theorem attach_needs_address:
  assumes "\<And>k as. map_of (st_Addresses (m_Status m)) k = Some as \<Longrightarrow> as = []"
  shows "(\<exists>e. outcome (AttachPublicIP env m token) w = Inl (Fail e)) \<and> trace (AttachPublicIP env m token) w = []"
proof -
  have "private_addresses (st_Addresses (m_Status m)) order = []" for order
    using assms by (auto simp: private_addresses_def split: option.split)
  then show ?thesis by (simp add: AttachPublicIP_def run_defs go_simps split: prod.split)
qed

theorem attach_needs_address_witness:
  "trace (AttachPublicIP (nat_env) zero_KTMachine ''t'') () = []"
  by (rule attach_needs_address [THEN conjunct2]) (simp add: zero_KTMachine_def zero_KTMachineStatus_def)

text \<open>The visible steps of a successful attachment.\<close>

definition attach_steps :: "'w env \<Rightarrow> KTMachine \<Rightarrow> string \<Rightarrow> MachinePrivateAddresses \<Rightarrow> PublicIp \<Rightarrow> string \<Rightarrow> call list" where
  "attach_steps env m token priv ip natId =
     [HttpCall (get_request env token ''/nsm/v1/publicIp''),
      HttpCall (attach_request env token (ma_Address priv) (pi_ID ip)),
      DefaultConfig, NewClient,
      StatusUpdate (OMachine (with_ip m (assigned_ip ip natId priv)))]"

text \<open>When the cloud answers, the first address of the first visited network is paired with
  the first public address of type ASSOCIATE in the cloud's list, and the machine is stored with
  its status otherwise unchanged, through exactly five calls.\<close>

theorem attach_first_free:
  assumes order: "e_map_order env (map fst (st_Addresses (m_Status m))) w = (order, w0)"
    and priv: "private_addresses (st_Addresses (m_Status m)) order = priv # ps"
    and ips: "accepted env (get_request env token ''/nsm/v1/publicIp'') w0
      dec_NcListentPublicIpsResponse zero_NcListentPublicIpsResponse resp w1"
    and free: "filter (\<lambda>x. pi_Type x = ''ASSOCIATE'') (nl_Data resp) = ip # rest"
    and nat: "accepted env (attach_request env token (ma_Address priv) (pi_ID ip)) w1
      dec_NATAttachResponse zero_NATAttachResponse r w2"
    and code: "status_ok (na_HttpStatus r)"
    and up: "client_up env w2 w3"
    and stored: "e_status_update_machine env (with_ip m (assigned_ip ip (ni_StaticNatId (na_Data r)) priv)) w3 = (Inr m', w4)"
  shows "AttachPublicIP env m token w =
    (Inr m', attach_steps env m token priv ip (ni_StaticNatId (na_Data r)), w4)"
proof -
  have avail: "GetAvailablePublicIpAddresses env token w0 =
      (Inr (ip # rest), [HttpCall (get_request env token ''/nsm/v1/publicIp'')], w1)"
    by (simp add: GetAvailablePublicIpAddresses_def go_simps cloud_get_accepted [OF ips] free)
  have same: "m\<lparr>m_Status := (m_Status m)\<lparr>st_AssignedPublicIps := st_AssignedPublicIps (m_Status m) @ [a]\<rparr>\<rparr> = with_ip m a" for a
    by (simp add: with_ip_def)
  obtain u rsp body where "e_url_parse env (rq_URL (attach_request env token (ma_Address priv) (pi_ID ip))) = Inr u"
      "e_http env (attach_request env token (ma_Address priv) (pi_ID ip)) w1 = (Inr rsp, w2)"
      "status_ok (hr_StatusCode rsp)" "hr_Body rsp = Inr body"
      "json_unmarshal dec_NATAttachResponse zero_NATAttachResponse body = Inr r"
    using nat unfolding accepted_def by blast
  moreover obtain wa where "c_Kubeconfig (e_config env) = []" "e_default_config env w2 = (Inr (), wa)" "e_new_client env wa = (Inr (), w3)"
    using up unfolding client_up_def by blast
  moreover have "\<not> (na_HttpStatus r < 200 \<or> 300 \<le> na_HttpStatus r)"
    using code unfolding status_ok_def by linarith
  ultimately show ?thesis
    by (simp add: AttachPublicIP_def go_simps order priv avail http_do_def read_body_def getRestConfig_def
        client_or_exit_def getClient_def Let_def updateVMStatus_def same stored attach_steps_def)
qed

theorem attach_first_free_witness:
  "outcome (AttachPublicIP nat_env addressed_machine ''t'') () =
     Inr (with_ip addressed_machine (assigned_ip free_ip ''n1'' \<lparr>ma_NetworkName = ''tier'', ma_Address = ''10.0.0.7''\<rparr>))"
proof -
  let ?priv = "\<lparr>ma_NetworkName = ''tier'', ma_Address = ''10.0.0.7''\<rparr>"
  have get: "accepted nat_env (get_request nat_env ''t'' ''/nsm/v1/publicIp'') ()
      dec_NcListentPublicIpsResponse zero_NcListentPublicIpsResponse \<lparr>nl_HttpStatus = 0, nl_Data = [free_ip]\<rparr> ()"
    by (simp add: accepted_def nat_env_def get_request_def cloud_request_def status_ok_def ip_list_answer)
  have post: "accepted nat_env (attach_request nat_env ''t'' (ma_Address ?priv) (pi_ID free_ip)) ()
      dec_NATAttachResponse zero_NATAttachResponse \<lparr>na_HttpStatus = 200, na_Data = \<lparr>ni_StaticNatId = ''n1''\<rparr>\<rparr> ()"
    by (simp add: accepted_def nat_env_def attach_request_def cloud_request_def status_ok_def nat_answer)
  have "AttachPublicIP nat_env addressed_machine ''t'' () =
      (Inr (with_ip addressed_machine (assigned_ip free_ip (ni_StaticNatId (na_Data \<lparr>na_HttpStatus = 200, na_Data = \<lparr>ni_StaticNatId = ''n1''\<rparr>\<rparr>)) ?priv)),
       attach_steps nat_env addressed_machine ''t'' ?priv free_ip
         (ni_StaticNatId (na_Data \<lparr>na_HttpStatus = 200, na_Data = \<lparr>ni_StaticNatId = ''n1''\<rparr>\<rparr>)), ())"
    by (rule attach_first_free [where order = "[''tier'']" and ps = "[]" and rest = "[]", OF _ _ get _ post])
      (simp_all add: nat_env_def addressed_machine_def private_addresses_def free_ip_def status_ok_def client_up_def)
  then show ?thesis by (simp add: outcome_def)
qed

section \<open>Properties of the firewall\<close>

text \<open>The static NAT of the machine's last assigned address.\<close>

definition last_nat :: "KTMachine \<Rightarrow> string" where
  "last_nat m = (if st_AssignedPublicIps (m_Status m) = [] then ''''
     else ap_StaticNatId (last (st_AssignedPublicIps (m_Status m))))"

lemma last_static_nat_eq: "last_static_nat m = last_nat m"
proof -
  have "foldl (\<lambda>_ a. ap_StaticNatId a) x ips = (if ips = [] then x else ap_StaticNatId (last ips))"
    for x and ips :: "AssignedPublicIps list"
    by (induction ips arbitrary: x) auto
  then show ?thesis by (simp add: last_static_nat_def last_nat_def)
qed

definition is_external :: "NetworkData \<Rightarrow> bool" where
  "is_external n \<longleftrightarrow> nd_Name n = ''external'' \<or> nd_Type n = ''UNTRUST''"

lemma external_network_first:
  assumes "external_network nets \<noteq> []"
  shows "\<exists>pre n post. nets = pre @ n # post \<and> nd_ID n = external_network nets \<and> is_external n
     \<and> (\<forall>x \<in> set pre. \<not> is_external x)"
proof -
  have f: "external_network nets = (case find is_external nets of None \<Rightarrow> '''' | Some n \<Rightarrow> nd_ID n)"
    by (simp add: external_network_def is_external_def [abs_def])
  with assms obtain n where n: "find is_external nets = Some n" by (cases "find is_external nets") simp_all
  then obtain i where i: "i < length nets" "is_external n" "nets ! i = n" "\<forall>j < i. \<not> is_external (nets ! j)"
    by (auto simp: find_Some_iff)
  then have "nets = take i nets @ n # drop (Suc i) nets" using id_take_nth_drop [of i nets] by simp
  moreover have "\<forall>x \<in> set (take i nets). \<not> is_external x" using i by (auto simp: set_conv_nth)
  ultimately show ?thesis using f n i by (metis option.simps(5))
qed

lemma firewall_request_body:
  "json_parse (rq_Body (firewall_request env token rule net nid)) =
     Some (JObj [(''srcNat'', JBool False), (''startport'', JStr (sr_StartPort rule)),
       (''endport'', JStr (sr_EndPort rule)), (''protocol'', JStr (sr_Protocol rule)),
       (''action'', JStr (sr_Action rule)), (''srcNetwork'', JArr [JStr net]),
       (''staticNatId'', JStr nid)])"
proof -
  have "wf_json (enc_FirewallRuleRequest r)" for r
    by (simp add: enc_FirewallRuleRequest_def string_codec.enc_wf bool_codec.enc_wf string_codec.list_wf)
  then have "json_parse (rq_Body (firewall_request env token rule net nid)) = Some (enc_FirewallRuleRequest
         \<lparr>fq_SrcNat = False, fq_StartPort = sr_StartPort rule, fq_EndPort = sr_EndPort rule,
          fq_Protocol = sr_Protocol rule, fq_Action = sr_Action rule,
          fq_SrcNetwork = [net], fq_DstNetwork = [], fq_StaticNatId = nid,
          fq_SrcAddress = [], fq_DstAddress = []\<rparr>)"
    by (simp only: firewall_request_def cloud_request_def http_request.simps json_roundtrip)
  then show ?thesis by (simp add: enc_FirewallRuleRequest_def enc_string_def enc_bool_def enc_list_def omit_def)
qed

text \<open>What \<open>AddFirewallSettings\<close> may do besides reading: the rule's request, and writes to
  firewall objects.\<close>

definition firewall_write :: "'w env \<Rightarrow> KTMachine \<Rightarrow> string \<Rightarrow> SecurityGroupRule \<Rightarrow> call \<Rightarrow> bool" where
  "firewall_write env m token rule c \<longleftrightarrow> read_only c
     \<or> (\<exists>nets w1. outcome (GetNetworkAllNetworks env token) w1 = Inr nets \<and> external_network nets \<noteq> []
         \<and> c = HttpCall (firewall_request env token rule (external_network nets) (last_static_nat m)))
     \<or> (\<exists>fw. c = CreateCall (OFirewall fw) \<or> c = StatusUpdate (OFirewall fw))"

lemma create_firewall_calls:
  "spec (\<lambda>c. read_only c \<or> (\<exists>fw. c = CreateCall (OFirewall fw) \<or> c = StatusUpdate (OFirewall fw)))
     (createFirewallObjectInK8s env m r rule) (\<lambda>_. True) (\<lambda>_. True)"
proof -
  let ?P = "\<lambda>c. read_only c \<or> (\<exists>fw. c = CreateCall (OFirewall fw) \<or> c = StatusUpdate (OFirewall fw))"
  have look: "spec ?P (get_firewall env m) (\<lambda>_. True) (\<lambda>_. True)"
    by (rule spec_weaken [OF firewall_object.reads]) simp_all
  have store: "spec ?P (update_firewall_status env fw) (\<lambda>_. True) (\<lambda>_. True)" for fw
    unfolding update_firewall_status_def by (intro spec_bind_any spec_intros) simp_all
  show ?thesis
    unfolding createFirewallObjectInK8s_def Let_def
    by (intro spec_bind_any [OF spec_rest_config_or_panic] spec_bind_any [OF spec_client_or_exit]
        spec_bind_any [OF spec_try] spec_sum spec_if spec_stopI spec_bind_any [OF spec_call]
        spec_bind_any [OF look] store spec_weaken [OF look])
      (auto simp: read_only_def split: stop.split)
qed

lemma add_firewall_calls:
  "spec (firewall_write env m token rule) (AddFirewallSettings env m token rule flag) (\<lambda>_. True) (\<lambda>_. True)"
proof -
  let ?P = "firewall_write env m token rule"
  have ips: "spec ?P (GetAssignedPublicIpAddresses env token) (\<lambda>_. True) (\<lambda>_. True)"
    by (rule spec_weaken [OF assigned_ips.reads]) (simp_all add: firewall_write_def)
  have nets: "spec ?P (GetNetworkAllNetworks env token)
      (\<lambda>ns. \<exists>w1. outcome (GetNetworkAllNetworks env token) w1 = Inr ns) (\<lambda>_. True)"
    by (rule spec_weaken [OF spec_outcome [OF all_networks.reads]]) (auto simp: firewall_write_def)
  have k8s: "spec ?P (createFirewallObjectInK8s env m r rl) (\<lambda>_. True) (\<lambda>_. True)" for r rl
    by (rule spec_weaken [OF create_firewall_calls]) (auto simp: firewall_write_def)
  show ?thesis
    unfolding AddFirewallSettings_def
    by (intro spec_bind_any [OF ips] spec_bind [OF nets] spec_if spec_stopI TrueI k8s
        spec_bind_any [OF spec_http_do] spec_bind_any [OF spec_read_body] spec_bind_any [OF spec_lift])
      (auto simp: firewall_write_def)
qed

text \<open>C22: A firewall request names the first external network in the cloud's list, a
  non-empty id, as its only source, carries the ports, protocol and action of the cluster's rule,
  and refers to the static NAT of the machine's last assigned address (an empty id if it has
  none). No other request that writes is sent.\<close>

theorem firewall_request_faithful:
  assumes "HttpCall rq \<in> set (trace (AddFirewallSettings env m token rule flag) w)" and "rq_Method rq \<noteq> ''GET''"
  shows "rq_Method rq = ''POST''
    \<and> rq_URL rq = c_ApiBaseURL (e_config env) @ c_Zone (e_config env) @ ''/nsm/v1/firewall/policy''
    \<and> (\<exists>w1 pre n post. outcome (GetNetworkAllNetworks env token) w1 = Inr (pre @ n # post)
        \<and> is_external n \<and> (\<forall>x \<in> set pre. \<not> is_external x) \<and> nd_ID n \<noteq> []
        \<and> json_parse (rq_Body rq) = Some (JObj [(''srcNat'', JBool False),
            (''startport'', JStr (sr_StartPort rule)), (''endport'', JStr (sr_EndPort rule)),
            (''protocol'', JStr (sr_Protocol rule)), (''action'', JStr (sr_Action rule)),
            (''srcNetwork'', JArr [JStr (nd_ID n)]), (''staticNatId'', JStr (last_nat m))]))"
proof -
  have "\<not> read_only (HttpCall rq)" using assms(2) by (simp add: read_only_def)
  then obtain nets w1 where o: "outcome (GetNetworkAllNetworks env token) w1 = Inr nets"
      and nets: "external_network nets \<noteq> []"
      and rq: "rq = firewall_request env token rule (external_network nets) (last_static_nat m)"
    using spec_trace [OF add_firewall_calls assms(1)] unfolding firewall_write_def by blast
  obtain pre n post where n: "nets = pre @ n # post" "nd_ID n = external_network nets" "is_external n"
      "\<forall>x \<in> set pre. \<not> is_external x"
    using external_network_first [OF nets] by blast
  have body: "json_parse (rq_Body rq) = Some (JObj [(''srcNat'', JBool False),
      (''startport'', JStr (sr_StartPort rule)), (''endport'', JStr (sr_EndPort rule)),
      (''protocol'', JStr (sr_Protocol rule)), (''action'', JStr (sr_Action rule)),
      (''srcNetwork'', JArr [JStr (nd_ID n)]), (''staticNatId'', JStr (last_nat m))])"
    unfolding rq n(2) last_static_nat_eq [symmetric] by (rule firewall_request_body)
  have "rq_Method rq = ''POST''" "rq_URL rq = c_ApiBaseURL (e_config env) @ c_Zone (e_config env) @ ''/nsm/v1/firewall/policy''"
    by (simp_all add: rq firewall_request_def cloud_request_def api_url_def)
  moreover have "nd_ID n \<noteq> []" using nets n(2) by simp
  ultimately show ?thesis using o n(1,3,4) body by blast
qed

definition static_nat_body :: string where
  "static_nat_body = print_json (JObj [(''data'', JArr [JObj [(''type'', JStr ''STATICNAT''),
     (''staticNats'', JArr [JObj []])]])])"

definition network_body :: string where
  "network_body = print_json (JObj [(''data'', JArr [JObj [(''networkId'', JStr ''net-1''),
     (''networkName'', JStr ''external'')]])])"

definition fw_env :: "unit env" where
  "fw_env = down_env\<lparr>e_http := (\<lambda>rq w. (Inr (answer 200 ''200 OK''
     (if rq_URL rq = ''/nsm/v1/publicIp'' then static_nat_body else network_body)), w))\<rparr>"

definition ssh_rule :: SecurityGroupRule where
  "ssh_rule = \<lparr>sr_Direction = ''ingress'', sr_StartPort = ''22'', sr_EndPort = ''22'', sr_Protocol = ''TCP'',
     sr_Action = ''true'', sr_Dstip = ''''\<rparr>"

lemma firewall_keys [dec_simps]:
  "to_lower ''networkId'' = ''networkid''" "to_lower ''interface'' = ''interface''"
  "to_lower ''projectId'' = ''projectid''" "to_lower ''gatewayIp'' = ''gatewayip''"
  "to_lower ''startIp'' = ''startip''" "to_lower ''endIp'' = ''endip''" "to_lower ''iscsiStartIp'' = ''iscsistartip''"
  "to_lower ''iscsiEndIp'' = ''iscsiendip''" "to_lower ''netmaskIp'' = ''netmaskip''"
  "to_lower ''MainNetworkID'' = ''mainnetworkid''" "to_lower ''DataLakeYN'' = ''datalakeyn''"
  "to_lower ''OSNetworkID'' = ''osnetworkid''" "to_lower ''SSLVPN'' = ''sslvpn''"
  by (simp_all add: to_lower_def to_lower_char_def char_of_def bit_0)

lemma static_nat_answer:
  "json_unmarshal dec_NcListentPublicIpsResponse zero_NcListentPublicIpsResponse static_nat_body =
     Inr \<lparr>nl_HttpStatus = 0, nl_Data = [zero_PublicIp\<lparr>pi_Type := ''STATICNAT'', pi_StaticNats := [zero_StaticNat]\<rparr>]\<rparr>"
  by (simp add: static_nat_body_def json_unmarshal_def json_roundtrip dec_NcListentPublicIpsResponse_def
      zero_NcListentPublicIpsResponse_def dec_PublicIp_def dec_list_def zero_PublicIp_def dec_simps
      dec_StaticNat_def zero_StaticNat_def dec_string_def del: print_json.simps)

lemma network_answer:
  "json_unmarshal dec_ListNetworksResponse zero_ListNetworksResponse network_body =
     Inr \<lparr>ln_HttpStatus = 0, ln_Data = [zero_NetworkData\<lparr>nd_ID := ''net-1'', nd_Name := ''external''\<rparr>]\<rparr>"
  by (simp add: network_body_def json_unmarshal_def json_roundtrip dec_ListNetworksResponse_def
      zero_ListNetworksResponse_def dec_NetworkData_def dec_list_def zero_NetworkData_def dec_simps
      dec_string_def del: print_json.simps)

theorem firewall_request_faithful_witness:
  "\<exists>n. is_external n \<and> json_parse (rq_Body (firewall_request fw_env ''t'' ssh_rule ''net-1'' '''')) =
     Some (JObj [(''srcNat'', JBool False), (''startport'', JStr ''22''), (''endport'', JStr ''22''),
       (''protocol'', JStr ''TCP''), (''action'', JStr ''true''), (''srcNetwork'', JArr [JStr (nd_ID n)]),
       (''staticNatId'', JStr '''')])"
proof -
  let ?rq = "firewall_request fw_env ''t'' ssh_rule ''net-1'' ''''"
  have "HttpCall ?rq \<in> set (trace (AddFirewallSettings fw_env zero_KTMachine ''t'' ssh_rule False) ())"
    by (simp add: AddFirewallSettings_def fw_env_def trace_def GetAssignedPublicIpAddresses_def cloud_get_def
        http_do_def read_body_def status_ok_def go_simps static_nat_answer network_answer cloud_request_def
        api_url_def GetNetworkAllNetworks_def external_network_def last_static_nat_def zero_KTMachine_def
        zero_KTMachineStatus_def firewall_request_def split: sum.split prod.split)
  moreover have "rq_Method ?rq \<noteq> ''GET''" by (simp add: firewall_request_def cloud_request_def)
  ultimately show ?thesis
    using firewall_request_faithful [of ?rq fw_env zero_KTMachine "''t''" ssh_rule False "()"]
    by (auto simp: ssh_rule_def last_nat_def zero_KTMachine_def zero_KTMachineStatus_def)
qed

section \<open>Firewall objects\<close>

abbreviation kf_key :: "KTNetworkFirewall \<Rightarrow> key" where
  "kf_key fw \<equiv> (om_Name (kf_Meta fw), om_Namespace (kf_Meta fw))"

text \<open>
  The API server as far as one firewall object goes, \<open>stored\<close> being the object under the key.
  The client is made by \<open>getClient\<close> and has no cache. A read answers with the object or with an
  error, and NotFound only if there is none. A write may be refused, and then changes nothing; its
  answer may also be lost. A create takes effect only on a free key and stores the object with a
  UID and a resource version of the server's choice and without its status. An update of the status
  takes effect only with the version that is stored; it stores the new status under a new version
  and nothing else, because the CRD declares the status subresource.
\<close>

definition created_as :: "KTNetworkFirewall \<Rightarrow> KTNetworkFirewall option \<Rightarrow> bool" where
  "created_as fw s \<longleftrightarrow> (\<exists>uid v. s = Some (fw\<lparr>kf_Meta := (kf_Meta fw)\<lparr>om_UID := uid, om_ResourceVersion := v\<rparr>\<rparr>))"

definition updated_to :: "KTNetworkFirewall \<Rightarrow> KTNetworkFirewallStatus \<Rightarrow> KTNetworkFirewall option \<Rightarrow> bool" where
  "updated_to f st s \<longleftrightarrow> (\<exists>v. s = Some (f\<lparr>kf_Meta := (kf_Meta f)\<lparr>om_ResourceVersion := v\<rparr>, kf_Status := st\<rparr>))"

abbreviation without_jobs :: "KTNetworkFirewall \<Rightarrow> KTNetworkFirewall" where
  "without_jobs fw \<equiv> fw\<lparr>kf_Status := \<lparr>ft_FirewallJobs = []\<rparr>\<rparr>"

abbreviation same_version :: "KTNetworkFirewall \<Rightarrow> KTNetworkFirewall \<Rightarrow> bool" where
  "same_version fw f \<equiv> om_ResourceVersion (kf_Meta fw) = om_ResourceVersion (kf_Meta f)"

definition firewall_api :: "'w env \<Rightarrow> key \<Rightarrow> ('w \<Rightarrow> KTNetworkFirewall option) \<Rightarrow> bool" where
  "firewall_api env k stored \<longleftrightarrow>
     (\<forall>w f. stored w = Some f \<longrightarrow> kf_key f = k) \<and>
     (\<forall>w r w'. e_get_firewall env k w = (r, w') \<longrightarrow> stored w' = stored w \<and>
        (case r of Inr f \<Rightarrow> stored w = Some f | Inl e \<Rightarrow> is_not_found e \<longrightarrow> stored w = None)) \<and>
     (\<forall>w fw r w'. kf_key fw = k \<longrightarrow> e_create_firewall env fw w = (r, w') \<longrightarrow>
        (\<exists>e. r = Inl e) \<and> stored w' = stored w \<or>
        stored w = None \<and> created_as (without_jobs fw) (stored w')) \<and>
     (\<forall>w fw r w'. kf_key fw = k \<longrightarrow> e_status_update_firewall env fw w = (r, w') \<longrightarrow>
        (\<exists>e. r = Inl e) \<and> stored w' = stored w \<or>
        (\<exists>f. stored w = Some f \<and> same_version fw f \<and> updated_to f (kf_Status fw) (stored w')))"

text \<open>The API server answers: it reads what is there, and accepts a create under a free key and an
  update of the current version.\<close>

definition firewall_up :: "'w env \<Rightarrow> key \<Rightarrow> ('w \<Rightarrow> KTNetworkFirewall option) \<Rightarrow> bool" where
  "firewall_up env k stored \<longleftrightarrow>
     (\<forall>w f. stored w = Some f \<longrightarrow> (\<exists>g. fst (e_get_firewall env k w) = Inr g)) \<and>
     (\<forall>w. stored w = None \<longrightarrow> (\<exists>e. fst (e_get_firewall env k w) = Inl e \<and> is_not_found e)) \<and>
     (\<forall>w fw. stored w = None \<longrightarrow> kf_key fw = k \<longrightarrow> (\<exists>g. fst (e_create_firewall env fw w) = Inr g)) \<and>
     (\<forall>w fw f. stored w = Some f \<longrightarrow> kf_key fw = k \<longrightarrow> same_version fw f \<longrightarrow>
        (\<exists>g. fst (e_status_update_firewall env fw w) = Inr g))"

lemma firewall_read:
  assumes "firewall_api env (m_Name m, m_Namespace m) stored"
  shows "stored (world (get_firewall env m) w) = stored w"
    and "outcome (get_firewall env m) w = Inr f \<Longrightarrow> stored w = Some f"
    and "outcome (get_firewall env m) w = Inl (Fail e) \<Longrightarrow> is_not_found e \<Longrightarrow> stored w = None"
  using assms
  by (cases "e_get_firewall env (m_Name m, m_Namespace m) w";
    auto simp: get_firewall_def outcome_callG world_callG firewall_api_def split: sum.splits)+

lemma firewall_status_updated:
  assumes "firewall_api env k stored" and "kf_key fw = k"
  shows "outcome (update_firewall_status env fw) w \<noteq> Inr () \<and> stored (world (update_firewall_status env fw) w) = stored w
    \<or> (\<exists>f. stored w = Some f \<and> same_version fw f \<and> updated_to f (kf_Status fw) (stored (world (update_firewall_status env fw) w)))"
proof -
  obtain r w' where u: "e_status_update_firewall env fw w = (r, w')" by (cases "e_status_update_firewall env fw w")
  have "(\<exists>e. r = Inl e) \<and> stored w' = stored w
      \<or> (\<exists>f. stored w = Some f \<and> same_version fw f \<and> updated_to f (kf_Status fw) (stored w'))"
    using assms u unfolding firewall_api_def by blast
  then show ?thesis
    using u by (auto simp: update_firewall_status_def outcome_bindG world_bindG outcome_callG world_callG split: sum.splits)
qed

text \<open>The first job: the object is created, read back and its status stored.\<close>

definition first_job :: "'w env \<Rightarrow> KTMachine \<Rightarrow> KTNetworkFirewall \<Rightarrow> FirewallJobs \<Rightarrow> ('w, unit) op" where
  "first_job env m fw job =
     bindG (callG (CreateCall (OFirewall fw)) (e_create_firewall env fw)) (\<lambda>_.
     bindG (get_firewall env m) (\<lambda>existing. update_firewall_status env (add_job job existing)))"

lemma created_key: "created_as fw (Some f) \<Longrightarrow> kf_key f = kf_key fw"
  by (auto simp: created_as_def)

lemma created_then_updated:
  "created_as (without_jobs fw) (Some f) \<Longrightarrow> updated_to f (kf_Status (add_job job f)) s \<Longrightarrow>
   created_as (fw\<lparr>kf_Status := \<lparr>ft_FirewallJobs = [job]\<rparr>\<rparr>) s"
  by (cases fw) (auto simp: created_as_def updated_to_def add_job_def, blast)

lemma first_job_stored:
  fixes job :: FirewallJobs
  assumes api: "firewall_api env (m_Name m, m_Namespace m) stored" and key: "kf_key fw = (m_Name m, m_Namespace m)"
    and none: "stored w = None"
  defines "s \<equiv> stored (world (first_job env m fw job) w)"
  shows "outcome (first_job env m fw job) w \<noteq> Inr () \<and> (s = None \<or> created_as (without_jobs fw) s)
    \<or> created_as (fw\<lparr>kf_Status := \<lparr>ft_FirewallJobs = [job]\<rparr>\<rparr>) s"
proof -
  obtain r w1 where c: "e_create_firewall env fw w = (r, w1)" by (cases "e_create_firewall env fw w")
  have made: "(\<exists>e. r = Inl e) \<and> stored w1 = stored w \<or> created_as (without_jobs fw) (stored w1)"
    using api key c unfolding firewall_api_def by blast
  show ?thesis
  proof (cases r)
    case (Inl e)
    with c made none show ?thesis
      by (auto simp: s_def first_job_def outcome_bindG world_bindG outcome_callG world_callG)
  next
    case (Inr g)
    with made have made': "created_as (without_jobs fw) (stored w1)" by simp
    let ?get = "get_firewall env m" and ?w2 = "world (get_firewall env m) w1"
    have run: "outcome (first_job env m fw job) w = outcome (bindG ?get (\<lambda>x. update_firewall_status env (add_job job x))) w1"
        "s = stored (world (bindG ?get (\<lambda>x. update_firewall_status env (add_job job x))) w1)"
      using c Inr by (simp_all add: s_def first_job_def outcome_bindG world_bindG outcome_callG world_callG)
    show ?thesis
    proof (cases "outcome ?get w1")
      case (Inl e)
      with made' show ?thesis by (simp add: run outcome_bindG world_bindG firewall_read(1) [OF api])
    next
      case (Inr f)
      then have f: "stored w1 = Some f" by (rule firewall_read(2) [OF api])
      with made' created_key have "kf_key (add_job job f) = (m_Name m, m_Namespace m)"
        using key by (fastforce simp: add_job_def)
      from firewall_status_updated [OF api this, of ?w2] show ?thesis
        using Inr f made' created_then_updated [of fw f job]
        by (auto simp: run outcome_bindG world_bindG firewall_read(1) [OF api])
    qed
  qed
qed

lemma first_job_accepted:
  assumes api: "firewall_api env (m_Name m, m_Namespace m) stored" and up: "firewall_up env (m_Name m, m_Namespace m) stored"
    and key: "kf_key fw = (m_Name m, m_Namespace m)" and none: "stored w = None"
  shows "outcome (first_job env m fw job) w = Inr ()"
proof -
  obtain g w1 where c: "e_create_firewall env fw w = (Inr g, w1)"
    using up key none unfolding firewall_up_def by (metis prod.collapse)
  then have made: "created_as (without_jobs fw) (stored w1)" using api key unfolding firewall_api_def by blast
  then obtain f where f: "stored w1 = Some f" unfolding created_as_def by blast
  obtain h where "fst (e_get_firewall env (m_Name m, m_Namespace m) w1) = Inr h"
    using up f unfolding firewall_up_def by blast
  then have get: "outcome (get_firewall env m) w1 = Inr h" by (simp add: get_firewall_def outcome_callG)
  with firewall_read(2) [OF api] f have "h = f" by fastforce
  have "kf_key (add_job job f) = (m_Name m, m_Namespace m)" using made f key created_key by (fastforce simp: add_job_def)
  moreover have "stored (world (get_firewall env m) w1) = Some f" using f by (simp add: firewall_read(1) [OF api])
  moreover have "same_version (add_job job f) f" by (simp add: add_job_def)
  ultimately have "\<exists>x. fst (e_status_update_firewall env (add_job job f) (world (get_firewall env m) w1)) = Inr x"
    using up unfolding firewall_up_def by blast
  with c get \<open>h = f\<close> show ?thesis
    by (auto simp: first_job_def update_firewall_status_def outcome_bindG world_bindG outcome_callG world_callG)
qed

lemma create_object_run:
  fixes env :: "'w env" and m :: KTMachine and r :: NcCreateFirewallRuleResponse and rule :: FirewallRules
  assumes up: "client_up env w w0"
  defines "R \<equiv> createFirewallObjectInK8s env m r rule" and "g \<equiv> get_firewall env m"
    and "fw \<equiv> new_firewall m rule (firewall_job r)"
  shows "outcome R w = (case outcome g w0 of
      Inl e \<Rightarrow> (case e of Fail x \<Rightarrow> (if is_not_found x then outcome (first_job env m fw (firewall_job r)) (world g w0) else Inl e) | _ \<Rightarrow> Inl e)
    | Inr f \<Rightarrow> outcome (update_firewall_status env (add_job (firewall_job r) (add_rule rule f))) (world g w0))"
    and "world R w = (case outcome g w0 of
      Inl e \<Rightarrow> (case e of Fail x \<Rightarrow> (if is_not_found x then world (first_job env m fw (firewall_job r)) (world g w0) else world g w0) | _ \<Rightarrow> world g w0)
    | Inr f \<Rightarrow> world (update_firewall_status env (add_job (firewall_job r) (add_rule rule f))) (world g w0))"
proof -
  obtain wa where "rest_config_or_panic env w = (Inr (), [DefaultConfig], wa)" "client_or_exit env wa = (Inr (), [NewClient], w0)"
    using up by (rule client_up_steps)
  then have "outcome (rest_config_or_panic env) w = Inr ()" "world (rest_config_or_panic env) w = wa"
      "outcome (client_or_exit env) wa = Inr ()" "world (client_or_exit env) wa = w0"
    by (simp_all add: run_defs)
  then show "outcome R w = (case outcome g w0 of
      Inl e \<Rightarrow> (case e of Fail x \<Rightarrow> (if is_not_found x then outcome (first_job env m fw (firewall_job r)) (world g w0) else Inl e) | _ \<Rightarrow> Inl e)
    | Inr f \<Rightarrow> outcome (update_firewall_status env (add_job (firewall_job r) (add_rule rule f))) (world g w0))"
    and "world R w = (case outcome g w0 of
      Inl e \<Rightarrow> (case e of Fail x \<Rightarrow> (if is_not_found x then world (first_job env m fw (firewall_job r)) (world g w0) else world g w0) | _ \<Rightarrow> world g w0)
    | Inr f \<Rightarrow> world (update_firewall_status env (add_job (firewall_job r) (add_rule rule f))) (world g w0))"
    by (simp_all add: R_def g_def fw_def createFirewallObjectInK8s_def outcome_bindG world_bindG outcome_tryG
        first_job_def Let_def split: sum.split stop.split)
qed

text \<open>What is recorded for a job: for the first one a new object with the rule and the job, and for
  a later one the job behind the earlier ones, with the object unchanged otherwise.\<close>

definition job_recorded :: "KTMachine \<Rightarrow> FirewallRules \<Rightarrow> FirewallJobs \<Rightarrow>
    KTNetworkFirewall option \<Rightarrow> KTNetworkFirewall option \<Rightarrow> bool" where
  "job_recorded m rule job s s' \<longleftrightarrow> (case s of
     None \<Rightarrow> created_as (new_firewall m rule job) s'
   | Some f \<Rightarrow> updated_to f \<lparr>ft_FirewallJobs = ft_FirewallJobs (kf_Status f) @ [job]\<rparr> s')"


text \<open>An API server that stores firewall objects under their keys and counts their versions.\<close>

definition firewall_at :: "key \<Rightarrow> (key \<Rightarrow> KTNetworkFirewall option) \<Rightarrow> KTNetworkFirewall option" where
  "firewall_at k w = (case w k of None \<Rightarrow> None | Some f \<Rightarrow> if kf_key f = k then Some f else None)"

definition fw_store_env :: "(key \<Rightarrow> KTNetworkFirewall option) env" where
  "fw_store_env = down_env\<lparr>
     e_get_firewall := (\<lambda>k w. (case firewall_at k w of None \<Rightarrow> Inl absent | Some f \<Rightarrow> Inr f, w)),
     e_create_firewall := (\<lambda>fw w. case firewall_at (kf_key fw) w of
         Some f \<Rightarrow> (Inl (ApiError AlreadyExists ''exists''), w)
       | None \<Rightarrow> let f = (without_jobs fw)\<lparr>kf_Meta := (kf_Meta fw)\<lparr>om_UID := ''u'', om_ResourceVersion := ''1''\<rparr>\<rparr>
           in (Inr f, w(kf_key fw \<mapsto> f))),
     e_status_update_firewall := (\<lambda>fw w. case firewall_at (kf_key fw) w of
         None \<Rightarrow> (Inl absent, w)
       | Some f \<Rightarrow> if same_version fw f
           then let f' = f\<lparr>kf_Meta := (kf_Meta f)\<lparr>om_ResourceVersion := ''1'' @ om_ResourceVersion (kf_Meta f)\<rparr>,
               kf_Status := kf_Status fw\<rparr> in (Inr f', w(kf_key fw \<mapsto> f'))
           else (Inl (ApiError Conflict ''conflict''), w))\<rparr>"

definition sample_rule :: FirewallRules where
  "sample_rule = group_rules ssh_rule ''net-1'' ''n1''"

lemma fw_store_simps [simp]:
  "e_get_firewall fw_store_env k w = (case firewall_at k w of None \<Rightarrow> Inl absent | Some f \<Rightarrow> Inr f, w)"
  "e_create_firewall fw_store_env fw w = (case firewall_at (kf_key fw) w of
         Some f \<Rightarrow> (Inl (ApiError AlreadyExists ''exists''), w)
       | None \<Rightarrow> let f = (without_jobs fw)\<lparr>kf_Meta := (kf_Meta fw)\<lparr>om_UID := ''u'', om_ResourceVersion := ''1''\<rparr>\<rparr>
           in (Inr f, w(kf_key fw \<mapsto> f)))"
  "e_status_update_firewall fw_store_env fw w = (case firewall_at (kf_key fw) w of
         None \<Rightarrow> (Inl absent, w)
       | Some f \<Rightarrow> if same_version fw f
           then let f' = f\<lparr>kf_Meta := (kf_Meta f)\<lparr>om_ResourceVersion := ''1'' @ om_ResourceVersion (kf_Meta f)\<rparr>,
               kf_Status := kf_Status fw\<rparr> in (Inr f', w(kf_key fw \<mapsto> f'))
           else (Inl (ApiError Conflict ''conflict''), w))"
  by (simp_all add: fw_store_env_def)

lemma firewall_at_key: "firewall_at k w = Some f \<Longrightarrow> kf_key f = k"
  by (auto simp: firewall_at_def split: option.splits if_splits)

lemma firewall_at_upd: "kf_key f = k \<Longrightarrow> firewall_at k (w(k \<mapsto> f)) = Some f"
  by (simp add: firewall_at_def)

lemma fw_store_create:
  assumes "kf_key fw = k" and "e_create_firewall fw_store_env fw w = (r, w')"
  shows "(\<exists>e. r = Inl e) \<and> firewall_at k w' = firewall_at k w
    \<or> firewall_at k w = None \<and> created_as (without_jobs fw) (firewall_at k w')"
proof (cases "firewall_at k w")
  case None
  let ?f = "(without_jobs fw)\<lparr>kf_Meta := (kf_Meta fw)\<lparr>om_UID := ''u'', om_ResourceVersion := ''1''\<rparr>\<rparr>"
  have "w' = w(k \<mapsto> ?f)" using assms None by (simp add: Let_def)
  moreover have "kf_key ?f = k" using assms(1) by simp
  ultimately have "firewall_at k w' = Some ?f" using firewall_at_upd by blast
  then show ?thesis using None unfolding created_as_def by auto
next
  case (Some f)
  with assms show ?thesis by auto
qed

lemma fw_store_update:
  assumes "kf_key fw = k" and "e_status_update_firewall fw_store_env fw w = (r, w')"
  shows "(\<exists>e. r = Inl e) \<and> firewall_at k w' = firewall_at k w
    \<or> (\<exists>f. firewall_at k w = Some f \<and> same_version fw f \<and> updated_to f (kf_Status fw) (firewall_at k w'))"
proof (cases "\<exists>f. firewall_at k w = Some f \<and> same_version fw f")
  case True
  then obtain f where f: "firewall_at k w = Some f" "same_version fw f" by blast
  let ?f = "f\<lparr>kf_Meta := (kf_Meta f)\<lparr>om_ResourceVersion := ''1'' @ om_ResourceVersion (kf_Meta f)\<rparr>, kf_Status := kf_Status fw\<rparr>"
  have "w' = w(k \<mapsto> ?f)" using assms f by (simp add: Let_def)
  moreover have "kf_key ?f = k" using firewall_at_key [OF f(1)] by simp
  ultimately have "firewall_at k w' = Some ?f" using firewall_at_upd by blast
  then show ?thesis using f unfolding updated_to_def by blast
next
  case False
  with assms show ?thesis by (auto split: option.splits if_splits)
qed

lemma fw_store_api: "firewall_api fw_store_env k (firewall_at k)"
  unfolding firewall_api_def using firewall_at_key fw_store_create fw_store_update
  by (auto split: option.splits)

lemma fw_store_up: "firewall_up fw_store_env k (firewall_at k)"
  by (auto simp: firewall_up_def Let_def)


end
