(* ===== verification/CloudDelete.thy ===== *)
theory CloudDelete
  imports CloudNetwork
begin

text \<open>
  Deleting a virtual machine and what belongs to it: the rest of
  \<^verbatim>\<open>cmd/httpapi/common.go\<close>. The lemmas show the order of the deletions, which errors stop
  them and which are swallowed, and when a deletion may be repeated.
\<close>

section \<open>Operations\<close>

definition delete_request :: "'w env \<Rightarrow> string \<Rightarrow> string \<Rightarrow> http_request" where
  "delete_request env token path = cloud_request ''DELETE'' (api_url env path) token ''''"

definition policy_delete :: "'w env \<Rightarrow> string \<Rightarrow> string \<Rightarrow> http_request" where
  "policy_delete env token policy = delete_request env token (''/nsm/v1/firewall/policy/'' @ policy)"

definition nat_delete :: "'w env \<Rightarrow> string \<Rightarrow> string \<Rightarrow> http_request" where
  "nat_delete env token natId = delete_request env token (''/nsm/v1/staticNat/'' @ natId)"

text \<open>\<open>json.Unmarshal\<close> of the answer is called for its value that nothing uses.\<close>

definition DeleteFirewallOnCloud :: "'w env \<Rightarrow> string \<Rightarrow> string \<Rightarrow> ('w, unit) op" where
  "DeleteFirewallOnCloud env jobId token =
     bindG (http_do env (policy_delete env token jobId)) (\<lambda>resp.
     bindG (read_body resp) (\<lambda>body.
     if status_ok (hr_StatusCode resp) then retG ()
     else failG (NewError (''delete request firewall request failed with status: '' @ hr_Status resp))))"

definition DeleteStaticNatOnCloud :: "'w env \<Rightarrow> string \<Rightarrow> string \<Rightarrow> ('w, unit) op" where
  "DeleteStaticNatOnCloud env staticNatId token =
     bindG (http_do env (nat_delete env token staticNatId)) (\<lambda>resp.
     bindG (read_body resp) (\<lambda>body.
     if status_ok (hr_StatusCode resp) then retG ()
     else failG (NewError (''delete staticnat request failed with status: '' @ hr_Status resp))))"

text \<open>A call whose error is only logged.\<close>

definition logged :: "('w, unit) op \<Rightarrow> ('w, unit) op" where
  "logged m = bindG (tryG m) (\<lambda>_. retG ())"

text \<open>Both branches of the Go code after a failed read return the error.\<close>

definition DeleteFirewallSettings :: "'w env \<Rightarrow> KTMachine \<Rightarrow> string \<Rightarrow> ('w, unit) op" where
  "DeleteFirewallSettings env machine token =
     bindG (rest_config_or_panic env) (\<lambda>_.
     bindG (client_or_exit env) (\<lambda>_.
     bindG (get_firewall env machine) (\<lambda>existing.
     bindG (forG (ft_FirewallJobs (kf_Status existing)) (\<lambda>job.
       logged (DeleteFirewallOnCloud env (fj_PolicyId job) token))) (\<lambda>_.
     callG (DeleteCall (OFirewall existing)) (e_delete_firewall env existing)))))"

definition DeleteVMDependentResources :: "'w env \<Rightarrow> KTMachine \<Rightarrow> string \<Rightarrow> ('w, unit) op" where
  "DeleteVMDependentResources env machine token =
     (if length (st_AssignedPublicIps (m_Status machine)) = 0 then retG ()
      else
        bindG (DeleteFirewallSettings env machine token) (\<lambda>_.
        forG (st_AssignedPublicIps (m_Status machine)) (\<lambda>a.
          logged (DeleteStaticNatOnCloud env (ap_StaticNatId a) token))))"

definition action_request :: "'w env \<Rightarrow> string \<Rightarrow> string \<Rightarrow> http_request" where
  "action_request env token i =
     cloud_request ''POST'' (api_url env (''/server/servers/'' @ i @ ''/action'')) token
       (print_json (enc_RequestPayloadDelete \<lparr>rd_ForceDelete = ''null''\<rparr>))"

definition gone_text :: string where
  "gone_text = ''GET request failed with status: 404 Not Found''"

text \<open>\<open>GetCreatedVM\<close> never returns a nil status without an error, so the test for nil that
  follows it in the source is not a branch of its own.\<close>

definition DeleteVM :: "'w env \<Rightarrow> KTMachine \<Rightarrow> string \<Rightarrow> ('w, unit) op" where
  "DeleteVM env machine token =
     bindG (tryG (GetCreatedVM env machine token)) (\<lambda>r. case r of
       Inl e \<Rightarrow> (if error_text e = gone_text then retG () else failG e)
     | Inr _ \<Rightarrow>
       bindG (DeleteVMDependentResources env machine token) (\<lambda>_.
       bindG (http_do env (action_request env token (st_ID (m_Status machine)))) (\<lambda>resp.
       bindG (read_body resp) (\<lambda>body.
       if status_ok (hr_StatusCode resp) then retG ()
       else failG (NewError (''GET request failed with status: '' @ hr_Status resp))))))"

section \<open>Contracts\<close>

text \<open>\<open>http.NewRequest\<close> fails on a URL that does not parse, and then nothing is sent.\<close>

definition sendable :: "'w env \<Rightarrow> http_request \<Rightarrow> bool" where
  "sendable env rq \<longleftrightarrow> \<not> isl (e_url_parse env (rq_URL rq))"

lemma trace_http_do: "trace (http_do env rq) w = (if sendable env rq then [HttpCall rq] else [])"
  by (cases "e_url_parse env (rq_URL rq)") (simp_all add: http_do_def sendable_def)

lemma trace_logged: "trace (logged m) w = trace m w"
  by (simp add: logged_def trace_bindG split: sum.split)

lemma spec_logged: "spec P m (\<lambda>_. True) (\<lambda>_. True) \<Longrightarrow> spec P (logged m) (\<lambda>_. True) (\<lambda>_. True)"
  unfolding logged_def by (rule spec_bind_any) (auto intro!: spec_try spec_ret elim!: spec_weaken split: stop.split)

text \<open>The contract of a request that deletes one thing: one call, and the answer decides.\<close>

locale cloud_delete =
  fixes request :: "'w env \<Rightarrow> string \<Rightarrow> string \<Rightarrow> http_request"
    and delete_it :: "'w env \<Rightarrow> string \<Rightarrow> string \<Rightarrow> ('w, unit) op"
  assumes calls: "P (HttpCall (request env i token)) \<Longrightarrow> spec P (delete_it env i token) (\<lambda>_. True) is_fail"
    and asks: "trace (delete_it env i token) w = (if sendable env (request env i token) then [HttpCall (request env i token)] else [])"
begin

lemma spec_delete: "P (HttpCall (request env i token)) \<Longrightarrow> spec P (delete_it env i token) (\<lambda>_. True) (\<lambda>_. True)"
  by (rule spec_weaken [OF calls]) simp_all

lemma logged_returns: "outcome (logged (delete_it env i token)) w = Inr ()"
proof (cases "outcome (delete_it env i token) w")
  case (Inl e)
  have "is_fail e" using spec_stop [OF calls Inl, of "\<lambda>_. True"] by simp
  with Inl show ?thesis by (cases e) (simp_all add: logged_def outcome_bindG outcome_tryG)
next
  case (Inr x)
  then show ?thesis by (simp add: logged_def outcome_bindG outcome_tryG)
qed

lemma loop_returns: "outcome (forG xs (\<lambda>x. logged (delete_it env (f x) token))) w = Inr ()"
  by (induction xs arbitrary: w) (simp_all add: outcome_bindG logged_returns)

lemma loop_asks:
  "trace (forG xs (\<lambda>x. logged (delete_it env (f x) token))) w
     = map HttpCall (filter (sendable env) (map (\<lambda>x. request env (f x) token) xs))"
  by (induction xs arbitrary: w) (simp_all add: trace_bindG logged_returns trace_logged asks)

lemma loop_calls:
  "(\<And>x. x \<in> set xs \<Longrightarrow> P (HttpCall (request env (f x) token))) \<Longrightarrow>
   spec P (forG xs (\<lambda>x. logged (delete_it env (f x) token))) (\<lambda>_. True) (\<lambda>_. True)"
  by (rule spec_for) (auto intro: spec_logged spec_delete)

end

interpretation policy_del: cloud_delete
  "\<lambda>env i token. policy_delete env token i" DeleteFirewallOnCloud
  by unfold_locales (unfold DeleteFirewallOnCloud_def, (intro spec_bind_any spec_intros; simp)?,
    simp_all add: trace_bindG trace_http_do read_body_def split: sum.split)

interpretation nat_del: cloud_delete
  "\<lambda>env i token. nat_delete env token i" DeleteStaticNatOnCloud
  by unfold_locales (unfold DeleteStaticNatOnCloud_def, (intro spec_bind_any spec_intros; simp)?,
    simp_all add: trace_bindG trace_http_do read_body_def split: sum.split)

text \<open>The calls that a deletion may make: reads, the deletion of a firewall object of the machine's
  name that was read, of the policies recorded in it, of the machine's own static NATs, and the
  server action on the machine's id.\<close>

definition read_firewall :: "'w env \<Rightarrow> KTMachine \<Rightarrow> KTNetworkFirewall \<Rightarrow> bool" where
  "read_firewall env m fw \<longleftrightarrow> (\<exists>w. outcome (get_firewall env m) w = Inr fw)"

definition delete_call :: "'w env \<Rightarrow> KTMachine \<Rightarrow> string \<Rightarrow> call \<Rightarrow> bool" where
  "delete_call env m token c \<longleftrightarrow> read_only c
     \<or> (\<exists>fw. read_firewall env m fw \<and> (c = DeleteCall (OFirewall fw)
         \<or> (\<exists>job \<in> set (ft_FirewallJobs (kf_Status fw)).
              c = HttpCall (policy_delete env token (fj_PolicyId job)))))
     \<or> (\<exists>a \<in> set (st_AssignedPublicIps (m_Status m)).
          c = HttpCall (nat_delete env token (ap_StaticNatId a)))
     \<or> c = HttpCall (action_request env token (st_ID (m_Status m)))"

lemma delete_settings_calls:
  "spec (delete_call env m token) (DeleteFirewallSettings env m token) (\<lambda>_. True) (\<lambda>_. True)"
proof -
  let ?P = "delete_call env m token"
  have ro: "read_only c \<Longrightarrow> ?P c" for c by (simp add: delete_call_def)
  have get: "spec ?P (get_firewall env m) (\<lambda>fw. read_firewall env m fw) (\<lambda>_. True)"
    by (rule spec_weaken [OF spec_outcome [OF firewall_object.reads]]) (auto simp: ro read_firewall_def)
  have jobs: "spec ?P (forG (ft_FirewallJobs (kf_Status fw)) (\<lambda>job.
       logged (DeleteFirewallOnCloud env (fj_PolicyId job) token))) (\<lambda>_. True) (\<lambda>_. True)"
    if "read_firewall env m fw" for fw
    using that by (intro policy_del.loop_calls) (auto simp: delete_call_def)
  have del: "spec ?P (callG (DeleteCall (OFirewall fw)) (e_delete_firewall env fw)) (\<lambda>_. True) (\<lambda>_. True)"
    if "read_firewall env m fw" for fw
    using that by (intro spec_call) (auto simp: delete_call_def)
  show ?thesis
    unfolding DeleteFirewallSettings_def
    by (intro spec_bind_any [OF spec_rest_config_or_panic] spec_bind_any [OF spec_client_or_exit]
        spec_bind [OF get] spec_bind_any [OF jobs] del) (auto simp: ro read_only_def)
qed

lemma delete_vm_calls:
  "spec (delete_call env m token) (DeleteVM env m token) (\<lambda>_. True) (\<lambda>_. True)"
proof -
  let ?P = "delete_call env m token"
  have ro: "read_only c \<Longrightarrow> ?P c" for c by (simp add: delete_call_def)
  have get: "spec ?P (tryG (GetCreatedVM env m token)) (\<lambda>_. True) (\<lambda>_. True)"
    by (rule spec_try) (rule spec_weaken [OF get_vm.reads]; simp add: ro split: stop.split)
  have nats: "spec ?P (forG (st_AssignedPublicIps (m_Status m)) (\<lambda>a.
      logged (DeleteStaticNatOnCloud env (ap_StaticNatId a) token))) (\<lambda>_. True) (\<lambda>_. True)"
    by (intro nat_del.loop_calls) (auto simp: delete_call_def)
  have deps: "spec ?P (DeleteVMDependentResources env m token) (\<lambda>_. True) (\<lambda>_. True)"
    unfolding DeleteVMDependentResources_def
    by (intro spec_if spec_ret TrueI spec_bind_any [OF delete_settings_calls] nats)
  show ?thesis
    unfolding DeleteVM_def
    by (intro spec_bind_any [OF get] spec_sum spec_if spec_ret spec_stopI TrueI spec_bind_any [OF deps]
        spec_bind_any [OF spec_http_do] spec_bind_any [OF spec_read_body]) (auto simp: delete_call_def)
qed

section \<open>Properties\<close>

text \<open>C18: Deleting a machine changes nothing but what belongs to it: apart from reads, it
  deletes a firewall object read under the machine's own name, the policies that object records,
  the static NATs in the machine's own status, and acts on the server with the machine's id.\<close>

theorem delete_touches_own:
  assumes "c \<in> set (trace (DeleteVM env m token) w)" and "\<not> read_only c"
  shows "(\<exists>fw. read_firewall env m fw \<and> (c = DeleteCall (OFirewall fw)
         \<or> (\<exists>job \<in> set (ft_FirewallJobs (kf_Status fw)).
              c = HttpCall (policy_delete env token (fj_PolicyId job)))))
     \<or> (\<exists>a \<in> set (st_AssignedPublicIps (m_Status m)).
          c = HttpCall (nat_delete env token (ap_StaticNatId a)))
     \<or> c = HttpCall (action_request env token (st_ID (m_Status m)))"
  using spec_trace [OF delete_vm_calls assms(1)] assms(2) unfolding delete_call_def by blast

theorem delete_touches_own_witness:
  "HttpCall (action_request vm_env ''t'' '''') \<in> set (trace (DeleteVM vm_env zero_KTMachine ''t'') ())
   \<and> ((\<exists>fw. read_firewall vm_env zero_KTMachine fw \<and> (\<exists>job \<in> set (ft_FirewallJobs (kf_Status fw)).
         action_request vm_env ''t'' '''' = policy_delete vm_env ''t'' (fj_PolicyId job)))
     \<or> action_request vm_env ''t'' '''' = action_request vm_env ''t'' (st_ID (m_Status zero_KTMachine)))"
proof -
  let ?c = "HttpCall (action_request vm_env ''t'' '''')"
  have c: "?c \<in> set (trace (DeleteVM vm_env zero_KTMachine ''t'') ())"
    by (simp add: DeleteVM_def trace_def GetCreatedVM_def http_do_def read_body_def status_ok_def go_simps vm_env_def
        vm_answer DeleteVMDependentResources_def zero_KTMachine_def zero_KTMachineStatus_def cloud_request_def
        action_request_def)
  moreover have "\<not> read_only ?c" by (simp add: read_only_def action_request_def cloud_request_def)
  moreover have "st_AssignedPublicIps (m_Status zero_KTMachine) = []"
    by (simp add: zero_KTMachine_def zero_KTMachineStatus_def)
  ultimately show ?thesis
    using delete_touches_own [of ?c vm_env zero_KTMachine "''t''" "()"] by auto
qed

text \<open>A machine that the cloud no longer knows is deleted successfully: the answer
  404 Not Found to the first request is the end of it, and nothing is written.\<close>

theorem delete_of_gone_vm:
  assumes "refused env (vm_request env token m) w ''404 Not Found'' w1"
  shows "DeleteVM env m token w =
    (Inr (), [HttpCall (vm_request env token m)], w1)"
  by (simp add: DeleteVM_def go_simps GetCreatedVM_refused [OF assms] gone_text_def)

definition gone_env :: "unit env" where
  "gone_env = down_env\<lparr>e_http := (\<lambda>_ w. (Inr (answer 404 ''404 Not Found'' ''''), w))\<rparr>"

theorem delete_of_gone_vm_witness: "outcome (DeleteVM gone_env zero_KTMachine ''t'') () = Inr ()"
  using delete_of_gone_vm [of gone_env "''t''" zero_KTMachine "()" "()"]
  by (simp add: refused_def gone_env_def status_ok_def outcome_def)

text \<open>C31: A machine that has a public address but no firewall object cannot be deleted: the
  NotFound of the read is returned as the error of the whole deletion, before any request that
  deletes something, so the server and the static NATs stay.\<close>

theorem delete_blocked_without_firewall:
  assumes vm: "accepted env (vm_request env token m) w
      dec_ServerResponse zero_ServerResponse sr w1"
    and ips: "st_AssignedPublicIps (m_Status m) \<noteq> []" and up: "client_up env w1 w2"
    and fw: "e_get_firewall env (m_Name m, m_Namespace m) w2 = (Inl e, w3)" and "is_not_found e"
  shows "outcome (DeleteVM env m token) w = Inl (Fail e)
    \<and> filter is_cloud_write (trace (DeleteVM env m token) w) = []"
proof -
  obtain wa where up': "rest_config_or_panic env w1 = (Inr (), [DefaultConfig], wa)"
      "client_or_exit env wa = (Inr (), [NewClient], w2)"
    using up by (rule client_up_steps)
  show ?thesis
    using ips fw by (simp add: DeleteVM_def run_defs go_simps GetCreatedVM_accepted [OF vm]
        DeleteVMDependentResources_def DeleteFirewallSettings_def up' get_firewall_def)
qed

theorem delete_blocked_without_firewall_witness:
  "outcome (DeleteVM vm_env (cp_with_ip ''1.1.1.1'') ''t'') () = Inl (Fail absent)"
proof -
  have "accepted vm_env (vm_request vm_env ''t'' (cp_with_ip ''1.1.1.1'')) ()
      dec_ServerResponse zero_ServerResponse \<lparr>sv_Server = zero_KTMachineStatus\<lparr>st_ID := ''vm-1''\<rparr>\<rparr> ()"
    by (simp add: accepted_def vm_env_def vm_answer status_ok_def)
  then show ?thesis
    by (rule delete_blocked_without_firewall [THEN conjunct1])
      (simp_all add: cp_with_ip_def client_up_def vm_env_def)
qed

text \<open>What the deletion of the dependents changes when it succeeds: nothing for a machine without
  public addresses; otherwise the policies of the firewall object that was read, the object itself
  and the static NATs, in this order.\<close>

definition dependents_of :: "'w env \<Rightarrow> KTMachine \<Rightarrow> string \<Rightarrow> KTNetworkFirewall \<Rightarrow> call list" where
  "dependents_of env m token fw =
     map HttpCall (filter (sendable env)
       (map (\<lambda>job. policy_delete env token (fj_PolicyId job)) (ft_FirewallJobs (kf_Status fw))))
     @ [DeleteCall (OFirewall fw)]
     @ map HttpCall (filter (sendable env)
       (map (\<lambda>a. nat_delete env token (ap_StaticNatId a)) (st_AssignedPublicIps (m_Status m))))"

text \<open>The state in which the firewall object is read, when the deletion of the dependents starts in
  \<open>w\<close>.\<close>

abbreviation when_read :: "'w env \<Rightarrow> 'w \<Rightarrow> 'w" where
  "when_read env w \<equiv> world (client_or_exit env) (world (rest_config_or_panic env) w)"

lemma delete_writes [simp]:
  "filter (\<lambda>c. \<not> read_only c) (map HttpCall (filter P (map (\<lambda>x. policy_delete env token (f x)) xs)))
     = map HttpCall (filter P (map (\<lambda>x. policy_delete env token (f x)) xs))"
  "filter (\<lambda>c. \<not> read_only c) (map HttpCall (filter P (map (\<lambda>x. nat_delete env token (g x)) ys)))
     = map HttpCall (filter P (map (\<lambda>x. nat_delete env token (g x)) ys))"
  by (auto simp: filter_id_conv read_only_def policy_delete_def nat_delete_def delete_request_def cloud_request_def)

lemma settings_deleted:
  assumes "outcome (DeleteFirewallSettings env m token) w = Inr ()"
  shows "\<exists>fw. outcome (get_firewall env m) (when_read env w) = Inr fw
    \<and> writes (DeleteFirewallSettings env m token) w = map HttpCall (filter (sendable env)
       (map (\<lambda>job. policy_delete env token (fj_PolicyId job)) (ft_FirewallJobs (kf_Status fw)))) @ [DeleteCall (OFirewall fw)]"
proof -
  obtain fw where o: "outcome (rest_config_or_panic env) w = Inr ()"
      "outcome (client_or_exit env) (world (rest_config_or_panic env) w) = Inr ()"
      "outcome (get_firewall env m) (when_read env w) = Inr fw"
    using assms by (auto simp: DeleteFirewallSettings_def outcome_bindG split: sum.splits)
  have "\<not> read_only (DeleteCall x)" for x by (simp add: read_only_def)
  with o show ?thesis
    by (intro exI [of _ fw]) (simp add: DeleteFirewallSettings_def config_or_panic.no_writes k8s_client.no_writes
        firewall_object.no_writes trace_bindG policy_del.loop_returns policy_del.loop_asks)
qed

lemma dependents_deleted:
  assumes "outcome (DeleteVMDependentResources env m token) w = Inr ()" and "st_AssignedPublicIps (m_Status m) \<noteq> []"
  shows "\<exists>fw. outcome (get_firewall env m) (when_read env w) = Inr fw
    \<and> writes (DeleteVMDependentResources env m token) w = dependents_of env m token fw"
proof -
  have o: "outcome (DeleteFirewallSettings env m token) w = Inr ()"
    using assms by (auto simp: DeleteVMDependentResources_def outcome_bindG split: sum.splits)
  from settings_deleted [OF this] o assms(2) show ?thesis
    by (auto simp: DeleteVMDependentResources_def trace_bindG nat_del.loop_asks dependents_of_def)
qed

lemma dependent_calls:
  "spec (\<lambda>c. \<forall>rq. c = HttpCall rq \<longrightarrow> rq_Method rq \<noteq> ''POST'') (DeleteVMDependentResources env m token) (\<lambda>_. True) (\<lambda>_. True)"
proof -
  let ?P = "\<lambda>c. \<forall>rq. c = HttpCall rq \<longrightarrow> rq_Method rq \<noteq> ''POST''"
  have "spec ?P (get_firewall env m) (\<lambda>_. True) (\<lambda>_. True)"
    by (rule spec_weaken [OF firewall_object.reads]) (auto simp: read_only_def)
  moreover have "spec ?P (forG js (\<lambda>job. logged (DeleteFirewallOnCloud env (fj_PolicyId job) token))) (\<lambda>_. True) (\<lambda>_. True)" for js
    by (rule policy_del.loop_calls) (simp add: policy_delete_def delete_request_def cloud_request_def)
  moreover have "spec ?P (forG ips (\<lambda>a. logged (DeleteStaticNatOnCloud env (ap_StaticNatId a) token))) (\<lambda>_. True) (\<lambda>_. True)" for ips
    by (rule nat_del.loop_calls) (simp add: nat_delete_def delete_request_def cloud_request_def)
  ultimately show ?thesis
    unfolding DeleteVMDependentResources_def DeleteFirewallSettings_def
    by (intro spec_if spec_ret TrueI spec_bind_any spec_call spec_rest_config_or_panic spec_client_or_exit) simp_all
qed

text \<open>C17: The server itself is deleted last. If a run of \<open>DeleteVM\<close> sends the action on the
  server, that is its final call. What it changed before is, for a machine with public addresses,
  exactly this: a request to delete each policy of the firewall object that it read under the
  machine's name, the deletion of that object, and a request to delete each static NAT in the
  machine's status, in this order; and nothing for a machine without. The one exception is a policy
  or NAT whose URL does not parse: the error is only logged, like that of a refused request, and the
  server is deleted all the same.\<close>

theorem server_deleted_last:
  assumes act: "HttpCall (action_request env token (st_ID (m_Status m))) \<in> set (trace (DeleteVM env m token) w)"
  shows "\<exists>cs. trace (DeleteVM env m token) w = cs @ [HttpCall (action_request env token (st_ID (m_Status m)))]
    \<and> (if st_AssignedPublicIps (m_Status m) = [] then filter (\<lambda>c. \<not> read_only c) cs = []
       else (\<exists>fw. outcome (get_firewall env m) (when_read env (world (GetCreatedVM env m token) w)) = Inr fw
         \<and> filter (\<lambda>c. \<not> read_only c) cs =
             map HttpCall (filter (sendable env)
               (map (\<lambda>job. policy_delete env token (fj_PolicyId job)) (ft_FirewallJobs (kf_Status fw))))
             @ [DeleteCall (OFirewall fw)]
             @ map HttpCall (filter (sendable env)
               (map (\<lambda>a. nat_delete env token (ap_StaticNatId a)) (st_AssignedPublicIps (m_Status m))))))"
proof -
  let ?act = "HttpCall (action_request env token (st_ID (m_Status m)))"
  let ?deps = "DeleteVMDependentResources env m token"
  have not_get: "?act \<notin> set (trace (GetCreatedVM env m token) w')" for w'
    using spec_trace [OF get_vm.reads] by (force simp: read_only_def action_request_def cloud_request_def)
  have not_deps: "?act \<notin> set (trace ?deps w')" for w'
    using spec_trace [OF dependent_calls] by (force simp: action_request_def cloud_request_def)
  show ?thesis
  proof (cases "outcome (GetCreatedVM env m token) w")
    case (Inl e)
    with act not_get [of w] show ?thesis
      by (auto simp: DeleteVM_def trace_bindG outcome_tryG split: stop.splits if_splits)
  next
    case (Inr st)
    let ?w1 = "world (GetCreatedVM env m token) w"
    have d: "outcome ?deps ?w1 = Inr ()"
      using act not_get [of w] not_deps [of ?w1] Inr
      by (auto simp: DeleteVM_def trace_bindG outcome_tryG split: sum.splits)
    have sent: "sendable env (action_request env token (st_ID (m_Status m)))"
      using act not_get [of w] not_deps [of ?w1] Inr d
      by (auto simp: DeleteVM_def trace_bindG outcome_tryG trace_http_do read_body_def split: sum.splits if_splits)
    let ?cs = "trace (GetCreatedVM env m token) w @ trace ?deps ?w1"
    have t: "trace (DeleteVM env m token) w = ?cs @ [?act]"
      using Inr d sent by (simp add: DeleteVM_def trace_bindG outcome_tryG trace_http_do read_body_def split: sum.split)
    have W: "filter (\<lambda>c. \<not> read_only c) ?cs = writes ?deps ?w1"
      by (simp add: get_vm.no_writes)
    show ?thesis
    proof (cases "st_AssignedPublicIps (m_Status m) = []")
      case True
      then have "trace ?deps ?w1 = []" by (simp add: DeleteVMDependentResources_def)
      then show ?thesis using t W True by (intro exI [of _ ?cs]) simp
    next
      case False
      from dependents_deleted [OF d this] t W False show ?thesis
        unfolding dependents_of_def by (intro exI [of _ ?cs]) simp
    qed
  qed
qed

definition owned_env :: "unit env" where
  "owned_env = vm_env\<lparr>e_get_firewall := (\<lambda>_ w. (Inr (new_firewall (cp_with_ip ''1.1.1.1'') sample_rule
     (firewall_job zero_NcCreateFirewallRuleResponse)), w))\<rparr>"

theorem server_deleted_last_witness:
  "\<exists>cs fw. trace (DeleteVM owned_env (cp_with_ip ''1.1.1.1'') ''t'') () =
       cs @ [HttpCall (action_request owned_env ''t'' (st_ID (m_Status (cp_with_ip ''1.1.1.1''))))]
     \<and> fw = new_firewall (cp_with_ip ''1.1.1.1'') sample_rule (firewall_job zero_NcCreateFirewallRuleResponse)
     \<and> filter (\<lambda>c. \<not> read_only c) cs = [HttpCall (policy_delete owned_env ''t'' ''''), DeleteCall (OFirewall fw),
         HttpCall (nat_delete owned_env ''t'' '''')]"
proof -
  let ?m = "cp_with_ip ''1.1.1.1''"
  let ?fw = "new_firewall ?m sample_rule (firewall_job zero_NcCreateFirewallRuleResponse)"
  have vm: "accepted owned_env (vm_request owned_env ''t'' ?m) () dec_ServerResponse zero_ServerResponse
      \<lparr>sv_Server = zero_KTMachineStatus\<lparr>st_ID := ''vm-1''\<rparr>\<rparr> ()"
    by (simp add: accepted_def owned_env_def vm_env_def vm_answer status_ok_def)
  have act: "HttpCall (action_request owned_env ''t'' (st_ID (m_Status ?m))) \<in> set (trace (DeleteVM owned_env ?m ''t'') ())"
    by (simp add: DeleteVM_def trace_def go_simps GetCreatedVM_accepted [OF vm])
      (simp add: DeleteVMDependentResources_def DeleteFirewallSettings_def DeleteFirewallOnCloud_def
        DeleteStaticNatOnCloud_def logged_def get_firewall_def rest_config_or_panic_def client_or_exit_def
        getRestConfig_def getClient_def http_do_def read_body_def status_ok_def cp_with_ip_def go_simps
        owned_env_def vm_env_def new_firewall_def)
  have ips: "st_AssignedPublicIps (m_Status ?m) \<noteq> []" by (simp add: cp_with_ip_def)
  obtain cs fw where cs: "trace (DeleteVM owned_env ?m ''t'') () = cs @ [HttpCall (action_request owned_env ''t'' (st_ID (m_Status ?m)))]"
      and fw: "outcome (get_firewall owned_env ?m) (when_read owned_env (world (GetCreatedVM owned_env ?m ''t'') ())) = Inr fw"
      and del: "filter (\<lambda>c. \<not> read_only c) cs = dependents_of owned_env ?m ''t'' fw"
    using server_deleted_last [OF act] ips unfolding dependents_of_def by auto
  have parses: "sendable owned_env rq" for rq by (simp add: sendable_def owned_env_def vm_env_def)
  have jobs: "map (\<lambda>job. policy_delete owned_env ''t'' (fj_PolicyId job)) (ft_FirewallJobs (kf_Status ?fw)) = [policy_delete owned_env ''t'' '''']"
    by (simp add: new_firewall_def firewall_job_def zero_NcCreateFirewallRuleResponse_def)
  have ips1: "map (\<lambda>a. nat_delete owned_env ''t'' (ap_StaticNatId a)) (st_AssignedPublicIps (m_Status ?m)) = [nat_delete owned_env ''t'' '''']"
    by (simp add: cp_with_ip_def zero_AssignedPublicIps_def)
  have "fw = ?fw" using fw by (simp add: get_firewall_def outcome_callG owned_env_def)
  moreover have "dependents_of owned_env ?m ''t'' ?fw = [HttpCall (policy_delete owned_env ''t'' ''''), DeleteCall (OFirewall ?fw),
      HttpCall (nat_delete owned_env ''t'' '''')]"
    by (simp only: dependents_of_def jobs ips1 list.map filter.simps parses if_True append.simps)
  ultimately have del': "filter (\<lambda>c. \<not> read_only c) cs = [HttpCall (policy_delete owned_env ''t'' ''''), DeleteCall (OFirewall ?fw),
      HttpCall (nat_delete owned_env ''t'' '''')]" using del by (simp only:)
  show ?thesis by (intro exI conjI, rule cs, rule refl, rule del')
qed

end
