(* ===== verification/Kubeconfig.thy ===== *)
theory Kubeconfig
  imports CloudVM
begin

text \<open>
  The kubeconfig of a new cluster: \<open>FetchAndCreateKubeconfigSecret\<close> and
  \<open>changeKubeconfigDomain\<close> of \<^verbatim>\<open>cmd/httpapi/helpers.go\<close>. The retry loop is recursion on
  the number of attempts left; the lemmas bound what it does, show what the secret holds, and
  that the rewriting of the server address does not come to anything.
\<close>

section \<open>Fetching\<close>

definition kubeconfig_request :: "AssignedPublicIps \<Rightarrow> http_request" where
  "kubeconfig_request a = \<lparr>rq_Method = ''GET'', rq_URL = ''http://'' @ ap_IP a @ '':8000/admin.conf'',
     rq_Header = [(''Content-Type'', ''application/json'')], rq_Body = ''''\<rparr>"

text \<open>The loop, with the number of attempts left and what the last read of a body gave:
  \<open>None\<close> as long as \<open>kubeconfigData\<close> and \<open>fetchErr\<close> are both nil. A successful read
  breaks the loop; an unusable URL returns from the function.\<close>

fun fetch_loop :: "'w env \<Rightarrow> http_request \<Rightarrow> nat \<Rightarrow> (gerror + string) option \<Rightarrow>
    ('w, (gerror + string) option) op" where
  "fetch_loop env rq 0 seen = retG seen"
| "fetch_loop env rq (Suc n) seen =
     bindG (liftG (e_url_parse env (rq_URL rq))) (\<lambda>_.
     bindG (tryG (callG (HttpCall rq) (e_http env rq))) (\<lambda>r. case r of
       Inl e \<Rightarrow> bindG (sleep_for env 5) (\<lambda>_. fetch_loop env rq n seen)
     | Inr resp \<Rightarrow>
         if status_ok (hr_StatusCode resp) then
           (case hr_Body resp of
              Inr data \<Rightarrow> retG (Some (Inr data))
            | Inl e \<Rightarrow> bindG (sleep_for env 5) (\<lambda>_. fetch_loop env rq n (Some (Inl e))))
         else bindG (sleep_for env 5) (\<lambda>_. fetch_loop env rq n seen)))"

definition attempts :: nat where "attempts = 24"

section \<open>The server address\<close>

text \<open>\<open>strings.Split(s, ":")\<close>.\<close>

fun split_colon :: "string \<Rightarrow> string list" where
  "split_colon [] = [[]]"
| "split_colon (c # s) =
     (if c = CHR '':'' then [] # split_colon s
      else case split_colon s of [] \<Rightarrow> [[c]] | p # ps \<Rightarrow> (c # p) # ps)"

fun change_servers :: "'w env \<Rightarrow> string \<Rightarrow> string list \<Rightarrow> Kubeconfig \<Rightarrow> ('w, Kubeconfig) op" where
  "change_servers env newDomain [] kc = retG kc"
| "change_servers env newDomain (n # ns) kc =
     (case map_of (kb_Clusters kc) n of
        None \<Rightarrow> change_servers env newDomain ns kc
      | Some server \<Rightarrow>
          (case e_url_parse env server of
             Inl e \<Rightarrow> failG (NewError (''invalid server URL in cluster '' @ n @ '': '' @ error_text e))
           | Inr u \<Rightarrow>
               (case split_colon (u_Host u) of
                  _ # port # _ \<Rightarrow>
                    change_servers env newDomain ns (kc\<lparr>kb_Clusters := AList.update n
                      (e_url_string env (u\<lparr>u_Host := newDomain @ '':'' @ port\<rparr>)) (kb_Clusters kc)\<rparr>)
                | _ \<Rightarrow> panicG ''runtime error: index out of range [1] with length 1'')))"

definition operator_namespace :: string where
  "operator_namespace = ''kt-cloud-operator-system''"

text \<open>\<open>secret.Data["value"]\<close> of a nil map is empty; the assignment to a nil map panics.\<close>

definition secret_value :: "Secret \<Rightarrow> string" where
  "secret_value s = (case map_of (se_Data s) ''value'' of None \<Rightarrow> '''' | Some v \<Rightarrow> v)"

definition errorf :: "string \<Rightarrow> gerror + 'a \<Rightarrow> gerror + 'a" where
  "errorf t r = (case r of Inl e \<Rightarrow> Inl (NewError (t @ error_text e)) | Inr x \<Rightarrow> Inr x)"

definition changeKubeconfigDomain :: "'w env \<Rightarrow> string \<Rightarrow> string \<Rightarrow> string \<Rightarrow> ('w, unit) op" where
  "changeKubeconfigDomain env secretName namespace newDomain =
     bindG (tryG (callG (GetCall KindSecret (secretName, namespace)) (e_get_secret env (secretName, namespace)))) (\<lambda>r.
     bindG (liftG (errorf ''failed to get secret: '' r)) (\<lambda>secret.
     bindG (liftG (case b64_decode (secret_value secret) of
         None \<Rightarrow> Inl (NewError ''failed to decode kubeconfig: illegal base64 data'')
       | Some raw \<Rightarrow> Inr raw)) (\<lambda>rawData.
     bindG (liftG (errorf ''failed to unmarshal kubeconfig: '' (e_yaml_unmarshal env rawData))) (\<lambda>kubeconfig.
     bindG (pickG (e_map_order env (map fst (kb_Clusters kubeconfig)))) (\<lambda>order.
     bindG (change_servers env newDomain order kubeconfig) (\<lambda>kubeconfig'.
     bindG (liftG (errorf ''failed to marshal updated kubeconfig: '' (e_yaml_marshal env kubeconfig'))) (\<lambda>updated.
     if se_Data secret = [] then panicG ''assignment to entry in nil map''
     else
       let secret' = secret\<lparr>se_Data := AList.update ''value'' updated (se_Data secret)\<rparr> in
       bindG (tryG (callG (UpdateCall (OSecret secret')) (e_update_secret env secret'))) (\<lambda>r.
       bindG (liftG (errorf ''failed to update secret: '' r)) (\<lambda>_. retG ())))))))))"

section \<open>The secret\<close>

definition kubeconfig_secret :: "KTCluster \<Rightarrow> string \<Rightarrow> Secret" where
  "kubeconfig_secret cluster kubeconfigData =
     \<lparr>se_Meta = zero_ObjectMeta\<lparr>om_Name := kc_Name cluster @ ''-kubeconfig'',
        om_Namespace := operator_namespace,
        om_Labels := Some [(''cluster.x-k8s.io/cluster-name'', kc_Name cluster)],
        om_Annotations := Some [
          (''internal.kpt.dev/upstream-identifier'',
           ''|Secret|kt-cloud-operator-system|'' @ kc_Name cluster @ ''-kubeconfig''),
          (''nephio.org/cluster-name'', kc_Name cluster)]\<rparr>,
      se_Type = ''Opaque'',
      se_Data = [(''value'', kubeconfigData)]\<rparr>"

text \<open>The error of \<open>changeKubeconfigDomain\<close> is dropped; a panic in it is not.\<close>

definition FetchAndCreateKubeconfigSecret :: "'w env \<Rightarrow> KTMachine \<Rightarrow> KTCluster \<Rightarrow> ('w, unit) op" where
  "FetchAndCreateKubeconfigSecret env machine cluster =
     (case st_AssignedPublicIps (m_Status machine) of
        [] \<Rightarrow> panicG index_panic
      | a # _ \<Rightarrow>
          bindG (fetch_loop env (kubeconfig_request a) attempts None) (\<lambda>fetched. case fetched of
            None \<Rightarrow> failG (NewError (''failed to fetch kubeconfig from '' @ rq_URL (kubeconfig_request a) @ '': %!w(<nil>)''))
          | Some (Inl e) \<Rightarrow> failG (Wrapped (''failed to fetch kubeconfig from '' @ rq_URL (kubeconfig_request a) @ '': '') e)
          | Some (Inr data) \<Rightarrow>
              let secret = kubeconfig_secret cluster data in
              bindG (tryG (callG (CreateCall (OSecret secret)) (e_create_secret env secret))) (\<lambda>r. case r of
                Inl e \<Rightarrow> failG (Wrapped ''failed to create kubeconfig secret: '' e)
              | Inr _ \<Rightarrow>
                  bindG (tryG (changeKubeconfigDomain env (kc_Name cluster @ ''-kubeconfig'') operator_namespace (ap_IP a)))
                    (\<lambda>_. retG ()))))"

section \<open>Properties\<close>

lemma atmost_fetch_loop: "atmost is_http n (fetch_loop env rq n seen)"
proof (induction n arbitrary: seen)
  case 0
  show ?case by (simp add: atmost_ret)
next
  case (Suc n)
  have s: "atmost is_http n (bindG (sleep_for env 5) (\<lambda>_. fetch_loop env rq n l))" for l
    by (rule atmost_bind_quiet) (auto simp: sleep_for_def Suc intro!: atmost_ask)
  have c: "atmost is_http 1 (tryG (callG (HttpCall rq) (e_http env rq)))"
    by (intro atmost_try atmost_call) simp
  have "atmost is_http (1 + n) (fetch_loop env rq (Suc n) seen)"
    unfolding fetch_loop.simps
    by (intro atmost_bind_quiet atmost_lift atmost_bind [OF c])
      (auto split: sum.split intro: s atmost_ret)
  then show ?case by simp
qed

lemma spec_change_servers: "spec (\<lambda>_. False) (change_servers env d ns kc) (\<lambda>_. True) (\<lambda>_. True)"
  by (induction ns arbitrary: kc) (auto intro!: spec_intros split: option.split sum.split list.split)

lemma spec_changeKubeconfigDomain:
  assumes "\<And>k. P (GetCall KindSecret k)" and "\<And>s. P (UpdateCall (OSecret s))"
  shows "spec P (changeKubeconfigDomain env n ns d) (\<lambda>_. True) (\<lambda>_. True)"
  unfolding changeKubeconfigDomain_def Let_def
  by (intro spec_bind_any spec_try spec_call spec_lift spec_pick spec_if spec_ret spec_stopI TrueI
      spec_weaken [OF spec_change_servers] assms) (simp_all split: stop.split)

fun is_sleep :: "call \<Rightarrow> bool" where
  "is_sleep (Sleep n) \<longleftrightarrow> True"
| "is_sleep c \<longleftrightarrow> False"

lemma atmost_fetch_sleeps: "atmost is_sleep n (fetch_loop env rq n seen)"
proof (induction n arbitrary: seen)
  case 0
  show ?case by (simp add: atmost_ret)
next
  case (Suc n)
  have s: "atmost is_sleep (1 + n) (bindG (sleep_for env 5) (\<lambda>_. fetch_loop env rq n l))" for l
    by (rule atmost_bind) (auto simp: sleep_for_def Suc intro!: atmost_ask)
  have c: "atmost is_sleep 0 (tryG (callG (HttpCall rq) (e_http env rq)))"
    by (intro atmost_try atmost_call) simp
  have "atmost is_sleep (1 + n) (fetch_loop env rq (Suc n) seen)"
    unfolding fetch_loop.simps
    by (intro atmost_bind_quiet atmost_lift c) (use s in \<open>auto split: sum.split intro: atmost_ret\<close>)
  then show ?case by simp
qed

lemma atmost_after_fetch:
  assumes "\<And>c. P c \<Longrightarrow> is_http c \<or> is_sleep c" and "\<And>rq seen. atmost P attempts (fetch_loop env rq attempts seen)"
  shows "atmost P attempts (FetchAndCreateKubeconfigSecret env m cl)"
proof -
  have quiet: "\<not> P (CreateCall x)" "\<not> P (GetCall kd k)" "\<not> P (UpdateCall x)" for x kd k
    using assms(1) by fastforce+
  have dom: "atmost P 0 (tryG (changeKubeconfigDomain env n ns d))" for n ns d
    by (intro atmost_try spec_atmost [OF spec_changeKubeconfigDomain [where P = "\<lambda>c. \<not> P c"]]) (simp_all add: quiet)
  have rest: "atmost P 0 (bindG (tryG (callG (CreateCall x) f)) (\<lambda>r. case r of
      Inl e \<Rightarrow> failG (Wrapped t e)
    | Inr _ \<Rightarrow> bindG (tryG (changeKubeconfigDomain env n ns d)) (\<lambda>_. retG ())))" for x t n ns d and f :: "_ \<Rightarrow> (gerror + 'z) \<times> _"
    by (intro atmost_bind_quiet atmost_try atmost_call)
      (auto simp: quiet split: sum.split intro: atmost_stop atmost_bind_quiet dom atmost_ret)
  show ?thesis
    unfolding FetchAndCreateKubeconfigSecret_def Let_def
    by (auto split: list.split option.split sum.split intro!: atmost_bind_then_quiet assms(2) atmost_stop rest)
qed

text \<open>C33: Fetching the kubeconfig ends after at most 24 requests and 24 pauses, whatever the
  server on the new machine does.\<close>

theorem kubeconfig_attempts_bounded:
  "length (filter is_http (trace (FetchAndCreateKubeconfigSecret env m cl) w)) \<le> 24
   \<and> length (filter is_sleep (trace (FetchAndCreateKubeconfigSecret env m cl) w)) \<le> 24"
  using atmostD [OF atmost_after_fetch [of is_http env m cl], of w]
    atmostD [OF atmost_after_fetch [of is_sleep env m cl], of w]
    atmost_fetch_loop [of attempts env] atmost_fetch_sleeps [of attempts env] by (simp add: attempts_def)

text \<open>A body that the server on the new machine really sent, with success.\<close>

definition sent_by :: "'w env \<Rightarrow> http_request \<Rightarrow> string \<Rightarrow> bool" where
  "sent_by env rq data \<longleftrightarrow> (\<exists>w w1 resp. e_http env rq w = (Inr resp, w1) \<and> status_ok (hr_StatusCode resp)
     \<and> hr_Body resp = Inr data)"

lemma spec_fetch_loop:
  assumes "\<And>c. c = HttpCall rq \<or> c = Sleep 5 \<Longrightarrow> P c" and "\<And>data. seen \<noteq> Some (Inr data)"
  shows "spec P (fetch_loop env rq n seen) (\<lambda>x. \<forall>data. x = Some (Inr data) \<longrightarrow> sent_by env rq data) (\<lambda>_. True)"
  using assms(2)
proof (induction n arbitrary: seen)
  case 0
  then show ?case by (simp add: spec_ret)
next
  case (Suc n)
  let ?Q = "\<lambda>x. \<forall>data. x = Some (Inr data) \<longrightarrow> sent_by env rq data"
  have s: "spec P (bindG (sleep_for env 5) (\<lambda>_. fetch_loop env rq n l)) ?Q (\<lambda>_. True)"
    if "\<And>data. l \<noteq> Some (Inr data)" for l
    by (rule spec_bind_any [OF spec_sleep_for]) (simp_all add: assms(1) Suc.IH that)
  have c: "spec P (tryG (callG (HttpCall rq) (e_http env rq)))
      (\<lambda>r. \<forall>resp data. r = Inr resp \<longrightarrow> status_ok (hr_StatusCode resp) \<longrightarrow> hr_Body resp = Inr data \<longrightarrow> sent_by env rq data) (\<lambda>_. True)"
    by (intro spec_try spec_call) (auto simp: assms(1) sent_by_def)
  show ?case
    unfolding fetch_loop.simps
    by (rule spec_bind_any [OF spec_lift], simp, simp, rule spec_bind [OF c])
      (auto split: sum.split intro!: s spec_ret simp: Suc.prems)
qed

lemma spec_change_logged:
  assumes "\<And>k. P (GetCall KindSecret k)" and "\<And>s. P (UpdateCall (OSecret s))"
  shows "spec P (bindG (tryG (changeKubeconfigDomain env n ns d)) (\<lambda>_. retG ())) (\<lambda>_. True) (\<lambda>_. True)"
  by (rule spec_bind_any [OF spec_try spec_ret])
    (rule spec_weaken [OF spec_changeKubeconfigDomain [where P = P]]; simp add: assms split: stop.split)

text \<open>C24: The secret that is created is named after the cluster, lies in the operator's
  namespace, carries the cluster's label, and its only entry \<open>value\<close> is byte for byte an answer
  of the first assigned address of the machine.\<close>

theorem kubeconfig_secret_faithful:
  assumes "CreateCall x \<in> set (trace (FetchAndCreateKubeconfigSecret env m cl) w)"
  shows "\<exists>a rest data. st_AssignedPublicIps (m_Status m) = a # rest
    \<and> sent_by env (kubeconfig_request a) data
    \<and> x = OSecret (kubeconfig_secret cl data)
    \<and> se_Data (kubeconfig_secret cl data) = [(''value'', data)]
    \<and> om_Name (se_Meta (kubeconfig_secret cl data)) = kc_Name cl @ ''-kubeconfig''"
proof -
  let ?P = "\<lambda>c. \<forall>x. c = CreateCall x \<longrightarrow> (\<exists>a rest data. st_AssignedPublicIps (m_Status m) = a # rest
    \<and> sent_by env (kubeconfig_request a) data \<and> x = OSecret (kubeconfig_secret cl data))"
  have "spec ?P (FetchAndCreateKubeconfigSecret env m cl) (\<lambda>_. True) (\<lambda>_. True)"
  proof (cases "st_AssignedPublicIps (m_Status m)")
    case Nil
    then show ?thesis by (simp add: FetchAndCreateKubeconfigSecret_def spec_stopI)
  next
    case (Cons a rest)
    have "spec ?P (fetch_loop env (kubeconfig_request a) attempts None)
        (\<lambda>x. \<forall>data. x = Some (Inr data) \<longrightarrow> sent_by env (kubeconfig_request a) data) (\<lambda>_. True)"
      by (rule spec_fetch_loop) auto
    then show ?thesis
      unfolding FetchAndCreateKubeconfigSecret_def Cons list.case Let_def
      by (rule spec_bind) (auto split: option.split sum.split simp: Cons
          intro!: spec_stopI spec_bind_any [OF spec_try [OF spec_call]] spec_change_logged)
  qed
  from spec_trace [OF this assms] show ?thesis by (simp add: kubeconfig_secret_def)
qed

definition sample_cluster :: KTCluster where
  "sample_cluster = \<lparr>kc_TypeMeta = zero_TypeMeta, kc_Meta = zero_ObjectMeta\<lparr>om_Name := [CHR 0x63]\<rparr>,
     kc_Spec = \<lparr>cs_APIServerLoadBalancer = \<lparr>lb_Enabled = False\<rparr>, cs_ControlPlaneExternalNetworkEnable = True,
       cs_IdentityRef = \<lparr>ir_CloudName = [], ir_Name = []\<rparr>,
       cs_ManagedSecurityGroups = \<lparr>ms_EnableOutboundInternetTraffic = False,
         ms_ControlPlaneRules = \<lparr>sr_Direction = [], sr_StartPort = [], sr_EndPort = [], sr_Protocol = [],
           sr_Action = [], sr_Dstip = []\<rparr>,
         ms_WorkerRules = \<lparr>sr_Direction = [], sr_StartPort = [], sr_EndPort = [], sr_Protocol = [],
           sr_Action = [], sr_Dstip = []\<rparr>\<rparr>\<rparr>\<rparr>"

definition conf_env :: "unit env" where
  "conf_env = down_env\<lparr>e_http := (\<lambda>_ w. (Inr (answer 200 ''200 OK'' ''apiVersion: v1''), w))\<rparr>"

theorem kubeconfig_secret_faithful_witness:
  "\<exists>a rest data. st_AssignedPublicIps (m_Status (cp_with_ip ''1.1.1.1'')) = a # rest
     \<and> sent_by conf_env (kubeconfig_request a) data
     \<and> OSecret (kubeconfig_secret sample_cluster ''apiVersion: v1'') = OSecret (kubeconfig_secret sample_cluster data)"
proof -
  have "CreateCall (OSecret (kubeconfig_secret sample_cluster ''apiVersion: v1''))
      \<in> set (trace (FetchAndCreateKubeconfigSecret conf_env (cp_with_ip ''1.1.1.1'') sample_cluster) ())"
    by (simp add: FetchAndCreateKubeconfigSecret_def cp_with_ip_def conf_env_def attempts_def numeral_eq_Suc
        status_ok_def trace_def go_simps Let_def split: prod.split sum.split)
  from kubeconfig_secret_faithful [OF this] show ?thesis by blast
qed

lemma fetch_loop_down:
  assumes "e_url_parse env (rq_URL rq) = Inr u" and "\<And>w. \<exists>e w1. e_http env rq w = (Inl e, w1)"
  shows "outcome (fetch_loop env rq n seen) w = Inr seen
    \<and> filter is_http (trace (fetch_loop env rq n seen) w) = replicate n (HttpCall rq)"
proof (induction n arbitrary: w)
  case 0
  show ?case by simp
next
  case (Suc n)
  obtain e w1 where e: "e_http env rq w = (Inl e, w1)" using assms(2) by blast
  have "fetch_loop env rq (Suc n) seen w =
      (case fetch_loop env rq n seen (e_sleep env 5 w1) of (r, cs, w2) \<Rightarrow> (r, HttpCall rq # Sleep 5 # cs, w2))"
    by (simp add: assms(1) go_simps e sleep_for_def split: prod.split)
  with Suc [of "e_sleep env 5 w1"] show ?case
    by (cases "fetch_loop env rq n seen (e_sleep env 5 w1)") (simp add: run_defs del: fetch_loop.simps)
qed

text \<open>If the new machine never answers, exactly 24 requests are made, the result is an
  error, and no secret is created.\<close>

theorem kubeconfig_unreachable:
  assumes "st_AssignedPublicIps (m_Status m) = a # rest"
    and "e_url_parse env (rq_URL (kubeconfig_request a)) = Inr u"
    and "\<And>w. \<exists>e w1. e_http env (kubeconfig_request a) w = (Inl e, w1)"
  shows "(\<exists>e. outcome (FetchAndCreateKubeconfigSecret env m cl) w = Inl (Fail e))
    \<and> filter is_http (trace (FetchAndCreateKubeconfigSecret env m cl) w) = replicate 24 (HttpCall (kubeconfig_request a))
    \<and> (\<forall>x. CreateCall x \<notin> set (trace (FetchAndCreateKubeconfigSecret env m cl) w))"
proof -
  let ?loop = "fetch_loop env (kubeconfig_request a) attempts None"
  have o: "outcome ?loop w = Inr None"
    and t: "filter is_http (trace ?loop w) = replicate 24 (HttpCall (kubeconfig_request a))"
    using fetch_loop_down [OF assms(2,3), of attempts None w] by (simp_all add: attempts_def)
  have "spec (\<lambda>c. \<forall>x. c \<noteq> CreateCall x) ?loop (\<lambda>x. \<forall>data. x = Some (Inr data) \<longrightarrow> sent_by env (kubeconfig_request a) data) (\<lambda>_. True)"
    by (rule spec_fetch_loop) auto
  then have "\<forall>x. CreateCall x \<notin> set (trace ?loop w)" by (blast dest: spec_trace)
  with o t assms(1) show ?thesis
    by (simp add: FetchAndCreateKubeconfigSecret_def outcome_bindG trace_bindG)
qed

theorem kubeconfig_unreachable_witness:
  "\<exists>e. outcome (FetchAndCreateKubeconfigSecret (down_env :: unit env) (cp_with_ip ''1.1.1.1'') sample_cluster) () = Inl (Fail e)"
  by (rule kubeconfig_unreachable [THEN conjunct1]) (simp_all add: cp_with_ip_def)

text \<open>C32: The server address in the kubeconfig is never rewritten. The code base64-decodes a
  value that the client has already decoded; a kubeconfig contains a colon, which is no base64
  digit, so decoding fails, the error is dropped, and no secret is updated.\<close>

theorem kubeconfig_domain_never_changed:
  assumes "\<And>w s w1. e_get_secret env (kc_Name cl @ ''-kubeconfig'', operator_namespace) w = (Inr s, w1)
      \<Longrightarrow> CHR '':'' \<in> set (secret_value s)"
  shows "UpdateCall x \<notin> set (trace (FetchAndCreateKubeconfigSecret env m cl) w)"
proof -
  let ?P = "\<lambda>c. \<forall>x. c \<noteq> UpdateCall x"
  let ?k = "kc_Name cl @ ''-kubeconfig''"
  have dom: "spec ?P (changeKubeconfigDomain env ?k operator_namespace d) (\<lambda>_. True) is_fail" for d
  proof -
    let ?get = "tryG (callG (GetCall KindSecret (?k, operator_namespace)) (e_get_secret env (?k, operator_namespace)))"
    have "b64_decode (secret_value s) = None" if "CHR '':'' \<in> set (secret_value s)" for s
      using that by (rule b64_decode_alphabet) (simp_all add: b64_val_def pad_def)
    moreover have "spec ?P ?get (\<lambda>r. \<forall>s. r = Inr s \<longrightarrow> CHR '':'' \<in> set (secret_value s)) is_fail"
      by (intro spec_try spec_call) (auto dest: assms)
    ultimately show ?thesis
      unfolding changeKubeconfigDomain_def
      by (elim spec_bind) (auto simp: errorf_def spec_stopI split: sum.splits)
  qed
  have changed: "spec ?P (bindG (tryG (changeKubeconfigDomain env ?k operator_namespace d)) (\<lambda>_. retG ())) (\<lambda>_. True) (\<lambda>_. True)" for d
    by (rule spec_bind_any [OF spec_try spec_ret]) (rule spec_weaken [OF dom]; simp split: stop.split)+
  have fetched: "spec ?P (fetch_loop env rq attempts None) (\<lambda>_. True) (\<lambda>_. True)" for rq
    by (rule spec_weaken [OF spec_fetch_loop [where P = ?P]]) auto
  have created: "spec ?P (tryG (callG (CreateCall y) f)) (\<lambda>_. True) (\<lambda>_. True)"
    for y and f :: "'a \<Rightarrow> (gerror + Secret) \<times> 'a"
    by (intro spec_try spec_call) (simp_all split: stop.split)
  have "spec ?P (FetchAndCreateKubeconfigSecret env m cl) (\<lambda>_. True) (\<lambda>_. True)"
    unfolding FetchAndCreateKubeconfigSecret_def Let_def
    by (intro spec_list spec_stopI TrueI spec_bind_any [OF fetched] spec_option spec_sum
        spec_bind_any [OF created] changed)
  then show ?thesis by (blast dest: spec_trace)
qed

definition stored_conf_env :: "KTCluster \<Rightarrow> unit env" where
  "stored_conf_env cl = conf_env\<lparr>e_get_secret := (\<lambda>_ w. (Inr (kubeconfig_secret cl ''server: https://10.0.0.7:6443''), w))\<rparr>"

theorem kubeconfig_domain_never_changed_witness:
  "\<forall>x. UpdateCall x \<notin> set (trace (FetchAndCreateKubeconfigSecret (stored_conf_env sample_cluster) (cp_with_ip ''1.1.1.1'') sample_cluster) ())"
  by (intro allI kubeconfig_domain_never_changed) (auto simp: stored_conf_env_def secret_value_def kubeconfig_secret_def)

end
