(* ===== verification/MachineController.thy ===== *)
theory MachineController
  imports Reconciler CloudDelete Kubeconfig
begin

text \<open>
  The controller of machines, \<^verbatim>\<open>internal/controller/ktmachine_controller.go\<close>. A machine whose
  name contains \<^verbatim>\<open>control-plane\<close> is created, given a public address, opened in the
  firewall and marked ready for joining; any other machine is a worker, which waits for a ready
  control plane and joins it. The machine read at the start is changed in memory as the code
  goes on; what the API server answers to an update replaces it.
\<close>

section \<open>Reading what a machine needs\<close>

definition GetMachineAssociatedCluster :: "'w env \<Rightarrow> KTMachine \<Rightarrow> ('w, KTCluster) op" where
  "GetMachineAssociatedCluster env m =
     (let k = (ks_ClusterName (m_Spec m), m_Namespace m) in
      bindG (callG (GetCall KindKTCluster k) (e_get_ktcluster env k)) (\<lambda>c.
      if kc_Name c = '''' then failG (NewError ''failed to find ktcluster associated with machine'')
      else retG c))"

definition getSubjectToken :: "'w env \<Rightarrow> KTMachine \<Rightarrow> ('w, KTSubjectToken) op" where
  "getSubjectToken env m =
     bindG (tryG (GetMachineAssociatedCluster env m)) (\<lambda>r. case r of
       Inl _ \<Rightarrow> failG (NewError ''failed to retrieve cluster for machine'')
     | Inr c \<Rightarrow>
         let k = (kc_Name c, m_Namespace m) in callG (GetCall KindKTSubjectToken k) (e_get_token env k))"

definition ControlPlaneLabel :: string where "ControlPlaneLabel = ''control-plane''"

definition StatusActive :: string where "StatusActive = ''ACTIVE''"

definition BootstrapReady :: string where "BootstrapReady = ''BootstrapReady''"

definition bootstrap_ready :: "KTMachine \<Rightarrow> KTMachine \<Rightarrow> bool" where
  "bootstrap_ready ktMachine machine \<longleftrightarrow>
     m_Name machine \<noteq> m_Name ktMachine \<and> contains_str (m_Name machine) ''control-plane''
     \<and> st_Status (m_Status machine) = ''ACTIVE''
     \<and> cr_Type (st_ControlPlaneRef (m_Status machine)) = ''BootstrapReady''
     \<and> cr_Status (st_ControlPlaneRef (m_Status machine))"

definition GetBootstrapReadyMachineControlPlane :: "'w env \<Rightarrow> KTMachine \<Rightarrow> ('w, KTMachine list) op" where
  "GetBootstrapReadyMachineControlPlane env ktMachine =
     bindG (callG (ListMachines (m_Namespace ktMachine)) (e_list_machines env (m_Namespace ktMachine)))
       (\<lambda>items. retG (filter (bootstrap_ready ktMachine) items))"

section \<open>Control planes\<close>

text \<open>\<open>r.Status().Update(ctx, ktMachine)\<close>.\<close>

definition update_machine_status :: "'w env \<Rightarrow> KTMachine \<Rightarrow> ('w, KTMachine) op" where
  "update_machine_status env m = callG (StatusUpdate (OMachine m)) (e_status_update_machine env m)"

definition set_control_plane_ref :: "bool \<Rightarrow> KTMachine \<Rightarrow> KTMachine" where
  "set_control_plane_ref ready m = m\<lparr>m_Status := (m_Status m)\<lparr>st_ControlPlaneRef :=
     (st_ControlPlaneRef (m_Status m))\<lparr>cr_Type := ''BootstrapReady'', cr_Status := ready\<rparr>\<rparr>\<rparr>"

definition sync_status :: "'w env \<Rightarrow> KTMachine \<Rightarrow> KTMachineStatus \<Rightarrow> ('w, KTMachine) op" where
  "sync_status env m server =
     (if st_Status (m_Status m) \<noteq> st_Status server then update_machine_status env (m\<lparr>m_Status := server\<rparr>)
      else retG m)"

definition open_network :: "'w env \<Rightarrow> KTMachine \<Rightarrow> KTCluster \<Rightarrow> string \<Rightarrow> ('w, KTMachine) op" where
  "open_network env m cluster token =
     (if cs_ControlPlaneExternalNetworkEnable (kc_Spec cluster)
         \<and> length (st_AssignedPublicIps (m_Status m)) = 0 then
        bindG (AttachPublicIP env m token) (\<lambda>m1.
        bindG (let sg = cs_ManagedSecurityGroups (kc_Spec cluster) in
               if sr_Direction (ms_ControlPlaneRules sg) \<noteq> '''' then
                 AddFirewallSettings env m1 token (ms_ControlPlaneRules sg) (ms_EnableOutboundInternetTraffic sg)
               else retG ()) (\<lambda>_.
        update_machine_status env (set_control_plane_ref False m1)))
      else retG m)"

definition finish_bootstrap :: "'w env \<Rightarrow> KTMachine \<Rightarrow> KTCluster \<Rightarrow> ('w, unit) op" where
  "finish_bootstrap env m cluster =
     (if cr_Type (st_ControlPlaneRef (m_Status m)) = ''BootstrapReady''
         \<and> \<not> cr_Status (st_ControlPlaneRef (m_Status m)) then
        bindG (CheckControlPlaneMachineReady env m) (\<lambda>_.
        bindG (FetchAndCreateKubeconfigSecret env m cluster) (\<lambda>_.
        bindG (update_machine_status env (set_control_plane_ref True m)) (\<lambda>_. retG ())))
      else retG ())"

definition reconcile_control_plane :: "'w env \<Rightarrow> KTMachine \<Rightarrow> KTCluster \<Rightarrow> string \<Rightarrow> ('w, unit) op" where
  "reconcile_control_plane env m cluster token =
     (if st_ID (m_Status m) = '''' then bindG (CreateVM env m token) (\<lambda>_. retG ())
      else
        bindG (GetCreatedVM env m token) (\<lambda>server.
        bindG (sync_status env m server) (\<lambda>m1.
        if st_Status (m_Status m1) = StatusActive then
          bindG (open_network env m1 cluster token) (\<lambda>m2. finish_bootstrap env m2 cluster)
        else retG ())))"

section \<open>Workers\<close>

definition set_joined :: "KTMachine \<Rightarrow> KTMachine" where
  "set_joined m = m\<lparr>m_Status := (m_Status m)\<lparr>st_WorkerRef := \<lparr>wr_JoinedControlPlane = True\<rparr>\<rparr>\<rparr>"

text \<open>The part for a worker without a state; \<open>None\<close> when the function returns because there
  is no ready control plane. \<open>JoinControlPlane\<close> is given a copy of the machine.\<close>

definition join_if_new :: "'w env \<Rightarrow> KTMachine \<Rightarrow> string \<Rightarrow> ('w, KTMachine option) op" where
  "join_if_new env m token =
     (if st_Status (m_Status m) = '''' \<and> \<not> wr_JoinedControlPlane (st_WorkerRef (m_Status m)) then
        bindG (GetBootstrapReadyMachineControlPlane env m) (\<lambda>cps.
        if length cps = 0 then retG None
        else
          bindG (JoinControlPlane env cps m token) (\<lambda>_.
          bindG (update_machine_status env (set_joined m)) (\<lambda>m1. retG (Some m1))))
      else retG (Some m))"

definition reconcile_worker :: "'w env \<Rightarrow> KTMachine \<Rightarrow> string \<Rightarrow> ('w, unit) op" where
  "reconcile_worker env m token =
     bindG (join_if_new env m token) (\<lambda>r. case r of
       None \<Rightarrow> retG ()
     | Some m1 \<Rightarrow>
         bindG (GetCreatedVM env m1 token) (\<lambda>server.
         bindG (sync_status env (set_joined m1) server) (\<lambda>_. retG ())))"

section \<open>Reconcile\<close>

definition reconcileInfrastructure :: "'w env \<Rightarrow> KTMachine \<Rightarrow> KTCluster \<Rightarrow> string \<Rightarrow> ('w, unit) op" where
  "reconcileInfrastructure env m cluster token =
     (if contains_str (m_Name m) ControlPlaneLabel then reconcile_control_plane env m cluster token
      else reconcile_worker env m token)"

definition reconcile_machine_body :: "'w env \<Rightarrow> key \<Rightarrow> KTMachine \<Rightarrow> ('w, Result) op" where
  "reconcile_machine_body env req m =
     bindG (tryG (getSubjectToken env m)) (\<lambda>r. case r of
       Inl _ \<Rightarrow> retG requeue_minute
     | Inr t \<Rightarrow>
         if us_SubjectToken (kt_Spec t) = '''' then retG requeue_minute
         else
           bindG (GetMachineAssociatedCluster env m) (\<lambda>cluster.
           bindG (reconcileInfrastructure env m cluster (us_SubjectToken (kt_Spec t))) (\<lambda>_.
           retG requeue_minute)))"

definition reconcile_machine :: "'w env \<Rightarrow> key \<Rightarrow> ('w, Result) op" where
  "reconcile_machine env req = with_object KindKTMachine (e_get_machine env) req (reconcile_machine_body env req)"

text \<open>Two functions that only the disabled finalizer code calls.\<close>

definition triggerClusterReconciliation :: "'w env \<Rightarrow> KTCluster \<Rightarrow> ('w, KTCluster) op" where
  "triggerClusterReconciliation env cluster =
     bindG (askG Now (e_now env)) (\<lambda>now.
     let annotations = (case om_Annotations (kc_Meta cluster) of None \<Rightarrow> [] | Some a \<Rightarrow> a);
         cluster' = cluster\<lparr>kc_Meta := (kc_Meta cluster)\<lparr>om_Annotations :=
           Some (AList.update ''trigger-reconcile'' now annotations)\<rparr>\<rparr>
     in callG (UpdateCall (OKTCluster cluster')) (e_update_ktcluster env cluster'))"

definition deleteExternalResources :: "'w env \<Rightarrow> KTMachine \<Rightarrow> string \<Rightarrow> ('w, unit) op" where
  "deleteExternalResources env m token = DeleteVM env m token"

interpretation machine_reconciler: reconciler KindKTMachine e_get_machine reconcile_machine reconcile_machine_body
  by unfold_locales (rule reconcile_machine_def)

section \<open>Contracts\<close>

interpretation cluster_of: safe_query "GetMachineAssociatedCluster env m" for env :: "'w env" and m
  by unfold_locales (unfold GetMachineAssociatedCluster_def Let_def,
    (intro spec_bind_any spec_intros TrueI; simp add: read_only_def)+)

interpretation token_of: safe_query "getSubjectToken env m" for env :: "'w env" and m
  by unfold_locales (unfold getSubjectToken_def Let_def GetMachineAssociatedCluster_def,
    (intro spec_bind_any spec_intros TrueI; simp add: read_only_def split: stop.split)+)

interpretation candidates: safe_query "GetBootstrapReadyMachineControlPlane env m" for env :: "'w env" and m
  by unfold_locales (unfold GetBootstrapReadyMachineControlPlane_def,
    (intro spec_bind_any spec_intros TrueI; simp add: read_only_def)+)

text \<open>The request that makes the cloud create a server.\<close>

definition server_create :: "'w env \<Rightarrow> call \<Rightarrow> bool" where
  "server_create env c \<longleftrightarrow>
     (\<exists>rq. c = HttpCall rq \<and> rq_Method rq = ''POST'' \<and> rq_URL rq = api_url env ''/server/servers'')"

lemma read_only_no_create: "read_only c \<Longrightarrow> \<not> server_create env c"
  by (auto simp: read_only_def server_create_def)

lemma attach_no_create: "attach_write env m token c \<Longrightarrow> \<not> server_create env c"
  by (auto simp: attach_write_def read_only_no_create)
    (auto simp: server_create_def attach_request_def cloud_request_def api_url_def)

lemma firewall_no_create: "firewall_write env m token rule c \<Longrightarrow> \<not> server_create env c"
  by (auto simp: firewall_write_def read_only_no_create)
    (auto simp: server_create_def firewall_request_def cloud_request_def api_url_def)

text \<open>An operation that never creates a server.\<close>

locale no_create =
  fixes env :: "'w env" and q :: "('w, 'a) op"
  assumes never: "spec (\<lambda>c. \<not> server_create env c) q (\<lambda>_. True) (\<lambda>_. True)"
begin

lemma count: "atmost (server_create env) n q"
  by (rule spec_atmost [OF never])

lemma none: "c \<in> set (trace q w) \<Longrightarrow> \<not> server_create env c"
  by (rule spec_trace [OF never])

end

lemma query_no_create: "query q \<Longrightarrow> no_create env q"
  unfolding no_create_def query_def by (erule spec_weaken) (simp_all add: read_only_no_create)

lemma spec_FetchAndCreate:
  assumes "\<And>rq. rq_Method rq = ''GET'' \<Longrightarrow> P (HttpCall rq)" and "P (Sleep 5)" and "\<And>s. P (CreateCall (OSecret s))"
    and "\<And>k. P (GetCall KindSecret k)" and "\<And>s. P (UpdateCall (OSecret s))"
  shows "spec P (FetchAndCreateKubeconfigSecret env m cl) (\<lambda>_. True) (\<lambda>_. True)"
proof -
  have fetched: "spec P (fetch_loop env (kubeconfig_request a) attempts None) (\<lambda>_. True) (\<lambda>_. True)" for a
    by (rule spec_weaken [OF spec_fetch_loop [where P = P]]) (auto simp: assms kubeconfig_request_def)
  have created: "spec P (tryG (callG (CreateCall (OSecret y)) f)) (\<lambda>_. True) (\<lambda>_. True)"
    for y and f :: "'a \<Rightarrow> (gerror + Secret) \<times> 'a"
    by (intro spec_try spec_call) (simp_all add: assms split: stop.split)
  show ?thesis
    unfolding FetchAndCreateKubeconfigSecret_def Let_def
    by (intro spec_list spec_stopI TrueI spec_bind_any [OF fetched] spec_option spec_sum
        spec_bind_any [OF created] spec_change_logged assms)
qed

interpretation attach_nc: no_create env "AttachPublicIP env m token" for env :: "'w env" and m token
  by unfold_locales (rule spec_weaken [OF attach_calls]; simp add: attach_no_create)

interpretation firewall_nc: no_create env "AddFirewallSettings env m token rule flag" for env :: "'w env" and m token rule flag
  by unfold_locales (rule spec_weaken [OF add_firewall_calls]; simp add: firewall_no_create)

interpretation update_nc: no_create env "update_machine_status env m" for env :: "'w env" and m
  by unfold_locales (unfold update_machine_status_def, rule spec_call; simp add: server_create_def)

interpretation fetch_nc: no_create env "FetchAndCreateKubeconfigSecret env m cl" for env :: "'w env" and m cl
  by unfold_locales (rule spec_FetchAndCreate; simp add: server_create_def)

interpretation check_nc: no_create env "CheckControlPlaneMachineReady env m" for env :: "'w env" and m
  by unfold_locales (rule spec_CheckReady; simp add: server_create_def)

interpretation get_nc: no_create env "GetCreatedVM env m token" for env :: "'w env" and m token
  by (rule query_no_create) (rule get_vm.query_axioms)

interpretation loop_nc: no_create env "first_ready env ms" for env :: "'w env" and ms
  by (rule query_no_create) (rule ready_loop.query_axioms)

interpretation candidates_nc: no_create env "GetBootstrapReadyMachineControlPlane env m" for env :: "'w env" and m
  by (rule query_no_create) (rule candidates.query_axioms)

interpretation token_nc: no_create env "getSubjectToken env m" for env :: "'w env" and m
  by (rule query_no_create) (rule token_of.query_axioms)

interpretation cluster_nc: no_create env "GetMachineAssociatedCluster env m" for env :: "'w env" and m
  by (rule query_no_create) (rule cluster_of.query_axioms)

interpretation sync_nc: no_create env "sync_status env m server" for env :: "'w env" and m server
  by unfold_locales (auto simp: sync_status_def intro: spec_ret update_nc.never)

interpretation open_nc: no_create env "open_network env m cl token" for env :: "'w env" and m cl token
  by unfold_locales (unfold open_network_def Let_def,
    intro spec_if spec_ret TrueI spec_bind_any [OF attach_nc.never] spec_bind_any
      firewall_nc.never update_nc.never)

interpretation finish_nc: no_create env "finish_bootstrap env m cl" for env :: "'w env" and m cl
  by unfold_locales (unfold finish_bootstrap_def,
    intro spec_if spec_ret TrueI spec_bind_any [OF check_nc.never] spec_bind_any [OF fetch_nc.never]
      spec_bind_any [OF update_nc.never])

lemma create_server_once1: "atmost (server_create env) 1 (create_server env token m script)"
  using atmost_create_server [of env token m script] unfolding atmost_def
proof (intro allI)
  fix w
  assume "\<forall>w. length (filter is_http (trace (create_server env token m script) w)) \<le> 1"
  moreover have "length (filter (server_create env) cs) \<le> length (filter is_http cs)" for cs
    by (induction cs) (auto simp: server_create_def)
  ultimately show "length (filter (server_create env) (trace (create_server env token m script) w)) \<le> 1"
    by (meson le_trans)
qed

lemma create_server_once: "0 < n \<Longrightarrow> atmost (server_create env) n (create_server env token m script)"
  by (rule atmost_mono [OF create_server_once1]) simp

section \<open>Creating a server\<close>

lemma atmost_join: "0 < n \<Longrightarrow> atmost (server_create env) n (JoinControlPlane env cps km token)"
  unfolding JoinControlPlane_def CreateWorkerVM_def
  by (rule atmost_bind_quiet [OF loop_nc.count])
    (auto split: list.split intro!: atmost_stop atmost_bind_then_quiet [OF create_server_once] atmost_ret)

lemma atmost_control_plane: "0 < n \<Longrightarrow> atmost (server_create env) n (reconcile_control_plane env m cluster token)"
proof -
  assume n: "0 < n"
  have "atmost (server_create env) n (if b then bindG (open_network env m' cluster token) (\<lambda>m2. finish_bootstrap env m2 cluster) else retG ())" for b m'
    by (auto intro: atmost_bind_quiet open_nc.count finish_nc.count atmost_ret)
  with n show ?thesis
    unfolding reconcile_control_plane_def CreateVM_def
    by (auto intro!: atmost_bind_then_quiet [OF create_server_once] atmost_ret
        atmost_bind_quiet [OF get_nc.count] atmost_bind_quiet [OF sync_nc.count])
qed

lemma atmost_worker: "0 < n \<Longrightarrow> atmost (server_create env) n (reconcile_worker env m token)"
proof -
  assume "0 < n"
  then have join: "atmost (server_create env) n (join_if_new env m token)"
    unfolding join_if_new_def
    by (auto intro!: atmost_ret atmost_bind_quiet [OF candidates_nc.count] atmost_bind_then_quiet [OF atmost_join]
        atmost_bind_quiet [OF update_nc.count])
  have rest: "atmost (server_create env) 0 (case r of None \<Rightarrow> retG ()
     | Some m1 \<Rightarrow> bindG (GetCreatedVM env m1 token) (\<lambda>server. bindG (sync_status env (set_joined m1) server) (\<lambda>_. retG ())))" for r
    by (auto split: option.split intro!: atmost_ret atmost_bind_quiet get_nc.count sync_nc.count)
  show ?thesis unfolding reconcile_worker_def by (rule atmost_bind_then_quiet [OF join rest])
qed

text \<open>C5: One reconcile of a machine asks the cloud for at most one new server.\<close>

theorem one_server_per_reconcile:
  "length (filter (server_create env) (trace (reconcile_machine env req) w)) \<le> 1"
proof -
  have infra: "0 < n \<Longrightarrow> atmost (server_create env) n (reconcileInfrastructure env m cluster token)" for n m cluster token
    by (simp add: reconcileInfrastructure_def atmost_control_plane atmost_worker)
  have body: "atmost (server_create env) 1 (reconcile_machine_body env req m)" for m
    unfolding reconcile_machine_body_def
    by (rule atmost_bind_quiet [OF atmost_try [OF token_nc.count]])
      (auto split: sum.split intro!: atmost_ret atmost_bind_quiet [OF cluster_nc.count] atmost_bind_then_quiet [OF infra])
  have "\<not> server_create env (GetCall KindKTMachine req)" by (simp add: server_create_def)
  then have "atmost (server_create env) 1 (reconcile_machine env req)"
    using body by (rule machine_reconciler.atmost_reconcile)
  then show ?thesis by (rule atmostD)
qed

text \<open>When a machine still needs its server: a control plane without an id, a worker without a
  state that has not joined.\<close>

definition needs_server :: "KTMachine \<Rightarrow> bool" where
  "needs_server m \<longleftrightarrow>
     (if contains_str (m_Name m) ''control-plane'' then st_ID (m_Status m) = ''''
      else st_Status (m_Status m) = '''' \<and> \<not> wr_JoinedControlPlane (st_WorkerRef (m_Status m)))"

lemma settled_no_create:
  assumes "\<not> needs_server m"
  shows "spec (\<lambda>c. \<not> server_create env c) (reconcileInfrastructure env m cluster token) (\<lambda>_. True) (\<lambda>_. True)"
proof (cases "contains_str (m_Name m) ''control-plane''")
  case True
  have "spec (\<lambda>c. \<not> server_create env c)
      (if b then bindG (open_network env m' cluster token) (\<lambda>m2. finish_bootstrap env m2 cluster) else retG ()) (\<lambda>_. True) (\<lambda>_. True)" for b m'
    by (intro spec_if spec_ret TrueI spec_bind_any [OF open_nc.never] finish_nc.never)
  with True assms show ?thesis
    by (auto simp: needs_server_def reconcileInfrastructure_def ControlPlaneLabel_def reconcile_control_plane_def
        intro!: spec_bind_any [OF get_nc.never] spec_bind_any [OF sync_nc.never])
next
  case False
  with assms have "join_if_new env m token = retG (Some m)" by (auto simp: needs_server_def join_if_new_def)
  with False show ?thesis
    by (auto simp: reconcileInfrastructure_def ControlPlaneLabel_def reconcile_worker_def
        intro!: spec_bind_any [OF get_nc.never] spec_bind_any [OF sync_nc.never] spec_ret)
qed

text \<open>C6: A server is only requested for a machine that the reconcile read and that still needs
  one; reconciling a settled machine again never creates a second server.\<close>

theorem server_only_when_needed:
  assumes "c \<in> set (trace (reconcile_machine env req) w)" and "server_create env c"
  shows "\<exists>m w1. e_get_machine env req w = (Inr m, w1) \<and> needs_server m"
proof -
  have "c \<noteq> GetCall KindKTMachine req" using assms(2) by (auto simp: server_create_def)
  then obtain m w1 where m: "e_get_machine env req w = (Inr m, w1)"
      and c: "c \<in> set (trace (reconcile_machine_body env req m) w1)"
    using machine_reconciler.call_of_body [OF assms(1)] by blast
  have "spec (\<lambda>c. \<not> server_create env c) (reconcile_machine_body env req m) (\<lambda>_. True) (\<lambda>_. True)"
    if "\<not> needs_server m"
    unfolding reconcile_machine_body_def
    by (rule spec_bind_any, rule spec_try, rule spec_weaken [OF token_nc.never])
      (auto split: sum.split stop.split intro!: spec_ret spec_bind_any [OF cluster_nc.never]
        spec_bind_any [OF settled_no_create [OF that]])
  with c assms(2) m show ?thesis by (blast dest: spec_trace)
qed

section \<open>Samples\<close>

definition sample_machine :: "string \<Rightarrow> KTMachine" where
  "sample_machine n = zero_KTMachine\<lparr>m_Meta := zero_ObjectMeta\<lparr>om_Name := n\<rparr>\<rparr>"

definition sample_token :: KTSubjectToken where
  "sample_token = \<lparr>kt_TypeMeta = zero_TypeMeta, kt_Meta = zero_ObjectMeta,
     kt_Spec = \<lparr>us_SubjectToken = ''t'', us_Token = \<lparr>tk_ExpiresAt = '''', tk_IsDomain = False\<rparr>,
       us_ClusterRef = \<lparr>rf_ApiVersion = '''', rf_Kind = '''', rf_Name = ''''\<rparr>\<rparr>,
     kt_Status = \<lparr>ut_SubjectToken = ''t'', ut_Token = \<lparr>tk_ExpiresAt = '''', tk_IsDomain = False\<rparr>,
       ut_CreatedAt = ''''\<rparr>\<rparr>"

definition cluster_env :: "'w env \<Rightarrow> KTMachine \<Rightarrow> 'w env" where
  "cluster_env env m = env\<lparr>e_get_machine := (\<lambda>_ w. (Inr m, w)),
     e_get_ktcluster := (\<lambda>_ w. (Inr sample_cluster, w)), e_get_token := (\<lambda>_ w. (Inr sample_token, w))\<rparr>"

lemma cluster_env_simps [simp]:
  "e_get_machine (cluster_env env m) k w = (Inr m, w)"
  "e_get_ktcluster (cluster_env env m) k w = (Inr sample_cluster, w)"
  "e_get_token (cluster_env env m) k w = (Inr sample_token, w)"
  "e_http (cluster_env env m) = e_http env" "e_config (cluster_env env m) = e_config env"
  "e_url_parse (cluster_env env m) = e_url_parse env" "e_default_config (cluster_env env m) = e_default_config env"
  "e_new_client (cluster_env env m) = e_new_client env"
  "e_status_update_machine (cluster_env env m) = e_status_update_machine env"
  "e_list_machines (cluster_env env m) = e_list_machines env"
  "e_map_order (cluster_env env m) = e_map_order env"
  by (simp_all add: cluster_env_def)

lemma sample_reads:
  "getSubjectToken (cluster_env env m) m' w = (Inr sample_token,
     [GetCall KindKTCluster (ks_ClusterName (m_Spec m'), m_Namespace m'),
      GetCall KindKTSubjectToken (kc_Name sample_cluster, m_Namespace m')], w)"
  "GetMachineAssociatedCluster (cluster_env env m) m' w =
     (Inr sample_cluster, [GetCall KindKTCluster (ks_ClusterName (m_Spec m'), m_Namespace m')], w)"
  by (simp_all add: getSubjectToken_def GetMachineAssociatedCluster_def go_simps Let_def sample_cluster_def)

lemma is_control_plane [simp]: "contains_str ''control-plane'' ''control-plane''"
  by (simp add: contains_str_def)

lemma not_control_plane [simp]: "\<not> contains_str ''w'' ''control-plane''"
  unfolding contains_str_def by (auto dest!: sublist_length_le)

lemma sample_machine_simps [simp]:
  "m_Name (sample_machine n) = n" "m_Status (sample_machine n) = zero_KTMachineStatus"
  by (simp_all add: sample_machine_def zero_KTMachine_def)

lemma zero_status_simps [simp]:
  "st_ID zero_KTMachineStatus = []" "st_Status zero_KTMachineStatus = []"
  "st_WorkerRef zero_KTMachineStatus = zero_WorkerRef" "st_AssignedPublicIps zero_KTMachineStatus = []"
  "wr_JoinedControlPlane zero_WorkerRef = False"
  by (simp_all add: zero_KTMachineStatus_def zero_WorkerRef_def)

theorem server_only_when_needed_witness:
  "\<exists>m w1. e_get_machine (cluster_env vm_env (sample_machine ''control-plane'')) (''control-plane'', '''') () = (Inr m, w1)
     \<and> needs_server m"
proof -
  let ?m = "sample_machine ''control-plane''"
  let ?env = "cluster_env vm_env ?m"
  let ?c = "HttpCall (create_request ?env ''t'' ?m cp_cloudInit)"
  have "?c \<in> set (trace (reconcile_machine ?env (''control-plane'', '''')) ())"
    by (simp add: reconcile_machine_def with_object_def reconcile_machine_body_def trace_def go_simps sample_reads
        sample_token_def reconcileInfrastructure_def ControlPlaneLabel_def reconcile_control_plane_def CreateVM_def
        create_server_def http_do_def vm_env_def split: prod.split sum.split)
  moreover have "server_create ?env ?c"
    by (simp add: server_create_def create_request_def cloud_request_def)
  ultimately show ?thesis by (rule server_only_when_needed)
qed

section \<open>Without a token\<close>

text \<open>As long as the token of the cluster cannot be read or is empty, a reconcile touches
  nothing: it only reads, and asks to be queued again after a minute.\<close>

theorem no_token_waits:
  assumes m: "e_get_machine env req w = (Inr m, w1)"
    and t: "\<And>tok. outcome (getSubjectToken env m) w1 = Inr tok \<Longrightarrow> us_SubjectToken (kt_Spec tok) = ''''"
  shows "outcome (reconcile_machine env req) w = Inr requeue_minute
    \<and> (\<forall>c \<in> set (trace (reconcile_machine env req) w). read_only c)"
proof -
  have ro: "\<forall>c \<in> set (trace (getSubjectToken env m) w1). read_only c"
    by (intro ballI) (rule spec_trace [OF token_of.reads])
  obtain r where r: "outcome (tryG (getSubjectToken env m)) w1 = Inr r"
    using token_of.try_returns [of env m w1] by auto
  have body: "outcome (reconcile_machine_body env req m) w1 = Inr requeue_minute
      \<and> trace (reconcile_machine_body env req m) w1 = trace (getSubjectToken env m) w1"
  proof (cases r)
    case (Inl e)
    with r show ?thesis by (simp add: reconcile_machine_body_def outcome_bindG trace_bindG)
  next
    case (Inr tok)
    with r have "outcome (getSubjectToken env m) w1 = Inr tok"
      by (simp add: outcome_tryG split: sum.splits stop.splits)
    with r Inr t show ?thesis by (simp add: reconcile_machine_body_def outcome_bindG trace_bindG)
  qed
  have "read_only (GetCall KindKTMachine req)" by (simp add: read_only_def)
  with body ro machine_reconciler.present [OF m] show ?thesis
    by (simp add: run_defs split: prod.splits)
qed

theorem no_token_waits_witness:
  "outcome (reconcile_machine ((down_env :: unit env)\<lparr>e_get_machine := (\<lambda>_ w. (Inr (sample_machine ''w''), w))\<rparr>) (''w'', '''')) ()
     = Inr requeue_minute"
  by (rule no_token_waits [where m = "sample_machine ''w''", THEN conjunct1])
    (simp_all add: getSubjectToken_def GetMachineAssociatedCluster_def go_simps outcome_def Let_def)

section \<open>The address of a ready control plane\<close>

text \<open>A control plane that is marked for joining has a public address: what
  \<open>CheckControlPlaneMachineReady\<close> and the kubeconfig download index without a test.\<close>

definition ready_ok :: "KTMachineStatus \<Rightarrow> bool" where
  "ready_ok st \<longleftrightarrow> (cr_Type (st_ControlPlaneRef st) = ''BootstrapReady'' \<longrightarrow> st_AssignedPublicIps st \<noteq> [])"

text \<open>The outside as this invariant needs it: an update of the status answers with the status
  it was given, the cloud knows nothing of the operator's own field \<open>controlPlaneRef\<close>, and
  the configuration of the Kubernetes client is there.\<close>

definition regular :: "'w env \<Rightarrow> bool" where
  "regular env \<longleftrightarrow>
     (\<forall>m w m' w1. e_status_update_machine env m w = (Inr m', w1) \<longrightarrow> m_Status m' = m_Status m) \<and>
     (\<forall>rq w resp w1 body sr. e_http env rq w = (Inr resp, w1) \<longrightarrow> hr_Body resp = Inr body \<longrightarrow>
        json_unmarshal dec_ServerResponse zero_ServerResponse body = Inr sr \<longrightarrow>
        cr_Type (st_ControlPlaneRef (sv_Server sr)) = '''') \<and>
     (\<forall>w. \<exists>w1. e_default_config env w = (Inr (), w1)) \<and>
     (\<forall>p w. \<exists>w1. e_build_config env p w = (Inr (), w1))"

definition no_index :: "stop \<Rightarrow> bool" where
  "no_index e \<longleftrightarrow> e \<noteq> Panicked index_panic"

lemma no_index_simps [simp]: "no_index (Fail e)" "no_index Exited"
  by (simp_all add: no_index_def)

definition keeps_ready :: "call \<Rightarrow> bool" where
  "keeps_ready c \<longleftrightarrow> (\<forall>m. c = StatusUpdate (OMachine m) \<longrightarrow> ready_ok (m_Status m))"

lemma keeps_ready_simps [simp]:
  "keeps_ready (GetCall kd k)" "keeps_ready (HttpCall rq)" "keeps_ready (ListMachines ns)"
  "keeps_ready (CreateCall x)" "keeps_ready (UpdateCall x)" "keeps_ready (Sleep n)" "keeps_ready NewClient"
  "keeps_ready DefaultConfig" "keeps_ready (BuildConfig p)" "keeps_ready (StatusUpdate (OFirewall fw))"
  by (simp_all add: keeps_ready_def)

lemma keeps_ready_reads: "read_only c \<Longrightarrow> keeps_ready c"
  by (auto simp: keeps_ready_def read_only_def)

lemma spec_conj:
  assumes "spec P m Q S" and "spec P' m Q' S'"
  shows "spec P m (\<lambda>x. Q x \<and> Q' x) (\<lambda>e. S e \<and> S' e)"
  using assms by (auto simp: spec_def split: sum.splits)

lemma regular_echo: "regular env \<Longrightarrow> e_status_update_machine env m w = (Inr m', w1) \<Longrightarrow> m_Status m' = m_Status m"
  unfolding regular_def by blast

lemma regular_cloud:
  "regular env \<Longrightarrow> e_http env rq w = (Inr resp, w1) \<Longrightarrow> hr_Body resp = Inr body \<Longrightarrow>
   json_unmarshal dec_ServerResponse zero_ServerResponse body = Inr sr \<Longrightarrow>
   cr_Type (st_ControlPlaneRef (sv_Server sr)) = ''''"
  unfolding regular_def by blast

lemma regular_config_run:
  assumes "regular env"
  shows "\<exists>c w1. is_setup c \<and> rest_config_or_panic env w = (Inr (), [c], w1)"
proof (cases "c_Kubeconfig (e_config env) = ''''")
  case True
  obtain w1 where "e_default_config env w = (Inr (), w1)" using assms unfolding regular_def by blast
  with True show ?thesis by (simp add: rest_config_or_panic_def getRestConfig_def go_simps)
next
  case False
  obtain w1 where "e_build_config env (c_Kubeconfig (e_config env)) w = (Inr (), w1)"
    using assms unfolding regular_def by blast
  with False show ?thesis by (simp add: rest_config_or_panic_def getRestConfig_def go_simps)
qed

lemma regular_config: "regular env \<Longrightarrow> spec is_setup (rest_config_or_panic env) (\<lambda>_. True) (\<lambda>_. False)"
  unfolding spec_def
proof
  fix w
  assume "regular env"
  then obtain c w1 where "is_setup c" "rest_config_or_panic env w = (Inr (), [c], w1)"
    using regular_config_run [of env w] by blast
  then show "(\<forall>c \<in> set (trace (rest_config_or_panic env) w). is_setup c) \<and>
      (case outcome (rest_config_or_panic env) w of Inl e \<Rightarrow> False | Inr x \<Rightarrow> True)"
    by (simp add: run_defs)
qed

lemma regular_config_ready: "regular env \<Longrightarrow> spec keeps_ready (rest_config_or_panic env) (\<lambda>_. True) no_index"
  by (rule spec_weaken [OF regular_config]) (auto simp: keeps_ready_def)

lemma update_ready:
  "regular env \<Longrightarrow> ready_ok (m_Status m) \<Longrightarrow>
   spec keeps_ready (update_machine_status env m) (\<lambda>m'. m_Status m' = m_Status m) no_index"
  unfolding update_machine_status_def by (rule spec_call) (auto simp: keeps_ready_def dest: regular_echo)

text \<open>What \<open>AttachPublicIP\<close> and \<open>AddFirewallSettings\<close> keep.\<close>

lemma attach_ready:
  assumes "regular env"
  shows "spec keeps_ready (AttachPublicIP env m token) (\<lambda>m'. st_AssignedPublicIps (m_Status m') \<noteq> []) no_index"
proof -
  have look: "spec keeps_ready (GetAvailablePublicIpAddresses env token) (\<lambda>_. True) no_index"
  proof (rule spec_weaken [OF spec_conj [OF available_ips.reads available_ips.only_fails]])
    show "no_index e" if "True \<and> is_fail e" for e using that by (cases e) simp_all
  qed (simp_all add: keeps_ready_reads)
  show ?thesis
    unfolding AttachPublicIP_def updateVMStatus_def Let_def
    by (intro spec_bind_any [OF look] spec_bind_any [OF spec_pick] spec_bind_any [OF spec_http_do]
        spec_bind_any [OF spec_read_body] spec_bind_any [OF spec_lift] spec_bind_any [OF spec_getRestConfig]
        spec_bind_any [OF spec_client_or_exit] spec_list spec_stopI TrueI spec_if spec_call)
      (auto simp: keeps_ready_def ready_ok_def dest: regular_echo [OF assms])
qed

lemma safe_query_ready: "safe_query q \<Longrightarrow> spec keeps_ready q (\<lambda>_. True) no_index"
proof -
  assume "safe_query q"
  then have "spec read_only q (\<lambda>_. True) (\<lambda>_. True)" "spec (\<lambda>_. True) q (\<lambda>_. True) is_fail"
    by (simp_all add: safe_query_def query_def safe_query_axioms_def)
  then have "spec read_only q (\<lambda>_. True \<and> True) (\<lambda>e. True \<and> is_fail e)" by (rule spec_conj)
  moreover have "no_index e" if "is_fail e" for e using that by (cases e) simp_all
  ultimately show ?thesis by (elim spec_weaken) (simp_all add: keeps_ready_reads)
qed

lemma firewall_ready:
  assumes "regular env"
  shows "spec keeps_ready (AddFirewallSettings env m token rule flag) (\<lambda>_. True) no_index"
proof -
  note ips = safe_query_ready [OF assigned_ips.safe_query_axioms]
    and nets = safe_query_ready [OF all_networks.safe_query_axioms]
    and get = safe_query_ready [OF firewall_object.safe_query_axioms]
  have store: "spec keeps_ready (update_firewall_status env fw) (\<lambda>_. True) no_index" for fw
    unfolding update_firewall_status_def by (intro spec_bind_any [OF spec_call] spec_ret) simp_all
  have k8s: "spec keeps_ready (createFirewallObjectInK8s env m r rl) (\<lambda>_. True) no_index" for r rl
    unfolding createFirewallObjectInK8s_def Let_def
    by (intro spec_bind_any [OF regular_config_ready [OF assms]] spec_bind_any [OF spec_client_or_exit]
        spec_bind_any [OF spec_try] spec_sum spec_if spec_stopI spec_bind_any [OF spec_call]
        spec_bind_any [OF get] store spec_weaken [OF get]) (auto split: stop.split)
  show ?thesis
    unfolding AddFirewallSettings_def
    by (intro spec_bind_any [OF ips] spec_bind_any [OF nets] spec_if spec_stopI TrueI k8s
        spec_bind_any [OF spec_http_do] spec_bind_any [OF spec_read_body] spec_bind_any [OF spec_lift]) simp_all
qed

lemma server_answer:
  assumes "regular env" and "P (HttpCall rq)" and "\<And>e. S (Fail e)" and "\<And>resp. spec P (G resp) Q S"
    and F: "\<And>sr. cr_Type (st_ControlPlaneRef (sv_Server sr)) = '''' \<Longrightarrow> spec P (F sr) Q S"
  shows "spec P (bindG (http_do env rq) (\<lambda>resp. bindG (read_body resp) (\<lambda>body.
    if status_ok (hr_StatusCode resp) then
      bindG (liftG (json_unmarshal dec_ServerResponse zero_ServerResponse body)) F
    else G resp))) Q S"
proof (rule spec_bind)
  show "spec P (http_do env rq) (\<lambda>resp. \<exists>w w1. e_http env rq w = (Inr resp, w1)) S"
    unfolding http_do_def by (rule spec_bind_any [OF spec_lift]) (auto intro!: spec_call assms(2,3))
next
  fix resp
  assume "\<exists>w w1. e_http env rq w = (Inr resp, w1)"
  then obtain w w1 where h: "e_http env rq w = (Inr resp, w1)" by blast
  show "spec P (bindG (read_body resp) (\<lambda>body. if status_ok (hr_StatusCode resp) then
      bindG (liftG (json_unmarshal dec_ServerResponse zero_ServerResponse body)) F else G resp)) Q S"
  proof (rule spec_bind)
    show "spec P (read_body resp) (\<lambda>body. hr_Body resp = Inr body) S"
      unfolding read_body_def by (rule spec_lift) (simp_all add: assms(3))
  next
    fix body
    assume b: "hr_Body resp = Inr body"
    have "spec P (liftG (json_unmarshal dec_ServerResponse zero_ServerResponse body))
        (\<lambda>sr. cr_Type (st_ControlPlaneRef (sv_Server sr)) = '''') S"
      by (rule spec_lift) (auto simp: assms(3) dest: regular_cloud [OF assms(1) h b])
    then show "spec P (if status_ok (hr_StatusCode resp) then
        bindG (liftG (json_unmarshal dec_ServerResponse zero_ServerResponse body)) F else G resp) Q S"
      by (intro spec_if assms(4)) (auto elim!: spec_bind intro: F)
  qed
qed

lemma GetCreatedVM_ready:
  assumes "regular env"
  shows "spec keeps_ready (GetCreatedVM env m token) (\<lambda>st. cr_Type (st_ControlPlaneRef st) = '''') no_index"
  unfolding GetCreatedVM_def by (rule server_answer [OF assms]) (auto intro: spec_stopI spec_ret)

lemma CreateVM_ready:
  assumes "regular env"
  shows "spec keeps_ready (CreateVM env m token) (\<lambda>_. True) no_index"
  unfolding CreateVM_def create_server_def updateVMStatus_def Let_def
  by (rule server_answer [OF assms])
    (auto intro!: spec_ret spec_bind_any [OF regular_config_ready [OF assms]]
      spec_bind_any [OF spec_client_or_exit] spec_call simp: keeps_ready_def ready_ok_def)

lemma sync_ready:
  assumes "regular env" and "ready_ok (m_Status m)" and "cr_Type (st_ControlPlaneRef server) = ''''"
  shows "spec keeps_ready (sync_status env m server) (\<lambda>m'. ready_ok (m_Status m')) no_index"
proof -
  have "ready_ok server" using assms(3) by (simp add: ready_ok_def)
  then have "spec keeps_ready (update_machine_status env (m\<lparr>m_Status := server\<rparr>)) (\<lambda>m'. ready_ok (m_Status m')) no_index"
    by (intro spec_weaken [OF update_ready [OF assms(1)]]) simp_all
  then show ?thesis unfolding sync_status_def using assms(2) by (auto intro: spec_ret)
qed

lemma open_ready:
  assumes "regular env" and "ready_ok (m_Status m)"
  shows "spec keeps_ready (open_network env m cluster token) (\<lambda>m'. ready_ok (m_Status m')) no_index"
proof -
  have upd: "spec keeps_ready (update_machine_status env (set_control_plane_ref False m1)) (\<lambda>m'. ready_ok (m_Status m')) no_index"
    if "st_AssignedPublicIps (m_Status m1) \<noteq> []" for m1
    using that by (intro spec_weaken [OF update_ready [OF assms(1)]]) (simp_all add: ready_ok_def set_control_plane_ref_def)
  show ?thesis
    unfolding open_network_def Let_def
    by (intro spec_if spec_ret assms(2) spec_bind [OF attach_ready [OF assms(1)]] spec_bind_any upd
        firewall_ready [OF assms(1)] TrueI)
qed

lemma fetch_no_index:
  assumes "st_AssignedPublicIps (m_Status m) = a # rest"
  shows "spec keeps_ready (FetchAndCreateKubeconfigSecret env m cluster) (\<lambda>_. True) no_index"
proof -
  have loop: "spec keeps_ready (fetch_loop env rq n seen) (\<lambda>_. True) no_index" for rq n seen
    by (induction n arbitrary: seen)
      (auto intro!: spec_ret spec_bind_any [OF spec_lift] spec_bind_any [OF spec_try [OF spec_call]]
        spec_bind_any [OF spec_sleep_for] split: sum.split stop.split)
  have servers: "spec keeps_ready (change_servers env d ns kc) (\<lambda>_. True) no_index" for d ns kc
    by (induction ns arbitrary: kc)
      (auto intro!: spec_ret spec_stopI split: option.split sum.split list.split simp: no_index_def index_panic_def)
  have domain: "spec keeps_ready (changeKubeconfigDomain env n ns d) (\<lambda>_. True) no_index" for n ns d
    unfolding changeKubeconfigDomain_def Let_def
    by (intro spec_bind_any [OF servers] spec_bind_any [OF spec_try [OF spec_call]] spec_bind_any [OF spec_lift]
        spec_bind_any [OF spec_pick] spec_if spec_ret spec_stopI TrueI)
      (simp_all split: stop.split add: no_index_def index_panic_def)
  have logged_domain: "spec keeps_ready (bindG (tryG (changeKubeconfigDomain env n ns d)) (\<lambda>_. retG ())) (\<lambda>_. True) no_index" for n ns d
    by (rule spec_bind_any [OF spec_try spec_ret]) (rule spec_weaken [OF domain]; auto split: stop.split)+
  show ?thesis
    unfolding FetchAndCreateKubeconfigSecret_def assms list.case Let_def
    by (intro spec_bind_any [OF loop] spec_option spec_sum spec_stopI spec_bind_any [OF spec_try [OF spec_call]] logged_domain)
      (simp_all split: stop.split)
qed

lemma finish_ready:
  assumes "regular env" and "ready_ok (m_Status m)"
  shows "spec keeps_ready (finish_bootstrap env m cluster) (\<lambda>_. True) no_index"
proof (cases "cr_Type (st_ControlPlaneRef (m_Status m)) = ''BootstrapReady'' \<and> \<not> cr_Status (st_ControlPlaneRef (m_Status m))")
  case True
  with assms(2) obtain a rest where a: "st_AssignedPublicIps (m_Status m) = a # rest"
    by (cases "st_AssignedPublicIps (m_Status m)") (auto simp: ready_ok_def)
  have check: "spec keeps_ready (CheckControlPlaneMachineReady env m) (\<lambda>_. True) no_index"
    unfolding CheckControlPlaneMachineReady_def a list.case
    by (intro spec_bind_any [OF spec_http_do] spec_if spec_ret spec_stopI) simp_all
  have fetch: "spec keeps_ready (FetchAndCreateKubeconfigSecret env m cluster) (\<lambda>_. True) no_index"
    by (rule fetch_no_index [OF a])
  have upd: "spec keeps_ready (update_machine_status env (set_control_plane_ref True m)) (\<lambda>_. True) no_index"
    by (rule spec_weaken [OF update_ready [OF assms(1)]]) (simp_all add: ready_ok_def set_control_plane_ref_def a)
  show ?thesis
    unfolding finish_bootstrap_def using True
    by (simp add: spec_bind_any [OF check] spec_bind_any [OF fetch] spec_bind_any [OF upd] spec_ret)
next
  case False
  then show ?thesis unfolding finish_bootstrap_def by (auto intro: spec_ret)
qed

lemma control_plane_ready:
  assumes "regular env" and "ready_ok (m_Status m)"
  shows "spec keeps_ready (reconcile_control_plane env m cluster token) (\<lambda>_. True) no_index"
  unfolding reconcile_control_plane_def
  by (intro spec_if spec_bind_any [OF CreateVM_ready [OF assms(1)]] spec_ret TrueI
      spec_bind [OF GetCreatedVM_ready [OF assms(1)]] spec_bind [OF sync_ready [OF assms]]
      spec_bind [OF open_ready [OF assms(1)]] finish_ready [OF assms(1)])

text \<open>The statuses that the stored object of a control plane goes through: it starts empty, and
  every update that a reconcile of the machine writes may become the next one.\<close>

inductive stored_status :: "'w env \<Rightarrow> KTMachineStatus \<Rightarrow> bool" for env where
  fresh: "stored_status env zero_KTMachineStatus"
| written: "stored_status env (m_Status m) \<Longrightarrow> contains_str (m_Name m) ''control-plane'' \<Longrightarrow>
    StatusUpdate (OMachine m') \<in> set (trace (reconcileInfrastructure env m cluster token) w) \<Longrightarrow>
    stored_status env (m_Status m')"

inductive_cases stored_statusE: "stored_status env st"

lemma stored_ready: "stored_status env st \<Longrightarrow> regular env \<Longrightarrow> ready_ok st"
proof (induction rule: stored_status.induct)
  case fresh
  show ?case by (simp add: ready_ok_def zero_KTMachineStatus_def zero_ControlPlaneRef_def)
next
  case (written m m' cluster token w)
  then have "spec keeps_ready (reconcileInfrastructure env m cluster token) (\<lambda>_. True) no_index"
    by (simp add: reconcileInfrastructure_def ControlPlaneLabel_def control_plane_ready)
  from spec_trace [OF this written.hyps(3)] show ?case by (simp add: keeps_ready_def)
qed

text \<open>C15: A control plane whose status came about through the operator's own reconciles is only
  marked ready for joining when it has a public address, so reconciling it never indexes an empty
  list of addresses. This needs a cloud that does not send the operator's field
  \<open>controlPlaneRef\<close> and an API server that answers with the status it was given.\<close>

theorem control_plane_never_index_panics:
  assumes "regular env" and "stored_status env (m_Status m)" and "contains_str (m_Name m) ''control-plane''"
  shows "(cr_Type (st_ControlPlaneRef (m_Status m)) = ''BootstrapReady'' \<longrightarrow> st_AssignedPublicIps (m_Status m) \<noteq> [])
    \<and> outcome (reconcileInfrastructure env m cluster token) w \<noteq> Inl (Panicked index_panic)"
proof
  have ok: "ready_ok (m_Status m)" using stored_ready [OF assms(2,1)] .
  then show "cr_Type (st_ControlPlaneRef (m_Status m)) = ''BootstrapReady'' \<longrightarrow> st_AssignedPublicIps (m_Status m) \<noteq> []"
    by (simp add: ready_ok_def)
  have "spec keeps_ready (reconcileInfrastructure env m cluster token) (\<lambda>_. True) no_index"
    using assms(1,3) ok by (simp add: reconcileInfrastructure_def ControlPlaneLabel_def control_plane_ready)
  from spec_stop [OF this] show "outcome (reconcileInfrastructure env m cluster token) w \<noteq> Inl (Panicked index_panic)"
    by (auto simp: no_index_def)
qed

theorem control_plane_never_index_panics_witness:
  "outcome (reconcileInfrastructure vm_env (sample_machine ''control-plane'') sample_cluster ''t'') ()
     \<noteq> Inl (Panicked index_panic)"
proof -
  have "regular vm_env"
    by (auto simp: regular_def vm_env_def vm_answer zero_KTMachineStatus_def zero_ControlPlaneRef_def)
  moreover have "stored_status vm_env (m_Status (sample_machine ''control-plane''))"
    by (simp add: stored_status.fresh)
  ultimately show ?thesis by (rule control_plane_never_index_panics [THEN conjunct2]) simp
qed

end
