(* ===== verification/Simulation.thy ===== *)
theory Simulation
  imports GoEffects
begin

text \<open>
  Runs as paths of an abstract system. Some calls of an operation are moves of an abstract state:
  \<open>obs c\<close> is the state that call \<open>c\<close> enters, if it enters one. \<open>follows R obs s m Q\<close> says that,
  whatever the outside world answers, the moves of \<open>m\<close> from the state \<open>s\<close> are steps of
  \<open>R\<close>, and that \<open>Q\<close> relates the result to the last state. The rules follow the shape of the
  program, so a component refines its abstract system operation by operation.
\<close>

fun walk :: "('s \<Rightarrow> 's \<Rightarrow> bool) \<Rightarrow> 's \<Rightarrow> 's list \<Rightarrow> bool" where
  "walk R s [] \<longleftrightarrow> True"
| "walk R s (t # ts) \<longleftrightarrow> R s t \<and> walk R t ts"

lemma walk_append: "walk R s (ts @ us) \<longleftrightarrow> walk R s ts \<and> walk R (last (s # ts)) us"
  by (induction ts arbitrary: s) auto

lemma walk_rtranclp: "walk R s ts \<Longrightarrow> R\<^sup>*\<^sup>* s (last (s # ts))"
  by (induction ts arbitrary: s) (auto intro: converse_rtranclp_into_rtranclp)

definition moves :: "('c \<Rightarrow> 's option) \<Rightarrow> 'c list \<Rightarrow> 's list" where
  "moves obs cs = List.map_filter obs cs"

lemma moves_append [simp]: "moves obs (cs @ ds) = moves obs cs @ moves obs ds"
  by (simp add: moves_def map_filter_def)

lemma moves_simps [simp]:
  "moves obs [] = []" "moves obs (c # cs) = (case obs c of None \<Rightarrow> moves obs cs | Some t \<Rightarrow> t # moves obs cs)"
  by (simp_all add: moves_def map_filter_def split: option.split)

lemma moves_quiet: "(\<And>c. c \<in> set cs \<Longrightarrow> obs c = None) \<Longrightarrow> moves obs cs = []"
  by (induction cs) auto

lemma last_append_path: "last (s # ts @ us) = last (last (s # ts) # us)"
  by (cases us) auto

definition follows :: "('s \<Rightarrow> 's \<Rightarrow> bool) \<Rightarrow> ('c \<Rightarrow> 's option) \<Rightarrow> 's \<Rightarrow> ('w, 'c, 'a) go \<Rightarrow> ('a \<Rightarrow> 's \<Rightarrow> bool) \<Rightarrow> bool" where
  "follows R obs s m Q \<longleftrightarrow> (\<forall>w. walk R s (moves obs (trace m w)) \<and>
     (\<forall>x. outcome m w = Inr x \<longrightarrow> Q x (last (s # moves obs (trace m w)))))"

lemma followsD: "follows R obs s m Q \<Longrightarrow> walk R s (moves obs (trace m w))"
  by (simp add: follows_def)

lemma follows_ret: "Q x s \<Longrightarrow> follows R obs s (retG x) Q"
  by (simp add: follows_def)

lemma follows_stop: "follows R obs s (stopG e) Q"
  by (simp add: follows_def)

lemma follows_quiet:
  assumes "spec (\<lambda>c. obs c = None) m P S" and "\<And>x. P x \<Longrightarrow> Q x s"
  shows "follows R obs s m Q"
  unfolding follows_def
proof (intro allI conjI impI)
  fix w
  have none: "moves obs (trace m w) = []" by (rule moves_quiet) (rule spec_trace [OF assms(1)])
  then show "walk R s (moves obs (trace m w))" by simp
  fix x
  assume "outcome m w = Inr x"
  with none show "Q x (last (s # moves obs (trace m w)))" by (simp add: assms(2) spec_return [OF assms(1)])
qed

lemma follows_move:
  assumes "obs c = Some t" and "R s t" and "\<And>x w w1. f w = (Inr x, w1) \<Longrightarrow> Q x t"
  shows "follows R obs s (callG c f) Q"
  using assms by (auto simp: follows_def outcome_callG prod_eq_iff split: sum.splits)

lemma follows_bind:
  assumes m: "follows R obs s m Q" and f: "\<And>x t. Q x t \<Longrightarrow> follows R obs t (f x) Q'"
  shows "follows R obs s (bindG m f) Q'"
  unfolding follows_def
proof (intro allI)
  fix w
  show "walk R s (moves obs (trace (bindG m f) w)) \<and>
      (\<forall>x. outcome (bindG m f) w = Inr x \<longrightarrow> Q' x (last (s # moves obs (trace (bindG m f) w))))"
  proof (cases "outcome m w")
    case (Inl e)
    with m show ?thesis by (simp add: follows_def trace_bindG outcome_bindG)
  next
    case (Inr x)
    with m have w1: "walk R s (moves obs (trace m w))" and q: "Q x (last (s # moves obs (trace m w)))"
      by (auto simp: follows_def)
    from f [OF q] have "walk R (last (s # moves obs (trace m w))) (moves obs (trace (f x) (world m w)))"
      and "\<forall>y. outcome (f x) (world m w) = Inr y \<longrightarrow>
        Q' y (last (last (s # moves obs (trace m w)) # moves obs (trace (f x) (world m w))))"
      by (simp_all add: follows_def)
    with w1 Inr show ?thesis
      by (simp add: trace_bindG outcome_bindG walk_append last_append_path del: last.simps)
  qed
qed

lemma follows_if: "(b \<Longrightarrow> follows R obs s m Q) \<Longrightarrow> (\<not> b \<Longrightarrow> follows R obs s n Q) \<Longrightarrow> follows R obs s (if b then m else n) Q"
  by simp

lemma follows_weaken: "follows R obs s m Q \<Longrightarrow> (\<And>x t. Q x t \<Longrightarrow> Q' x t) \<Longrightarrow> follows R obs s m Q'"
  by (auto simp: follows_def)

lemma follows_bind_quiet:
  assumes "spec (\<lambda>c. obs c = None) m (\<lambda>_. True) S" and "\<And>x. follows R obs s (f x) Q"
  shows "follows R obs s (bindG m f) Q"
  by (rule follows_bind [OF follows_quiet [OF assms(1), where Q = "\<lambda>x t. t = s"]]) (simp_all add: assms(2))

lemma follows_list:
  "(x = [] \<Longrightarrow> follows R obs s m Q) \<Longrightarrow> (\<And>y ys. x = y # ys \<Longrightarrow> follows R obs s (f y ys) Q) \<Longrightarrow>
   follows R obs s (case x of [] \<Rightarrow> m | y # ys \<Rightarrow> f y ys) Q"
  by (cases x) simp_all

end
