(* ===== verification/MachineLifecycle.thy ===== *)
theory MachineLifecycle
  imports MachineController Simulation
begin

text \<open>
  The life of a control plane, seen from the status it is stored with. The abstract system has
  five phases; the reconcile of a control plane refines it: every status it writes is one step
  further, or a step back to \<open>Created\<close> when the state on the cloud changed. The second half
  holds what follows for a machine in a given phase, and the ways in which a machine gets stuck.
\<close>

section \<open>The abstract system\<close>

datatype phase = Absent | Created | Exposed | Bootstrapping | Ready

definition phase_of :: "KTMachineStatus \<Rightarrow> phase" where
  "phase_of st =
     (if st_ID st = '''' then Absent
      else if cr_Type (st_ControlPlaneRef st) = ''BootstrapReady'' then
        (if cr_Status (st_ControlPlaneRef st) then Ready else Bootstrapping)
      else if st_AssignedPublicIps st = [] then Created
      else Exposed)"

inductive control_plane_step :: "phase \<Rightarrow> phase \<Rightarrow> bool" where
  create: "control_plane_step Absent Created"
| resync: "p \<noteq> Absent \<Longrightarrow> control_plane_step p Created"
| expose: "control_plane_step Created Exposed"
| open_ports: "control_plane_step Exposed Bootstrapping"
| ready: "control_plane_step Bootstrapping Ready"

inductive_simps control_plane_step_simps [simp]:
  "control_plane_step p Absent" "control_plane_step p Created" "control_plane_step p Exposed"
  "control_plane_step p Bootstrapping" "control_plane_step p Ready"

inductive_cases control_plane_stepE: "control_plane_step p q"

definition entered :: "call \<Rightarrow> phase option" where
  "entered c = (case c of StatusUpdate x \<Rightarrow> (case x of OMachine m \<Rightarrow> Some (phase_of (m_Status m)) | _ \<Rightarrow> None) | _ \<Rightarrow> None)"

lemma entered_simps [simp]:
  "entered (GetCall kd k) = None" "entered (HttpCall rq) = None" "entered (ListMachines ns) = None"
  "entered (CreateCall x) = None" "entered (UpdateCall x) = None" "entered (Sleep n) = None"
  "entered NewClient = None" "entered DefaultConfig = None" "entered (BuildConfig p) = None"
  "entered (StatusUpdate (OFirewall fw)) = None"
  "entered (StatusUpdate (OMachine m)) = Some (phase_of (m_Status m))"
  by (simp_all add: entered_def)

lemma entered_reads: "read_only c \<Longrightarrow> entered c = None"
  by (auto simp: entered_def read_only_def split: call.splits obj.splits)

section \<open>The outside\<close>

text \<open>A server description of the cloud: it has an id and none of the operator's own fields.\<close>

definition plain_server :: "KTMachineStatus \<Rightarrow> bool" where
  "plain_server st \<longleftrightarrow> st_ID st \<noteq> '''' \<and> st_AssignedPublicIps st = [] \<and> cr_Type (st_ControlPlaneRef st) = ''''"

definition server_answer_of :: "'w env \<Rightarrow> http_request \<Rightarrow> KTMachineStatus \<Rightarrow> bool" where
  "server_answer_of env rq st \<longleftrightarrow> (\<exists>w resp w1 body sr. e_http env rq w = (Inr resp, w1) \<and>
     status_ok (hr_StatusCode resp) \<and> hr_Body resp = Inr body \<and>
     json_unmarshal dec_ServerResponse zero_ServerResponse body = Inr sr \<and> st = sv_Server sr)"

text \<open>What the refinement needs of the outside: an accepted creation and the query of an existing
  server answer with such a description, and the API server answers a status update with the
  status it was given.\<close>

definition plain_cloud :: "'w env \<Rightarrow> bool" where
  "plain_cloud env \<longleftrightarrow>
     (\<forall>m w m' w1. e_status_update_machine env m w = (Inr m', w1) \<longrightarrow> m_Status m' = m_Status m) \<and>
     (\<forall>token m st. st_ID (m_Status m) \<noteq> '''' \<longrightarrow> server_answer_of env (vm_request env token m) st \<longrightarrow> plain_server st) \<and>
     (\<forall>token m script st. server_answer_of env (create_request env token m script) st \<longrightarrow> plain_server st)"

lemma plain_cloudD:
  assumes "plain_cloud env"
  shows "e_status_update_machine env m w = (Inr m', w1) \<Longrightarrow> m_Status m' = m_Status m"
    and "st_ID (m_Status m) \<noteq> '''' \<Longrightarrow> server_answer_of env (vm_request env token m) st \<Longrightarrow> plain_server st"
    and "server_answer_of env (create_request env token m script) st \<Longrightarrow> plain_server st"
  using assms unfolding plain_cloud_def by blast+

text \<open>The shape that a request about a server has in the code.\<close>

lemma follows_answer:
  assumes F: "\<And>sr. server_answer_of env rq (sv_Server sr) \<Longrightarrow> follows R entered s (F sr) Q"
    and G: "\<And>resp. follows R entered s (G resp) Q"
  shows "follows R entered s (bindG (http_do env rq) (\<lambda>resp. bindG (read_body resp) (\<lambda>body.
    if status_ok (hr_StatusCode resp) then
      bindG (liftG (json_unmarshal dec_ServerResponse zero_ServerResponse body)) F
    else G resp))) Q"
proof (rule follows_bind)
  have "spec (\<lambda>c. entered c = None) (http_do env rq) (\<lambda>resp. \<exists>w w1. e_http env rq w = (Inr resp, w1)) (\<lambda>_. True)"
    unfolding http_do_def by (rule spec_bind_any [OF spec_lift]) (auto intro!: spec_call)
  then show "follows R entered s (http_do env rq) (\<lambda>resp t. t = s \<and> (\<exists>w w1. e_http env rq w = (Inr resp, w1)))"
    by (rule follows_quiet) simp
next
  fix resp t
  assume h: "t = s \<and> (\<exists>w w1. e_http env rq w = (Inr resp, w1))"
  show "follows R entered t (bindG (read_body resp) (\<lambda>body. if status_ok (hr_StatusCode resp) then
      bindG (liftG (json_unmarshal dec_ServerResponse zero_ServerResponse body)) F else G resp)) Q"
  proof (rule follows_bind)
    have "spec (\<lambda>c. entered c = None) (read_body resp) (\<lambda>body. hr_Body resp = Inr body) (\<lambda>_. True)"
      unfolding read_body_def by (rule spec_lift) simp_all
    then show "follows R entered t (read_body resp) (\<lambda>body u. u = s \<and> hr_Body resp = Inr body)"
      by (rule follows_quiet) (simp add: h)
  next
    fix body u
    assume b: "u = s \<and> hr_Body resp = Inr body"
    have "spec (\<lambda>c. entered c = None) (liftG (json_unmarshal dec_ServerResponse zero_ServerResponse body))
        (\<lambda>sr. json_unmarshal dec_ServerResponse zero_ServerResponse body = Inr sr) (\<lambda>_. True)"
      by (rule spec_lift) simp_all
    then have q: "follows R entered u (liftG (json_unmarshal dec_ServerResponse zero_ServerResponse body))
        (\<lambda>sr v. v = s \<and> (status_ok (hr_StatusCode resp) \<longrightarrow> server_answer_of env rq (sv_Server sr)))"
      by (rule follows_quiet) (use h b in \<open>auto simp: server_answer_of_def\<close>)
    show "follows R entered u (if status_ok (hr_StatusCode resp) then
        bindG (liftG (json_unmarshal dec_ServerResponse zero_ServerResponse body)) F else G resp) Q"
    proof (rule follows_if)
      assume ok: "status_ok (hr_StatusCode resp)"
      then show "follows R entered u (bindG (liftG (json_unmarshal dec_ServerResponse zero_ServerResponse body)) F) Q"
        by (intro follows_bind [OF q]) (auto intro: F)
    qed (use b G in simp)
  qed
qed

section \<open>The refinement\<close>

lemma entered_setup: "is_setup c \<Longrightarrow> entered c = None"
  by (cases c) (auto simp: entered_def)

lemma quiet_setup:
  "spec (\<lambda>c. entered c = None) (rest_config_or_panic env) (\<lambda>_. True) (\<lambda>_. True)"
  "spec (\<lambda>c. entered c = None) (client_or_exit env) (\<lambda>_. True) (\<lambda>_. True)"
  "spec (\<lambda>c. entered c = None) (getRestConfig env path) (\<lambda>_. True) (\<lambda>_. True)"
  by (intro spec_intros; simp)+

lemma query_quiet: "query q \<Longrightarrow> spec (\<lambda>c. entered c = None) q (\<lambda>_. True) (\<lambda>_. True)"
  unfolding query_def by (erule spec_weaken) (simp_all add: entered_reads)

lemma follows_update:
  assumes "plain_cloud env" and "R s (phase_of (m_Status m))"
    and "\<And>m'. m_Status m' = m_Status m \<Longrightarrow> Q m' (phase_of (m_Status m))"
  shows "follows R entered s (callG (StatusUpdate (OMachine m)) (e_status_update_machine env m)) Q"
  by (rule follows_move) (auto simp: assms(2) intro: assms(3) dest: plain_cloudD(1) [OF assms(1)])

lemma phase_of_plain: "plain_server st \<Longrightarrow> phase_of st = Created"
  by (simp add: plain_server_def phase_of_def)

lemma phase_of_Status [simp]: "phase_of (st\<lparr>st_Status := x\<rparr>) = phase_of st"
  by (simp add: phase_of_def)

lemma CreateVM_follows:
  assumes "plain_cloud env"
  shows "follows control_plane_step entered Absent (CreateVM env m token) (\<lambda>_ _. True)"
  unfolding CreateVM_def create_server_def updateVMStatus_def Let_def
proof (rule follows_answer)
  fix sr
  assume "server_answer_of env (create_request env token m cp_cloudInit) (sv_Server sr)"
  then have "phase_of (sv_Server sr) = Created" by (rule phase_of_plain [OF plain_cloudD(3) [OF assms]])
  then show "follows control_plane_step entered Absent (bindG (rest_config_or_panic env) (\<lambda>_. bindG (client_or_exit env) (\<lambda>_.
      callG (StatusUpdate (OMachine (m\<lparr>m_Status := (sv_Server sr)\<lparr>st_Status := ''Creating''\<rparr>\<rparr>)))
        (e_status_update_machine env (m\<lparr>m_Status := (sv_Server sr)\<lparr>st_Status := ''Creating''\<rparr>\<rparr>))))) (\<lambda>_ _. True)"
    by (intro follows_bind_quiet [OF quiet_setup(1)] follows_bind_quiet [OF quiet_setup(2)] follows_update [OF assms]) simp_all
qed (simp add: follows_ret)

lemma GetCreatedVM_follows:
  assumes "plain_cloud env" and "st_ID (m_Status m) \<noteq> ''''"
  shows "follows R entered s (GetCreatedVM env m token) (\<lambda>st t. t = s \<and> plain_server st)"
  unfolding GetCreatedVM_def
  by (rule follows_answer) (auto intro!: follows_ret follows_stop plain_cloudD(2) [OF assms] simp: vm_request_def get_request_def)

lemma sync_follows:
  assumes "plain_cloud env" and "phase_of (m_Status m) \<noteq> Absent" and "plain_server server" and "ready_ok (m_Status m)"
  shows "follows control_plane_step entered (phase_of (m_Status m)) (sync_status env m server)
    (\<lambda>m' t. t = phase_of (m_Status m') \<and> t \<noteq> Absent \<and> ready_ok (m_Status m'))"
  unfolding sync_status_def update_machine_status_def
proof (intro follows_if follows_update [OF assms(1)] follows_ret)
  fix m'
  assume "m_Status m' = m_Status (m\<lparr>m_Status := server\<rparr>)"
  then show "phase_of (m_Status (m\<lparr>m_Status := server\<rparr>)) = phase_of (m_Status m')
      \<and> phase_of (m_Status (m\<lparr>m_Status := server\<rparr>)) \<noteq> Absent \<and> ready_ok (m_Status m')"
    using assms(3) by (simp add: phase_of_plain ready_ok_def plain_server_def)
qed (use assms in \<open>simp_all add: phase_of_plain\<close>)

text \<open>Without an address, a status that is \<open>ready_ok\<close> is in the phase \<open>Created\<close>; adding one
  exposes it.\<close>

lemma attach_follows:
  assumes "plain_cloud env" and "st_AssignedPublicIps (m_Status m) = []" and "ready_ok (m_Status m)"
    and "phase_of (m_Status m) \<noteq> Absent"
  shows "follows control_plane_step entered (phase_of (m_Status m)) (AttachPublicIP env m token)
    (\<lambda>m' t. t = Exposed \<and> phase_of (m_Status m') = Exposed)"
proof -
  have p: "phase_of (m_Status m) = Created" using assms(2-4) by (auto simp: phase_of_def ready_ok_def split: if_splits)
  have new: "phase_of ((m_Status m)\<lparr>st_AssignedPublicIps := ips @ [ip]\<rparr>) = Exposed" for ips ip
    using assms(2-4) by (auto simp: phase_of_def ready_ok_def split: if_splits)
  note look = query_quiet [OF available_ips.query_axioms]
  show ?thesis
    unfolding AttachPublicIP_def updateVMStatus_def Let_def p
    by (intro follows_bind_quiet [OF spec_pick] follows_list follows_stop follows_bind_quiet [OF look]
        follows_bind_quiet [OF spec_http_do] follows_bind_quiet [OF spec_read_body] follows_if
        follows_bind_quiet [OF spec_lift] follows_bind_quiet [OF quiet_setup(3)] follows_bind_quiet [OF quiet_setup(2)]
        follows_update [OF assms(1)])
      (simp_all add: new)
qed

lemma firewall_quiet:
  "spec (\<lambda>c. entered c = None) (AddFirewallSettings env m token rule flag) (\<lambda>_. True) (\<lambda>_. True)"
  by (rule spec_weaken [OF add_firewall_calls]) (auto simp: firewall_write_def entered_reads)

lemma phase_of_ref:
  "phase_of (m_Status m) \<noteq> Absent \<Longrightarrow>
   phase_of (m_Status (set_control_plane_ref b m)) = (if b then Ready else Bootstrapping)"
  by (auto simp: phase_of_def set_control_plane_ref_def)

lemma open_follows:
  assumes "plain_cloud env" and "ready_ok (m_Status m)" and "phase_of (m_Status m) \<noteq> Absent"
  shows "follows control_plane_step entered (phase_of (m_Status m)) (open_network env m cluster token)
    (\<lambda>m' t. t = phase_of (m_Status m') \<and> t \<noteq> Absent)"
proof (cases "cs_ControlPlaneExternalNetworkEnable (kc_Spec cluster) \<and> length (st_AssignedPublicIps (m_Status m)) = 0")
  case True
  have upd: "follows control_plane_step entered Exposed (update_machine_status env (set_control_plane_ref False m1))
      (\<lambda>m' t. t = phase_of (m_Status m') \<and> t \<noteq> Absent)" if "phase_of (m_Status m1) = Exposed" for m1
    unfolding update_machine_status_def
    by (rule follows_update [OF assms(1)]) (simp_all add: phase_of_ref that)
  have rule_step: "spec (\<lambda>c. entered c = None) (let sg = cs_ManagedSecurityGroups (kc_Spec cluster) in
      if sr_Direction (ms_ControlPlaneRules sg) \<noteq> ''''
      then AddFirewallSettings env m1 token (ms_ControlPlaneRules sg) (ms_EnableOutboundInternetTraffic sg) else retG ())
      (\<lambda>_. True) (\<lambda>_. True)" for m1
    unfolding Let_def by (intro spec_if firewall_quiet spec_ret TrueI)
  have "follows control_plane_step entered (phase_of (m_Status m)) (bindG (AttachPublicIP env m token) (\<lambda>m1.
      bindG (let sg = cs_ManagedSecurityGroups (kc_Spec cluster) in
        if sr_Direction (ms_ControlPlaneRules sg) \<noteq> ''''
        then AddFirewallSettings env m1 token (ms_ControlPlaneRules sg) (ms_EnableOutboundInternetTraffic sg) else retG ()) (\<lambda>_.
      update_machine_status env (set_control_plane_ref False m1))))
      (\<lambda>m' t. t = phase_of (m_Status m') \<and> t \<noteq> Absent)"
    by (rule follows_bind [OF attach_follows [OF assms(1) _ assms(2,3)]])
      (use True in \<open>auto intro!: follows_bind_quiet [OF rule_step] upd\<close>)
  with True show ?thesis by (simp add: open_network_def)
qed (auto simp: open_network_def assms(3) intro: follows_ret)

lemma check_quiet: "spec (\<lambda>c. entered c = None) (CheckControlPlaneMachineReady env m) (\<lambda>_. True) (\<lambda>_. True)"
  by (rule spec_CheckReady) simp_all

lemma fetch_quiet: "spec (\<lambda>c. entered c = None) (FetchAndCreateKubeconfigSecret env m cl) (\<lambda>_. True) (\<lambda>_. True)"
  by (rule spec_FetchAndCreate) (simp_all add: entered_def)

lemma finish_follows:
  assumes "plain_cloud env" and "phase_of (m_Status m) \<noteq> Absent"
  shows "follows control_plane_step entered (phase_of (m_Status m)) (finish_bootstrap env m cluster) (\<lambda>_ _. True)"
proof (cases "cr_Type (st_ControlPlaneRef (m_Status m)) = ''BootstrapReady'' \<and> \<not> cr_Status (st_ControlPlaneRef (m_Status m))")
  case True
  with assms(2) have p: "phase_of (m_Status m) = Bootstrapping" by (auto simp: phase_of_def)
  have upd: "follows control_plane_step entered Bootstrapping (update_machine_status env (set_control_plane_ref True m)) (\<lambda>_ _. True)"
    unfolding update_machine_status_def by (rule follows_update [OF assms(1)]) (simp_all add: phase_of_ref assms(2))
  have "follows control_plane_step entered Bootstrapping (bindG (update_machine_status env (set_control_plane_ref True m)) (\<lambda>_. retG ())) (\<lambda>_ _. True)"
    by (rule follows_bind [OF upd]) (simp add: follows_ret)
  with True p show ?thesis
    by (simp add: finish_bootstrap_def follows_bind_quiet [OF check_quiet] follows_bind_quiet [OF fetch_quiet])
qed (auto simp: finish_bootstrap_def intro: follows_ret)

lemma control_plane_follows:
  assumes "plain_cloud env" and "ready_ok (m_Status m)"
  shows "follows control_plane_step entered (phase_of (m_Status m)) (reconcile_control_plane env m cluster token) (\<lambda>_ _. True)"
proof (cases "st_ID (m_Status m) = ''''")
  case True
  then have "phase_of (m_Status m) = Absent" by (simp add: phase_of_def)
  with True show ?thesis
    by (auto simp: reconcile_control_plane_def intro!: follows_bind [OF CreateVM_follows [OF assms(1)]] follows_ret)
next
  case False
  then have p: "phase_of (m_Status m) \<noteq> Absent" by (simp add: phase_of_def)
  have "follows control_plane_step entered (phase_of (m_Status m)) (bindG (GetCreatedVM env m token) (\<lambda>server.
      bindG (sync_status env m server) (\<lambda>m1. if st_Status (m_Status m1) = StatusActive
        then bindG (open_network env m1 cluster token) (\<lambda>m2. finish_bootstrap env m2 cluster) else retG ()))) (\<lambda>_ _. True)"
    by (rule follows_bind [OF GetCreatedVM_follows [OF assms(1) False]])
      (auto intro!: follows_bind [OF sync_follows [OF assms(1) p _ assms(2)]] follows_ret
        follows_bind [OF open_follows [OF assms(1)]] finish_follows [OF assms(1)])
  with False show ?thesis by (simp add: reconcile_control_plane_def)
qed

text \<open>C1: The reconcile of a control plane refines the five-phase life of a control plane: whatever
  the calls answer, the statuses it writes, in order, are steps from the phase of the machine it
  was given. A server is only recorded for a machine without one, a machine only becomes ready
  from bootstrapping, and it only bootstraps after its address was stored.\<close>

theorem control_plane_lifecycle:
  assumes "plain_cloud env" and "ready_ok (m_Status m)" and "contains_str (m_Name m) ''control-plane''"
  shows "walk control_plane_step (phase_of (m_Status m))
    (moves entered (trace (reconcileInfrastructure env m cluster token) w))"
  using followsD [OF control_plane_follows [OF assms(1,2)]] assms(3)
  by (simp add: reconcileInfrastructure_def ControlPlaneLabel_def)

lemma vm_env_plain: "plain_cloud vm_env"
proof -
  have "plain_server (zero_KTMachineStatus\<lparr>st_ID := ''vm-1''\<rparr>)"
    by (simp add: plain_server_def zero_KTMachineStatus_def zero_ControlPlaneRef_def)
  then show ?thesis
    by (auto simp: plain_cloud_def server_answer_of_def vm_env_def vm_answer)
qed

theorem control_plane_lifecycle_witness:
  "walk control_plane_step Absent
     (moves entered (trace (reconcileInfrastructure vm_env (sample_machine ''control-plane'') sample_cluster ''t'') ()))
   \<and> moves entered (trace (reconcileInfrastructure vm_env (sample_machine ''control-plane'') sample_cluster ''t'') ()) = [Created]"
proof
  have "phase_of (m_Status (sample_machine ''control-plane'')) = Absent" by (simp add: phase_of_def)
  then show "walk control_plane_step Absent
      (moves entered (trace (reconcileInfrastructure vm_env (sample_machine ''control-plane'') sample_cluster ''t'') ()))"
    using control_plane_lifecycle [OF vm_env_plain, of "sample_machine ''control-plane''" sample_cluster "''t''" "()"]
    by (simp add: ready_ok_def zero_KTMachineStatus_def zero_ControlPlaneRef_def)
  show "moves entered (trace (reconcileInfrastructure vm_env (sample_machine ''control-plane'') sample_cluster ''t'') ()) = [Created]"
    by (simp add: reconcileInfrastructure_def ControlPlaneLabel_def reconcile_control_plane_def CreateVM_def
        create_server_def http_do_def read_body_def vm_env_def vm_answer status_ok_def rest_config_or_panic_def getRestConfig_def
        client_or_exit_def getClient_def updateVMStatus_def trace_def go_simps Let_def)
      (simp add: phase_of_def zero_KTMachineStatus_def zero_ControlPlaneRef_def)
qed

text \<open>A machine with a server, and a cloud that reports it active.\<close>

definition machine_with :: "KTMachineStatus \<Rightarrow> KTMachine" where
  "machine_with st = (sample_machine ''control-plane'')\<lparr>m_Status := st\<lparr>st_ID := ''vm-1''\<rparr>\<rparr>"

definition active_body :: string where
  "active_body = print_json (JObj [(''server'', JObj [(''id'', JStr ''vm-1''), (''status'', JStr ''ACTIVE'')])])"

definition active_env :: "unit env" where
  "active_env = down_env\<lparr>e_http := (\<lambda>_ w. (Inr (answer 200 ''200 OK'' active_body), w)),
     e_create_secret := (\<lambda>_ w. (Inl (ApiError AlreadyExists ''exists''), w))\<rparr>"

definition active_status :: KTMachineStatus where
  "active_status = zero_KTMachineStatus\<lparr>st_ID := ''vm-1'', st_Status := ''ACTIVE''\<rparr>"

lemma active_answer:
  "json_unmarshal dec_ServerResponse zero_ServerResponse active_body = Inr \<lparr>sv_Server = active_status\<rparr>"
  by (simp add: active_body_def json_unmarshal_def json_roundtrip dec_ServerResponse_def dec_KTMachineStatus_def
      dec_simps zero_ServerResponse_def dec_string_def active_status_def del: print_json.simps)

lemma active_server:
  "GetCreatedVM active_env m token () = (Inr active_status, [HttpCall (vm_request active_env token m)], ())"
proof -
  have "accepted active_env (vm_request active_env token m) () dec_ServerResponse zero_ServerResponse \<lparr>sv_Server = active_status\<rparr> ()"
    by (simp add: accepted_def active_env_def active_answer status_ok_def)
  from GetCreatedVM_accepted [OF this] show ?thesis by simp
qed

lemma machine_with_simps [simp]:
  "m_Name (machine_with st) = ''control-plane''" "m_Status (machine_with st) = st\<lparr>st_ID := ''vm-1''\<rparr>"
  by (simp_all add: machine_with_def)

lemma active_status_simps [simp]:
  "st_Status active_status = ''ACTIVE''" "plain_server active_status" "st_AssignedPublicIps active_status = []"
  by (simp_all add: active_status_def plain_server_def zero_KTMachineStatus_def zero_ControlPlaneRef_def)

lemma active_env_update [simp]: "e_status_update_machine active_env m w = (Inr m, w)"
  by (simp add: active_env_def)

section \<open>Machines that get stuck\<close>

text \<open>C26: A control plane whose address was stored but whose firewall request failed is never opened:
  as long as the cloud reports the same state, a reconcile only asks the cloud for that state,
  and neither the firewall request nor the bootstrap mark is tried again.\<close>

theorem exposed_control_plane_stuck:
  assumes "contains_str (m_Name m) ''control-plane''" and "phase_of (m_Status m) = Exposed"
    and "GetCreatedVM env m token w = (Inr server, cs, w1)" and "st_Status server = st_Status (m_Status m)"
  shows "reconcileInfrastructure env m cluster token w = (Inr (), cs, w1) \<and> (\<forall>c \<in> set cs. read_only c)"
proof
  have "st_ID (m_Status m) \<noteq> ''''" "st_AssignedPublicIps (m_Status m) \<noteq> []"
      "cr_Type (st_ControlPlaneRef (m_Status m)) \<noteq> ''BootstrapReady''"
    using assms(2) by (auto simp: phase_of_def split: if_splits)
  then show "reconcileInfrastructure env m cluster token w = (Inr (), cs, w1)"
    using assms(1,3,4) by (simp add: reconcileInfrastructure_def ControlPlaneLabel_def reconcile_control_plane_def
        sync_status_def open_network_def finish_bootstrap_def go_simps)
  show "\<forall>c \<in> set cs. read_only c"
    using spec_trace [OF get_vm.reads, of _ env m token w] assms(3) by (simp add: trace_def)
qed

theorem exposed_control_plane_stuck_witness:
  "reconcileInfrastructure active_env (machine_with (active_status\<lparr>st_AssignedPublicIps := [zero_AssignedPublicIps]\<rparr>)) sample_cluster ''t'' ()
     = (Inr (), [HttpCall (vm_request active_env ''t'' (machine_with (active_status\<lparr>st_AssignedPublicIps := [zero_AssignedPublicIps]\<rparr>)))], ())"
  by (rule exposed_control_plane_stuck [OF _ _ active_server, THEN conjunct1])
    (simp_all add: phase_of_def active_status_def zero_KTMachineStatus_def zero_ControlPlaneRef_def)

text \<open>The members in which the operator records its own progress in the status of a machine. The
  description of a server by the cloud has none of them.\<close>

definition operator_key :: "string \<Rightarrow> bool" where
  "operator_key k \<longleftrightarrow> to_lower k \<in> {''assignedpublicips'', ''controlplaneref'', ''workerref''}"

definition cloud_only :: "string \<Rightarrow> bool" where
  "cloud_only body \<longleftrightarrow> (\<exists>top. json_parse body = Some (JObj top) \<and>
     (\<forall>k j. (k, j) \<in> set top \<longrightarrow> to_lower k = ''server'' \<longrightarrow>
       (\<exists>kvs. j = JObj kvs \<and> (\<forall>k' j'. (k', j') \<in> set kvs \<longrightarrow> \<not> operator_key k'))))"

lemma dec_field_absent: "(\<And>k j. (k, j) \<in> set kvs \<Longrightarrow> to_lower k \<noteq> to_lower n) \<Longrightarrow> dec_field n d kvs z = Some z"
  by (induction n d kvs z rule: dec_field.induct) auto

lemma dec_field_keeps:
  assumes "\<And>k j y x. (k, j) \<in> set kvs \<Longrightarrow> to_lower k = to_lower n \<Longrightarrow> P y \<Longrightarrow> d j y = Some x \<Longrightarrow> P x"
    and "P z" and "dec_field n d kvs z = Some x"
  shows "P x"
  using assms
proof (induction n d kvs z rule: dec_field.induct)
  case (2 n d k j kvs cur)
  show ?case
  proof (cases "to_lower k = to_lower n")
    case True
    then obtain y where y: "d j cur = Some y" "dec_field n d kvs y = Some x" using 2(5) by (auto simp: bind_eq_Some_conv)
    have "P y" using 2(3) [of k j cur y] True 2(4) y(1) by simp
    have "P v" if "(k', j') \<in> set kvs" "to_lower k' = to_lower n" "P u" "d j' u = Some v" for k' j' u v
      using 2(3) [OF _ that(2-4)] that(1) by simp
    then show ?thesis by (rule 2(1) [OF True y(1) _ \<open>P y\<close> y(2)])
  next
    case False
    with 2(2) [OF False] 2(3-5) show ?thesis by (metis dec_field.simps(2) list.set_intros(2))
  qed
qed simp

text \<open>Nothing of what the operator recorded.\<close>

definition unrecorded :: "KTMachineStatus \<Rightarrow> bool" where
  "unrecorded st \<longleftrightarrow> st_AssignedPublicIps st = [] \<and> st_ControlPlaneRef st = zero_ControlPlaneRef
     \<and> \<not> wr_JoinedControlPlane (st_WorkerRef st)"

lemma cloud_keys:
  "to_lower ''AssignedPublicIPs'' = ''assignedpublicips''" "to_lower ''controlPlaneRef'' = ''controlplaneref''"
  "to_lower ''workerRef'' = ''workerref''" "to_lower ''server'' = ''server''"
  by (simp_all add: to_lower_def to_lower_char_def char_of_def bit_0)

lemma unrecorded_status:
  assumes "\<And>k j. (k, j) \<in> set kvs \<Longrightarrow> \<not> operator_key k" and "unrecorded z" and "dec_KTMachineStatus (JObj kvs) z = Some st"
  shows "unrecorded st"
proof -
  have "dec_field ''AssignedPublicIPs'' d kvs x = Some x" for d and x :: "AssignedPublicIps list"
    by (rule dec_field_absent) (use assms(1) in \<open>auto simp: operator_key_def cloud_keys\<close>)
  moreover have "dec_field ''controlPlaneRef'' d kvs x = Some x" for d and x :: ControlPlaneRef
    by (rule dec_field_absent) (use assms(1) in \<open>auto simp: operator_key_def cloud_keys\<close>)
  moreover have "dec_field ''workerRef'' d kvs x = Some x" for d and x :: WorkerRef
    by (rule dec_field_absent) (use assms(1) in \<open>auto simp: operator_key_def cloud_keys\<close>)
  ultimately show ?thesis
    using assms(2,3) by (auto simp: dec_KTMachineStatus_def dec_struct_def unrecorded_def bind_eq_Some_conv)
qed

lemma cloud_only_unrecorded:
  assumes "cloud_only body" and "json_unmarshal dec_ServerResponse zero_ServerResponse body = Inr sr"
  shows "unrecorded (sv_Server sr)"
proof -
  obtain top where top: "json_parse body = Some (JObj top)"
      and only: "\<And>k j. (k, j) \<in> set top \<Longrightarrow> to_lower k = ''server'' \<Longrightarrow>
        \<exists>kvs. j = JObj kvs \<and> (\<forall>k' j'. (k', j') \<in> set kvs \<longrightarrow> \<not> operator_key k')"
    using assms(1) unfolding cloud_only_def by blast
  have "dec_field ''server'' dec_KTMachineStatus top zero_KTMachineStatus = Some (sv_Server sr)"
    using assms(2) top by (auto simp: json_unmarshal_def dec_ServerResponse_def dec_struct_def zero_ServerResponse_def
        bind_eq_Some_conv split: option.splits)
  moreover have "unrecorded x" if "(k, j) \<in> set top" "to_lower k = to_lower ''server''" "unrecorded y"
      "dec_KTMachineStatus j y = Some x" for k j y x
    using only [OF that(1)] that unrecorded_status [OF _ that(3)] by (auto simp: cloud_keys)
  moreover have "unrecorded zero_KTMachineStatus" by (simp add: unrecorded_def zero_KTMachineStatus_def zero_WorkerRef_def)
  ultimately show ?thesis using dec_field_keeps [where P = unrecorded] by blast
qed

text \<open>The text of a successful answer.\<close>

definition answered_with :: "'w env \<Rightarrow> http_request \<Rightarrow> 'w \<Rightarrow> string \<Rightarrow> 'w \<Rightarrow> bool" where
  "answered_with env rq w body w1 \<longleftrightarrow> (\<exists>u resp. e_url_parse env (rq_URL rq) = Inr u
     \<and> e_http env rq w = (Inr resp, w1) \<and> status_ok (hr_StatusCode resp) \<and> hr_Body resp = Inr body)"

text \<open>Without a new server to ask for, a reconcile first asks for the server it has.\<close>

definition after_sync :: "'w env \<Rightarrow> KTMachine \<Rightarrow> KTCluster \<Rightarrow> string \<Rightarrow> KTMachine \<Rightarrow> ('w, unit) op" where
  "after_sync env m cluster token m1 =
     (if contains_str (m_Name m) ''control-plane'' \<and> st_Status (m_Status m1) = StatusActive
      then bindG (open_network env m1 cluster token) (\<lambda>m2. finish_bootstrap env m2 cluster) else retG ())"

lemma settled_reconcile:
  assumes "\<not> needs_server m"
  shows "reconcileInfrastructure env m cluster token = bindG (GetCreatedVM env m token) (\<lambda>server.
    bindG (sync_status env (if contains_str (m_Name m) ''control-plane'' then m else set_joined m) server)
      (after_sync env m cluster token))"
proof (cases "contains_str (m_Name m) ''control-plane''")
  case True
  with assms show ?thesis
    by (simp add: reconcileInfrastructure_def ControlPlaneLabel_def reconcile_control_plane_def needs_server_def
        after_sync_def [abs_def])
next
  case False
  with assms have "join_if_new env m token = retG (Some m)" by (auto simp: join_if_new_def needs_server_def)
  with False show ?thesis
    by (simp add: reconcileInfrastructure_def ControlPlaneLabel_def reconcile_worker_def after_sync_def [abs_def])
qed

text \<open>C28: When the state of its server on the cloud differs from the stored one, in whatever way, a
  machine that needs no new server is stored with the description of the server as its whole status.
  The answer of the cloud has no member for what the operator recorded, so this forgets it: the
  assigned public addresses, the bootstrap mark and the mark of a joined worker. If a control plane
  became active, the reconcile goes on to attach another public address.\<close>

theorem resync_forgets_addresses:
  assumes "\<not> needs_server m"
    and vm: "answered_with env (vm_request env token m) w body w1"
    and sr: "json_unmarshal dec_ServerResponse zero_ServerResponse body = Inr sr" and only: "cloud_only body"
    and changed: "st_Status (sv_Server sr) \<noteq> st_Status (m_Status m)"
  shows "\<exists>rest. trace (reconcileInfrastructure env m cluster token) w =
      HttpCall (vm_request env token m) # StatusUpdate (OMachine (m\<lparr>m_Status := sv_Server sr\<rparr>)) # rest
    \<and> st_AssignedPublicIps (sv_Server sr) = [] \<and> cr_Type (st_ControlPlaneRef (sv_Server sr)) = ''''
    \<and> \<not> wr_JoinedControlPlane (st_WorkerRef (sv_Server sr))
    \<and> (\<forall>m' w2. contains_str (m_Name m) ''control-plane'' \<longrightarrow> st_Status (sv_Server sr) = ''ACTIVE'' \<longrightarrow>
        cs_ControlPlaneExternalNetworkEnable (kc_Spec cluster) \<longrightarrow>
        e_status_update_machine env (m\<lparr>m_Status := sv_Server sr\<rparr>) w1 = (Inr m', w2) \<longrightarrow> m_Status m' = sv_Server sr \<longrightarrow>
        (\<exists>last. rest = trace (AttachPublicIP env m' token) w2 @ last))"
proof -
  let ?m = "m\<lparr>m_Status := sv_Server sr\<rparr>"
  define old where "old = (if contains_str (m_Name m) ''control-plane'' then m else set_joined m)"
  have un: "unrecorded (sv_Server sr)" by (rule cloud_only_unrecorded [OF only sr])
  have "accepted env (vm_request env token m) w dec_ServerResponse zero_ServerResponse sr w1"
    using vm sr unfolding answered_with_def accepted_def by blast
  then have get: "GetCreatedVM env m token w = (Inr (sv_Server sr), [HttpCall (vm_request env token m)], w1)"
    by (rule GetCreatedVM_accepted)
  have sync: "sync_status env old (sv_Server sr) = callG (StatusUpdate (OMachine ?m)) (e_status_update_machine env ?m)"
    using changed by (simp add: old_def sync_status_def update_machine_status_def set_joined_def)
  have t: "trace (reconcileInfrastructure env m cluster token) w = HttpCall (vm_request env token m) #
      StatusUpdate (OMachine ?m) # (case e_status_update_machine env ?m w1 of
        (Inl e, w2) \<Rightarrow> [] | (Inr m', w2) \<Rightarrow> trace (after_sync env m cluster token m') w2)"
    unfolding settled_reconcile [OF assms(1)] old_def [symmetric]
    by (simp add: trace_def bindG_apply get sync callG_apply split: sum.split prod.split)
  have "\<exists>last. trace (after_sync env m cluster token m') w2 = trace (AttachPublicIP env m' token) w2 @ last"
    if "contains_str (m_Name m) ''control-plane''" "st_Status (sv_Server sr) = ''ACTIVE''"
      "cs_ControlPlaneExternalNetworkEnable (kc_Spec cluster)" "m_Status m' = sv_Server sr" for m' w2
    using that un by (simp add: after_sync_def StatusActive_def unrecorded_def open_network_def trace_bindG)
  with t un show ?thesis unfolding unrecorded_def zero_ControlPlaneRef_def by auto
qed

text \<open>A cloud that describes an active server with an address, and a free public address.\<close>

definition described_body :: string where
  "described_body = print_json (JObj [(''server'', JObj [(''id'', JStr ''vm-1''), (''status'', JStr ''ACTIVE''),
     (''addresses'', JObj [(''tier'', JArr [JObj [(''addr'', JStr ''10.0.0.7'')]])])])])"

definition described_status :: KTMachineStatus where
  "described_status = zero_KTMachineStatus\<lparr>st_ID := ''vm-1'', st_Status := ''ACTIVE'',
     st_Addresses := [(''tier'', [zero_Address\<lparr>ad_Addr := ''10.0.0.7''\<rparr>])]\<rparr>"

definition described_env :: "unit env" where
  "described_env = nat_env\<lparr>e_http := (\<lambda>rq w. (Inr (answer 200 ''200 OK''
     (if rq_Method rq \<noteq> ''GET'' then nat_body
      else if rq_URL rq = ''/nsm/v1/publicIp'' then ip_list_body else described_body)), w))\<rparr>"

lemma described_answer:
  "json_unmarshal dec_ServerResponse zero_ServerResponse described_body = Inr \<lparr>sv_Server = described_status\<rparr>"
  by (simp add: described_body_def json_unmarshal_def json_roundtrip dec_ServerResponse_def dec_KTMachineStatus_def
      dec_simps zero_ServerResponse_def dec_string_def described_status_def dec_map_def dec_list_def dec_Address_def
      zero_KTMachineStatus_def zero_Address_def del: print_json.simps)

lemma described_only: "cloud_only described_body"
  by (auto simp: cloud_only_def described_body_def json_roundtrip operator_key_def dec_simps simp del: print_json.simps)

definition exposed_machine :: KTMachine where
  "exposed_machine = machine_with (described_status\<lparr>st_Status := ''SHUTOFF'', st_AssignedPublicIps := [zero_AssignedPublicIps]\<rparr>)"

lemma described_attach:
  "AttachPublicIP described_env (exposed_machine\<lparr>m_Status := described_status\<rparr>) ''t'' () =
    (Inr (with_ip (exposed_machine\<lparr>m_Status := described_status\<rparr>)
       (assigned_ip free_ip ''n1'' \<lparr>ma_NetworkName = ''tier'', ma_Address = ''10.0.0.7''\<rparr>)),
     attach_steps described_env (exposed_machine\<lparr>m_Status := described_status\<rparr>) ''t''
       \<lparr>ma_NetworkName = ''tier'', ma_Address = ''10.0.0.7''\<rparr> free_ip ''n1'', ())"
proof -
  let ?m = "exposed_machine\<lparr>m_Status := described_status\<rparr>"
  let ?priv = "\<lparr>ma_NetworkName = ''tier'', ma_Address = ''10.0.0.7''\<rparr>"
  let ?r = "\<lparr>na_HttpStatus = 200, na_Data = \<lparr>ni_StaticNatId = ''n1''\<rparr>\<rparr>"
  have get: "accepted described_env (get_request described_env ''t'' ''/nsm/v1/publicIp'') ()
      dec_NcListentPublicIpsResponse zero_NcListentPublicIpsResponse \<lparr>nl_HttpStatus = 0, nl_Data = [free_ip]\<rparr> ()"
    by (simp add: accepted_def described_env_def nat_env_def get_request_def cloud_request_def status_ok_def ip_list_answer api_url_def)
  have post: "accepted described_env (attach_request described_env ''t'' (ma_Address ?priv) (pi_ID free_ip)) ()
      dec_NATAttachResponse zero_NATAttachResponse ?r ()"
    by (simp add: accepted_def described_env_def nat_env_def attach_request_def cloud_request_def status_ok_def nat_answer)
  have "AttachPublicIP described_env ?m ''t'' () = (Inr (with_ip ?m (assigned_ip free_ip (ni_StaticNatId (na_Data ?r)) ?priv)),
      attach_steps described_env ?m ''t'' ?priv free_ip (ni_StaticNatId (na_Data ?r)), ())"
    by (rule attach_first_free [where order = "[''tier'']" and ps = "[]" and rest = "[]", OF _ _ get _ post])
      (simp_all add: described_env_def nat_env_def described_status_def private_addresses_def free_ip_def status_ok_def client_up_def)
  then show ?thesis by simp
qed

theorem resync_forgets_addresses_witness:
  "\<exists>rest. trace (reconcileInfrastructure described_env exposed_machine sample_cluster ''t'') () =
      HttpCall (vm_request described_env ''t'' exposed_machine)
      # StatusUpdate (OMachine (exposed_machine\<lparr>m_Status := described_status\<rparr>))
      # HttpCall (get_request described_env ''t'' ''/nsm/v1/publicIp'')
      # HttpCall (attach_request described_env ''t'' ''10.0.0.7'' ''p1'') # rest
    \<and> st_AssignedPublicIps described_status = [] \<and> st_AssignedPublicIps (m_Status exposed_machine) \<noteq> []"
proof -
  let ?m = "exposed_machine\<lparr>m_Status := described_status\<rparr>"
  let ?priv = "\<lparr>ma_NetworkName = ''tier'', ma_Address = ''10.0.0.7''\<rparr>"
  have "\<exists>rest. trace (reconcileInfrastructure described_env exposed_machine sample_cluster ''t'') () =
      HttpCall (vm_request described_env ''t'' exposed_machine) # StatusUpdate (OMachine ?m) # rest
    \<and> st_AssignedPublicIps described_status = [] \<and> cr_Type (st_ControlPlaneRef described_status) = ''''
    \<and> \<not> wr_JoinedControlPlane (st_WorkerRef described_status)
    \<and> (\<forall>m' w2. contains_str (m_Name exposed_machine) ''control-plane'' \<longrightarrow> st_Status described_status = ''ACTIVE'' \<longrightarrow>
        cs_ControlPlaneExternalNetworkEnable (kc_Spec sample_cluster) \<longrightarrow>
        e_status_update_machine described_env ?m () = (Inr m', w2) \<longrightarrow> m_Status m' = described_status \<longrightarrow>
        (\<exists>last. rest = trace (AttachPublicIP described_env m' ''t'') w2 @ last))"
    using resync_forgets_addresses [of exposed_machine described_env "''t''" "()" described_body "()" _ sample_cluster,
        OF _ _ described_answer described_only]
    by (simp add: needs_server_def exposed_machine_def answered_with_def described_env_def nat_env_def status_ok_def
        vm_request_def get_request_def cloud_request_def api_url_def described_status_def)
  moreover have "e_status_update_machine described_env ?m () = (Inr ?m, ())"
    by (simp add: described_env_def nat_env_def)
  moreover have "contains_str (m_Name exposed_machine) ''control-plane''" "st_Status described_status = ''ACTIVE''"
      "cs_ControlPlaneExternalNetworkEnable (kc_Spec sample_cluster)"
    by (simp_all add: exposed_machine_def described_status_def sample_cluster_def)
  ultimately obtain rest last where "trace (reconcileInfrastructure described_env exposed_machine sample_cluster ''t'') () =
      HttpCall (vm_request described_env ''t'' exposed_machine) # StatusUpdate (OMachine ?m) # rest"
      "rest = trace (AttachPublicIP described_env ?m ''t'') () @ last" "st_AssignedPublicIps described_status = []"
    by auto
  moreover have "trace (AttachPublicIP described_env ?m ''t'') () = attach_steps described_env ?m ''t'' ?priv free_ip ''n1''"
    using described_attach by (simp add: trace_def)
  ultimately show ?thesis by (auto simp: attach_steps_def free_ip_def exposed_machine_def)
qed

lemma fetch_fails:
  assumes "\<And>s w. \<exists>e w1. e_create_secret env s w = (Inl e, w1)"
  shows "spec (\<lambda>c. entered c = None) (FetchAndCreateKubeconfigSecret env m cl) (\<lambda>_. False) (\<lambda>_. True)"
proof -
  have fetched: "spec (\<lambda>c. entered c = None) (fetch_loop env (kubeconfig_request a) attempts None) (\<lambda>_. True) (\<lambda>_. True)" for a
    by (rule spec_weaken [OF spec_fetch_loop [where P = "\<lambda>c. entered c = None"]]) auto
  have created: "spec (\<lambda>c. entered c = None) (tryG (callG (CreateCall (OSecret y)) (e_create_secret env y))) (\<lambda>r. \<exists>e. r = Inl e) (\<lambda>_. True)" for y
  proof (intro spec_try spec_call)
    show "\<exists>e. Inr x = Inl e" if "e_create_secret env y w = (Inr x, w1)" for x w w1
      using assms [of y w] that by auto
  qed simp_all
  show ?thesis
    unfolding FetchAndCreateKubeconfigSecret_def Let_def
    by (intro spec_list spec_stopI TrueI spec_bind_any [OF fetched] spec_option spec_sum spec_bind [OF created])
      (auto intro: spec_stopI)
qed

text \<open>C27: A control plane that bootstraps is not marked ready while its kubeconfig secret cannot be
  created, for instance because an earlier attempt created it already: every reconcile then ends
  without success and writes no status.\<close>

theorem existing_secret_blocks_ready:
  assumes "contains_str (m_Name m) ''control-plane''" and "phase_of (m_Status m) = Bootstrapping"
    and "st_AssignedPublicIps (m_Status m) \<noteq> []" and "st_Status (m_Status m) = ''ACTIVE''"
    and g: "GetCreatedVM env m token w = (Inr server, cs, w1)" and "st_Status server = ''ACTIVE''"
    and "\<And>s w. \<exists>e w1. e_create_secret env s w = (Inl e, w1)"
  shows "moves entered (trace (reconcileInfrastructure env m cluster token) w) = []
    \<and> outcome (reconcileInfrastructure env m cluster token) w \<noteq> Inr ()"
proof -
  have st: "st_ID (m_Status m) \<noteq> ''''" "cr_Type (st_ControlPlaneRef (m_Status m)) = ''BootstrapReady''"
      "\<not> cr_Status (st_ControlPlaneRef (m_Status m))"
    using assms(2) by (auto simp: phase_of_def split: if_splits)
  have "spec (\<lambda>c. entered c = None) (finish_bootstrap env m cluster) (\<lambda>_. False) (\<lambda>_. True)"
    using st by (auto simp: finish_bootstrap_def intro!: spec_bind_any [OF check_quiet] spec_bind [OF fetch_fails] assms(7))
  then have fin: "moves entered (trace (finish_bootstrap env m cluster) w1) = []"
      "outcome (finish_bootstrap env m cluster) w1 \<noteq> Inr ()"
    by (auto intro: moves_quiet spec_trace dest: spec_return)
  have "trace (reconcileInfrastructure env m cluster token) w = cs @ trace (finish_bootstrap env m cluster) w1"
    and "outcome (reconcileInfrastructure env m cluster token) w = outcome (finish_bootstrap env m cluster) w1"
    using assms(1,3,4,6) g st by (simp_all add: reconcileInfrastructure_def ControlPlaneLabel_def reconcile_control_plane_def
        StatusActive_def sync_status_def open_network_def run_defs bindG_apply [of "GetCreatedVM env m token"] split: prod.split)
  moreover have "moves entered cs = []"
    using spec_trace [OF get_vm.reads, of _ env m token w] g by (intro moves_quiet entered_reads) (simp add: trace_def)
  ultimately show ?thesis using fin by simp
qed

definition bootstrapping_status :: KTMachineStatus where
  "bootstrapping_status = active_status\<lparr>st_AssignedPublicIps := [zero_AssignedPublicIps],
     st_ControlPlaneRef := \<lparr>cr_Type = ''BootstrapReady'', cr_LastTransactionTime = '''', cr_Status = False\<rparr>\<rparr>"

theorem existing_secret_blocks_ready_witness:
  "outcome (reconcileInfrastructure active_env (machine_with bootstrapping_status) sample_cluster ''t'') () \<noteq> Inr ()"
  by (rule existing_secret_blocks_ready [OF _ _ _ _ active_server, THEN conjunct2])
    (simp_all add: bootstrapping_status_def phase_of_def active_env_def)

text \<open>A control plane that a worker can join.\<close>

definition ready_control_plane :: KTMachine where
  "ready_control_plane = (cp_with_ip ''2.2.2.2'')\<lparr>m_Meta := zero_ObjectMeta\<lparr>om_Name := ''control-plane''\<rparr>,
     m_Status := (m_Status (cp_with_ip ''2.2.2.2''))\<lparr>st_Status := ''ACTIVE'',
       st_ControlPlaneRef := \<lparr>cr_Type = ''BootstrapReady'', cr_LastTransactionTime = '''', cr_Status = True\<rparr>\<rparr>\<rparr>"

section \<open>Candidates for joining\<close>

text \<open>The cluster of a control plane plays no part in the search: a ready control plane of the
  namespace is a candidate for every worker, also for one of another cluster.\<close>

lemma candidate_of_other_cluster:
  assumes "e_list_machines env (m_Namespace m) w = (Inr [cp], w1)" and "bootstrap_ready m cp"
    and "ks_ClusterName (m_Spec cp) \<noteq> ks_ClusterName (m_Spec m)"
  shows "outcome (GetBootstrapReadyMachineControlPlane env m) w = Inr [cp]"
  using assms by (simp add: GetBootstrapReadyMachineControlPlane_def run_defs go_simps)

end
