(* ===== verification/DeploymentController.thy ===== *)
theory DeploymentController
  imports Reconciler
begin

text \<open>
  The controller of machine deployments, \<^verbatim>\<open>internal/controller/machinedeployment_controller.go\<close>,
  and the random names of \<^verbatim>\<open>internal/utils/util.go\<close>. A reconcile counts the machines that
  name the deployment as owner and creates the missing ones from the machine template that has
  the deployment's name. The abstract view of the component is one number, the machines the
  deployment owns. The list it is counted in is answered from a cache, so there are two views of
  it: with an up-to-date cache a reconcile raises the number to the replicas asked for, and in
  general it goes beyond them by at most what the cache has not seen yet.
\<close>

section \<open>Random names\<close>

definition charset :: string where
  "charset = ''abcdefghi34567jklmnopqrstuvwxyzABCDE123456790FGHIJKLMNOPQRSTUVWXYZ0123456789-''"

fun random_bytes :: "'w env \<Rightarrow> nat \<Rightarrow> ('w, string) op" where
  "random_bytes env 0 = retG []"
| "random_bytes env (Suc n) =
     bindG (tryG (callG (RandInt (length charset)) (e_rand env (length charset)))) (\<lambda>r. case r of
       Inl e \<Rightarrow> panicG (error_text e)
     | Inr k \<Rightarrow>
         if k < length charset then bindG (random_bytes env n) (\<lambda>s. retG (charset ! k # s))
         else panicG ''index out of range'')"

text \<open>\<open>make([]byte, length+5)\<close> panics when the sum leaves the range of an \<open>int\<close>.\<close>

definition RandomString :: "'w env \<Rightarrow> int \<Rightarrow> ('w, string) op" where
  "RandomString env n =
     (if n \<le> 0 then retG ''''
      else if 2 ^ 63 \<le> n + 5 then panicG ''makeslice: len out of range''
      else random_bytes env (nat (n + 5)))"

section \<open>Counting and creating machines\<close>

definition owned_by :: "MachineDeployment \<Rightarrow> KTMachine \<Rightarrow> bool" where
  "owned_by d m \<longleftrightarrow> list_ex (\<lambda>r. or_Kind r = ''MachineDeployment'' \<and> or_Name r = om_Name (md_Meta d))
     (om_OwnerReferences (m_Meta m))"

definition countChildMachinesByOwner :: "'w env \<Rightarrow> MachineDeployment \<Rightarrow> ('w, int) op" where
  "countChildMachinesByOwner env d =
     (let ns = om_Namespace (md_Meta d) in
      bindG (callG (ListMachines ns) (e_list_machines env ns)) (\<lambda>items.
      retG (int (length (filter (owned_by d) items)))))"

definition deployment_machine :: "MachineDeployment \<Rightarrow> KTMachineTemplate \<Rightarrow> nat \<Rightarrow> string \<Rightarrow> KTMachine" where
  "deployment_machine d t i name =
     (let sp = te_Spec (ts_Template (mt_Spec t)); sd = mp_Spec (ds_Template (md_Spec d)) in
      zero_KTMachine\<lparr>
        m_Meta := zero_ObjectMeta\<lparr>om_Name := name, om_Namespace := om_Namespace (md_Meta d)\<rparr>,
        m_Spec := zero_KTMachineSpec\<lparr>ks_ControlPlaneNumber := int i + 1, ks_Flavor := sp_Flavor sp,
          ks_ClusterName := sd_ClusterName sd, ks_AvailabilityZone := sd_FailureDomain sd,
          ks_SSHKeyName := sp_SSHKeyName sp, ks_BlockDeviceMapping := sp_BlockDeviceMapping sp,
          ks_NetworkTier := sp_NetworkTier sp\<rparr>\<rparr>)"

definition machine_name :: "MachineDeployment \<Rightarrow> string \<Rightarrow> string" where
  "machine_name d s = om_Name (md_Meta d) @ ''-'' @ to_lower s"

text \<open>The body of the loop: one machine with the owner reference set.\<close>

definition create_machine :: "'w env \<Rightarrow> MachineDeployment \<Rightarrow> KTMachineTemplate \<Rightarrow> nat \<Rightarrow> ('w, unit) op" where
  "create_machine env d t i =
     bindG (RandomString env 10) (\<lambda>s.
     let m = deployment_machine d t i (machine_name d s) in
     bindG (liftG (e_set_controller_ref env (KindMachineDeployment, md_Meta d) (m_Meta m))) (\<lambda>meta.
     let m1 = m\<lparr>m_Meta := meta\<rparr> in
     bindG (callG (CreateCall (OMachine m1)) (e_create_machine env m1)) (\<lambda>_. retG ())))"

definition machines_to_create :: "int \<Rightarrow> int \<Rightarrow> nat" where
  "machines_to_create available replicas =
     nat (if available < replicas then replicas - available
          else if available > replicas then 0
          else replicas)"

definition ktMachineForMachineDeployment :: "'w env \<Rightarrow> MachineDeployment \<Rightarrow> int \<Rightarrow> ('w, unit) op" where
  "ktMachineForMachineDeployment env d available =
     (let k = (om_Name (md_Meta d), om_Namespace (md_Meta d)) in
      bindG (callG (GetCall KindKTMachineTemplate k) (e_get_template env k)) (\<lambda>t.
      forG [0..<machines_to_create available (ds_Replicas (md_Spec d))] (create_machine env d t)))"

definition reconcile_deployment_body :: "'w env \<Rightarrow> key \<Rightarrow> MachineDeployment \<Rightarrow> ('w, Result) op" where
  "reconcile_deployment_body env req d =
     bindG (tryG (countChildMachinesByOwner env d)) (\<lambda>r. case r of
       Inl _ \<Rightarrow> retG requeue_minute
     | Inr available \<Rightarrow>
         if available \<noteq> ds_Replicas (md_Spec d) then
           bindG (ktMachineForMachineDeployment env d available) (\<lambda>_. retG no_requeue)
         else retG no_requeue)"

definition reconcile_deployment :: "'w env \<Rightarrow> key \<Rightarrow> ('w, Result) op" where
  "reconcile_deployment env req =
     with_object KindMachineDeployment (e_get_deployment env) req (reconcile_deployment_body env req)"

interpretation deployment_reconciler: reconciler KindMachineDeployment e_get_deployment
    reconcile_deployment reconcile_deployment_body
  by unfold_locales (rule reconcile_deployment_def)

section \<open>What a name looks like\<close>

lemma length_charset [simp]: "length charset = 77"
  by (simp add: charset_def)

lemma random_bytes_spec: "spec (\<lambda>c. c = RandInt 77) (random_bytes env n) (\<lambda>s. length s = n \<and> set s \<subseteq> set charset) (\<lambda>_. True)"
proof (induction n)
  case 0
  show ?case by (simp add: spec_ret)
next
  case (Suc n)
  show ?case
    by (simp, intro spec_bind_any [OF spec_try [OF spec_call]] spec_sum spec_if spec_bind [OF Suc.IH] spec_ret spec_stopI TrueI)
      (auto split: stop.split)
qed

lemma RandomString_spec:
  "spec (\<lambda>c. c = RandInt 77) (RandomString env n)
     (\<lambda>s. int (length s) = (if n \<le> 0 then 0 else n + 5) \<and> set s \<subseteq> set charset) (\<lambda>_. True)"
  unfolding RandomString_def by (auto intro!: spec_ret spec_stopI spec_weaken [OF random_bytes_spec])

text \<open>The documented behaviour of \<open>rand.Int\<close> with a working source of randomness.\<close>

definition random_source :: "'w env \<Rightarrow> bool" where
  "random_source env \<longleftrightarrow> (\<forall>n w. 0 < n \<longrightarrow> (\<exists>k w1. e_rand env n w = (Inr k, w1) \<and> k < n))"

lemma random_bytes_total: "random_source env \<Longrightarrow> \<exists>s. outcome (random_bytes env n) w = Inr s"
proof (induction n arbitrary: w)
  case 0
  show ?case by simp
next
  case (Suc n)
  have "\<exists>k w1. e_rand env 77 w = (Inr k, w1) \<and> k < 77" using Suc.prems by (simp add: random_source_def)
  then obtain k w1 where "e_rand env 77 w = (Inr k, w1)" "k < 77" by blast
  moreover obtain s where "outcome (random_bytes env n) w1 = Inr s" using Suc by blast
  ultimately show ?case
    by (cases "random_bytes env n w1") (simp add: run_defs go_simps)
qed

lemma RandomString_total:
  "random_source env \<Longrightarrow> n + 5 < 2 ^ 63 \<Longrightarrow> \<exists>s. outcome (RandomString env n) w = Inr s"
  using random_bytes_total [of env "nat (n + 5)" w] by (simp add: RandomString_def)

text \<open>With a working source of randomness, \<open>RandomString n\<close> returns a string over the
  character set, which is five characters longer than asked for when \<open>n\<close> is positive, and
  empty otherwise.\<close>

theorem random_string_length:
  assumes "random_source env" and "n + 5 < 2 ^ 63"
  shows "\<exists>s. outcome (RandomString env n) w = Inr s \<and> int (length s) = (if n \<le> 0 then 0 else n + 5)
    \<and> set s \<subseteq> set charset"
proof -
  obtain s where "outcome (RandomString env n) w = Inr s" using RandomString_total [OF assms] by blast
  with spec_return [OF RandomString_spec this] show ?thesis by simp
qed

theorem random_string_length_witness:
  "\<exists>s. outcome (RandomString (down_env :: unit env) 10) () = Inr s \<and> int (length s) = 15 \<and> set s \<subseteq> set charset"
  using random_string_length [of "down_env :: unit env" 10 "()"] by (simp add: random_source_def)

section \<open>Which machines are created\<close>

text \<open>A machine that the deployment may create: the template's server description under the
  deployment's cluster and zone, in its namespace, with a random name and the owner reference.\<close>

definition made_from :: "'w env \<Rightarrow> MachineDeployment \<Rightarrow> KTMachineTemplate \<Rightarrow> nat \<Rightarrow> KTMachine \<Rightarrow> bool" where
  "made_from env d t i m \<longleftrightarrow> (\<exists>s meta. int (length s) = 15 \<and> set s \<subseteq> set charset \<and>
     e_set_controller_ref env (KindMachineDeployment, md_Meta d)
       (zero_ObjectMeta\<lparr>om_Name := machine_name d s, om_Namespace := om_Namespace (md_Meta d)\<rparr>) = Inr meta \<and>
     m = deployment_machine d t i (machine_name d s)\<lparr>m_Meta := meta\<rparr>)"

lemma made_fromI:
  "e_set_controller_ref env (KindMachineDeployment, md_Meta d)
     (zero_ObjectMeta\<lparr>om_Name := machine_name d s, om_Namespace := om_Namespace (md_Meta d)\<rparr>) = Inr meta \<Longrightarrow>
   int (length s) = 15 \<Longrightarrow> set s \<subseteq> set charset \<Longrightarrow>
   made_from env d t i (deployment_machine d t i (machine_name d s)\<lparr>m_Meta := meta\<rparr>)"
  unfolding made_from_def by blast

lemma deployment_machine_meta [simp]:
  "m_Meta (deployment_machine d t i n) =
     zero_ObjectMeta\<lparr>om_Name := n, om_Namespace := om_Namespace (md_Meta d)\<rparr>"
  by (simp add: deployment_machine_def Let_def)

lemma create_machine_spec:
  assumes "P (RandInt 77)" and "\<And>m. made_from env d t i m \<Longrightarrow> P (CreateCall (OMachine m))"
  shows "spec P (create_machine env d t i) (\<lambda>_. True) (\<lambda>_. True)"
proof -
  have name: "spec P (RandomString env 10) (\<lambda>s. int (length s) = 15 \<and> set s \<subseteq> set charset) (\<lambda>_. True)"
    by (rule spec_weaken [OF RandomString_spec]) (use assms(1) in auto)
  have rest: "spec P (bindG (liftG (e_set_controller_ref env (KindMachineDeployment, md_Meta d) (m_Meta m))) (\<lambda>meta.
      bindG (callG (CreateCall (OMachine (m\<lparr>m_Meta := meta\<rparr>))) (e_create_machine env (m\<lparr>m_Meta := meta\<rparr>))) (\<lambda>_. retG ())))
      (\<lambda>_. True) (\<lambda>_. True)"
    if "m = deployment_machine d t i (machine_name d s)" and "int (length s) = 15 \<and> set s \<subseteq> set charset" for m s
    by (rule spec_bind [OF spec_lift])
      (use that in \<open>auto intro!: spec_bind_any [OF spec_call] spec_ret assms(2) made_fromI\<close>)
  show ?thesis unfolding create_machine_def Let_def by (rule spec_bind [OF name rest [OF refl]])
qed

lemma missing_bound: "a \<noteq> r \<Longrightarrow> i < machines_to_create a r \<Longrightarrow> int i < r - a"
  by (auto simp: machines_to_create_def split: if_splits)

lemma ktMachine_spec:
  assumes "a \<noteq> ds_Replicas (md_Spec d)" and "0 \<le> a" and "\<And>c. \<not> is_k8s_write c \<Longrightarrow> P c"
    and made: "\<And>t w2 w3 i m. e_get_template env (om_Name (md_Meta d), om_Namespace (md_Meta d)) w2 = (Inr t, w3) \<Longrightarrow>
      int i < ds_Replicas (md_Spec d) \<Longrightarrow> made_from env d t i m \<Longrightarrow> P (CreateCall (OMachine m))"
  shows "spec P (ktMachineForMachineDeployment env d a) (\<lambda>_. True) (\<lambda>_. True)"
  unfolding ktMachineForMachineDeployment_def Let_def
proof (rule spec_bind [where R = "\<lambda>t. \<exists>w2 w3. e_get_template env (om_Name (md_Meta d), om_Namespace (md_Meta d)) w2 = (Inr t, w3)"])
  fix t
  assume "\<exists>w2 w3. e_get_template env (om_Name (md_Meta d), om_Namespace (md_Meta d)) w2 = (Inr t, w3)"
  then obtain w2 w3 where t: "e_get_template env (om_Name (md_Meta d), om_Namespace (md_Meta d)) w2 = (Inr t, w3)" by blast
  have "spec P (create_machine env d t i) (\<lambda>_. True) (\<lambda>_. True)" if "i < machines_to_create a (ds_Replicas (md_Spec d))" for i
    using missing_bound [OF assms(1) that] \<open>0 \<le> a\<close> by (intro create_machine_spec made [OF t]) (simp_all add: assms(3))
  then show "spec P (forG [0..<machines_to_create a (ds_Replicas (md_Spec d))] (create_machine env d t)) (\<lambda>_. True) (\<lambda>_. True)"
    by (intro spec_for TrueI) simp
qed (rule spec_call; auto intro: assms(3))

lemma count_spec:
  assumes "P (ListMachines (om_Namespace (md_Meta d)))"
  shows "spec P (tryG (countChildMachinesByOwner env d)) (\<lambda>r. case r of Inl _ \<Rightarrow> True | Inr a \<Rightarrow> 0 \<le> a) (\<lambda>_. True)"
  unfolding countChildMachinesByOwner_def Let_def
  by (intro spec_try spec_bind_any [OF spec_call] spec_ret assms) (auto split: stop.split)

lemma deployment_writes:
  assumes "c \<in> set (trace (reconcile_deployment env req) w)" and "is_k8s_write c"
  shows "\<exists>d w1 t w2 w3 i m. e_get_deployment env req w = (Inr d, w1)
    \<and> e_get_template env (om_Name (md_Meta d), om_Namespace (md_Meta d)) w2 = (Inr t, w3)
    \<and> c = CreateCall (OMachine m) \<and> int i < ds_Replicas (md_Spec d) \<and> made_from env d t i m"
proof -
  have "c \<noteq> GetCall KindMachineDeployment req" using assms(2) by auto
  then obtain d w1 where d: "e_get_deployment env req w = (Inr d, w1)"
      and c: "c \<in> set (trace (reconcile_deployment_body env req d) w1)"
    using deployment_reconciler.call_of_body [OF assms(1)] by blast
  let ?P = "\<lambda>c. is_k8s_write c \<longrightarrow> (\<exists>t w2 w3 i m.
    e_get_template env (om_Name (md_Meta d), om_Namespace (md_Meta d)) w2 = (Inr t, w3)
    \<and> c = CreateCall (OMachine m) \<and> int i < ds_Replicas (md_Spec d) \<and> made_from env d t i m)"
  have "spec ?P (reconcile_deployment_body env req d) (\<lambda>_. True) (\<lambda>_. True)"
    unfolding reconcile_deployment_body_def
    by (rule spec_bind [OF count_spec])
      (auto split: sum.split intro!: spec_ret spec_bind_any [OF ktMachine_spec])
  from spec_trace [OF this c] assms(2) d show ?thesis by blast
qed

text \<open>C16: Whatever the services answer, the only writes of a reconcile are creations of machines
  that copy the deployment that was read and the template with its name, are numbered below the
  replicas asked for, and carry the owner reference to the deployment. Nothing is ever deleted.\<close>

theorem created_machines_faithful:
  assumes "c \<in> set (trace (reconcile_deployment env req) w)" and "is_k8s_write c"
  shows "\<exists>d w1 t w2 w3 i m. e_get_deployment env req w = (Inr d, w1)
    \<and> e_get_template env (om_Name (md_Meta d), om_Namespace (md_Meta d)) w2 = (Inr t, w3)
    \<and> c = CreateCall (OMachine m) \<and> int i < ds_Replicas (md_Spec d) \<and> made_from env d t i m"
  using assms by (rule deployment_writes)

section \<open>The machines a deployment owns\<close>

definition replica_count :: "MachineDeployment \<Rightarrow> KTMachine list \<Rightarrow> nat" where
  "replica_count d ms =
     length (filter (owned_by d) (filter (\<lambda>m. m_Namespace m = om_Namespace (md_Meta d)) ms))"

text \<open>What is read of a deployment that nobody edits; its other metadata may change.\<close>

definition same_deployment :: "MachineDeployment \<Rightarrow> MachineDeployment \<Rightarrow> bool" where
  "same_deployment d x \<longleftrightarrow> om_Name (md_Meta x) = om_Name (md_Meta d)
     \<and> om_Namespace (md_Meta x) = om_Namespace (md_Meta d) \<and> md_Spec x = md_Spec d"

lemma same_count: "same_deployment d x \<Longrightarrow> replica_count x = replica_count d"
  by (rule ext) (simp add: same_deployment_def replica_count_def owned_by_def)

text \<open>
  \<open>objs\<close> are the machines stored in the cluster and \<open>cached\<close> the ones in the cache of the manager's
  client, from which a list is answered. For an upper bound it is enough that a list is the cached
  machines of the namespace, that reading and drawing random numbers give the deployment no
  machine, and that a create gives it at most one.
\<close>

definition bounded_store :: "'w env \<Rightarrow> MachineDeployment \<Rightarrow> ('w \<Rightarrow> KTMachine list) \<Rightarrow> ('w \<Rightarrow> KTMachine list) \<Rightarrow> bool" where
  "bounded_store env d objs cached \<longleftrightarrow>
     (\<forall>ns w xs. fst (e_list_machines env ns w) = Inr xs \<longrightarrow> xs = filter (\<lambda>m. m_Namespace m = ns) (cached w)) \<and>
     (\<forall>ns w. replica_count d (objs (snd (e_list_machines env ns w))) \<le> replica_count d (objs w)) \<and>
     (\<forall>k w. replica_count d (objs (snd (e_get_template env k w))) \<le> replica_count d (objs w)) \<and>
     (\<forall>k w. replica_count d (objs (snd (e_get_deployment env k w))) \<le> replica_count d (objs w)) \<and>
     (\<forall>n w. replica_count d (objs (snd (e_rand env n w))) \<le> replica_count d (objs w)) \<and>
     (\<forall>m w. replica_count d (objs (snd (e_create_machine env m w))) \<le> Suc (replica_count d (objs w)))"

lemma boundedD:
  assumes "bounded_store env d objs cached"
  shows "fst (e_list_machines env ns w) = Inr xs \<Longrightarrow> xs = filter (\<lambda>m. m_Namespace m = ns) (cached w)"
    and "replica_count d (objs (snd (e_list_machines env ns w))) \<le> replica_count d (objs w)"
    and "replica_count d (objs (snd (e_get_template env k w))) \<le> replica_count d (objs w)"
    and "replica_count d (objs (snd (e_get_deployment env k w))) \<le> replica_count d (objs w)"
    and "replica_count d (objs (snd (e_rand env n w))) \<le> replica_count d (objs w)"
    and "replica_count d (objs (snd (e_create_machine env m w))) \<le> Suc (replica_count d (objs w))"
  using assms unfolding bounded_store_def by blast+

text \<open>A name that is taken.\<close>

definition taken :: "KTMachine list \<Rightarrow> KTMachine \<Rightarrow> bool" where
  "taken ms m \<longleftrightarrow> (\<exists>m' \<in> set ms. m_Name m' = m_Name m \<and> m_Namespace m' = m_Namespace m)"

text \<open>
  What counting exactly needs. Nobody else creates or deletes machines during a reconcile. A create
  either stores the machine, if its name is not taken, with a UID and a resource version of the
  server's choice and without its status (the answer may be lost), or it fails and stores nothing.
  \<open>SetControllerReference\<close> keeps name and namespace and adds a reference with the kind and the name of
  the owner.
\<close>

definition machine_store :: "'w env \<Rightarrow> ('w \<Rightarrow> KTMachine list) \<Rightarrow> ('w \<Rightarrow> KTMachine list) \<Rightarrow> bool" where
  "machine_store env objs cached \<longleftrightarrow>
     (\<forall>ns w xs. fst (e_list_machines env ns w) = Inr xs \<longrightarrow> xs = filter (\<lambda>m. m_Namespace m = ns) (cached w)) \<and>
     (\<forall>ns w. objs (snd (e_list_machines env ns w)) = objs w) \<and>
     (\<forall>k w. objs (snd (e_get_template env k w)) = objs w) \<and>
     (\<forall>k w. objs (snd (e_get_deployment env k w)) = objs w) \<and>
     (\<forall>n w. objs (snd (e_rand env n w)) = objs w) \<and>
     (\<forall>m w. \<not> taken (objs w) m \<and> (\<exists>uid v. objs (snd (e_create_machine env m w)) = objs w @
            [m\<lparr>m_Meta := (m_Meta m)\<lparr>om_UID := uid, om_ResourceVersion := v\<rparr>, m_Status := zero_KTMachineStatus\<rparr>])
        \<or> (\<exists>e. fst (e_create_machine env m w) = Inl e) \<and> objs (snd (e_create_machine env m w)) = objs w) \<and>
     (\<forall>o1 meta meta'. e_set_controller_ref env (KindMachineDeployment, o1) meta = Inr meta' \<longrightarrow>
        om_Name meta' = om_Name meta \<and> om_Namespace meta' = om_Namespace meta \<and>
        (\<exists>r \<in> set (om_OwnerReferences meta'). or_Kind r = ''MachineDeployment'' \<and> or_Name r = om_Name o1))"

lemma storeD:
  assumes "machine_store env objs cached"
  shows "objs (snd (e_list_machines env ns w)) = objs w"
    and "fst (e_list_machines env ns w) = Inr xs \<Longrightarrow> xs = filter (\<lambda>m. m_Namespace m = ns) (cached w)"
    and "objs (snd (e_get_template env k w)) = objs w"
    and "objs (snd (e_get_deployment env k w)) = objs w"
    and "objs (snd (e_rand env n w)) = objs w"
  using assms unfolding machine_store_def by blast+

lemma store_create:
  assumes "machine_store env objs cached"
  shows "(\<exists>uid v. objs (snd (e_create_machine env m w)) = objs w @
        [m\<lparr>m_Meta := (m_Meta m)\<lparr>om_UID := uid, om_ResourceVersion := v\<rparr>, m_Status := zero_KTMachineStatus\<rparr>])
    \<or> ((\<exists>e. fst (e_create_machine env m w) = Inl e) \<and> objs (snd (e_create_machine env m w)) = objs w)"
  using assms unfolding machine_store_def by blast

lemma store_owner:
  assumes "machine_store env objs cached" and "e_set_controller_ref env (KindMachineDeployment, md_Meta d) meta = Inr meta'"
    and "om_Namespace meta = om_Namespace (md_Meta d)"
  shows "owned_by d (m\<lparr>m_Meta := meta'\<lparr>om_UID := uid, om_ResourceVersion := v\<rparr>, m_Status := st\<rparr>)"
    and "om_Namespace meta' = om_Namespace (md_Meta d)" and "om_Name meta' = om_Name meta"
proof -
  have *: "om_Name meta' = om_Name meta \<and> om_Namespace meta' = om_Namespace meta \<and>
      (\<exists>r \<in> set (om_OwnerReferences meta'). or_Kind r = ''MachineDeployment'' \<and> or_Name r = om_Name (md_Meta d))"
    using assms(1,2) unfolding machine_store_def by blast
  then show "owned_by d (m\<lparr>m_Meta := meta'\<lparr>om_UID := uid, om_ResourceVersion := v\<rparr>, m_Status := st\<rparr>)"
    by (auto simp: owned_by_def list_ex_iff)
  show "om_Namespace meta' = om_Namespace (md_Meta d)" "om_Name meta' = om_Name meta" using * assms(3) by simp_all
qed

lemma store_bounded: "machine_store env objs cached \<Longrightarrow> bounded_store env d objs cached"
proof -
  assume s: "machine_store env objs cached"
  have "replica_count d (objs (snd (e_create_machine env m w))) \<le> Suc (replica_count d (objs w))" for m w
    using store_create [OF s, of m w] by (auto simp: replica_count_def)
  with storeD [OF s] show ?thesis by (simp add: bounded_store_def)
qed

subsection \<open>The upper bound\<close>

text \<open>\<open>adds n q\<close>: no run of \<open>q\<close> gives the deployment more than \<open>n\<close> machines.\<close>

definition adds :: "MachineDeployment \<Rightarrow> ('w \<Rightarrow> KTMachine list) \<Rightarrow> nat \<Rightarrow> ('w, 'a) op \<Rightarrow> bool" where
  "adds d objs n q \<longleftrightarrow> (\<forall>w. replica_count d (objs (world q w)) \<le> replica_count d (objs w) + n)"

lemma adds_simple: "adds d objs 0 (retG x)" "adds d objs 0 (stopG e)" "adds d objs 0 (liftG r)"
  by (simp_all add: adds_def) (cases r; simp)

lemma adds_call: "(\<And>w. replica_count d (objs (snd (f w))) \<le> replica_count d (objs w) + n) \<Longrightarrow> adds d objs n (callG c f)"
  by (simp add: adds_def world_callG)

lemma adds_try: "adds d objs n q \<Longrightarrow> adds d objs n (tryG q)"
  by (simp add: adds_def)

lemma adds_mono: "adds d objs a q \<Longrightarrow> a \<le> b \<Longrightarrow> adds d objs b q"
  by (auto simp: adds_def intro: order_trans)

lemma adds_bind:
  assumes "adds d objs a q" and "\<And>x. adds d objs b (f x)"
  shows "adds d objs (a + b) (bindG q f)"
  unfolding adds_def
proof
  fix w
  have q: "replica_count d (objs (world q w)) \<le> replica_count d (objs w) + a" using assms(1) unfolding adds_def by blast
  have f: "replica_count d (objs (world (f x) (world q w))) \<le> replica_count d (objs (world q w)) + b" for x
    using assms(2) unfolding adds_def by blast
  show "replica_count d (objs (world (bindG q f) w)) \<le> replica_count d (objs w) + (a + b)"
  proof (cases "outcome q w")
    case (Inr x)
    with q f [of x] show ?thesis by (simp add: world_bindG)
  qed (use q in \<open>simp add: world_bindG\<close>)
qed

lemma adds_first: "adds d objs 0 q \<Longrightarrow> (\<And>x. adds d objs b (f x)) \<Longrightarrow> adds d objs b (bindG q f)"
  using adds_bind [of d objs 0 q b f] by simp

lemma adds_last: "adds d objs a q \<Longrightarrow> (\<And>x. adds d objs 0 (f x)) \<Longrightarrow> adds d objs a (bindG q f)"
  using adds_bind [of d objs a q 0 f] by simp

lemma adds_for: "(\<And>x. adds d objs 1 (f x)) \<Longrightarrow> adds d objs (length xs) (forG xs f)"
proof (induction xs)
  case (Cons x xs)
  from adds_bind [OF Cons.prems [of x] Cons.IH [OF Cons.prems], simplified] show ?case by simp
qed (simp add: adds_simple)

lemma adds_random:
  assumes "bounded_store env d objs cached"
  shows "adds d objs 0 (RandomString env n)"
proof -
  have "adds d objs 0 (random_bytes env k)" for k
  proof (induction k)
    case (Suc k)
    show ?case unfolding random_bytes.simps
      by (intro adds_first [OF adds_try [OF adds_call]])
        (auto simp: boundedD(5) [OF assms] adds_simple split: sum.split intro!: adds_first [OF Suc])
  qed (simp add: adds_simple)
  then show ?thesis by (simp add: RandomString_def adds_simple)
qed

lemma adds_create:
  assumes "bounded_store env d objs cached"
  shows "adds d objs 1 (create_machine env x t i)"
  unfolding create_machine_def Let_def
  by (intro adds_first [OF adds_random [OF assms]] adds_first [OF adds_simple(3)] adds_last [OF adds_call] adds_simple)
    (simp add: boundedD(6) [OF assms])

lemma missing_max: "a \<noteq> r \<Longrightarrow> 0 \<le> a \<Longrightarrow> int (machines_to_create a r) = max 0 (r - a)"
  by (auto simp: machines_to_create_def)

lemma adds_machines:
  assumes "bounded_store env d objs cached"
  shows "adds d objs (machines_to_create a (ds_Replicas (md_Spec x))) (ktMachineForMachineDeployment env x a)"
proof -
  have "adds d objs (machines_to_create a (ds_Replicas (md_Spec x)))
      (forG [0..<machines_to_create a (ds_Replicas (md_Spec x))] (create_machine env x t))" for t
    using adds_for [OF adds_create [OF assms], where xs = "[0..<machines_to_create a (ds_Replicas (md_Spec x))]"] by simp
  then show ?thesis unfolding ktMachineForMachineDeployment_def Let_def
    by (intro adds_first [OF adds_call]) (simp_all add: boundedD(3) [OF assms])
qed

lemma count_run:
  assumes "bounded_store env d objs cached" and "same_deployment d x"
  defines "q \<equiv> tryG (countChildMachinesByOwner env x)"
  shows "replica_count d (objs (world q w)) \<le> replica_count d (objs w)"
    and "world q w = snd (e_list_machines env (om_Namespace (md_Meta x)) w)"
    and "outcome q w = Inr (Inr a) \<Longrightarrow> a = int (replica_count d (cached w))"
    and "trace q w = [ListMachines (om_Namespace (md_Meta x))]"
    and "\<exists>r. outcome q w = Inr r"
proof -
  have "length (filter (owned_by x) (filter (\<lambda>m. m_Namespace m = om_Namespace (md_Meta x)) ms)) = replica_count d ms" for ms
    using same_count [OF assms(2)] by (metis replica_count_def)
  then show "replica_count d (objs (world q w)) \<le> replica_count d (objs w)"
    and "world q w = snd (e_list_machines env (om_Namespace (md_Meta x)) w)"
    and "outcome q w = Inr (Inr a) \<Longrightarrow> a = int (replica_count d (cached w))"
    and "trace q w = [ListMachines (om_Namespace (md_Meta x))]"
    and "\<exists>r. outcome q w = Inr r"
    using boundedD(1,2) [OF assms(1), of "om_Namespace (md_Meta x)" w]
    by (auto simp: q_def countChildMachinesByOwner_def Let_def world_bindG outcome_bindG outcome_tryG outcome_callG
        world_callG trace_bindG split: sum.splits)
qed

lemma body_bound:
  assumes "bounded_store env d objs cached" and "same_deployment d x"
  shows "int (replica_count d (objs (world (reconcile_deployment_body env req x) w)))
    \<le> int (replica_count d (objs w)) + max 0 (ds_Replicas (md_Spec d) - int (replica_count d (cached w)))"
proof -
  let ?c = "tryG (countChildMachinesByOwner env x)" and ?r = "ds_Replicas (md_Spec d)"
  note c = count_run [OF assms, of w]
  obtain r where r: "outcome ?c w = Inr r" using c(5) by blast
  have spec: "md_Spec x = md_Spec d" using assms(2) by (simp add: same_deployment_def)
  show ?thesis
  proof (cases r)
    case (Inl e)
    with r c(1) show ?thesis by (simp add: reconcile_deployment_body_def world_bindG)
  next
    case (Inr a)
    with r c(3) have a: "a = int (replica_count d (cached w))" by simp
    show ?thesis
    proof (cases "a = ?r")
      case True
      with Inr r c(1) spec show ?thesis by (simp add: reconcile_deployment_body_def world_bindG)
    next
      case False
      have "replica_count d (objs (world (ktMachineForMachineDeployment env x a) (world ?c w)))
          \<le> replica_count d (objs (world ?c w)) + machines_to_create a ?r"
        using adds_machines [OF assms(1), of a x] spec unfolding adds_def by simp
      moreover have "int (machines_to_create a ?r) = max 0 (?r - a)" using False a by (intro missing_max) simp_all
      moreover have "world (reconcile_deployment_body env req x) w = world (ktMachineForMachineDeployment env x a) (world ?c w)"
        using Inr r False spec by (simp add: reconcile_deployment_body_def world_bindG split: sum.split)
      ultimately show ?thesis using c(1) unfolding a by (simp only:)
    qed
  qed
qed

lemma reconcile_deployment_run:
  assumes "e_get_deployment env req w = (Inr d, w1)"
  shows "world (reconcile_deployment env req) w = world (reconcile_deployment_body env req d) w1"
    and "outcome (reconcile_deployment env req) w = outcome (reconcile_deployment_body env req d) w1"
    and "trace (reconcile_deployment env req) w =
      GetCall KindMachineDeployment req # trace (reconcile_deployment_body env req d) w1"
  using deployment_reconciler.present [OF assms] by (simp_all add: run_defs split: prod.splits)

text \<open>The state in which a reconcile that starts in \<open>w\<close> lists the machines.\<close>

abbreviation when_listed :: "'w env \<Rightarrow> key \<Rightarrow> 'w \<Rightarrow> 'w" where
  "when_listed env req w \<equiv> snd (e_get_deployment env req w)"

lemma reconcile_bound:
  assumes "bounded_store env d objs cached" and same: "\<And>w x w1. e_get_deployment env req w = (Inr x, w1) \<Longrightarrow> same_deployment d x"
    and lag: "replica_count d (objs (when_listed env req w)) \<le> replica_count d (cached (when_listed env req w)) + lag"
  shows "int (replica_count d (objs (world (reconcile_deployment env req) w)))
    \<le> max (int (replica_count d (objs w))) (ds_Replicas (md_Spec d) + int lag)"
proof -
  obtain r w1 where g: "e_get_deployment env req w = (r, w1)" by (cases "e_get_deployment env req w")
  then have w1: "replica_count d (objs w1) \<le> replica_count d (objs w)" using boundedD(4) [OF assms(1), of req w] by simp
  show ?thesis
  proof (cases r)
    case (Inl e)
    with g w1 show ?thesis by (cases "is_not_found e")
        (simp_all add: world_def deployment_reconciler.gone deployment_reconciler.unreadable)
  next
    case (Inr x)
    with g have g': "e_get_deployment env req w = (Inr x, w1)" by simp
    from body_bound [OF assms(1) same [OF g'], of req w1] w1 lag g' show ?thesis
      by (simp add: reconcile_deployment_run [OF g'])
  qed
qed

text \<open>What may happen to a deployment that nobody edits: its reconciles, each with whatever failures,
  when the list misses at most \<open>lag\<close> of its machines; and anything else that does not add machines to
  it.\<close>

inductive deployment_run :: "'w env \<Rightarrow> key \<Rightarrow> MachineDeployment \<Rightarrow> ('w \<Rightarrow> KTMachine list) \<Rightarrow> ('w \<Rightarrow> KTMachine list) \<Rightarrow>
    nat \<Rightarrow> 'w \<Rightarrow> 'w \<Rightarrow> bool"
  for env req d objs cached lag w0 where
  start: "deployment_run env req d objs cached lag w0 w0"
| reconciled: "deployment_run env req d objs cached lag w0 w \<Longrightarrow>
    replica_count d (objs (when_listed env req w)) \<le> replica_count d (cached (when_listed env req w)) + lag \<Longrightarrow>
    deployment_run env req d objs cached lag w0 (world (reconcile_deployment env req) w)"
| elsewhere: "deployment_run env req d objs cached lag w0 w \<Longrightarrow> replica_count d (objs w') \<le> replica_count d (objs w) \<Longrightarrow>
    deployment_run env req d objs cached lag w0 w'"

lemma run_bounded:
  assumes "bounded_store env d objs cached" and "\<And>w x w1. e_get_deployment env req w = (Inr x, w1) \<Longrightarrow> same_deployment d x"
    and "deployment_run env req d objs cached lag w0 w"
  shows "int (replica_count d (objs w)) \<le> max (int (replica_count d (objs w0))) (ds_Replicas (md_Spec d) + int lag)"
  using assms(3)
proof (induction rule: deployment_run.induct)
  case start
  show ?case by simp
next
  case (reconciled w)
  have "int (replica_count d (objs (world (reconcile_deployment env req) w)))
      \<le> max (int (replica_count d (objs w))) (ds_Replicas (md_Spec d) + int lag)"
    by (rule reconcile_bound [OF assms(1) _ reconciled.hyps(2)]) (rule assms(2))
  with reconciled.IH show ?case by linarith
next
  case (elsewhere w w')
  then show ?case by linarith
qed

text \<open>C8: However often a deployment is reconciled, and whichever of the calls fail on the way, it owns
  at most as many machines as the larger of what it owned at the start and its replicas plus the
  number by which the listed cache lags behind: the overshoot is never more than that lag, and does
  not add up over the reconciles.\<close>

theorem replicas_never_overshoot:
  assumes "bounded_store env d objs cached" and "\<And>w x w1. e_get_deployment env req w = (Inr x, w1) \<Longrightarrow> same_deployment d x"
    and "deployment_run env req d objs cached lag w0 w"
  shows "int (replica_count d (objs w)) \<le> max (int (replica_count d (objs w0))) (ds_Replicas (md_Spec d) + int lag)"
  using assms by (rule run_bounded)

subsection \<open>The exact count\<close>

lemma random_bytes_keeps: "machine_store env objs cached \<Longrightarrow> keeps objs (random_bytes env n)"
  by (induction n) (auto intro!: keeps_ret keeps_bind keeps_try keeps_call keeps_stop simp: storeD split: sum.split)

lemma RandomString_keeps: "machine_store env objs cached \<Longrightarrow> keeps objs (RandomString env n)"
  by (simp add: RandomString_def keeps_ret keeps_stop random_bytes_keeps)

text \<open>Each turn of the loop adds at most one owned machine, and exactly one when it succeeds.\<close>

lemma create_machine_count:
  assumes "machine_store env objs cached"
  shows "(replica_count d (objs (world (create_machine env d t i) w)) = replica_count d (objs w)
       \<and> outcome (create_machine env d t i) w \<noteq> Inr ())
    \<or> replica_count d (objs (world (create_machine env d t i) w)) = Suc (replica_count d (objs w))"
proof (cases "outcome (RandomString env 10) w")
  case (Inl e)
  with keepsD [OF RandomString_keeps [OF assms]] show ?thesis
    by (simp add: create_machine_def world_bindG outcome_bindG)
next
  case (Inr s)
  let ?w = "world (RandomString env 10) w" and ?m = "deployment_machine d t i (machine_name d s)"
  have w: "objs ?w = objs w" by (rule keepsD [OF RandomString_keeps [OF assms]])
  show ?thesis
  proof (cases "e_set_controller_ref env (KindMachineDeployment, md_Meta d) (m_Meta ?m)")
    case (Inl e)
    with Inr w show ?thesis by (simp add: create_machine_def world_bindG outcome_bindG Let_def)
  next
    case (Inr meta)
    note own = store_owner [OF assms Inr, simplified]
    from store_create [OF assms, of "?m\<lparr>m_Meta := meta\<rparr>" ?w] Inr \<open>outcome _ w = Inr s\<close> w show ?thesis
      by (auto simp: create_machine_def world_bindG outcome_bindG Let_def world_callG outcome_callG
          replica_count_def own split: sum.splits)
  qed
qed

lemma create_loop_count:
  assumes "machine_store env objs cached"
  shows "replica_count d (objs w) \<le> replica_count d (objs (world (forG is (create_machine env d t)) w))
    \<and> (outcome (forG is (create_machine env d t)) w = Inr () \<longrightarrow>
        replica_count d (objs (world (forG is (create_machine env d t)) w)) = replica_count d (objs w) + length is)"
proof (induction "is" arbitrary: w)
  case Nil
  show ?case by simp
next
  case (Cons i "is")
  show ?case
    using create_machine_count [OF assms, of d t i w] Cons [of "world (create_machine env d t i) w"]
    by (auto simp: world_bindG outcome_bindG split: sum.splits)
qed

lemma ktMachine_count:
  fixes d :: MachineDeployment and a :: int and env :: "'w env"
  assumes "machine_store env objs cached"
  defines "q \<equiv> ktMachineForMachineDeployment env d a"
  shows "replica_count d (objs w) \<le> replica_count d (objs (world q w))
    \<and> (outcome q w = Inr () \<longrightarrow> replica_count d (objs (world q w))
        = replica_count d (objs w) + machines_to_create a (ds_Replicas (md_Spec d)))"
proof -
  let ?k = "(om_Name (md_Meta d), om_Namespace (md_Meta d))"
  have same: "objs (snd (e_get_template env ?k w)) = objs w" by (rule storeD [OF assms(1)])
  show ?thesis
  proof (cases "fst (e_get_template env ?k w)")
    case (Inl e)
    with same show ?thesis
      by (simp add: q_def ktMachineForMachineDeployment_def Let_def world_bindG outcome_bindG outcome_callG world_callG)
  next
    case (Inr t)
    with create_loop_count [OF assms(1), of d "snd (e_get_template env ?k w)" "[0..<machines_to_create a (ds_Replicas (md_Spec d))]" t]
      same show ?thesis
      by (simp add: q_def ktMachineForMachineDeployment_def Let_def world_bindG outcome_bindG outcome_callG world_callG)
  qed
qed

lemma body_count:
  assumes "machine_store env objs cached" and "same_deployment d x"
  shows "replica_count d (objs w) \<le> replica_count d (objs (world (reconcile_deployment_body env req x) w))
    \<and> (outcome (reconcile_deployment_body env req x) w = Inr no_requeue \<longrightarrow>
        int (replica_count d (objs (world (reconcile_deployment_body env req x) w)))
          = int (replica_count d (objs w)) + max 0 (ds_Replicas (md_Spec d) - int (replica_count d (cached w))))"
proof -
  let ?c = "tryG (countChildMachinesByOwner env x)" and ?r = "ds_Replicas (md_Spec d)"
  note c = count_run [OF store_bounded [OF assms(1)] assms(2), of w]
  have w1: "objs (world ?c w) = objs w" unfolding c(2) by (rule storeD(1) [OF assms(1)])
  obtain r where r: "outcome ?c w = Inr r" using c(5) by blast
  have spec: "md_Spec x = md_Spec d" using assms(2) by (simp add: same_deployment_def)
  show ?thesis
  proof (cases r)
    case (Inl e)
    with r w1 show ?thesis
      by (simp add: reconcile_deployment_body_def world_bindG outcome_bindG requeue_minute_def no_requeue_def)
  next
    case (Inr a)
    with r c(3) have a: "a = int (replica_count d (cached w))" by simp
    show ?thesis
    proof (cases "a = ?r")
      case True
      with Inr r w1 a spec show ?thesis by (simp add: reconcile_deployment_body_def world_bindG outcome_bindG)
    next
      case False
      have "int (machines_to_create a ?r) = max 0 (?r - a)" using False a by (intro missing_max) simp_all
      with Inr r False spec w1 a ktMachine_count [OF assms(1), of x "world ?c w" a] show ?thesis
        by (auto simp: reconcile_deployment_body_def world_bindG outcome_bindG same_count [OF assms(2)] split: sum.splits)
    qed
  qed
qed

lemma reconcile_count:
  assumes "machine_store env objs cached" and "e_get_deployment env req w = (Inr x, w1)" and "same_deployment d x"
  shows "replica_count d (objs w) \<le> replica_count d (objs (world (reconcile_deployment env req) w))"
    and "outcome (reconcile_deployment env req) w = Inr no_requeue \<Longrightarrow>
      int (replica_count d (objs (world (reconcile_deployment env req) w)))
        = int (replica_count d (objs w)) + max 0 (ds_Replicas (md_Spec d) - int (replica_count d (cached w1)))"
  using body_count [OF assms(1,3), of w1 req] storeD(4) [OF assms(1), of req w] assms(2)
  by (simp_all add: reconcile_deployment_run [OF assms(2)])

text \<open>C39: A reconcile that succeeds creates as many machines as the replicas exceed the owned machines
  in the list, which is answered from the cache, and not in the cluster. So a deployment that has all
  its replicas gets one more machine for every machine that the cache does not know yet.\<close>

theorem stale_list_overshoots:
  assumes "machine_store env objs cached" and "e_get_deployment env req w = (Inr x, w1)" and "same_deployment d x"
    and "outcome (reconcile_deployment env req) w = Inr no_requeue"
    and "int (replica_count d (objs w)) = ds_Replicas (md_Spec d)"
    and "replica_count d (cached w1) + unseen = replica_count d (objs w)"
  shows "int (replica_count d (objs (world (reconcile_deployment env req) w))) = ds_Replicas (md_Spec d) + int unseen"
  using reconcile_count(2) [OF assms(1-4)] assms(5,6) by simp

section \<open>Reaching the replicas\<close>

text \<open>The services answer for this deployment: the source of randomness works, its machines are
  listed, the template with its name is there, a first owner in the same namespace can be set, and a
  machine in its namespace with an admissible name that is not taken can be created. A name is admissible unless the
  random part ends in a hyphen.\<close>

definition services_up :: "'w env \<Rightarrow> MachineDeployment \<Rightarrow> ('w \<Rightarrow> KTMachine list) \<Rightarrow> bool" where
  "services_up env d objs \<longleftrightarrow> random_source env \<and>
     (\<forall>w. \<exists>xs. fst (e_list_machines env (om_Namespace (md_Meta d)) w) = Inr xs) \<and>
     (\<forall>w. \<exists>t. fst (e_get_template env (om_Name (md_Meta d), om_Namespace (md_Meta d)) w) = Inr t) \<and>
     (\<forall>o1 meta. om_Namespace o1 = om_Namespace meta \<longrightarrow> om_OwnerReferences meta = [] \<longrightarrow>
        (\<exists>meta'. e_set_controller_ref env (KindMachineDeployment, o1) meta = Inr meta')) \<and>
     (\<forall>m w s. m_Name m = machine_name d s \<longrightarrow> m_Namespace m = om_Namespace (md_Meta d) \<longrightarrow> int (length s) = 15 \<longrightarrow> set s \<subseteq> set charset \<longrightarrow>
        last s \<noteq> CHR ''-'' \<longrightarrow> \<not> taken (objs w) m \<longrightarrow> (\<exists>m'. fst (e_create_machine env m w) = Inr m'))"

text \<open>A random name that cannot be used.\<close>

definition unusable :: "MachineDeployment \<Rightarrow> KTMachine list \<Rightarrow> KTMachine \<Rightarrow> bool" where
  "unusable d ms m \<longleftrightarrow> (\<exists>s. m_Name m = machine_name d s \<and> int (length s) = 15 \<and> set s \<subseteq> set charset
     \<and> (last s = CHR ''-'' \<or> taken ms m))"

definition refused_name :: "MachineDeployment \<Rightarrow> ('w \<Rightarrow> KTMachine list) \<Rightarrow> ('w, 'a) op \<Rightarrow> 'w \<Rightarrow> bool" where
  "refused_name d objs q w \<longleftrightarrow> (\<exists>e cs m. outcome q w = Inl (Fail e) \<and> trace q w = cs @ [CreateCall (OMachine m)]
     \<and> unusable d (objs (world q w)) m)"

lemma refused_after:
  assumes "outcome q w = Inr y" and "refused_name d objs (f y) (world q w)"
  shows "refused_name d objs (bindG q f) w"
proof -
  obtain e cs m where "outcome (f y) (world q w) = Inl (Fail e)" "trace (f y) (world q w) = cs @ [CreateCall (OMachine m)]"
      "unusable d (objs (world (f y) (world q w))) m"
    using assms(2) unfolding refused_name_def by blast
  with assms(1) show ?thesis
    unfolding refused_name_def
    by (intro exI [of _ e] exI [of _ "trace q w @ cs"] exI [of _ m]) (simp add: outcome_bindG world_bindG trace_bindG)
qed

lemma refused_first: "refused_name d objs q w \<Longrightarrow> refused_name d objs (bindG q f) w"
  unfolding refused_name_def by (auto simp: outcome_bindG world_bindG trace_bindG)

lemma create_machine_up:
  assumes "services_up env d objs" and "machine_store env objs cached" and "same_deployment d x"
  shows "outcome (create_machine env x t i) w = Inr () \<or> refused_name d objs (create_machine env x t i) w"
proof -
  obtain s where s: "outcome (RandomString env 10) w = Inr s"
    using RandomString_total [of env 10 w] assms(1) by (auto simp: services_up_def)
  have len: "int (length s) = 15 \<and> set s \<subseteq> set charset" using spec_return [OF RandomString_spec s] by simp
  let ?m = "deployment_machine x t i (machine_name x s)" and ?w = "world (RandomString env 10) w"
  have "om_Namespace (md_Meta x) = om_Namespace (m_Meta ?m)" "om_OwnerReferences (m_Meta ?m) = []"
    by (simp_all add: zero_ObjectMeta_def)
  then obtain meta where r: "e_set_controller_ref env (KindMachineDeployment, md_Meta x) (m_Meta ?m) = Inr meta"
    using assms(1) unfolding services_up_def by blast
  let ?c = "?m\<lparr>m_Meta := meta\<rparr>"
  have name: "m_Name ?c = machine_name d s"
    using store_owner(3) [OF assms(2) r] assms(3) by (simp add: machine_name_def same_deployment_def)
  have ns: "m_Namespace ?c = om_Namespace (md_Meta d)"
    using store_owner(2) [OF assms(2) r] assms(3) by (simp add: same_deployment_def zero_ObjectMeta_def)
  let ?q = "callG (CreateCall (OMachine ?c)) (e_create_machine env ?c)"
  have eq: "create_machine env x t i = bindG (RandomString env 10) (\<lambda>s.
      bindG (liftG (e_set_controller_ref env (KindMachineDeployment, md_Meta x) (m_Meta (deployment_machine x t i (machine_name x s))))) (\<lambda>meta.
      bindG (callG (CreateCall (OMachine (deployment_machine x t i (machine_name x s)\<lparr>m_Meta := meta\<rparr>)))
        (e_create_machine env (deployment_machine x t i (machine_name x s)\<lparr>m_Meta := meta\<rparr>))) (\<lambda>_. retG ())))"
    by (simp add: create_machine_def Let_def)
  show ?thesis
  proof (cases "fst (e_create_machine env ?c ?w)")
    case (Inr m')
    with s r show ?thesis by (simp add: eq outcome_bindG outcome_callG)
  next
    case (Inl e)
    have "last s = CHR ''-'' \<or> taken (objs ?w) ?c"
      using assms(1) name ns len Inl unfolding services_up_def by (metis sum.distinct(1))
    moreover have "set (objs ?w) \<subseteq> set (objs (snd (e_create_machine env ?c ?w)))"
      using store_create [OF assms(2), of ?c ?w] by auto
    ultimately have "unusable d (objs (snd (e_create_machine env ?c ?w))) ?c"
      using name len unfolding unusable_def taken_def by blast
    with Inl have "refused_name d objs ?q ?w"
      unfolding refused_name_def by (intro exI [of _ e] exI [of _ "[]"] exI [of _ ?c]) (simp add: outcome_callG world_callG)
    then have "refused_name d objs (create_machine env x t i) w"
      unfolding eq using r by (intro refused_after [OF s]) (simp add: refused_first)
    then show ?thesis ..
  qed
qed

lemma create_loop_up:
  assumes "services_up env d objs" and "machine_store env objs cached" and "same_deployment d x"
  shows "outcome (forG is (create_machine env x t)) w = Inr () \<or> refused_name d objs (forG is (create_machine env x t)) w"
proof (induction "is" arbitrary: w)
  case (Cons i "is")
  from create_machine_up [OF assms, of t i w] show ?case
  proof
    assume o: "outcome (create_machine env x t i) w = Inr ()"
    from Cons [of "world (create_machine env x t i) w"] show ?case
      using o by (auto simp: outcome_bindG intro: refused_after [OF o])
  qed (simp add: refused_first)
qed simp

lemma body_up:
  assumes "services_up env d objs" and "machine_store env objs cached" and "same_deployment d x"
  shows "outcome (reconcile_deployment_body env req x) w = Inr no_requeue
    \<or> refused_name d objs (reconcile_deployment_body env req x) w"
proof -
  have same: "om_Name (md_Meta x) = om_Name (md_Meta d)" "om_Namespace (md_Meta x) = om_Namespace (md_Meta d)"
    using assms(3) by (simp_all add: same_deployment_def)
  obtain xs where "fst (e_list_machines env (om_Namespace (md_Meta d)) w) = Inr xs"
    using assms(1) unfolding services_up_def by blast
  then obtain a where c: "outcome (tryG (countChildMachinesByOwner env x)) w = Inr (Inr a)"
    by (simp add: countChildMachinesByOwner_def Let_def same outcome_bindG outcome_tryG outcome_callG)
  let ?w = "world (tryG (countChildMachinesByOwner env x)) w"
  obtain t where t: "fst (e_get_template env (om_Name (md_Meta d), om_Namespace (md_Meta d)) ?w) = Inr t"
    using assms(1) unfolding services_up_def by blast
  let ?get = "callG (GetCall KindKTMachineTemplate (om_Name (md_Meta x), om_Namespace (md_Meta x)))
      (e_get_template env (om_Name (md_Meta x), om_Namespace (md_Meta x)))"
  have g: "outcome ?get ?w = Inr t" using t by (simp add: same outcome_callG)
  let ?loop = "\<lambda>t. forG [0..<machines_to_create a (ds_Replicas (md_Spec x))] (create_machine env x t)"
  have eq: "ktMachineForMachineDeployment env x a = bindG ?get ?loop"
    by (simp add: ktMachineForMachineDeployment_def Let_def)
  from create_loop_up [OF assms, of "[0..<machines_to_create a (ds_Replicas (md_Spec x))]" t "world ?get ?w"]
  have "outcome (bindG ?get ?loop) ?w = Inr () \<or> refused_name d objs (bindG ?get ?loop) ?w"
  proof
    assume "outcome (?loop t) (world ?get ?w) = Inr ()"
    with outcome_bindG [of ?get ?loop ?w] g show ?thesis by (simp only: sum.case simp_thms)
  qed (intro disjI2 refused_after [OF g])
  then have k: "outcome (bindG (ktMachineForMachineDeployment env x a) (\<lambda>_. retG no_requeue)) ?w = Inr no_requeue
      \<or> refused_name d objs (bindG (ktMachineForMachineDeployment env x a) (\<lambda>_. retG no_requeue)) ?w"
    unfolding eq by (elim disjE) (simp add: outcome_bindG [of "bindG ?get ?loop"], rule disjI2, rule refused_first)
  show ?thesis
  proof (cases "a = ds_Replicas (md_Spec x)")
    case True
    with c show ?thesis by (simp add: reconcile_deployment_body_def outcome_bindG)
  next
    case False
    with k c show ?thesis
      unfolding reconcile_deployment_body_def by (auto simp: outcome_bindG intro: refused_after [OF c])
  qed
qed

lemma reconcile_up:
  assumes "services_up env d objs" and "machine_store env objs cached" and "same_deployment d x"
    and "e_get_deployment env req w = (Inr x, w1)"
  shows "outcome (reconcile_deployment env req) w = Inr no_requeue \<or> refused_name d objs (reconcile_deployment env req) w"
  using body_up [OF assms(1-3), of req w1] unfolding refused_name_def reconcile_deployment_run [OF assms(4)]
  by (metis append_Cons)

lemma enough_no_write:
  assumes "machine_store env objs cached" and "same_deployment d x"
    and "ds_Replicas (md_Spec d) \<le> int (replica_count d (cached w))"
  shows "filter is_k8s_write (trace (reconcile_deployment_body env req x) w) = []"
proof -
  note c = count_run [OF store_bounded [OF assms(1)] assms(2), of w]
  have spec: "md_Spec x = md_Spec d" using assms(2) by (simp add: same_deployment_def)
  obtain r where r: "outcome (tryG (countChildMachinesByOwner env x)) w = Inr r" using c(5) by blast
  show ?thesis
  proof (cases r)
    case (Inl e)
    with r c(4) show ?thesis by (simp add: reconcile_deployment_body_def trace_bindG)
  next
    case (Inr a)
    with r c(3) assms(3) have "ds_Replicas (md_Spec d) \<le> a" by simp
    then have "a \<noteq> ds_Replicas (md_Spec d) \<Longrightarrow> machines_to_create a (ds_Replicas (md_Spec d)) = 0"
      by (simp add: machines_to_create_def)
    with r Inr c(4) spec show ?thesis
      by (simp add: reconcile_deployment_body_def ktMachineForMachineDeployment_def Let_def trace_bindG
          outcome_bindG outcome_callG split: sum.split)
  qed
qed

text \<open>C7: When the services answer and the list is up to date, one reconcile brings the machines a
  deployment owns to its replicas (or leaves them, if there are more): it refines the abstract step
  that replaces the count by the maximum of the two, and a later reconcile that lists those machines
  changes nothing. The only other end is a random name that is taken or ends in a hyphen: then the
  reconcile stops with the error of that creation, with at most as many machines, and is retried.\<close>

theorem replicas_reached:
  fixes env :: "'w env" and w :: 'w and req :: key
  assumes store: "machine_store env objs cached" and up: "services_up env d objs"
    and d: "\<And>w. \<exists>x w1. e_get_deployment env req w = (Inr x, w1) \<and> same_deployment d x"
    and "replica_count d (cached (when_listed env req w)) = replica_count d (objs w)"
  defines "w' \<equiv> world (reconcile_deployment env req) w"
  shows "(outcome (reconcile_deployment env req) w = Inr no_requeue
      \<and> int (replica_count d (objs w')) = max (int (replica_count d (objs w))) (ds_Replicas (md_Spec d))
      \<and> (\<forall>v. replica_count d (cached (when_listed env req v)) = replica_count d (objs w') \<longrightarrow>
            filter is_k8s_write (trace (reconcile_deployment env req) v) = []))
    \<or> (\<exists>e cs m. outcome (reconcile_deployment env req) w = Inl (Fail e)
      \<and> trace (reconcile_deployment env req) w = cs @ [CreateCall (OMachine m)] \<and> unusable d (objs w') m
      \<and> replica_count d (objs w) \<le> replica_count d (objs w')
      \<and> int (replica_count d (objs w')) \<le> max (int (replica_count d (objs w))) (ds_Replicas (md_Spec d)))"
proof -
  obtain x w1 where g: "e_get_deployment env req w = (Inr x, w1)" and x: "same_deployment d x" using d by blast
  note count = reconcile_count [OF store g x, folded w'_def]
  have w1: "objs w1 = objs w" using storeD(4) [OF store, of req w] g by simp
  have seen: "replica_count d (cached w1) = replica_count d (objs w)" using assms(4) g by simp
  have le: "int (replica_count d (objs w')) \<le> max (int (replica_count d (objs w))) (ds_Replicas (md_Spec d))"
    using body_bound [OF store_bounded [OF store] x, of req w1] seen w1
    by (simp add: w'_def reconcile_deployment_run [OF g])
  from reconcile_up [OF up store x g] show ?thesis
  proof
    assume o: "outcome (reconcile_deployment env req) w = Inr no_requeue"
    have n: "int (replica_count d (objs w')) = max (int (replica_count d (objs w))) (ds_Replicas (md_Spec d))"
      using count(2) [OF o] seen by simp
    have "filter is_k8s_write (trace (reconcile_deployment env req) v) = []"
      if v: "replica_count d (cached (when_listed env req v)) = replica_count d (objs w')" for v
    proof -
      obtain y v1 where h: "e_get_deployment env req v = (Inr y, v1)" and y: "same_deployment d y" using d by blast
      have "ds_Replicas (md_Spec d) \<le> int (replica_count d (cached v1))" using v h n by simp
      from enough_no_write [OF store y this] show ?thesis by (simp add: reconcile_deployment_run [OF h])
    qed
    with o n show ?thesis by blast
  next
    assume "refused_name d objs (reconcile_deployment env req) w"
    then show ?thesis using count(1) le unfolding refused_name_def w'_def by blast
  qed
qed

text \<open>C9: However many reconciles failed half way or listed too few machines, one reconcile with
  answering services and an up-to-date list brings a deployment that started with no more machines
  than its replicas to at least its replicas, and beyond them by no more than the list ever lagged;
  unless a random name cannot be used.\<close>

theorem deployment_recovers:
  fixes env env' :: "'w env" and w :: 'w
  assumes "bounded_store env d objs cached" and "machine_store env' objs cached" and "services_up env' d objs"
    and "\<And>w x w1. e_get_deployment env req w = (Inr x, w1) \<Longrightarrow> same_deployment d x"
    and "e_get_deployment env' req w = (Inr x, w1)" and "same_deployment d x"
    and "replica_count d (cached w1) = replica_count d (objs w)"
    and "deployment_run env req d objs cached lag w0 w" and "int (replica_count d (objs w0)) \<le> ds_Replicas (md_Spec d)"
  shows "(ds_Replicas (md_Spec d) \<le> int (replica_count d (objs (world (reconcile_deployment env' req) w)))
      \<and> int (replica_count d (objs (world (reconcile_deployment env' req) w))) \<le> ds_Replicas (md_Spec d) + int lag)
    \<or> (\<exists>e cs m. outcome (reconcile_deployment env' req) w = Inl (Fail e)
      \<and> trace (reconcile_deployment env' req) w = cs @ [CreateCall (OMachine m)]
      \<and> unusable d (objs (world (reconcile_deployment env' req) w)) m)"
proof -
  have le: "int (replica_count d (objs w)) \<le> ds_Replicas (md_Spec d) + int lag"
    using run_bounded [OF assms(1,4,8)] assms(9) by simp
  from reconcile_up [OF assms(3,2,6,5)] show ?thesis
  proof
    assume "outcome (reconcile_deployment env' req) w = Inr no_requeue"
    from reconcile_count(2) [OF assms(2,5,6) this] assms(7) le
    have "ds_Replicas (md_Spec d) \<le> int (replica_count d (objs (world (reconcile_deployment env' req) w)))"
      "int (replica_count d (objs (world (reconcile_deployment env' req) w))) \<le> ds_Replicas (md_Spec d) + int lag"
      by linarith+
    then show ?thesis by blast
  qed (simp add: refused_name_def)
qed

text \<open>Without its template a deployment is stuck: when the owned machines differ from the
  replicas in either direction, the error of the template read is returned, so that the request
  is retried, and no machine is created.\<close>

theorem deployment_without_template:
  assumes "e_get_deployment env req w = (Inr d, w1)"
    and "e_list_machines env (om_Namespace (md_Meta d)) w1 = (Inr xs, w2)"
    and "int (length (filter (owned_by d) xs)) \<noteq> ds_Replicas (md_Spec d)"
    and "e_get_template env (om_Name (md_Meta d), om_Namespace (md_Meta d)) w2 = (Inl e, w3)"
  shows "outcome (reconcile_deployment env req) w = Inl (Fail e)
    \<and> filter is_k8s_write (trace (reconcile_deployment env req) w) = []"
proof -
  have "reconcile_deployment_body env req d w1 =
      (Inl (Fail e), [ListMachines (om_Namespace (md_Meta d)),
        GetCall KindKTMachineTemplate (om_Name (md_Meta d), om_Namespace (md_Meta d))], w3)"
    using assms(2-4) by (simp add: reconcile_deployment_body_def countChildMachinesByOwner_def
        ktMachineForMachineDeployment_def Let_def go_simps)
  then show ?thesis by (simp add: reconcile_deployment_run [OF assms(1)]) (simp add: run_defs)
qed

section \<open>Samples\<close>

definition sample_deployment :: "int \<Rightarrow> MachineDeployment" where
  "sample_deployment n = \<lparr>md_TypeMeta = zero_TypeMeta, md_Meta = zero_ObjectMeta\<lparr>om_Name := ''d''\<rparr>,
     md_Spec = \<lparr>ds_Replicas = n, ds_Type = ''worker'', ds_Selector = \<lparr>sl_MatchLabels = []\<rparr>,
       ds_Template = \<lparr>mp_Spec = \<lparr>sd_Bootstrap = \<lparr>bo_ConfigRef = \<lparr>cf_APIVersion = '''', cf_Kind = '''', cf_Name = ''''\<rparr>\<rparr>,
         sd_ClusterName = ''c'', sd_FailureDomain = ''z'',
         sd_InfrastructureRef = \<lparr>if_APIVersion = '''', if_Kind = '''', if_Name = ''''\<rparr>, sd_Version = ''''\<rparr>\<rparr>\<rparr>\<rparr>"

definition sample_template :: KTMachineTemplate where
  "sample_template = \<lparr>mt_TypeMeta = zero_TypeMeta, mt_Meta = zero_ObjectMeta\<lparr>om_Name := ''d''\<rparr>,
     mt_Spec = \<lparr>ts_Template = \<lparr>te_Spec = \<lparr>sp_Flavor = ''f'', sp_SSHKeyName = ''k'', sp_BlockDeviceMapping = [],
       sp_NetworkTier = [\<lparr>nt_ID = ''n''\<rparr>], sp_Ports = []\<rparr>\<rparr>\<rparr>\<rparr>"

definition owner_of :: "kind \<times> ObjectMeta \<Rightarrow> OwnerReference" where
  "owner_of p = \<lparr>or_APIVersion = '''', or_Kind = ''MachineDeployment'', or_Name = om_Name (snd p), or_UID = om_UID (snd p),
     or_Controller = Some True, or_BlockOwnerDeletion = Some True\<rparr>"

text \<open>A store that keeps what is created, refuses a name that is taken and stamps what it stores. The
  source of randomness depends on what is stored, so that names differ; the cache is the store.\<close>

definition stamped :: "KTMachine \<Rightarrow> KTMachine" where
  "stamped m = m\<lparr>m_Meta := (m_Meta m)\<lparr>om_UID := ''u'', om_ResourceVersion := ''1''\<rparr>, m_Status := zero_KTMachineStatus\<rparr>"

definition store_env :: "int \<Rightarrow> KTMachine list env" where
  "store_env n = down_env\<lparr>e_get_deployment := (\<lambda>_ w. (Inr (sample_deployment n), w)),
     e_get_template := (\<lambda>_ w. (Inr sample_template, w)),
     e_list_machines := (\<lambda>ns w. (Inr (filter (\<lambda>m. m_Namespace m = ns) w), w)),
     e_create_machine := (\<lambda>m w. if list_ex (\<lambda>m'. m_Name m' = m_Name m \<and> m_Namespace m' = m_Namespace m) w
        then (Inl (ApiError AlreadyExists ''exists''), w) else (Inr (stamped m), w @ [stamped m])),
     e_rand := (\<lambda>j w. (Inr (length w mod j), w)),
     e_set_controller_ref := (\<lambda>p meta. Inr (meta\<lparr>om_OwnerReferences := [owner_of p]\<rparr>))\<rparr>"

lemma store_env_simps [simp]:
  "e_get_deployment (store_env n) k w = (Inr (sample_deployment n), w)"
  "e_get_template (store_env n) k w = (Inr sample_template, w)"
  "e_list_machines (store_env n) ns w = (Inr (filter (\<lambda>m. m_Namespace m = ns) w), w)"
  "e_create_machine (store_env n) m w = (if list_ex (\<lambda>m'. m_Name m' = m_Name m \<and> m_Namespace m' = m_Namespace m) w
        then (Inl (ApiError AlreadyExists ''exists''), w) else (Inr (stamped m), w @ [stamped m]))"
  "e_set_controller_ref (store_env n) p meta = Inr (meta\<lparr>om_OwnerReferences := [owner_of p]\<rparr>)"
  "e_rand (store_env n) j w = (Inr (length w mod j), w)"
  by (simp_all add: store_env_def)

lemma store_env_store: "machine_store (store_env n) (\<lambda>w. w) (\<lambda>w. w)"
  unfolding machine_store_def
proof (intro conjI allI impI)
  show "\<not> taken w m \<and> (\<exists>uid v. snd (e_create_machine (store_env n) m w) = w @
          [m\<lparr>m_Meta := (m_Meta m)\<lparr>om_UID := uid, om_ResourceVersion := v\<rparr>, m_Status := zero_KTMachineStatus\<rparr>])
      \<or> (\<exists>e. fst (e_create_machine (store_env n) m w) = Inl e) \<and> snd (e_create_machine (store_env n) m w) = w" for m w
    by (auto simp: taken_def list_ex_iff stamped_def)
qed (auto simp: owner_of_def)

lemma store_env_up: "services_up (store_env n) (sample_deployment k) (\<lambda>w. w)"
  by (auto simp: services_up_def random_source_def taken_def list_ex_iff)

lemma sample_deployment_simps [simp]:
  "ds_Replicas (md_Spec (sample_deployment n)) = n" "om_Name (md_Meta (sample_deployment n)) = ''d''"
  "om_Namespace (md_Meta (sample_deployment n)) = ''''" "same_deployment (sample_deployment n) (sample_deployment n)"
  by (simp_all add: sample_deployment_def zero_ObjectMeta_def same_deployment_def)

lemma to_lower_replicate: "to_lower (replicate k c) = replicate k (to_lower_char c)"
  by (simp add: to_lower_def)

lemma store_env_random:
  "random_bytes (store_env n) k w = (Inr (replicate k (charset ! (length w mod 77))), replicate k (RandInt 77), w)"
  by (induction k) (simp_all add: go_simps)

definition made :: "int \<Rightarrow> nat \<Rightarrow> nat \<Rightarrow> KTMachine" where
  "made n j i = (let name = machine_name (sample_deployment n) (replicate 15 (charset ! (j mod 77))) in
     deployment_machine (sample_deployment n) sample_template i name\<lparr>m_Meta :=
       zero_ObjectMeta\<lparr>om_Name := name, om_Namespace := '''',
         om_OwnerReferences := [owner_of (KindMachineDeployment, md_Meta (sample_deployment n))]\<rparr>\<rparr>)"

lemma store_env_create:
  assumes "\<not> list_ex (\<lambda>m'. m_Name m' = m_Name (made n (length w) i) \<and> m_Namespace m' = '''') w"
  shows "create_machine (store_env n) (sample_deployment n) sample_template i w =
     (Inr (), replicate 15 (RandInt 77) @ [CreateCall (OMachine (made n (length w) i))], w @ [stamped (made n (length w) i)])"
proof -
  let ?name = "machine_name (sample_deployment n) (replicate 15 (charset ! (length w mod 77)))"
  let ?m = "deployment_machine (sample_deployment n) sample_template i ?name"
  have made: "?m\<lparr>m_Meta := (m_Meta ?m)\<lparr>om_OwnerReferences := [owner_of (KindMachineDeployment, md_Meta (sample_deployment n))]\<rparr>\<rparr>
      = made n (length w) i"
    by (simp add: made_def Let_def)
  have "e_create_machine (store_env n) (made n (length w) i) w = (Inr (stamped (made n (length w) i)), w @ [stamped (made n (length w) i)])"
    using assms by (simp add: made_def Let_def)
  then show ?thesis
    by (simp add: create_machine_def RandomString_def bindG_apply store_env_random Let_def retG_apply callG_apply made
        del: store_env_simps(4) deployment_machine_meta)
qed

definition sample_created :: KTMachine where
  "sample_created = made 1 0 0"

lemma sample_run:
  "reconcile_deployment (store_env n) (''d'', '''') w =
     (let a = int (replica_count (sample_deployment n) w);
        (r, cs, v) = forG [0..<machines_to_create a n] (create_machine (store_env n) (sample_deployment n) sample_template) w
      in if a = n then (Inr no_requeue, [GetCall KindMachineDeployment (''d'', ''''), ListMachines ''''], w)
        else (case r of Inl e \<Rightarrow> Inl e | Inr _ \<Rightarrow> Inr no_requeue,
          GetCall KindMachineDeployment (''d'', '''') # ListMachines '''' # GetCall KindKTMachineTemplate (''d'', '''') # cs, v))"
proof -
  have body: "reconcile_deployment (store_env n) (''d'', '''') w =
      (outcome (reconcile_deployment_body (store_env n) (''d'', '''') (sample_deployment n)) w,
       GetCall KindMachineDeployment (''d'', '''') # trace (reconcile_deployment_body (store_env n) (''d'', '''') (sample_deployment n)) w,
       world (reconcile_deployment_body (store_env n) (''d'', '''') (sample_deployment n)) w)"
    using reconcile_deployment_run [where env = "store_env n" and req = "(''d'', '''')" and w = w and d = "sample_deployment n" and ?w1.0 = w]
    by (simp add: run_defs prod_eq_iff)
  show ?thesis
    unfolding body
    by (simp add: reconcile_deployment_body_def countChildMachinesByOwner_def ktMachineForMachineDeployment_def Let_def
        replica_count_def run_defs go_simps split: prod.split sum.split)
qed

lemma made_name: "m_Name (made n j i) = machine_name (sample_deployment n) (replicate 15 (charset ! (j mod 77)))"
  by (simp add: made_def Let_def)

lemma made_namespace [simp]: "m_Namespace (made n j i) = ''''"
  by (simp add: made_def Let_def zero_ObjectMeta_def)

lemma stamped_simps [simp]: "m_Name (stamped m) = m_Name m" "m_Namespace (stamped m) = m_Namespace m"
  "owned_by d (stamped m) = owned_by d m"
  by (simp_all add: stamped_def owned_by_def)

lemma made_owned [simp]: "owned_by (sample_deployment k) (made n j i)"
  by (simp add: owned_by_def made_def Let_def owner_of_def)

text \<open>The first three machines of an empty store have different names.\<close>

lemma three_created:
  "forG [0..<3] (create_machine (store_env 3) (sample_deployment 3) sample_template) [] =
     (Inr (), replicate 15 (RandInt 77) @ [CreateCall (OMachine (made 3 0 0))]
        @ replicate 15 (RandInt 77) @ [CreateCall (OMachine (made 3 1 1))]
        @ replicate 15 (RandInt 77) @ [CreateCall (OMachine (made 3 2 2))],
      [stamped (made 3 0 0), stamped (made 3 1 1), stamped (made 3 2 2)])"
proof -
  have names: "m_Name (made 3 0 i) \<noteq> m_Name (made 3 (Suc 0) j)" "m_Name (made 3 0 i) \<noteq> m_Name (made 3 (Suc (Suc 0)) j)"
      "m_Name (made 3 (Suc 0) i) \<noteq> m_Name (made 3 (Suc (Suc 0)) j)" for i j
    by (simp_all add: made_name machine_name_def to_lower_replicate to_lower_char_def charset_def)
  have upt: "[0..<3] = [0, Suc 0, Suc (Suc 0)]" by (simp add: upt_rec)
  have 1: "create_machine (store_env 3) (sample_deployment 3) sample_template 0 [] = (Inr (),
      replicate 15 (RandInt 77) @ [CreateCall (OMachine (made 3 0 0))], [stamped (made 3 0 0)])"
    using store_env_create [of 3 "[]" 0] by simp
  have 2: "create_machine (store_env 3) (sample_deployment 3) sample_template (Suc 0) [stamped (made 3 0 0)] = (Inr (),
      replicate 15 (RandInt 77) @ [CreateCall (OMachine (made 3 1 1))], [stamped (made 3 0 0), stamped (made 3 1 1)])"
    using store_env_create [of 3 "[stamped (made 3 0 0)]" 1] names(1) by simp
  have 3: "create_machine (store_env 3) (sample_deployment 3) sample_template (Suc (Suc 0)) [stamped (made 3 0 0), stamped (made 3 1 1)] =
      (Inr (), replicate 15 (RandInt 77) @ [CreateCall (OMachine (made 3 2 2))],
       [stamped (made 3 0 0), stamped (made 3 1 1), stamped (made 3 2 2)])"
    using store_env_create [of 3 "[stamped (made 3 0 0), stamped (made 3 1 1)]" "Suc (Suc 0)"] names(2,3)
    by (simp add: numeral_2_eq_2)
  show ?thesis by (simp add: upt 1 2 3 bindG_apply retG_apply del: One_nat_def)
qed

lemma three_replicas:
  "outcome (reconcile_deployment (store_env 3) (''d'', '''')) [] = Inr no_requeue"
  "world (reconcile_deployment (store_env 3) (''d'', '''')) [] = [stamped (made 3 0 0), stamped (made 3 1 1), stamped (made 3 2 2)]"
proof -
  have "[0..<machines_to_create 0 3] = [0..<3]" by (simp add: machines_to_create_def)
  then show "outcome (reconcile_deployment (store_env 3) (''d'', '''')) [] = Inr no_requeue"
    "world (reconcile_deployment (store_env 3) (''d'', '''')) [] = [stamped (made 3 0 0), stamped (made 3 1 1), stamped (made 3 2 2)]"
    using three_created by (simp_all add: sample_run replica_count_def run_defs del: upt_Suc)
qed

theorem replicas_reached_witness:
  "outcome (reconcile_deployment (store_env 3) (''d'', '''')) [] = Inr no_requeue
    \<and> int (replica_count (sample_deployment 3) (world (reconcile_deployment (store_env 3) (''d'', '''')) [])) = 3
    \<and> filter is_k8s_write (trace (reconcile_deployment (store_env 3) (''d'', ''''))
        (world (reconcile_deployment (store_env 3) (''d'', '''')) [])) = []"
  using replicas_reached [OF store_env_store [of 3] store_env_up [of 3 3], where req = "(''d'', '''')" and w = "[]"] three_replicas(1)
  by (simp add: replica_count_def)

theorem replicas_never_overshoot_witness:
  "int (replica_count (sample_deployment 2) (world (reconcile_deployment (store_env 2) (''d'', ''''))
     (world (reconcile_deployment (store_env 2) (''d'', '''')) []))) \<le> 2"
  using replicas_never_overshoot [OF store_bounded [OF store_env_store [of 2]], where req = "(''d'', '''')" and d = "sample_deployment 2"
      and lag = 0, OF _ deployment_run.reconciled [OF deployment_run.reconciled [OF deployment_run.start [where ?w0.0 = "[]"]]]]
  by (simp add: replica_count_def)

theorem deployment_recovers_witness:
  "int (replica_count (sample_deployment 3) (world (reconcile_deployment (store_env 3) (''d'', ''''))
     (world (reconcile_deployment ((store_env 3)\<lparr>e_get_template := (\<lambda>_ w. (Inl absent, w))\<rparr>) (''d'', '''')) []))) = 3"
proof -
  let ?env = "(store_env 3)\<lparr>e_get_template := (\<lambda>_ w. (Inl absent, w))\<rparr>"
  let ?w = "world (reconcile_deployment ?env (''d'', '''')) []"
  have store: "bounded_store ?env (sample_deployment 3) (\<lambda>w. w) (\<lambda>w. w)"
    using store_bounded [OF store_env_store [of 3]] by (simp add: bounded_store_def)
  have w: "?w = []"
    by (simp add: reconcile_deployment_run [where d = "sample_deployment 3" and ?w1.0 = "[]"] reconcile_deployment_body_def
        countChildMachinesByOwner_def ktMachineForMachineDeployment_def Let_def world_bindG outcome_bindG outcome_tryG
        outcome_callG world_callG replica_count_def)
  have "deployment_run ?env (''d'', '''') (sample_deployment 3) (\<lambda>w. w) (\<lambda>w. w) 0 [] ?w"
    by (intro deployment_run.reconciled deployment_run.start) simp
  from deployment_recovers [OF store store_env_store [of 3] store_env_up [of 3 3] _ _ _ _ this,
      where x = "sample_deployment 3" and ?w1.0 = ?w] show ?thesis
    using three_replicas(1) unfolding w by (simp add: replica_count_def)
qed

text \<open>A cache that has not seen any machine yet.\<close>

definition stale_env :: "int \<Rightarrow> KTMachine list env" where
  "stale_env n = (store_env n)\<lparr>e_list_machines := (\<lambda>ns w. (Inr [], w))\<rparr>"

lemma stale_env_simps [simp]:
  "e_get_deployment (stale_env n) k w = (Inr (sample_deployment n), w)"
  "e_get_template (stale_env n) k w = (Inr sample_template, w)"
  "e_list_machines (stale_env n) ns w = (Inr [], w)"
  "e_create_machine (stale_env n) = e_create_machine (store_env n)"
  "e_set_controller_ref (stale_env n) = e_set_controller_ref (store_env n)"
  "e_rand (stale_env n) = e_rand (store_env n)"
  by (simp_all add: stale_env_def store_env_def)

lemma stale_env_store: "machine_store (stale_env n) (\<lambda>w. w) (\<lambda>w. [])"
  using store_env_store [of n] by (simp add: machine_store_def)

lemma stale_env_create: "create_machine (stale_env n) = create_machine (store_env n)"
proof -
  have bytes: "random_bytes (stale_env n) k = random_bytes (store_env n) k" for k
  proof (induction k)
    case (Suc k)
    show ?case by (simp only: random_bytes.simps Suc stale_env_simps)
  qed simp
  have "RandomString (stale_env n) k = RandomString (store_env n) k" for k
    by (simp only: RandomString_def bytes)
  then show ?thesis by (intro ext) (simp only: create_machine_def stale_env_simps)
qed

theorem stale_list_overshoots_witness:
  "int (replica_count (sample_deployment 1) (world (reconcile_deployment (stale_env 1) (''d'', '''')) [stamped sample_created])) = 2"
proof -
  have name: "m_Name (made 1 0 0) \<noteq> m_Name (made 1 (Suc 0) 0)"
    by (simp add: made_name machine_name_def to_lower_replicate to_lower_char_def charset_def)
  have create: "create_machine (store_env 1) (sample_deployment 1) sample_template 0 [stamped (made 1 0 0)] =
      (Inr (), replicate 15 (RandInt 77) @ [CreateCall (OMachine (made 1 1 0))], [stamped (made 1 0 0), stamped (made 1 1 0)])"
    using store_env_create [of 1 "[stamped (made 1 0 0)]" 0] name by simp
  have "outcome (reconcile_deployment (stale_env 1) (''d'', '''')) [stamped (made 1 0 0)] = Inr no_requeue"
    by (simp add: reconcile_deployment_run [where d = "sample_deployment 1" and ?w1.0 = "[stamped (made 1 0 0)]"]
        reconcile_deployment_body_def countChildMachinesByOwner_def ktMachineForMachineDeployment_def Let_def outcome_bindG
        outcome_tryG outcome_callG world_bindG world_callG machines_to_create_def stale_env_create)
      (simp add: create run_defs retG_apply)
  from stale_list_overshoots [OF stale_env_store _ _ this, where d = "sample_deployment 1" and x = "sample_deployment 1"
      and ?w1.0 = "[stamped (made 1 0 0)]" and unseen = 1]
  show ?thesis by (simp add: sample_created_def replica_count_def)
qed

lemma sample_created_call:
  "CreateCall (OMachine sample_created) \<in> set (trace (reconcile_deployment (store_env 1) (''d'', '''')) [])"
proof -
  have "[0..<machines_to_create 0 1] = [0]" by (simp add: machines_to_create_def)
  then show ?thesis
    using store_env_create [of 1 "[]" 0]
    by (simp add: sample_run replica_count_def Let_def run_defs bindG_apply retG_apply sample_created_def)
qed

theorem created_machines_faithful_witness:
  "\<exists>d w1 t w2 w3 i m. e_get_deployment (store_env 1) (''d'', '''') [] = (Inr d, w1)
    \<and> e_get_template (store_env 1) (om_Name (md_Meta d), om_Namespace (md_Meta d)) w2 = (Inr t, w3)
    \<and> CreateCall (OMachine sample_created) = CreateCall (OMachine m)
    \<and> int i < ds_Replicas (md_Spec d) \<and> made_from (store_env 1) d t i m"
  by (rule created_machines_faithful [OF sample_created_call]) simp

theorem deployment_without_template_witness:
  "outcome (reconcile_deployment ((store_env 1)\<lparr>e_get_template := (\<lambda>_ w. (Inl absent, w))\<rparr>) (''d'', '''')) [] = Inl (Fail absent)"
  by (rule deployment_without_template [where d = "sample_deployment 1" and xs = "[]" and ?w1.0 = "[]" and ?w2.0 = "[]" and ?w3.0 = "[]", THEN conjunct1]) simp_all

section \<open>A reconcile ends\<close>

lemma atmost_forG: "(\<And>x. atmost P k (f x)) \<Longrightarrow> atmost P (k * length xs) (forG xs f)"
proof (induction xs)
  case Nil
  show ?case by (simp add: atmost_ret)
next
  case (Cons x xs)
  have "atmost P (k + k * length xs) (forG (x # xs) f)"
    using Cons by (auto intro: atmost_bind)
  then show ?case by simp
qed

lemma random_bytes_calls: "atmost (\<lambda>c. True) n (random_bytes env n)"
proof (induction n)
  case 0
  show ?case by (simp add: atmost_ret)
next
  case (Suc n)
  have step: "atmost (\<lambda>c. True) n (case r of Inl e \<Rightarrow> panicG (error_text e) | Inr k \<Rightarrow>
      if k < 77 then bindG (random_bytes env n) (\<lambda>s. retG (charset ! k # s)) else panicG ''index out of range'')" for r
    using Suc by (auto split: sum.split intro!: atmost_stop atmost_bind_then_quiet atmost_ret)
  have "atmost (\<lambda>c. True) (1 + n) (random_bytes env (Suc n))"
    using step by (simp only: random_bytes.simps length_charset) (intro atmost_bind atmost_try atmost_call; simp)
  then show ?case by simp
qed

lemma create_machine_calls: "atmost (\<lambda>c. True) 16 (create_machine env d t i)"
proof -
  have name: "atmost (\<lambda>c. True) 15 (RandomString env 10)"
    using random_bytes_calls [of 15 env] by (simp add: RandomString_def)
  have rest: "atmost (\<lambda>c. True) 1 (let m = deployment_machine d t i (machine_name d s) in
      bindG (liftG (e_set_controller_ref env (KindMachineDeployment, md_Meta d) (m_Meta m))) (\<lambda>meta.
      let m1 = m\<lparr>m_Meta := meta\<rparr> in bindG (callG (CreateCall (OMachine m1)) (e_create_machine env m1)) (\<lambda>_. retG ())))" for s
    unfolding Let_def
    by (intro atmost_bind_quiet atmost_lift atmost_bind_then_quiet [OF atmost_call] atmost_ret) simp
  show ?thesis unfolding create_machine_def using atmost_bind [OF name rest] by simp
qed

text \<open>C40: A reconcile ends after a number of calls that the replicas bound: three to read, and
  sixteen for each machine it may create.\<close>

theorem deployment_reconcile_ends:
  assumes "e_get_deployment env req w = (Inr d, w1)"
  shows "length (trace (reconcile_deployment env req) w) \<le> 3 + 16 * nat (ds_Replicas (md_Spec d))"
proof -
  let ?n = "nat (ds_Replicas (md_Spec d))" and ?c = "tryG (countChildMachinesByOwner env d)"
  have create: "atmost (\<lambda>c. True) (1 + 16 * ?n) (ktMachineForMachineDeployment env d a)" if "0 \<le> a" "a \<noteq> ds_Replicas (md_Spec d)" for a
  proof -
    have "machines_to_create a (ds_Replicas (md_Spec d)) \<le> ?n" using that by (auto simp: machines_to_create_def)
    then have "atmost (\<lambda>c. True) (16 * ?n) (forG [0..<machines_to_create a (ds_Replicas (md_Spec d))] (create_machine env d t))" for t
      by (intro atmost_mono [OF atmost_forG [OF create_machine_calls]]) simp
    then show ?thesis unfolding ktMachineForMachineDeployment_def Let_def by (intro atmost_bind atmost_call) simp_all
  qed
  have one: "length (trace (countChildMachinesByOwner env d) w1) \<le> 1"
    by (simp add: countChildMachinesByOwner_def Let_def trace_bindG split: sum.split)
  have both: "length (trace (countChildMachinesByOwner env d) w1) + length (trace (ktMachineForMachineDeployment env d a) v) \<le> 2 + 16 * ?n"
    if "0 \<le> a" "a \<noteq> ds_Replicas (md_Spec d)" for a v
    using add_mono [OF one atmostD [OF create [OF that], where w = v]] by simp
  have "spec (\<lambda>_. True) ?c (\<lambda>r. case r of Inl _ \<Rightarrow> True | Inr a \<Rightarrow> 0 \<le> a) (\<lambda>_. True)" by (rule count_spec) simp
  then have "length (trace (reconcile_deployment_body env req d) w1) \<le> 2 + 16 * ?n"
    using one both [simplified]
    by (auto simp: reconcile_deployment_body_def trace_bindG split: sum.splits dest!: spec_return)
  then show ?thesis by (simp add: reconcile_deployment_run [OF assms])
qed

theorem deployment_reconcile_ends_witness:
  "length (trace (reconcile_deployment (store_env 3) (''d'', '''')) []) \<le> 51"
  using deployment_reconcile_ends [of "store_env 3" "(''d'', '''')" "[]" "sample_deployment 3"] by simp

section \<open>Names that Kubernetes rejects\<close>

text \<open>The last character of the set is a hyphen, so a random name may end in one, which the naming
  rules of Kubernetes exclude.\<close>

lemma name_may_end_in_hyphen:
  assumes "\<And>w. \<exists>w1. e_rand env 77 w = (Inr 76, w1)"
  shows "\<exists>s. outcome (RandomString env 10) w = Inr s \<and> last (machine_name d s) = CHR ''-''"
proof -
  have "outcome (random_bytes env n) w = Inr (replicate n (CHR ''-''))" for n
  proof (induction n arbitrary: w)
    case (Suc n)
    obtain w1 where "e_rand env 77 w = (Inr 76, w1)" using assms by blast
    moreover have "charset ! 76 = CHR ''-''" by (simp add: charset_def)
    ultimately show ?case using Suc [of w1] by (simp add: outcome_bindG outcome_tryG outcome_callG world_callG)
  qed simp
  moreover have "to_lower (replicate n (CHR ''-'')) = replicate n (CHR ''-'')" for n
    by (simp add: to_lower_replicate to_lower_char_def)
  ultimately show ?thesis by (simp add: RandomString_def machine_name_def)
qed

end
