(* ===== verification/OwnerControllers.thy ===== *)
theory OwnerControllers
  imports Reconciler
begin

text \<open>
  The controllers that only link objects, each making the object of its request the controller
  of an object that exists already: \<^verbatim>\<open>cluster_controller.go\<close> (a Cluster owns the KTCluster of
  its name), \<^verbatim>\<open>ktcluster_controller.go\<close> (a KTCluster owns its two machine templates) and
  \<^verbatim>\<open>ktmachinetemplate_controller.go\<close> (a template owns the machine deployment of its name); the
  token controller \<^verbatim>\<open>ktsubjecttoken_controller.go\<close>, which only reads; and the four scaffolded
  controllers without a body. The locale \<open>adopter\<close> is what the first and the third share.
\<close>

section \<open>Clusters\<close>

definition ktClusterForCluster :: "'w env \<Rightarrow> Cluster \<Rightarrow> KTCluster \<Rightarrow> ('w, unit) op" where
  "ktClusterForCluster env cluster ktCluster =
     bindG (liftG (e_set_controller_ref env (KindCluster, cl_Meta cluster) (kc_Meta ktCluster))) (\<lambda>meta.
     let c = ktCluster\<lparr>kc_Meta := meta\<rparr> in
     bindG (callG (UpdateCall (OKTCluster c)) (e_update_ktcluster env c)) (\<lambda>_. retG ()))"

definition reconcile_cluster_body :: "'w env \<Rightarrow> key \<Rightarrow> Cluster \<Rightarrow> ('w, Result) op" where
  "reconcile_cluster_body env req cluster =
     (let k = (om_Name (cl_Meta cluster), om_Namespace (cl_Meta cluster)) in
      bindG (tryG (callG (GetCall KindKTCluster k) (e_get_ktcluster env k))) (\<lambda>r. case r of
        Inl e \<Rightarrow> (if is_not_found e then retG requeue_minute else failG e)
      | Inr ktCluster \<Rightarrow>
          bindG (tryG (ktClusterForCluster env cluster ktCluster)) (\<lambda>r. case r of
            Inl _ \<Rightarrow> retG requeue_minute
          | Inr _ \<Rightarrow> retG no_requeue)))"

definition reconcile_cluster :: "'w env \<Rightarrow> key \<Rightarrow> ('w, Result) op" where
  "reconcile_cluster env req = with_object KindCluster (e_get_cluster env) req (reconcile_cluster_body env req)"

interpretation cluster_reconciler: reconciler KindCluster e_get_cluster reconcile_cluster reconcile_cluster_body
  by unfold_locales (rule reconcile_cluster_def)

section \<open>Machine templates\<close>

definition ktMachineTemplateForMachineDeployment ::
    "'w env \<Rightarrow> KTMachineTemplate \<Rightarrow> MachineDeployment \<Rightarrow> ('w, unit) op" where
  "ktMachineTemplateForMachineDeployment env template deployment =
     bindG (liftG (e_set_controller_ref env (KindKTMachineTemplate, mt_Meta template) (md_Meta deployment))) (\<lambda>meta.
     let d = deployment\<lparr>md_Meta := meta\<rparr> in
     bindG (callG (UpdateCall (ODeployment d)) (e_update_deployment env d)) (\<lambda>_. retG ()))"

definition reconcile_template_body :: "'w env \<Rightarrow> key \<Rightarrow> KTMachineTemplate \<Rightarrow> ('w, Result) op" where
  "reconcile_template_body env req template =
     (let k = (om_Name (mt_Meta template), om_Namespace (mt_Meta template)) in
      bindG (tryG (callG (GetCall KindMachineDeployment k) (e_get_deployment env k))) (\<lambda>r. case r of
        Inl e \<Rightarrow> (if is_not_found e then retG requeue_minute else failG e)
      | Inr deployment \<Rightarrow>
          bindG (tryG (ktMachineTemplateForMachineDeployment env template deployment)) (\<lambda>r. case r of
            Inl _ \<Rightarrow> retG requeue_minute
          | Inr _ \<Rightarrow> retG no_requeue)))"

definition reconcile_template :: "'w env \<Rightarrow> key \<Rightarrow> ('w, Result) op" where
  "reconcile_template env req =
     with_object KindKTMachineTemplate (e_get_template env) req (reconcile_template_body env req)"

interpretation template_reconciler: reconciler KindKTMachineTemplate e_get_template reconcile_template reconcile_template_body
  by unfold_locales (rule reconcile_template_def)

section \<open>KT clusters\<close>

definition ktClusterForMachineTemplate ::
    "'w env \<Rightarrow> KTCluster \<Rightarrow> KTMachineTemplate \<Rightarrow> ('w, KTMachineTemplate) op" where
  "ktClusterForMachineTemplate env ktCluster template =
     bindG (liftG (e_set_controller_ref env (KindKTCluster, kc_Meta ktCluster) (mt_Meta template))) (\<lambda>meta.
     let t = template\<lparr>mt_Meta := meta\<rparr> in callG (UpdateCall (OTemplate t)) (e_update_template env t))"

text \<open>A pointer that the caller compares with nil is an option. When adding the reference
  fails, the error is only logged; the pointer is returned all the same, and its content is
  used by nobody.\<close>

definition fetchMachineTemplate :: "'w env \<Rightarrow> KTCluster \<Rightarrow> string \<Rightarrow> ('w, KTMachineTemplate option) op" where
  "fetchMachineTemplate env ktCluster sfx =
     (let k = (kc_Name ktCluster @ sfx, om_Namespace (kc_Meta ktCluster)) in
      bindG (callG (GetCall KindKTMachineTemplate k) (e_get_template env k)) (\<lambda>t.
      bindG (tryG (ktClusterForMachineTemplate env ktCluster t)) (\<lambda>r. case r of
        Inl _ \<Rightarrow> retG (Some t)
      | Inr t1 \<Rightarrow> retG (Some t1))))"

definition reconcile_ktcluster_body :: "'w env \<Rightarrow> key \<Rightarrow> KTCluster \<Rightarrow> ('w, Result) op" where
  "reconcile_ktcluster_body env req ktCluster =
     bindG (tryG (fetchMachineTemplate env ktCluster ''-control-plane'')) (\<lambda>r. case r of
       Inl _ \<Rightarrow> retG no_requeue
     | Inr cp \<Rightarrow>
         bindG (tryG (fetchMachineTemplate env ktCluster ''-md-0'')) (\<lambda>r. case r of
           Inl _ \<Rightarrow> retG no_requeue
         | Inr md \<Rightarrow>
             if cp = None \<or> md = None then retG \<lparr>rs_RequeueAfter = 10\<rparr> else retG no_requeue))"

definition reconcile_ktcluster :: "'w env \<Rightarrow> key \<Rightarrow> ('w, Result) op" where
  "reconcile_ktcluster env req =
     with_object KindKTCluster (e_get_ktcluster env) req (reconcile_ktcluster_body env req)"

interpretation ktcluster_reconciler: reconciler KindKTCluster e_get_ktcluster reconcile_ktcluster reconcile_ktcluster_body
  by unfold_locales (rule reconcile_ktcluster_def)

text \<open>Three functions that only the disabled finalizer code calls.\<close>

definition ktClusterForKTSubjectTokenOnwer :: "'w env \<Rightarrow> KTCluster \<Rightarrow> KTSubjectToken \<Rightarrow> ('w, KTSubjectToken) op" where
  "ktClusterForKTSubjectTokenOnwer env ktCluster token =
     bindG (liftG (e_set_controller_ref env (KindKTCluster, kc_Meta ktCluster) (kt_Meta token))) (\<lambda>meta.
     let t = token\<lparr>kt_Meta := meta\<rparr> in callG (UpdateCall (OToken t)) (e_update_token env t))"

definition fetchKTSubjectToken :: "'w env \<Rightarrow> KTCluster \<Rightarrow> ('w, KTSubjectToken) op" where
  "fetchKTSubjectToken env ktCluster =
     (let k = (kc_Name ktCluster, om_Namespace (kc_Meta ktCluster)) in
      bindG (callG (GetCall KindKTSubjectToken k) (e_get_token env k)) (\<lambda>t.
      bindG (tryG (ktClusterForKTSubjectTokenOnwer env ktCluster t)) (\<lambda>r. case r of
        Inl _ \<Rightarrow> retG t
      | Inr t1 \<Rightarrow> retG t1)))"

definition getClusterAssociatedKTMachines :: "'w env \<Rightarrow> KTCluster \<Rightarrow> ('w, KTMachine list) op" where
  "getClusterAssociatedKTMachines env ktCluster =
     (let ns = om_Namespace (kc_Meta ktCluster) in
      bindG (callG (ListMachines ns) (e_list_machines env ns)) (\<lambda>items.
      retG (filter (\<lambda>m. ks_ClusterName (m_Spec m) = kc_Name ktCluster) items)))"

section \<open>Tokens and the controllers without a body\<close>

definition reconcile_token :: "'w env \<Rightarrow> key \<Rightarrow> ('w, Result) op" where
  "reconcile_token env req =
     with_object KindKTSubjectToken (e_get_token env) req (\<lambda>ktSubjectToken. retG no_requeue)"

interpretation token_reconciler: reconciler KindKTSubjectToken e_get_token reconcile_token "\<lambda>env req t. retG no_requeue"
  by unfold_locales (rule reconcile_token_def)

definition reconcile_networkfirewall :: "'w env \<Rightarrow> key \<Rightarrow> ('w, Result) op" where
  "reconcile_networkfirewall env req = retG no_requeue"

definition reconcile_publicnetwork :: "'w env \<Rightarrow> key \<Rightarrow> ('w, Result) op" where
  "reconcile_publicnetwork env req = retG no_requeue"

definition reconcile_kubeadmconfigtemplate :: "'w env \<Rightarrow> key \<Rightarrow> ('w, Result) op" where
  "reconcile_kubeadmconfigtemplate env req = retG no_requeue"

definition reconcile_kubeadmcontrolplane :: "'w env \<Rightarrow> key \<Rightarrow> ('w, Result) op" where
  "reconcile_kubeadmcontrolplane env req = retG no_requeue"

section \<open>Adopting one child\<close>

text \<open>The contract of a controller that adopts one object: a missing child, a refused reference
  and a failed update all end in another attempt after a minute, and the only write is the child
  with its new metadata.\<close>

locale adopter =
  fixes body :: "'w env \<Rightarrow> key \<Rightarrow> 'p \<Rightarrow> ('w, Result) op" and ckind :: kind and ckey :: "'p \<Rightarrow> key"
    and cget :: "'w env \<Rightarrow> key \<Rightarrow> 'w \<Rightarrow> 'c answer \<times> 'w" and owner :: "'p \<Rightarrow> kind \<times> ObjectMeta"
    and cmeta :: "'c \<Rightarrow> ObjectMeta" and with_meta :: "ObjectMeta \<Rightarrow> 'c \<Rightarrow> 'c" and mk :: "'c \<Rightarrow> obj"
    and upd :: "'w env \<Rightarrow> 'c \<Rightarrow> 'w \<Rightarrow> 'c answer \<times> 'w"
  assumes body_eq: "body env req p =
    bindG (tryG (callG (GetCall ckind (ckey p)) (cget env (ckey p)))) (\<lambda>r. case r of
      Inl e \<Rightarrow> (if is_not_found e then retG requeue_minute else failG e)
    | Inr c \<Rightarrow> bindG (tryG (bindG (liftG (e_set_controller_ref env (owner p) (cmeta c))) (\<lambda>meta.
        bindG (callG (UpdateCall (mk (with_meta meta c))) (upd env (with_meta meta c))) (\<lambda>_. retG ())))) (\<lambda>r. case r of
          Inl _ \<Rightarrow> retG requeue_minute | Inr _ \<Rightarrow> retG no_requeue))"
begin

lemma child_missing:
  "cget env (ckey p) w = (Inl e, w1) \<Longrightarrow> is_not_found e \<Longrightarrow>
   body env req p w = (Inr requeue_minute, [GetCall ckind (ckey p)], w1)"
  by (simp add: body_eq go_simps)

lemma child_unreadable:
  "cget env (ckey p) w = (Inl e, w1) \<Longrightarrow> \<not> is_not_found e \<Longrightarrow>
   body env req p w = (Inl (Fail e), [GetCall ckind (ckey p)], w1)"
  by (simp add: body_eq go_simps)

lemma refused:
  "cget env (ckey p) w = (Inr c, w1) \<Longrightarrow> e_set_controller_ref env (owner p) (cmeta c) = Inl e \<Longrightarrow>
   body env req p w = (Inr requeue_minute, [GetCall ckind (ckey p)], w1)"
  by (simp add: body_eq go_simps)

lemma adopts:
  "cget env (ckey p) w = (Inr c, w1) \<Longrightarrow> e_set_controller_ref env (owner p) (cmeta c) = Inr meta \<Longrightarrow>
   upd env (with_meta meta c) w1 = (r, w2) \<Longrightarrow>
   body env req p w = (Inr (case r of Inl e \<Rightarrow> requeue_minute | Inr c' \<Rightarrow> no_requeue),
     [GetCall ckind (ckey p), UpdateCall (mk (with_meta meta c))], w2)"
  by (simp add: body_eq go_simps split: sum.split)

lemma only_child_written:
  assumes "x \<in> set (trace (body env req p) w)" and "is_k8s_write x"
  shows "\<exists>c w1 meta. cget env (ckey p) w = (Inr c, w1) \<and>
    e_set_controller_ref env (owner p) (cmeta c) = Inr meta \<and> x = UpdateCall (mk (with_meta meta c))"
proof -
  obtain r w1 where g: "cget env (ckey p) w = (r, w1)" by (cases "cget env (ckey p) w")
  show ?thesis
  proof (cases r)
    case (Inl e)
    with g assms show ?thesis
      by (cases "is_not_found e") (auto simp: trace_def child_missing child_unreadable)
  next
    case (Inr c)
    show ?thesis
    proof (cases "e_set_controller_ref env (owner p) (cmeta c)")
      case (Inl e)
      with g Inr assms show ?thesis by (auto simp: trace_def refused)
    next
      case (Inr meta)
      with g \<open>r = Inr c\<close> assms show ?thesis
        by (cases "upd env (with_meta meta c) w1") (auto simp: trace_def adopts)
    qed
  qed
qed

end

interpretation cluster_adopter: adopter reconcile_cluster_body KindKTCluster
    "\<lambda>c. (om_Name (cl_Meta c), om_Namespace (cl_Meta c))" e_get_ktcluster "\<lambda>c. (KindCluster, cl_Meta c)"
    kc_Meta "\<lambda>meta. kc_Meta_update (\<lambda>_. meta)" OKTCluster e_update_ktcluster
  by unfold_locales (simp add: reconcile_cluster_body_def ktClusterForCluster_def Let_def)

interpretation template_adopter: adopter reconcile_template_body KindMachineDeployment
    "\<lambda>t. (om_Name (mt_Meta t), om_Namespace (mt_Meta t))" e_get_deployment "\<lambda>t. (KindKTMachineTemplate, mt_Meta t)"
    md_Meta "\<lambda>meta. md_Meta_update (\<lambda>_. meta)" ODeployment e_update_deployment
  by unfold_locales (simp add: reconcile_template_body_def ktMachineTemplateForMachineDeployment_def Let_def)

section \<open>What the controllers write\<close>

text \<open>One link of the ownership chain: an object that the run read, with the metadata that
  \<open>SetControllerReference\<close> gave for its owner and everything else as it was read.\<close>

definition cluster_link :: "'w env \<Rightarrow> call \<Rightarrow> bool" where
  "cluster_link env c \<longleftrightarrow> (\<exists>(p :: Cluster) k w w1 x meta. e_get_ktcluster env k w = (Inr x, w1) \<and>
     e_set_controller_ref env (KindCluster, cl_Meta p) (kc_Meta x) = Inr meta \<and>
     c = UpdateCall (OKTCluster (x\<lparr>kc_Meta := meta\<rparr>)))"

definition template_link :: "'w env \<Rightarrow> call \<Rightarrow> bool" where
  "template_link env c \<longleftrightarrow> (\<exists>(p :: KTCluster) k w w1 x meta. e_get_template env k w = (Inr x, w1) \<and>
     e_set_controller_ref env (KindKTCluster, kc_Meta p) (mt_Meta x) = Inr meta \<and>
     c = UpdateCall (OTemplate (x\<lparr>mt_Meta := meta\<rparr>)))"

definition deployment_link :: "'w env \<Rightarrow> call \<Rightarrow> bool" where
  "deployment_link env c \<longleftrightarrow> (\<exists>(p :: KTMachineTemplate) k w w1 x meta. e_get_deployment env k w = (Inr x, w1) \<and>
     e_set_controller_ref env (KindKTMachineTemplate, mt_Meta p) (md_Meta x) = Inr meta \<and>
     c = UpdateCall (ODeployment (x\<lparr>md_Meta := meta\<rparr>)))"

lemma fetch_spec:
  assumes "\<And>c. template_link env c \<Longrightarrow> P c" and "\<And>kd k. P (GetCall kd k)"
  shows "spec P (fetchMachineTemplate env kc sfx) (\<lambda>r. r \<noteq> None) is_fail"
  unfolding fetchMachineTemplate_def ktClusterForMachineTemplate_def Let_def
proof (rule spec_bind)
  let ?k = "(kc_Name kc @ sfx, om_Namespace (kc_Meta kc))"
  show "spec P (callG (GetCall KindKTMachineTemplate ?k) (e_get_template env ?k))
      (\<lambda>t. \<exists>w w1. e_get_template env ?k w = (Inr t, w1)) is_fail"
    by (rule spec_call) (auto intro: assms(2))
next
  fix t
  let ?k = "(kc_Name kc @ sfx, om_Namespace (kc_Meta kc))"
  assume t: "\<exists>w w1. e_get_template env ?k w = (Inr t, w1)"
  let ?link = "bindG (liftG (e_set_controller_ref env (KindKTCluster, kc_Meta kc) (mt_Meta t)))
    (\<lambda>meta. callG (UpdateCall (OTemplate (t\<lparr>mt_Meta := meta\<rparr>))) (e_update_template env (t\<lparr>mt_Meta := meta\<rparr>)))"
  have "spec P ?link (\<lambda>_. True) is_fail"
  proof (rule spec_bind [OF spec_lift])
    fix meta
    assume "e_set_controller_ref env (KindKTCluster, kc_Meta kc) (mt_Meta t) = Inr meta"
    with t have "template_link env (UpdateCall (OTemplate (t\<lparr>mt_Meta := meta\<rparr>)))" unfolding template_link_def by blast
    then show "spec P (callG (UpdateCall (OTemplate (t\<lparr>mt_Meta := meta\<rparr>))) (e_update_template env (t\<lparr>mt_Meta := meta\<rparr>)))
        (\<lambda>_. True) is_fail"
      by (intro spec_call assms(1)) simp_all
  qed simp_all
  then have "spec P (tryG ?link) (\<lambda>_. True) is_fail"
    by (intro spec_try) (auto elim!: spec_weaken split: stop.split)
  then show "spec P (bindG (tryG ?link) (\<lambda>r. case r of Inl _ \<Rightarrow> retG (Some t) | Inr t1 \<Rightarrow> retG (Some t1))) (\<lambda>r. r \<noteq> None) is_fail"
    by (rule spec_bind_any) (auto split: sum.split intro: spec_ret)
qed

lemma ktcluster_body_spec:
  assumes "\<And>c. template_link env c \<Longrightarrow> P c" and "\<And>kd k. P (GetCall kd k)"
  shows "spec P (reconcile_ktcluster_body env req kc) (\<lambda>r. r = no_requeue) (\<lambda>_. False)"
proof -
  have step: "spec P (tryG (fetchMachineTemplate env kc sfx)) (\<lambda>r. case r of Inl _ \<Rightarrow> True | Inr t \<Rightarrow> t \<noteq> None) (\<lambda>_. False)" for sfx
    by (rule spec_try, rule spec_weaken [OF fetch_spec [where P = P]]) (auto intro: assms split: stop.split)
  show ?thesis
    unfolding reconcile_ktcluster_body_def
    by (rule spec_bind [OF step]) (auto split: sum.split intro!: spec_ret spec_bind [OF step])
qed

text \<open>C37: Whatever the services answer, a write of the linking controllers is one link of the chain
  Cluster, KTCluster, KTMachineTemplate, MachineDeployment: an object that was read, with nothing
  but its metadata changed, and that by \<open>SetControllerReference\<close>.\<close>

theorem owner_controllers_only_link:
  assumes "is_k8s_write c"
  shows "(c \<in> set (trace (reconcile_cluster env req) w) \<longrightarrow> cluster_link env c)
    \<and> (c \<in> set (trace (reconcile_ktcluster env req) w) \<longrightarrow> template_link env c)
    \<and> (c \<in> set (trace (reconcile_template env req) w) \<longrightarrow> deployment_link env c)"
proof (intro conjI impI)
  have no: "c \<noteq> GetCall kd req" for kd using assms by auto
  show "cluster_link env c" if c: "c \<in> set (trace (reconcile_cluster env req) w)"
  proof -
    obtain p w1 where "c \<in> set (trace (reconcile_cluster_body env req p) w1)"
      using cluster_reconciler.call_of_body [OF c no] by blast
    from cluster_adopter.only_child_written [OF this assms] show ?thesis unfolding cluster_link_def by blast
  qed
  show "deployment_link env c" if c: "c \<in> set (trace (reconcile_template env req) w)"
  proof -
    obtain p w1 where "c \<in> set (trace (reconcile_template_body env req p) w1)"
      using template_reconciler.call_of_body [OF c no] by blast
    from template_adopter.only_child_written [OF this assms] show ?thesis unfolding deployment_link_def by blast
  qed
  show "template_link env c" if c: "c \<in> set (trace (reconcile_ktcluster env req) w)"
  proof -
    obtain p w1 where "c \<in> set (trace (reconcile_ktcluster_body env req p) w1)"
      using ktcluster_reconciler.call_of_body [OF c no] by blast
    moreover have "spec (\<lambda>c. is_k8s_write c \<longrightarrow> template_link env c) (reconcile_ktcluster_body env req p) (\<lambda>r. r = no_requeue) (\<lambda>_. False)"
      by (rule ktcluster_body_spec) simp_all
    ultimately show ?thesis using assms by (blast dest: spec_trace)
  qed
qed

section \<open>When an object is missing\<close>

text \<open>Once a KTCluster is read, its reconcile always ends without an error and without asking
  for another attempt, even if a template is missing or the update of a reference failed; and
  when the control-plane template cannot be read, the worker template is not looked at.\<close>

theorem ktcluster_never_retries:
  assumes "e_get_ktcluster env req w = (Inr kc, w1)"
  shows "outcome (reconcile_ktcluster env req) w = Inr no_requeue
    \<and> (fst (e_get_template env (kc_Name kc @ ''-control-plane'', om_Namespace (kc_Meta kc)) w1) = Inl e \<longrightarrow>
       trace (reconcile_ktcluster env req) w = [GetCall KindKTCluster req,
         GetCall KindKTMachineTemplate (kc_Name kc @ ''-control-plane'', om_Namespace (kc_Meta kc))])"
proof -
  have s: "spec (\<lambda>_. True) (reconcile_ktcluster_body env req kc) (\<lambda>r. r = no_requeue) (\<lambda>_. False)"
    by (rule ktcluster_body_spec) simp_all
  have "outcome (reconcile_ktcluster_body env req kc) w1 = Inr no_requeue"
    using spec_return [OF s, of w1] spec_stop [OF s, of w1]
    by (cases "outcome (reconcile_ktcluster_body env req kc) w1") auto
  moreover have "trace (reconcile_ktcluster_body env req kc) w1 =
      [GetCall KindKTMachineTemplate (kc_Name kc @ ''-control-plane'', om_Namespace (kc_Meta kc))]"
    if "fst (e_get_template env (kc_Name kc @ ''-control-plane'', om_Namespace (kc_Meta kc)) w1) = Inl e"
    using that by (simp add: reconcile_ktcluster_body_def fetchMachineTemplate_def Let_def trace_bindG outcome_bindG
        outcome_tryG outcome_callG)
  ultimately show ?thesis
    using ktcluster_reconciler.present [OF assms] by (simp add: run_defs split: prod.splits)
qed

text \<open>A template whose machine deployment does not exist yet, or already has another controller,
  waits: nothing is written and the request comes back after a minute.\<close>

theorem adoption_waits:
  assumes t: "e_get_template env req w = (Inr t, w1)"
    and d: "e_get_deployment env (om_Name (mt_Meta t), om_Namespace (mt_Meta t)) w1 = (r, w2)"
    and "case r of Inl e \<Rightarrow> is_not_found e
      | Inr x \<Rightarrow> \<exists>e. e_set_controller_ref env (KindKTMachineTemplate, mt_Meta t) (md_Meta x) = Inl e"
  shows "outcome (reconcile_template env req) w = Inr requeue_minute
    \<and> filter is_k8s_write (trace (reconcile_template env req) w) = []"
proof -
  have "\<exists>w2. reconcile_template_body env req t w1 = (Inr requeue_minute,
      [GetCall KindMachineDeployment (om_Name (mt_Meta t), om_Namespace (mt_Meta t))], w2)"
  proof (cases r)
    case (Inl e)
    with d assms(3) show ?thesis by (auto simp: template_adopter.child_missing)
  next
    case (Inr x)
    with assms(3) obtain e where "e_set_controller_ref env (KindKTMachineTemplate, mt_Meta t) (md_Meta x) = Inl e" by auto
    from template_adopter.refused [OF _ this] d Inr show ?thesis by auto
  qed
  then show ?thesis using template_reconciler.present [OF t] by (auto simp: run_defs)
qed

text \<open>A Cluster that finds the KTCluster of its name updates it in one write, with the reference
  and otherwise as it was read; if the update fails, for instance because the object changed in
  the meantime, the request comes back after a minute.\<close>

theorem cluster_adopts:
  assumes cl: "e_get_cluster env req w = (Inr cl, w1)"
    and kc: "e_get_ktcluster env (om_Name (cl_Meta cl), om_Namespace (cl_Meta cl)) w1 = (Inr kc, w2)"
    and m: "e_set_controller_ref env (KindCluster, cl_Meta cl) (kc_Meta kc) = Inr meta"
    and u: "e_update_ktcluster env (kc\<lparr>kc_Meta := meta\<rparr>) w2 = (r, w3)"
  shows "reconcile_cluster env req w = (Inr (case r of Inl e \<Rightarrow> requeue_minute | Inr c \<Rightarrow> no_requeue),
    [GetCall KindCluster req, GetCall KindKTCluster (om_Name (cl_Meta cl), om_Namespace (cl_Meta cl)),
     UpdateCall (OKTCluster (kc\<lparr>kc_Meta := meta\<rparr>))], w3)"
  using cluster_adopter.adopts [OF kc m u] by (simp add: cluster_reconciler.present [OF cl])

section \<open>Samples\<close>

definition sample_kc :: KTCluster where
  "sample_kc = \<lparr>kc_TypeMeta = zero_TypeMeta, kc_Meta = zero_ObjectMeta\<lparr>om_Name := ''c''\<rparr>,
     kc_Spec = \<lparr>cs_APIServerLoadBalancer = \<lparr>lb_Enabled = False\<rparr>, cs_ControlPlaneExternalNetworkEnable = True,
       cs_IdentityRef = \<lparr>ir_CloudName = '''', ir_Name = ''''\<rparr>,
       cs_ManagedSecurityGroups = \<lparr>ms_EnableOutboundInternetTraffic = True,
         ms_ControlPlaneRules = \<lparr>sr_Direction = '''', sr_StartPort = '''', sr_EndPort = '''', sr_Protocol = '''',
           sr_Action = '''', sr_Dstip = ''''\<rparr>,
         ms_WorkerRules = \<lparr>sr_Direction = '''', sr_StartPort = '''', sr_EndPort = '''', sr_Protocol = '''',
           sr_Action = '''', sr_Dstip = ''''\<rparr>\<rparr>\<rparr>\<rparr>"

definition sample_owner :: Cluster where
  "sample_owner = \<lparr>cl_TypeMeta = zero_TypeMeta, cl_Meta = zero_ObjectMeta\<lparr>om_Name := ''c''\<rparr>, cl_Spec = \<lparr>ce_Foo = ''''\<rparr>\<rparr>"

definition link_env :: "unit env" where
  "link_env = down_env\<lparr>e_get_cluster := (\<lambda>_ w. (Inr sample_owner, w)), e_get_ktcluster := (\<lambda>_ w. (Inr sample_kc, w))\<rparr>"

lemma link_env_simps [simp]:
  "e_get_cluster link_env k w = (Inr sample_owner, w)" "e_get_ktcluster link_env k w = (Inr sample_kc, w)"
  "e_get_template link_env k w = (Inl absent, w)" "e_set_controller_ref link_env p meta = Inr meta"
  "e_update_ktcluster link_env c w = (Inr c, w)"
  by (simp_all add: link_env_def)

theorem ktcluster_never_retries_witness:
  "outcome (reconcile_ktcluster link_env (''c'', '''')) () = Inr no_requeue"
  by (rule ktcluster_never_retries [where kc = sample_kc and ?w1.0 = "()", THEN conjunct1]) simp

definition lone_template :: KTMachineTemplate where
  "lone_template = \<lparr>mt_TypeMeta = zero_TypeMeta, mt_Meta = zero_ObjectMeta, mt_Spec = \<lparr>ts_Template = \<lparr>te_Spec =
     \<lparr>sp_Flavor = '''', sp_SSHKeyName = '''', sp_BlockDeviceMapping = [], sp_NetworkTier = [], sp_Ports = []\<rparr>\<rparr>\<rparr>\<rparr>"

theorem adoption_waits_witness:
  "outcome (reconcile_template (link_env\<lparr>e_get_template := (\<lambda>_ w. (Inr lone_template, w))\<rparr>) (''t'', '''')) ()
     = Inr requeue_minute"
  by (rule adoption_waits [where t = lone_template and r = "Inl absent" and ?w1.0 = "()" and ?w2.0 = "()", THEN conjunct1])
    (simp_all add: link_env_def)

theorem cluster_adopts_witness:
  "reconcile_cluster link_env (''c'', '''') () = (Inr no_requeue,
    [GetCall KindCluster (''c'', ''''), GetCall KindKTCluster (''c'', ''''),
     UpdateCall (OKTCluster (sample_kc\<lparr>kc_Meta := kc_Meta sample_kc\<rparr>))], ())"
  using cluster_adopts [of link_env "(''c'', '''')" "()" sample_owner "()" sample_kc "()" "kc_Meta sample_kc" "Inr sample_kc" "()"]
  by (simp add: sample_owner_def zero_ObjectMeta_def)

theorem owner_controllers_only_link_witness:
  "cluster_link link_env (UpdateCall (OKTCluster (sample_kc\<lparr>kc_Meta := kc_Meta sample_kc\<rparr>)))"
proof (rule owner_controllers_only_link [THEN conjunct1, THEN mp])
  show "UpdateCall (OKTCluster (sample_kc\<lparr>kc_Meta := kc_Meta sample_kc\<rparr>)) \<in> set (trace (reconcile_cluster link_env (''c'', '''')) ())"
    by (simp add: trace_def reconcile_cluster_def with_object_def reconcile_cluster_body_def ktClusterForCluster_def Let_def go_simps)
qed simp

end
