(* ===== verification/Login.thy ===== *)
theory Login
  imports CloudVM
begin

text \<open>
  Logging in to the cloud, \<^verbatim>\<open>cmd/httpapi/login.go\<close>: the credentials of the configuration are
  posted, the token is read from a header of the answer, its expiry from the body, and both are
  stored in the object \<^verbatim>\<open>ktcloudtoken\<close>. The call in \<^verbatim>\<open>main\<close> is commented out. An error on the
  way to the cloud ends the process; an error of the Kubernetes API is logged and forgotten; an
  answer without the expected fields is a panic of the type assertion.
\<close>

section \<open>The request\<close>

record Domain =
  do_ID :: string

record User =
  us_Domain :: Domain
  us_Name :: string
  us_Password :: string

record Password =
  pw_User :: User

record Identity =
  id_Methods :: "string list"
  id_Password :: Password

record Project =
  pr_Domain :: Domain
  pr_Name :: string

record Scope =
  sc_Project :: Project

record Auth =
  au_Identity :: Identity
  au_Scope :: Scope

record AuthRequest =
  ar_Auth :: Auth

definition enc_Domain :: "Domain \<Rightarrow> json" where
  "enc_Domain d = JObj [(''id'', enc_string (do_ID d))]"

definition enc_User :: "User \<Rightarrow> json" where
  "enc_User u = JObj [(''domain'', enc_Domain (us_Domain u)), (''name'', enc_string (us_Name u)),
     (''password'', enc_string (us_Password u))]"

definition enc_Password :: "Password \<Rightarrow> json" where
  "enc_Password p = JObj [(''user'', enc_User (pw_User p))]"

definition enc_Identity :: "Identity \<Rightarrow> json" where
  "enc_Identity i = JObj [(''methods'', enc_list enc_string (id_Methods i)),
     (''password'', enc_Password (id_Password i))]"

definition enc_Project :: "Project \<Rightarrow> json" where
  "enc_Project p = JObj [(''domain'', enc_Domain (pr_Domain p)), (''name'', enc_string (pr_Name p))]"

definition enc_Scope :: "Scope \<Rightarrow> json" where
  "enc_Scope s = JObj [(''project'', enc_Project (sc_Project s))]"

definition enc_Auth :: "Auth \<Rightarrow> json" where
  "enc_Auth a = JObj [(''identity'', enc_Identity (au_Identity a)), (''scope'', enc_Scope (au_Scope a))]"

definition enc_AuthRequest :: "AuthRequest \<Rightarrow> json" where
  "enc_AuthRequest r = JObj [(''auth'', enc_Auth (ar_Auth r))]"

definition auth_request :: "Config \<Rightarrow> AuthRequest" where
  "auth_request c = \<lparr>ar_Auth = \<lparr>
     au_Identity = \<lparr>id_Methods = [c_IdentityMethods c], id_Password = \<lparr>pw_User =
       \<lparr>us_Domain = \<lparr>do_ID = c_IdentityPasswordUserDomainId c\<rparr>, us_Name = c_IdentityPasswordUserName c,
        us_Password = c_IdentityPassword c\<rparr>\<rparr>\<rparr>,
     au_Scope = \<lparr>sc_Project = \<lparr>pr_Domain = \<lparr>do_ID = c_ScopeProjectDomainId c\<rparr>,
       pr_Name = c_ScopeProjectName c\<rparr>\<rparr>\<rparr>\<rparr>"

definition login_request :: "'w env \<Rightarrow> http_request" where
  "login_request env = \<lparr>rq_Method = ''POST'', rq_URL = api_url env ''/identity/auth/tokens'',
     rq_Header = [(''Content-Type'', ''application/json'')],
     rq_Body = print_json (enc_AuthRequest (auth_request (e_config env)))\<rparr>"

section \<open>Decoding without a type\<close>

text \<open>
  \<open>json.Unmarshal\<close> into a \<^verbatim>\<open>map[string]interface{}\<close>: an object gives the map, \<open>null\<close> leaves
  it nil, anything else is an error. Numbers become \<open>float64\<close>, and one that rounds to infinity
  is an error wherever it stands. A number is \<open>m * 10 ^ e\<close> with the digits \<open>m\<close> and the
  exponent \<open>e\<close> of its text; from \<open>2 ^ 1024 - 2 ^ 970\<close> on it rounds to infinity.
\<close>

definition float_overflow :: "string \<Rightarrow> bool" where
  "float_overflow s =
     (let ds = (if s \<noteq> [] \<and> hd s = CHR ''-'' then tl s else s);
          whole = takeWhile is_digit ds; r = dropWhile is_digit ds;
          frac = (if r \<noteq> [] \<and> hd r = CHR ''.'' then takeWhile is_digit (tl r) else []);
          r1 = (if r \<noteq> [] \<and> hd r = CHR ''.'' then dropWhile is_digit (tl r) else r);
          ex = (case r1 of [] \<Rightarrow> 0 | _ # xs \<Rightarrow>
            (if xs \<noteq> [] \<and> hd xs = CHR ''-'' then - int (read_nat 0 (tl xs))
             else if xs \<noteq> [] \<and> hd xs = CHR ''+'' then int (read_nat 0 (tl xs))
             else int (read_nat 0 xs)));
          m = read_nat 0 (whole @ frac); e = ex - int (length frac); b = 2 ^ 1024 - 2 ^ 970
      in (if 0 \<le> e then b \<le> m * 10 ^ nat e else b * 10 ^ nat (- e) \<le> m))"

fun floats_fit :: "json \<Rightarrow> bool" where
  "floats_fit (JNum n) = (\<not> float_overflow n)"
| "floats_fit (JArr js) = list_all floats_fit js"
| "floats_fit (JObj kvs) = list_all (\<lambda>(k, j). floats_fit j) kvs"
| "floats_fit _ = True"

definition parse_any_map :: "string \<Rightarrow> gerror + (string \<times> json) list" where
  "parse_any_map body = (case json_parse body of
     None \<Rightarrow> Inl (JsonError ''invalid JSON'')
   | Some j \<Rightarrow>
       if \<not> floats_fit j then Inl (JsonError ''cannot unmarshal'')
       else (case j of JNull \<Rightarrow> Inr [] | JObj kvs \<Rightarrow> Inr kvs | _ \<Rightarrow> Inl (JsonError ''cannot unmarshal'')))"

text \<open>Indexing the map: the last member of a name counts, a missing key gives a nil value.\<close>

definition any_get :: "string \<Rightarrow> (string \<times> json) list \<Rightarrow> json" where
  "any_get k kvs = (case map_of (rev kvs) k of None \<Rightarrow> JNull | Some j \<Rightarrow> j)"

definition conversion_panic :: string where
  "conversion_panic = ''interface conversion''"

text \<open>The three type assertions.\<close>

definition assert_map :: "json \<Rightarrow> ('w, (string \<times> json) list) op" where
  "assert_map j = (case j of JObj kvs \<Rightarrow> retG kvs | _ \<Rightarrow> panicG conversion_panic)"

definition assert_string :: "json \<Rightarrow> ('w, string) op" where
  "assert_string j = (case j of JStr s \<Rightarrow> retG s | _ \<Rightarrow> panicG conversion_panic)"

definition assert_bool :: "json \<Rightarrow> ('w, bool) op" where
  "assert_bool j = (case j of JBool b \<Rightarrow> retG b | _ \<Rightarrow> panicG conversion_panic)"

section \<open>Storing the token\<close>

definition token_key :: key where
  "token_key = (''ktcloudtoken'', ''default'')"

definition token_object :: "string \<Rightarrow> Token \<Rightarrow> string \<Rightarrow> KTSubjectToken" where
  "token_object subjectToken tok now =
     \<lparr>kt_TypeMeta = zero_TypeMeta,
      kt_Meta = zero_ObjectMeta\<lparr>om_Name := ''ktcloudtoken'', om_Namespace := ''default''\<rparr>,
      kt_Spec = \<lparr>us_SubjectToken = subjectToken, us_Token = tok,
        us_ClusterRef = \<lparr>rf_ApiVersion = '''', rf_Kind = '''', rf_Name = ''''\<rparr>\<rparr>,
      kt_Status = \<lparr>ut_SubjectToken = subjectToken, ut_Token = tok, ut_CreatedAt = now\<rparr>\<rparr>"

definition store_token :: "'w env \<Rightarrow> KTSubjectToken \<Rightarrow> ('w, unit) op" where
  "store_token env tokenObj =
     bindG (tryG (callG (GetCall KindKTSubjectToken token_key) (e_get_token env token_key))) (\<lambda>r. case r of
       Inl e \<Rightarrow>
         if is_not_found e then
           bindG (tryG (callG (CreateCall (OToken tokenObj)) (e_create_token env tokenObj))) (\<lambda>_. retG ())
         else retG ()
     | Inr existing \<Rightarrow>
         let t = existing\<lparr>kt_Status := kt_Status tokenObj\<rparr> in
         bindG (tryG (callG (StatusUpdate (OToken t)) (e_status_update_token env t))) (\<lambda>_. retG ()))"

definition createTokenObject :: "'w env \<Rightarrow> string \<Rightarrow> string \<Rightarrow> ('w, unit) op" where
  "createTokenObject env subjectToken responseBody =
     (case parse_any_map responseBody of
        Inl _ \<Rightarrow> retG ()
      | Inr parsedData \<Rightarrow>
          bindG (assert_map (any_get ''token'' parsedData)) (\<lambda>token.
          bindG (assert_string (any_get ''expires_at'' token)) (\<lambda>expiresAt.
          bindG (assert_bool (any_get ''is_domain'' token)) (\<lambda>isDomain.
          bindG (askG Now (e_now env)) (\<lambda>now.
          store_token env (token_object subjectToken \<lparr>tk_ExpiresAt = expiresAt, tk_IsDomain = isDomain\<rparr> now))))))"

section \<open>Logging in\<close>

text \<open>The loop over the headers, in the order \<open>keys\<close> in which the map is visited.\<close>

definition header_token :: "(string \<times> string list) list \<Rightarrow> string list \<Rightarrow> string" where
  "header_token header keys =
     fold (\<lambda>k token. fold (\<lambda>v token. if k = ''X-Subject-Token'' then v else token)
       (case map_of header k of None \<Rightarrow> [] | Some vs \<Rightarrow> vs) token) keys ''''"

definition KTCloudLogin :: "'w env \<Rightarrow> ('w, unit) op" where
  "KTCloudLogin env =
     bindG (tryG (http_do env (login_request env))) (\<lambda>r. case r of
       Inl _ \<Rightarrow> stopG Exited
     | Inr resp \<Rightarrow>
         if status_ok (hr_StatusCode resp) then
           bindG (tryG (read_body resp)) (\<lambda>r. case r of
             Inl _ \<Rightarrow> stopG Exited
           | Inr body \<Rightarrow>
               bindG (pickG (e_map_order env (map fst (hr_Header resp)))) (\<lambda>order.
               bindG (rest_config_or_panic env) (\<lambda>_.
               bindG (client_or_exit env) (\<lambda>_.
               createTokenObject env (header_token (hr_Header resp) order) body))))
         else stopG Exited)"

section \<open>What the cloud is asked\<close>

lemma enc_auth_wf: "wf_json (enc_AuthRequest r)"
  by (simp add: enc_AuthRequest_def enc_Auth_def enc_Identity_def enc_Scope_def enc_Password_def enc_User_def
      enc_Project_def enc_Domain_def enc_list_def enc_string_def list_all_iff)

lemma assert_specs [spec_intros]:
  "(\<And>x. Q x) \<Longrightarrow> S (Panicked conversion_panic) \<Longrightarrow> spec P (assert_map j) Q S"
  "(\<And>x. Q' x) \<Longrightarrow> S (Panicked conversion_panic) \<Longrightarrow> spec P (assert_string j) Q' S"
  "(\<And>x. Q'' x) \<Longrightarrow> S (Panicked conversion_panic) \<Longrightarrow> spec P (assert_bool j) Q'' S"
  by (cases j; simp add: assert_map_def assert_string_def assert_bool_def spec_ret spec_stopI)+

lemma store_token_spec:
  assumes "P (GetCall KindKTSubjectToken token_key)" and "P (CreateCall (OToken t))"
    and "\<And>x w w1. e_get_token env token_key w = (Inr x, w1) \<Longrightarrow> P (StatusUpdate (OToken (x\<lparr>kt_Status := kt_Status t\<rparr>)))"
  shows "spec P (store_token env t) (\<lambda>_. True) (\<lambda>_. False)"
  unfolding store_token_def Let_def
proof (rule spec_bind)
  show "spec P (tryG (callG (GetCall KindKTSubjectToken token_key) (e_get_token env token_key)))
      (\<lambda>r. case r of Inl e \<Rightarrow> True | Inr x \<Rightarrow> \<exists>w w1. e_get_token env token_key w = (Inr x, w1)) (\<lambda>_. False)"
    by (intro spec_try spec_call) (auto intro: assms(1))
qed (auto split: sum.split intro!: spec_ret spec_bind_any [OF spec_try [OF spec_call]] assms(2) dest: assms(3))

lemma createToken_spec:
  assumes "P Now" and "\<And>s tok now. spec P (store_token env (token_object s tok now)) (\<lambda>_. True) (\<lambda>_. False)"
  shows "spec P (createTokenObject env s body) (\<lambda>_. True) (\<lambda>e. e = Panicked conversion_panic)"
  unfolding createTokenObject_def
  by (auto split: sum.split intro!: spec_ret spec_bind_any assert_specs spec_ask assms(1)
      spec_weaken [OF assms(2)])

lemma KTCloudLogin_spec:
  assumes "P (HttpCall (login_request env))" and "\<And>c. is_setup c \<Longrightarrow> P c" and "P Now"
    and "\<And>s tok now. spec P (store_token env (token_object s tok now)) (\<lambda>_. True) (\<lambda>_. False)"
  shows "spec P (KTCloudLogin env) (\<lambda>_. True) (\<lambda>e. \<not> is_fail e)"
proof -
  have create: "spec P (createTokenObject env s body) (\<lambda>_. True) (\<lambda>e. \<not> is_fail e)" for s body
    by (rule spec_weaken [OF createToken_spec [where P = P]]) (auto intro: assms)
  have sent: "spec P (tryG (http_do env (login_request env))) (\<lambda>_. True) (\<lambda>e. \<not> is_fail e)"
    by (intro spec_try spec_http_do assms(1)) simp_all
  have body: "spec P (tryG (read_body resp)) (\<lambda>_. True) (\<lambda>e. \<not> is_fail e)" for resp
    by (intro spec_try spec_read_body) simp_all
  show ?thesis
    unfolding KTCloudLogin_def
    by (intro spec_bind_any [OF sent] spec_sum spec_if spec_stopI spec_bind_any [OF body] spec_bind_any [OF spec_pick]
        spec_bind_any [OF spec_rest_config_or_panic] spec_bind_any [OF spec_client_or_exit] create)
      (simp_all add: assms(2))
qed

text \<open>C35: A login sends nothing but the POST of the configured credentials to the token endpoint of
  the zone, as JSON that reads back as those credentials, without a token header.\<close>

theorem login_request_faithful:
  assumes "HttpCall rq \<in> set (trace (KTCloudLogin env) w)"
  defines "c \<equiv> e_config env"
  shows "rq_Method rq = ''POST'' \<and> rq_URL rq = c_ApiBaseURL c @ c_Zone c @ ''/identity/auth/tokens''
    \<and> rq_Header rq = [(''Content-Type'', ''application/json'')]
    \<and> json_parse (rq_Body rq) = Some (JObj [(''auth'', JObj [
        (''identity'', JObj [(''methods'', JArr [JStr (c_IdentityMethods c)]),
          (''password'', JObj [(''user'', JObj [
            (''domain'', JObj [(''id'', JStr (c_IdentityPasswordUserDomainId c))]),
            (''name'', JStr (c_IdentityPasswordUserName c)),
            (''password'', JStr (c_IdentityPassword c))])])]),
        (''scope'', JObj [(''project'', JObj [
            (''domain'', JObj [(''id'', JStr (c_ScopeProjectDomainId c))]),
            (''name'', JStr (c_ScopeProjectName c))])])])])"
proof -
  let ?P = "\<lambda>c. is_http c \<longrightarrow> c = HttpCall (login_request env)"
  have "spec ?P (KTCloudLogin env) (\<lambda>_. True) (\<lambda>e. \<not> is_fail e)"
    by (intro KTCloudLogin_spec store_token_spec) (auto elim: is_setup.elims)
  from spec_trace [OF this assms(1)] have rq: "rq = login_request env" by simp
  have "json_parse (print_json (enc_AuthRequest r)) = Some (enc_AuthRequest r)" for r
    by (rule json_roundtrip) (rule enc_auth_wf)
  then have "json_parse (rq_Body rq) = Some (enc_AuthRequest (auth_request c))"
    by (simp only: rq login_request_def http_request.simps c_def)
  then show ?thesis
    by (simp add: rq login_request_def api_url_def c_def auth_request_def enc_AuthRequest_def enc_Auth_def enc_Identity_def
        enc_Scope_def enc_Password_def enc_User_def enc_Project_def enc_Domain_def enc_list_def enc_string_def
        del: print_json.simps)
qed

theorem login_request_faithful_witness:
  "rq_Method (login_request (down_env :: unit env)) = ''POST''"
  by (rule login_request_faithful [where env = "down_env :: unit env" and w = "()", THEN conjunct1])
    (simp add: KTCloudLogin_def trace_def http_do_def go_simps login_request_def)

text \<open>A login never returns an error to its caller: it returns normally, ends the process when
  the cloud refuses or cannot be reached, or panics. In particular a Kubernetes error while the
  token is stored is lost.\<close>

theorem login_outcomes:
  "outcome (KTCloudLogin env) w \<noteq> Inl (Fail e)"
proof -
  have "spec (\<lambda>_. True) (KTCloudLogin env) (\<lambda>_. True) (\<lambda>e. \<not> is_fail e)"
    by (intro KTCloudLogin_spec store_token_spec) simp_all
  then show ?thesis using spec_stop [of _ _ _ "\<lambda>e. \<not> is_fail e" w "Fail e"] by force
qed

section \<open>The token in the headers\<close>

lemma fold_same_key:
  "fold (\<lambda>v token. if k = ''X-Subject-Token'' then v else token) vs t =
     (if k = ''X-Subject-Token'' \<and> vs \<noteq> [] then last vs else t)"
  by (induction vs arbitrary: t) auto

lemma header_fold:
  "distinct keys \<Longrightarrow>
   fold (\<lambda>k token. fold (\<lambda>v token. if k = ''X-Subject-Token'' then v else token)
      (case map_of header k of None \<Rightarrow> [] | Some vs \<Rightarrow> vs) token) keys t =
   (case map_of header ''X-Subject-Token'' of
      Some (v # vs) \<Rightarrow> if ''X-Subject-Token'' \<in> set keys then last (v # vs) else t
    | _ \<Rightarrow> t)"
  by (induction keys arbitrary: t)
    (auto simp: fold_same_key split: option.split list.split simp del: fold_simps(1))

lemma header_token_last:
  assumes "distinct order" and "set order = set (map fst header)"
  shows "header_token header order =
    (case map_of header ''X-Subject-Token'' of Some (v # vs) \<Rightarrow> last (v # vs) | _ \<Rightarrow> '''')"
proof (cases "map_of header ''X-Subject-Token''")
  case None
  then show ?thesis by (simp add: header_token_def header_fold [OF assms(1)])
next
  case (Some vs)
  then have "''X-Subject-Token'' \<in> set order" using assms(2) by (force dest: map_of_SomeD)
  with Some show ?thesis by (simp add: header_token_def header_fold [OF assms(1)] split: list.split)
qed

text \<open>C36: The order in which the run-time system visits the header map does not matter: the loop
  computes the last value of the header \<^verbatim>\<open>X-Subject-Token\<close>, and the empty string when there is
  none.\<close>

theorem header_token_order:
  assumes "distinct order" and "set order = set (map fst header)"
  shows "header_token header order =
    (case map_of header ''X-Subject-Token'' of Some (v # vs) \<Rightarrow> last (v # vs) | _ \<Rightarrow> '''')"
  by (rule header_token_last [OF assms])

theorem header_token_order_witness:
  "header_token [(''Date'', [''now'']), (''X-Subject-Token'', [''a'', ''b''])] [''X-Subject-Token'', ''Date''] = ''b''"
  by (subst header_token_order) auto

section \<open>What is stored\<close>

lemma login_create:
  assumes "e_url_parse env (rq_URL (login_request env)) = Inr u"
    and "e_http env (login_request env) w = (Inr resp, w1)" and "status_ok (hr_StatusCode resp)"
    and "hr_Body resp = Inr body" and "e_map_order env (map fst (hr_Header resp)) w1 = (order, w2)"
    and "rest_config_or_panic env w2 = (Inr (), cs, w3)" and "client_or_exit env w3 = (Inr (), ds, w4)"
    and "createTokenObject env (header_token (hr_Header resp) order) body w4 = (r, es, w5)"
  shows "KTCloudLogin env w = (r, HttpCall (login_request env) # cs @ ds @ es, w5)"
  using assms by (simp add: KTCloudLogin_def read_body_def go_simps outcome_http_do)

text \<open>A token description in an answer: the expiry and the domain flag.\<close>

definition token_answer :: "string \<Rightarrow> string \<Rightarrow> bool \<Rightarrow> bool" where
  "token_answer body ex dmn \<longleftrightarrow> (\<exists>kvs token. parse_any_map body = Inr kvs \<and> any_get ''token'' kvs = JObj token
     \<and> any_get ''expires_at'' token = JStr ex \<and> any_get ''is_domain'' token = JBool dmn)"

lemma createToken_run:
  assumes "token_answer body ex dmn" and "e_now env w = (now, w1)"
    and "store_token env (token_object s \<lparr>tk_ExpiresAt = ex, tk_IsDomain = dmn\<rparr> now) w1 = (r, cs, w2)"
  shows "createTokenObject env s body w = (r, Now # cs, w2)"
  using assms by (auto simp: token_answer_def createTokenObject_def assert_map_def assert_string_def assert_bool_def go_simps)

text \<open>When the cloud accepts the login and no token is stored yet, the header's token is stored
  under \<^verbatim>\<open>ktcloudtoken\<close> in the namespace \<^verbatim>\<open>default\<close>, in the spec and the status, with the
  expiry of the body and the current time.\<close>

theorem login_stores_token:
  assumes "e_url_parse env (rq_URL (login_request env)) = Inr u"
    and "e_http env (login_request env) w = (Inr resp, w1)" and "status_ok (hr_StatusCode resp)"
    and "hr_Body resp = Inr body" and "token_answer body ex dmn"
    and "e_map_order env (map fst (hr_Header resp)) w1 = (order, w2)"
    and "distinct order" and "set order = set (map fst (hr_Header resp))"
    and "map_of (hr_Header resp) ''X-Subject-Token'' = Some [t]"
    and "rest_config_or_panic env w2 = (Inr (), cs, w3)" and "client_or_exit env w3 = (Inr (), ds, w4)"
    and "e_now env w4 = (now, w5)" and "e_get_token env token_key w5 = (Inl e, w6)" and "is_not_found e"
  shows "\<exists>r w7. KTCloudLogin env w = (Inr (), HttpCall (login_request env) # cs @ ds @
      [Now, GetCall KindKTSubjectToken (''ktcloudtoken'', ''default''),
       CreateCall (OToken (token_object t \<lparr>tk_ExpiresAt = ex, tk_IsDomain = dmn\<rparr> now))], w7)
    \<and> e_create_token env (token_object t \<lparr>tk_ExpiresAt = ex, tk_IsDomain = dmn\<rparr> now) w6 = (r, w7)"
proof -
  let ?o = "token_object t \<lparr>tk_ExpiresAt = ex, tk_IsDomain = dmn\<rparr> now"
  obtain r w7 where r: "e_create_token env ?o w6 = (r, w7)" by (cases "e_create_token env ?o w6")
  have "store_token env ?o w5 = (Inr (), [GetCall KindKTSubjectToken token_key, CreateCall (OToken ?o)], w7)"
    using assms(13,14) r by (cases r) (simp_all add: store_token_def go_simps)
  moreover have "header_token (hr_Header resp) order = t"
    using assms(7-9) by (simp add: header_token_last)
  ultimately have "createTokenObject env (header_token (hr_Header resp) order) body w4 =
      (Inr (), Now # [GetCall KindKTSubjectToken token_key, CreateCall (OToken ?o)], w7)"
    using createToken_run [OF assms(5,12)] by simp
  from login_create [OF assms(1-4,6,10,11) this] r show ?thesis by (simp add: token_key_def)
qed

text \<open>A later login writes only the status of the stored token object; its spec, where the
  machine controller looks for the token, stays as it was read.\<close>

theorem renewal_keeps_spec:
  assumes "c \<in> set (trace (KTCloudLogin env) w)" and "is_k8s_write c"
    and stored: "\<And>w. \<exists>x w1. e_get_token env token_key w = (Inr x, w1)"
  shows "\<exists>x st w1 w2. e_get_token env token_key w1 = (Inr x, w2) \<and> c = StatusUpdate (OToken (x\<lparr>kt_Status := st\<rparr>))
    \<and> kt_Spec (x\<lparr>kt_Status := st\<rparr>) = kt_Spec x"
proof -
  let ?P = "\<lambda>c. is_k8s_write c \<longrightarrow> (\<exists>x st w1 w2. e_get_token env token_key w1 = (Inr x, w2)
    \<and> c = StatusUpdate (OToken (x\<lparr>kt_Status := st\<rparr>)))"
  have store: "spec ?P (store_token env t) (\<lambda>_. True) (\<lambda>_. False)" for t
    unfolding store_token_def Let_def
  proof (rule spec_bind)
    show "spec ?P (tryG (callG (GetCall KindKTSubjectToken token_key) (e_get_token env token_key)))
        (\<lambda>r. \<exists>x w w1. r = Inr x \<and> e_get_token env token_key w = (Inr x, w1)) (\<lambda>_. False)"
    proof (intro spec_try spec_call)
      show "case Fail e of Fail g \<Rightarrow> \<exists>x w w1. Inl g = Inr x \<and> e_get_token env token_key w = (Inr x, w1) | _ \<Rightarrow> False"
        if "e_get_token env token_key w = (Inl e, w1)" for e w w1 using stored [of w] that by simp
    qed auto
  qed (auto intro!: spec_ret spec_bind_any [OF spec_try [OF spec_call]], blast)
  have "spec ?P (KTCloudLogin env) (\<lambda>_. True) (\<lambda>e. \<not> is_fail e)"
    by (intro KTCloudLogin_spec store) (auto elim: is_setup.elims)
  from spec_trace [OF this assms(1)] assms(2) show ?thesis by auto
qed

text \<open>An accepted answer whose body does not hold a token with a textual expiry and a Boolean
  domain flag stores nothing: text that does not parse is ignored, and anything else is a panic
  of the type assertion.\<close>

theorem bad_answer_stores_nothing:
  assumes "\<And>ex d. \<not> token_answer body ex d"
  shows "createTokenObject env s body w =
    (case parse_any_map body of Inl e \<Rightarrow> Inr () | Inr kvs \<Rightarrow> Inl (Panicked conversion_panic), [], w)"
proof (cases "parse_any_map body")
  case (Inl e)
  then show ?thesis by (simp add: createTokenObject_def go_simps)
next
  case (Inr kvs)
  show ?thesis
  proof (cases "any_get ''token'' kvs")
    case (JObj token)
    with Inr assms have "\<forall>ex d. \<not> (any_get ''expires_at'' token = JStr ex \<and> any_get ''is_domain'' token = JBool d)"
      by (auto simp: token_answer_def)
    with Inr JObj show ?thesis
      by (cases "any_get ''expires_at'' token"; cases "any_get ''is_domain'' token";
          auto simp: createTokenObject_def assert_map_def assert_string_def assert_bool_def go_simps)
  qed (use Inr in \<open>simp_all add: createTokenObject_def assert_map_def go_simps\<close>)
qed

section \<open>Samples\<close>

definition login_body :: string where
  "login_body = print_json (JObj [(''token'', JObj [(''expires_at'', JStr ''later''), (''is_domain'', JBool False)])])"

definition login_env :: "unit env" where
  "login_env = down_env\<lparr>e_http := (\<lambda>_ w. (Inr ((answer 201 ''201 Created'' login_body)\<lparr>hr_Header :=
     [(''X-Subject-Token'', [''secret''])]\<rparr>), w))\<rparr>"

lemma login_env_simps [simp]:
  "e_http login_env rq w = (Inr ((answer 201 ''201 Created'' login_body)\<lparr>hr_Header := [(''X-Subject-Token'', [''secret''])]\<rparr>), w)"
  "e_url_parse login_env s = Inr \<lparr>u_Scheme = '''', u_Host = s, u_Path = ''''\<rparr>"
  "e_map_order login_env ks w = (ks, w)" "e_now login_env w = ('''', w)"
  "e_get_token login_env k w = (Inl absent, w)" "e_create_token login_env t w = (Inr t, w)"
  "rest_config_or_panic login_env w = (Inr (), [DefaultConfig], w)" "client_or_exit login_env w = (Inr (), [NewClient], w)"
  by (simp_all add: login_env_def rest_config_or_panic_def getRestConfig_def client_or_exit_def getClient_def go_simps)

lemma login_body_token: "token_answer login_body ''later'' False"
proof -
  have "json_parse login_body =
      Some (JObj [(''token'', JObj [(''expires_at'', JStr ''later''), (''is_domain'', JBool False)])])"
    unfolding login_body_def by (rule json_roundtrip) simp
  then show ?thesis by (simp add: token_answer_def parse_any_map_def any_get_def)
qed

lemma login_env_creates:
  "CreateCall (OToken (token_object ''secret'' \<lparr>tk_ExpiresAt = ''later'', tk_IsDomain = False\<rparr> ''''))
     \<in> set (trace (KTCloudLogin login_env) ())"
proof -
  let ?t = "token_object ''secret'' \<lparr>tk_ExpiresAt = ''later'', tk_IsDomain = False\<rparr> ''''"
  have "store_token login_env ?t () = (Inr (), [GetCall KindKTSubjectToken token_key, CreateCall (OToken ?t)], ())"
    by (simp add: store_token_def go_simps)
  then have "createTokenObject login_env ''secret'' login_body () =
      (Inr (), [Now, GetCall KindKTSubjectToken token_key, CreateCall (OToken ?t)], ())"
    by (rule createToken_run [OF login_body_token, rotated]) simp
  then have "KTCloudLogin login_env () = (Inr (), HttpCall (login_request login_env) # [DefaultConfig] @ [NewClient] @
      [Now, GetCall KindKTSubjectToken token_key, CreateCall (OToken ?t)], ())"
    by (intro login_create [where body = login_body and order = "[''X-Subject-Token'']" and ?w1.0 = "()" and ?w2.0 = "()"
        and resp = "(answer 201 ''201 Created'' login_body)\<lparr>hr_Header := [(''X-Subject-Token'', [''secret''])]\<rparr>"
        and u = "\<lparr>u_Scheme = '''', u_Host = rq_URL (login_request login_env), u_Path = ''''\<rparr>"])
      (simp_all add: status_ok_def header_token_def)
  then show ?thesis by (simp add: trace_def)
qed

theorem login_stores_token_witness:
  "\<exists>w7. KTCloudLogin login_env () = (Inr (), HttpCall (login_request login_env) # [DefaultConfig] @ [NewClient] @
      [Now, GetCall KindKTSubjectToken (''ktcloudtoken'', ''default''),
       CreateCall (OToken (token_object ''secret'' \<lparr>tk_ExpiresAt = ''later'', tk_IsDomain = False\<rparr> ''''))], w7)"
  using login_stores_token [of login_env _ "()" _ "()" login_body "''later''" False "[''X-Subject-Token'']" "()"
      "''secret''" "[DefaultConfig]" "()" "[NewClient]" "()" "''''" "()" absent "()"]
  by (simp add: login_body_token status_ok_def)

theorem renewal_keeps_spec_witness:
  "\<exists>x st w1 w2. e_get_token (login_env\<lparr>e_get_token := (\<lambda>_ w. (Inr (token_object ''old'' \<lparr>tk_ExpiresAt = '''', tk_IsDomain = False\<rparr> ''''), w))\<rparr>)
      token_key w1 = (Inr x, w2)
    \<and> StatusUpdate (OToken (token_object ''old'' \<lparr>tk_ExpiresAt = '''', tk_IsDomain = False\<rparr> ''''\<lparr>kt_Status :=
        \<lparr>ut_SubjectToken = ''secret'', ut_Token = \<lparr>tk_ExpiresAt = ''later'', tk_IsDomain = False\<rparr>, ut_CreatedAt = ''''\<rparr>\<rparr>))
      = StatusUpdate (OToken (x\<lparr>kt_Status := st\<rparr>))
    \<and> kt_Spec (x\<lparr>kt_Status := st\<rparr>) = kt_Spec x"
proof (rule renewal_keeps_spec)
  let ?old = "token_object ''old'' \<lparr>tk_ExpiresAt = '''', tk_IsDomain = False\<rparr> ''''"
  let ?env = "login_env\<lparr>e_get_token := (\<lambda>_ w. (Inr ?old, w))\<rparr>"
  let ?new = "token_object ''secret'' \<lparr>tk_ExpiresAt = ''later'', tk_IsDomain = False\<rparr> ''''"
  have e: "rest_config_or_panic ?env () = (Inr (), [DefaultConfig], ())" "client_or_exit ?env () = (Inr (), [NewClient], ())"
      "e_now ?env () = ('''', ())"
    by (simp_all add: login_env_def rest_config_or_panic_def getRestConfig_def client_or_exit_def getClient_def go_simps)
  have "store_token ?env ?new () = (Inr (), [GetCall KindKTSubjectToken token_key,
      StatusUpdate (OToken (?old\<lparr>kt_Status := kt_Status ?new\<rparr>))], ())"
    by (simp add: store_token_def go_simps login_env_def Let_def)
  then have "createTokenObject ?env ''secret'' login_body () = (Inr (), [Now, GetCall KindKTSubjectToken token_key,
      StatusUpdate (OToken (?old\<lparr>kt_Status := kt_Status ?new\<rparr>))], ())"
    by (rule createToken_run [OF login_body_token e(3)])
  then have "KTCloudLogin ?env () = (Inr (), HttpCall (login_request ?env) # [DefaultConfig] @ [NewClient] @
      [Now, GetCall KindKTSubjectToken token_key, StatusUpdate (OToken (?old\<lparr>kt_Status := kt_Status ?new\<rparr>))], ())"
    using e(1,2) by (intro login_create [where body = login_body and order = "[''X-Subject-Token'']" and ?w1.0 = "()" and ?w2.0 = "()"
        and resp = "(answer 201 ''201 Created'' login_body)\<lparr>hr_Header := [(''X-Subject-Token'', [''secret''])]\<rparr>"
        and u = "\<lparr>u_Scheme = '''', u_Host = rq_URL (login_request ?env), u_Path = ''''\<rparr>"])
      (simp_all add: status_ok_def header_token_def login_env_def)
  then show "StatusUpdate (OToken (?old\<lparr>kt_Status :=
        \<lparr>ut_SubjectToken = ''secret'', ut_Token = \<lparr>tk_ExpiresAt = ''later'', tk_IsDomain = False\<rparr>, ut_CreatedAt = ''''\<rparr>\<rparr>))
      \<in> set (trace (KTCloudLogin ?env) ())"
    by (simp add: trace_def token_object_def)
qed simp_all

theorem bad_answer_stores_nothing_witness:
  "createTokenObject login_env ''t'' (print_json JNull) () = (Inl (Panicked conversion_panic), [], ())"
proof -
  have "json_parse (print_json JNull) = Some JNull" by (rule json_roundtrip) simp
  then have "parse_any_map (print_json JNull) = Inr []" by (simp add: parse_any_map_def del: print_json.simps)
  then show ?thesis
    by (subst bad_answer_stores_nothing) (auto simp: token_answer_def any_get_def simp del: print_json.simps)
qed

end
