(* ===== verification/Startup.thy ===== *)
theory Startup
  imports GoEffects
begin

text \<open>
  The start of the program, \<^verbatim>\<open>cmd/main.go\<close>: from the command-line flags it builds the options of
  the controller manager, registers one controller for each kind (each \<open>SetupWithManager\<close> of
  \<^verbatim>\<open>internal/controller\<close> is a record of the kinds it is called for), adds the two health checks
  and runs the manager. Every error on the way ends the process. Parsing the flags, the logger and
  the webhook server, which no webhook uses, are left to the libraries; what the manager answers is
  the parameter \<open>manager\<close>.
\<close>

section \<open>Controllers\<close>

text \<open>\<open>For\<close>, \<open>Owns\<close> and \<open>Named\<close> of a controller builder.\<close>

record controller =
  ct_For :: string
  ct_Owns :: "string list"
  ct_Named :: string

definition cluster_setup :: controller where
  "cluster_setup = \<lparr>ct_For = ''Cluster'', ct_Owns = [''KTCluster'', ''MachineDeployment''], ct_Named = ''cluster''\<rparr>"

definition ktcluster_setup :: controller where
  "ktcluster_setup = \<lparr>ct_For = ''KTCluster'', ct_Owns = [''KTSubjectToken'', ''KTMachineTemplate''], ct_Named = ''ktcluster''\<rparr>"

definition ktmachine_setup :: controller where
  "ktmachine_setup = \<lparr>ct_For = ''KTMachine'', ct_Owns = [''KTNetworkFirewall''], ct_Named = ''ktmachine''\<rparr>"

definition ktmachinetemplate_setup :: controller where
  "ktmachinetemplate_setup = \<lparr>ct_For = ''KTMachineTemplate'', ct_Owns = [''MachineDeployment''], ct_Named = ''ktmachinetemplate''\<rparr>"

definition ktnetworkfirewall_setup :: controller where
  "ktnetworkfirewall_setup = \<lparr>ct_For = ''KTNetworkFirewall'', ct_Owns = [], ct_Named = ''ktnetworkfirewall''\<rparr>"

definition ktpublicnetwork_setup :: controller where
  "ktpublicnetwork_setup = \<lparr>ct_For = ''KTPublicNetwork'', ct_Owns = [], ct_Named = ''ktpublicnetwork''\<rparr>"

definition ktsubjecttoken_setup :: controller where
  "ktsubjecttoken_setup = \<lparr>ct_For = ''KTSubjectToken'', ct_Owns = [], ct_Named = ''ktsubjecttoken''\<rparr>"

definition kubeadmconfigtemplate_setup :: controller where
  "kubeadmconfigtemplate_setup = \<lparr>ct_For = ''KubeadmConfigTemplate'', ct_Owns = [], ct_Named = ''kubeadmconfigtemplate''\<rparr>"

definition kubeadmcontrolplane_setup :: controller where
  "kubeadmcontrolplane_setup = \<lparr>ct_For = ''KubeadmControlPlane'', ct_Owns = [], ct_Named = ''kubeadmcontrolplane''\<rparr>"

definition machinedeployment_setup :: controller where
  "machinedeployment_setup = \<lparr>ct_For = ''MachineDeployment'', ct_Owns = [''KTMachine''], ct_Named = ''machinedeployment''\<rparr>"

text \<open>In the order in which \<open>main\<close> registers them.\<close>

definition controllers :: "controller list" where
  "controllers = [ktmachinetemplate_setup, ktcluster_setup, cluster_setup, kubeadmconfigtemplate_setup,
     kubeadmcontrolplane_setup, machinedeployment_setup, ktsubjecttoken_setup, ktmachine_setup,
     ktpublicnetwork_setup, ktnetworkfirewall_setup]"

section \<open>The manager\<close>

record flags =
  fg_metricsAddr :: string
  fg_probeAddr :: string
  fg_enableLeaderElection :: bool
  fg_secureMetrics :: bool
  fg_enableHTTP2 :: bool

text \<open>The defaults of the flags.\<close>

definition default_flags :: flags where
  "default_flags = \<lparr>fg_metricsAddr = ''0'', fg_probeAddr = '':8081'', fg_enableLeaderElection = False,
     fg_secureMetrics = True, fg_enableHTTP2 = False\<rparr>"

text \<open>\<open>mo_NextProtos\<close> is what \<open>tlsOpts\<close> sets, \<open>None\<close> when there is no option and the
  library's default holds; \<open>mo_Filtered\<close> says whether the metrics filter provider is set.\<close>

record manager_options =
  mo_MetricsBindAddress :: string
  mo_SecureServing :: bool
  mo_NextProtos :: "string list option"
  mo_Filtered :: bool
  mo_HealthProbeBindAddress :: string
  mo_LeaderElection :: bool
  mo_LeaderElectionID :: string

definition manager_options :: "flags \<Rightarrow> manager_options" where
  "manager_options f =
     \<lparr>mo_MetricsBindAddress = fg_metricsAddr f, mo_SecureServing = fg_secureMetrics f,
      mo_NextProtos = (if \<not> fg_enableHTTP2 f then Some [''http/1.1''] else None),
      mo_Filtered = fg_secureMetrics f,
      mo_HealthProbeBindAddress = fg_probeAddr f, mo_LeaderElection = fg_enableLeaderElection f,
      mo_LeaderElectionID = ''03f78d7a.dcnlab.ssu.ac.kr''\<rparr>"

datatype start_call = NewManager manager_options | SetupController controller | AddHealthzCheck string
  | AddReadyzCheck string | StartManager

text \<open>One step of \<open>main\<close>: an error is logged and ends the process. So does \<open>GetConfigOrDie\<close>, which
  is evaluated for the argument of \<open>NewManager\<close>; its failure is one of the errors of that step.\<close>

definition or_exit :: "(start_call \<Rightarrow> 'w \<Rightarrow> (gerror + unit) \<times> 'w) \<Rightarrow> start_call \<Rightarrow> ('w, start_call, unit) go" where
  "or_exit manager c =
     bindG (tryG (callG c (manager c))) (\<lambda>r. case r of Inl e \<Rightarrow> stopG Exited | Inr _ \<Rightarrow> retG ())"

definition main :: "(start_call \<Rightarrow> 'w \<Rightarrow> (gerror + unit) \<times> 'w) \<Rightarrow> flags \<Rightarrow> ('w, start_call, unit) go" where
  "main manager f =
     bindG (or_exit manager (NewManager (manager_options f))) (\<lambda>_.
     bindG (forG controllers (\<lambda>c. or_exit manager (SetupController c))) (\<lambda>_.
     bindG (or_exit manager (AddHealthzCheck ''healthz'')) (\<lambda>_.
     bindG (or_exit manager (AddReadyzCheck ''readyz'')) (\<lambda>_.
     or_exit manager StartManager))))"

section \<open>Properties\<close>

lemma or_exit_trace [simp]: "trace (or_exit manager c) w = [c]"
  by (simp add: or_exit_def trace_bindG split: sum.split)

lemma or_exit_outcome [simp]:
  "outcome (or_exit manager c) w = (case fst (manager c w) of Inl e \<Rightarrow> Inl Exited | Inr _ \<Rightarrow> Inr ())"
  by (simp add: or_exit_def outcome_bindG outcome_tryG outcome_callG split: sum.split)

lemma setup_never_starts:
  "StartManager \<notin> set (trace (forG cs (\<lambda>c. or_exit manager (SetupController c))) w)"
  by (induction cs arbitrary: w) (simp_all add: trace_bindG split: sum.split)

lemma setup_all:
  "outcome (forG cs (\<lambda>c. or_exit manager (SetupController c))) w = Inr () \<Longrightarrow>
   trace (forG cs (\<lambda>c. or_exit manager (SetupController c))) w = map SetupController cs"
  by (induction cs arbitrary: w) (auto simp: trace_bindG outcome_bindG split: sum.splits)

text \<open>The manager is only started after it accepted its options and every one of the controllers,
  each registered exactly once and in order, and both health checks; on any error before that the
  process ends.\<close>

theorem started_with_all_controllers:
  assumes "StartManager \<in> set (trace (main manager f) w)"
  shows "trace (main manager f) w = NewManager (manager_options f) # map SetupController controllers @
    [AddHealthzCheck ''healthz'', AddReadyzCheck ''readyz'', StartManager]"
  using assms setup_never_starts [of controllers manager]
  by (auto simp: main_def trace_bindG outcome_bindG setup_all split: sum.splits)

definition working_manager :: "start_call \<Rightarrow> unit \<Rightarrow> (gerror + unit) \<times> unit" where
  "working_manager c w = (Inr (), w)"

theorem started_with_all_controllers_witness:
  "trace (main working_manager default_flags) () = NewManager (manager_options default_flags) #
     map SetupController controllers @ [AddHealthzCheck ''healthz'', AddReadyzCheck ''readyz'', StartManager]"
  by (rule started_with_all_controllers)
    (simp add: main_def controllers_def trace_bindG outcome_bindG world_bindG working_manager_def)

text \<open>No two controllers share a name or a kind, so an object is reconciled by one controller
  only; and the kinds that a machine deployment, a cluster, a template and a machine own are
  kinds with a controller of their own.\<close>

theorem controllers_well_formed:
  "distinct (map ct_Named controllers) \<and> distinct (map ct_For controllers)
   \<and> (\<Union>c \<in> set controllers. set (ct_Owns c)) \<subseteq> set (map ct_For controllers)"
  by (simp add: controllers_def cluster_setup_def ktcluster_setup_def ktmachine_setup_def ktmachinetemplate_setup_def
      ktnetworkfirewall_setup_def ktpublicnetwork_setup_def ktsubjecttoken_setup_def kubeadmconfigtemplate_setup_def
      kubeadmcontrolplane_setup_def machinedeployment_setup_def)

end
