(* ===== verification/World.thy ===== *)
theory World
  imports MachineController DeploymentController OwnerControllers Login
begin

text \<open>
  The outside world as a transition system. \<open>effect env c w\<close> is the state of the world after call
  \<open>c\<close>; \<open>runs env cs w w'\<close> says that the calls \<open>cs\<close>, in this order, lead from \<open>w\<close> to \<open>w'\<close> (a map
  iteration may move it too, without a call). An operation is \<open>driven\<close> when it changes the world by
  its recorded calls only; every operation of the program is. So what all calls of an operation
  keep, the operation keeps, whatever the world answers: \<open>driven_within\<close> turns a contract on the
  calls into a relation between the states before and after.
\<close>

section \<open>The effect of a call\<close>

definition effect :: "'w env \<Rightarrow> call \<Rightarrow> 'w \<Rightarrow> 'w" where
  "effect env c w = (case c of
     GetCall kd k \<Rightarrow> (case kd of
         KindKTMachine \<Rightarrow> snd (e_get_machine env k w) | KindKTCluster \<Rightarrow> snd (e_get_ktcluster env k w)
       | KindCluster \<Rightarrow> snd (e_get_cluster env k w) | KindKTMachineTemplate \<Rightarrow> snd (e_get_template env k w)
       | KindMachineDeployment \<Rightarrow> snd (e_get_deployment env k w) | KindKTSubjectToken \<Rightarrow> snd (e_get_token env k w)
       | KindKTNetworkFirewall \<Rightarrow> snd (e_get_firewall env k w) | KindSecret \<Rightarrow> snd (e_get_secret env k w))
   | ListMachines ns \<Rightarrow> snd (e_list_machines env ns w)
   | CreateCall x \<Rightarrow> (case x of
         OMachine m \<Rightarrow> snd (e_create_machine env m w) | OFirewall f \<Rightarrow> snd (e_create_firewall env f w)
       | OToken t \<Rightarrow> snd (e_create_token env t w) | OSecret s \<Rightarrow> snd (e_create_secret env s w) | _ \<Rightarrow> w)
   | UpdateCall x \<Rightarrow> (case x of
         OKTCluster c \<Rightarrow> snd (e_update_ktcluster env c w) | OTemplate t \<Rightarrow> snd (e_update_template env t w)
       | ODeployment d \<Rightarrow> snd (e_update_deployment env d w) | OToken t \<Rightarrow> snd (e_update_token env t w)
       | OSecret s \<Rightarrow> snd (e_update_secret env s w) | _ \<Rightarrow> w)
   | StatusUpdate x \<Rightarrow> (case x of
         OMachine m \<Rightarrow> snd (e_status_update_machine env m w) | OFirewall f \<Rightarrow> snd (e_status_update_firewall env f w)
       | OToken t \<Rightarrow> snd (e_status_update_token env t w) | _ \<Rightarrow> w)
   | DeleteCall x \<Rightarrow> (case x of OFirewall f \<Rightarrow> snd (e_delete_firewall env f w) | _ \<Rightarrow> w)
   | HttpCall rq \<Rightarrow> snd (e_http env rq w)
   | BuildConfig p \<Rightarrow> snd (e_build_config env p w)
   | DefaultConfig \<Rightarrow> snd (e_default_config env w)
   | NewClient \<Rightarrow> snd (e_new_client env w)
   | RandInt n \<Rightarrow> snd (e_rand env n w)
   | Now \<Rightarrow> snd (e_now env w)
   | Sleep n \<Rightarrow> e_sleep env n w)"

lemma effect_simps [simp]:
  "effect env (GetCall KindKTMachine k) w = snd (e_get_machine env k w)"
  "effect env (GetCall KindKTCluster k) w = snd (e_get_ktcluster env k w)"
  "effect env (GetCall KindCluster k) w = snd (e_get_cluster env k w)"
  "effect env (GetCall KindKTMachineTemplate k) w = snd (e_get_template env k w)"
  "effect env (GetCall KindMachineDeployment k) w = snd (e_get_deployment env k w)"
  "effect env (GetCall KindKTSubjectToken k) w = snd (e_get_token env k w)"
  "effect env (GetCall KindKTNetworkFirewall k) w = snd (e_get_firewall env k w)"
  "effect env (GetCall KindSecret k) w = snd (e_get_secret env k w)"
  "effect env (ListMachines ns) w = snd (e_list_machines env ns w)"
  "effect env (CreateCall (OMachine m)) w = snd (e_create_machine env m w)"
  "effect env (CreateCall (OFirewall f)) w = snd (e_create_firewall env f w)"
  "effect env (CreateCall (OToken t)) w = snd (e_create_token env t w)"
  "effect env (CreateCall (OSecret s)) w = snd (e_create_secret env s w)"
  "effect env (UpdateCall (OKTCluster c)) w = snd (e_update_ktcluster env c w)"
  "effect env (UpdateCall (OTemplate tm)) w = snd (e_update_template env tm w)"
  "effect env (UpdateCall (ODeployment d)) w = snd (e_update_deployment env d w)"
  "effect env (UpdateCall (OToken t)) w = snd (e_update_token env t w)"
  "effect env (UpdateCall (OSecret s)) w = snd (e_update_secret env s w)"
  "effect env (StatusUpdate (OMachine m)) w = snd (e_status_update_machine env m w)"
  "effect env (StatusUpdate (OFirewall f)) w = snd (e_status_update_firewall env f w)"
  "effect env (StatusUpdate (OToken t)) w = snd (e_status_update_token env t w)"
  "effect env (DeleteCall (OFirewall f)) w = snd (e_delete_firewall env f w)"
  "effect env (HttpCall rq) w = snd (e_http env rq w)"
  "effect env (BuildConfig p) w = snd (e_build_config env p w)"
  "effect env DefaultConfig w = snd (e_default_config env w)"
  "effect env NewClient w = snd (e_new_client env w)"
  "effect env (RandInt n) w = snd (e_rand env n w)"
  "effect env Now w = snd (e_now env w)"
  "effect env (Sleep n) w = e_sleep env n w"
  by (simp_all add: effect_def)

section \<open>Runs of the world\<close>

inductive runs :: "'w env \<Rightarrow> call list \<Rightarrow> 'w \<Rightarrow> 'w \<Rightarrow> bool" for env where
  stay: "runs env [] w w"
| call: "runs env cs (effect env c w) w1 \<Longrightarrow> runs env (c # cs) w w1"
| pick: "runs env cs (snd (e_map_order env ks w)) w1 \<Longrightarrow> runs env cs w w1"

lemma runs_append: "runs env cs w w1 \<Longrightarrow> runs env ds w1 w2 \<Longrightarrow> runs env (cs @ ds) w w2"
  by (induction rule: runs.induct) (auto intro: runs.intros)

lemma runs_one: "runs env [c] w (effect env c w)"
  by (intro runs.intros)

lemma runs_within:
  assumes "runs env cs w w1" and "reflp R" and "transp R"
    and "\<And>c w. c \<in> set cs \<Longrightarrow> R w (effect env c w)" and "\<And>ks w. R w (snd (e_map_order env ks w))"
  shows "R w w1"
  using assms
proof (induction rule: runs.induct)
  case (stay w)
  then show ?case by (simp add: reflpD)
next
  case (call cs c w w1)
  have "R w (effect env c w)" by (rule call.prems) simp
  moreover have "R (effect env c w) w1" by (rule call.IH) (use call.prems in auto)
  ultimately show ?case by (rule transpD [OF \<open>transp R\<close>])
next
  case (pick cs ks w w1)
  have "R w (snd (e_map_order env ks w))" by (rule pick.prems)
  moreover have "R (snd (e_map_order env ks w)) w1" by (rule pick.IH) (use pick.prems in auto)
  ultimately show ?case by (rule transpD [OF \<open>transp R\<close>])
qed

section \<open>Operations that their calls drive\<close>

named_theorems driven_intros

definition driven :: "'w env \<Rightarrow> ('w, 'a) op \<Rightarrow> bool" where
  "driven env m \<longleftrightarrow> (\<forall>w. runs env (trace m w) w (world m w))"

lemma drivenD: "driven env m \<Longrightarrow> runs env (trace m w) w (world m w)"
  by (simp add: driven_def)

lemma driven_within:
  assumes "driven env m" and "spec P m Q S" and "reflp R" and "transp R"
    and "\<And>c w. P c \<Longrightarrow> R w (effect env c w)" and "\<And>ks w. R w (snd (e_map_order env ks w))"
  shows "R w (world m w)"
  by (rule runs_within [OF drivenD [OF assms(1)] assms(3,4)])
    (blast intro: assms(5,6) spec_trace [OF assms(2)])+

lemma driven_ret [driven_intros]: "driven env (retG x)"
  by (simp add: driven_def runs.stay)

lemma driven_stop [driven_intros]: "driven env (stopG e)"
  by (simp add: driven_def runs.stay)

lemma driven_lift [driven_intros]: "driven env (liftG r)"
  by (cases r) (simp_all add: driven_ret driven_stop)

lemma driven_call [driven_intros]: "(\<And>w. snd (f w) = effect env c w) \<Longrightarrow> driven env (callG c f)"
  by (simp add: driven_def world_callG runs_one)

lemma run_askG: "trace (askG c f) w = [c]" "world (askG c f) w = snd (f w)"
  by (simp_all add: run_defs askG_apply split: prod.split)

lemma run_pickG: "trace (pickG f) w = []" "world (pickG f) w = snd (f w)"
  by (simp_all add: run_defs pickG_apply split: prod.split)

lemma driven_ask [driven_intros]: "(\<And>w. snd (f w) = effect env c w) \<Longrightarrow> driven env (askG c f)"
  by (simp add: driven_def run_askG runs_one)

lemma driven_pick [driven_intros]: "driven env (pickG (e_map_order env ks))"
  by (auto simp: driven_def run_pickG intro: runs.intros)

lemma driven_try [driven_intros]: "driven env m \<Longrightarrow> driven env (tryG m)"
  by (simp add: driven_def)

lemma driven_bind [driven_intros]:
  "driven env m \<Longrightarrow> (\<And>x. driven env (f x)) \<Longrightarrow> driven env (bindG m f)"
  by (auto simp: driven_def trace_bindG world_bindG intro: runs_append split: sum.split)

lemma driven_cases [driven_intros]:
  "driven env m \<Longrightarrow> driven env n \<Longrightarrow> driven env (if b then m else n)"
  "driven env m \<Longrightarrow> (\<And>y. driven env (f y)) \<Longrightarrow> driven env (case x of None \<Rightarrow> m | Some y \<Rightarrow> f y)"
  "(\<And>e. driven env (g e)) \<Longrightarrow> (\<And>y. driven env (h y)) \<Longrightarrow> driven env (case r of Inl e \<Rightarrow> g e | Inr y \<Rightarrow> h y)"
  "driven env m \<Longrightarrow> (\<And>y ys. driven env (l y ys)) \<Longrightarrow> driven env (case xs of [] \<Rightarrow> m | y # ys \<Rightarrow> l y ys)"
  by (simp_all split: option.split sum.split list.split)

lemma driven_for [driven_intros]: "(\<And>x. driven env (f x)) \<Longrightarrow> driven env (forG xs f)"
  by (induction xs) (auto intro: driven_intros)

section \<open>The operations of the program\<close>

lemma driven_services [driven_intros]:
  "driven env (http_do env rq)" "driven env (read_body resp)" "driven env (getRestConfig env path)"
  "driven env (rest_config_or_panic env)" "driven env (client_or_exit env)" "driven env (sleep_for env n)"
  unfolding http_do_def read_body_def getRestConfig_def rest_config_or_panic_def client_or_exit_def
    getClient_def sleep_for_def by (intro driven_intros; simp)+

lemma driven_vm [driven_intros]:
  "driven env (updateVMStatus env m st s)" "driven env (GetCreatedVM env m token)"
  "driven env (CheckControlPlaneMachineReady env m)"
  unfolding updateVMStatus_def Let_def GetCreatedVM_def CheckControlPlaneMachineReady_def
  by (intro driven_intros; simp)+

lemma driven_create_server [driven_intros]: "driven env (create_server env token m script)"
  unfolding create_server_def by (intro driven_intros)

lemma driven_first_ready [driven_intros]: "driven env (first_ready env ms)"
  by (induction ms) (auto intro!: driven_intros)

lemma driven_join [driven_intros]: "driven env (JoinControlPlane env cps m token)"
  unfolding JoinControlPlane_def CreateWorkerVM_def by (intro driven_intros)

lemma driven_network [driven_intros]:
  "driven env (cloud_get env token path d z)" "driven env (get_firewall env m)"
  "driven env (update_firewall_status env fw)"
  unfolding cloud_get_def get_firewall_def update_firewall_status_def by (intro driven_intros; simp)+

lemma driven_attach [driven_intros]: "driven env (AttachPublicIP env m token)"
  unfolding AttachPublicIP_def GetAvailablePublicIpAddresses_def Let_def by (intro driven_intros)

lemma driven_firewall [driven_intros]: "driven env (AddFirewallSettings env m token rule flag)"
  unfolding AddFirewallSettings_def GetAssignedPublicIpAddresses_def GetNetworkAllNetworks_def
    createFirewallObjectInK8s_def Let_def by (intro driven_intros; simp)

lemma driven_fetch_loop [driven_intros]: "driven env (fetch_loop env rq n seen)"
  by (induction n arbitrary: seen) (auto intro!: driven_intros)

lemma driven_change_servers [driven_intros]: "driven env (change_servers env d ns kc)"
  by (induction env d ns kc rule: change_servers.induct) (auto intro!: driven_intros split: option.split sum.split list.split)

lemma driven_kubeconfig [driven_intros]: "driven env (FetchAndCreateKubeconfigSecret env m cl)"
  unfolding FetchAndCreateKubeconfigSecret_def changeKubeconfigDomain_def Let_def by (intro driven_intros; simp)

lemma driven_machine_parts [driven_intros]:
  "driven env (update_machine_status env m)" "driven env (GetMachineAssociatedCluster env m)"
  "driven env (GetBootstrapReadyMachineControlPlane env m)"
  unfolding update_machine_status_def GetMachineAssociatedCluster_def GetBootstrapReadyMachineControlPlane_def Let_def
  by (intro driven_intros; simp)+

lemma driven_token_of [driven_intros]: "driven env (getSubjectToken env m)"
  unfolding getSubjectToken_def Let_def by (intro driven_intros; simp)

lemma driven_random_bytes [driven_intros]: "driven env (random_bytes env n)"
  by (induction n) (auto intro!: driven_intros)

lemma driven_create_machine [driven_intros]: "driven env (create_machine env d t i)"
  unfolding create_machine_def RandomString_def Let_def by (intro driven_intros; simp)

section \<open>The controllers other than that of machines\<close>

lemmas controller_defs =
  with_object_def reconcile_deployment_def reconcile_deployment_body_def ktMachineForMachineDeployment_def
  countChildMachinesByOwner_def reconcile_cluster_def reconcile_cluster_body_def ktClusterForCluster_def
  reconcile_template_def reconcile_template_body_def ktMachineTemplateForMachineDeployment_def
  reconcile_ktcluster_def reconcile_ktcluster_body_def fetchMachineTemplate_def ktClusterForMachineTemplate_def
  reconcile_token_def

lemma driven_controllers:
  "driven env (reconcile_deployment env req)" "driven env (reconcile_cluster env req)"
  "driven env (reconcile_template env req)" "driven env (reconcile_ktcluster env req)" "driven env (reconcile_token env req)"
  unfolding controller_defs Let_def by (intro driven_intros; simp)+

lemma driven_login: "driven env (KTCloudLogin env)"
  unfolding KTCloudLogin_def createTokenObject_def assert_map_def assert_string_def assert_bool_def store_token_def Let_def
  by (intro driven_intros driven_services; (simp add: driven_intros split: json.split)?)

text \<open>None of them writes the status of a machine or asks for a server.\<close>

definition settled_call :: "call \<Rightarrow> bool" where
  "settled_call c \<longleftrightarrow> (\<forall>m. c \<noteq> StatusUpdate (OMachine m)) \<and> (\<forall>rq. c \<noteq> HttpCall rq)"

lemma settled_simps [simp]:
  "settled_call (GetCall kd k)" "settled_call (ListMachines ns)" "settled_call (CreateCall x)"
  "settled_call (UpdateCall x)" "settled_call (RandInt n)"
  by (simp_all add: settled_call_def)

lemma settled_random: "spec settled_call (random_bytes env n) (\<lambda>_. True) (\<lambda>_. True)"
  by (rule spec_weaken [OF random_bytes_spec]) auto

lemma settled_try: "spec P m (\<lambda>_. True) (\<lambda>_. True) \<Longrightarrow> spec P (tryG m) (\<lambda>_. True) (\<lambda>_. True)"
  by (rule spec_try) (erule spec_weaken; simp split: stop.split)

lemmas settled_intros = spec_bind_any settled_try spec_ret spec_stopI spec_call spec_lift spec_if spec_option
  spec_sum spec_for settled_random TrueI

lemma controllers_settled:
  "spec settled_call (reconcile_deployment env req) (\<lambda>_. True) (\<lambda>_. True)"
  "spec settled_call (reconcile_cluster env req) (\<lambda>_. True) (\<lambda>_. True)"
  "spec settled_call (reconcile_template env req) (\<lambda>_. True) (\<lambda>_. True)"
  "spec settled_call (reconcile_ktcluster env req) (\<lambda>_. True) (\<lambda>_. True)"
  "spec settled_call (reconcile_token env req) (\<lambda>_. True) (\<lambda>_. True)"
  unfolding controller_defs create_machine_def RandomString_def Let_def by (intro settled_intros; simp)+

end
