(* ===== verification/StateLogic.thy ===== *)
theory StateLogic
  imports GoEffects
begin

text \<open>
  Triples on the outside state. \<open>hoare P m Q E\<close>: from a state that satisfies \<open>P\<close>, a run of \<open>m\<close> that
  returns \<open>x\<close> ends in a state that satisfies \<open>Q x\<close>, and one that stops early ends in a state that
  satisfies \<open>E\<close>. \<open>spec\<close> of \<open>GoEffects\<close> is about the calls and the result of a run; this is about
  what the run leaves behind. The rules follow the shape of the program, precondition first.
\<close>

definition hoare :: "('w \<Rightarrow> bool) \<Rightarrow> ('w, 'c, 'a) go \<Rightarrow> ('a \<Rightarrow> 'w \<Rightarrow> bool) \<Rightarrow> ('w \<Rightarrow> bool) \<Rightarrow> bool" where
  "hoare P m Q E \<longleftrightarrow> (\<forall>w. P w \<longrightarrow>
     (case outcome m w of Inl e \<Rightarrow> E (world m w) | Inr x \<Rightarrow> Q x (world m w)))"

lemma hoareI:
  assumes "\<And>w x. P w \<Longrightarrow> outcome m w = Inr x \<Longrightarrow> Q x (world m w)"
    and "\<And>w e. P w \<Longrightarrow> outcome m w = Inl e \<Longrightarrow> E (world m w)"
  shows "hoare P m Q E"
  using assms by (auto simp: hoare_def split: sum.split)

lemma hoare_return: "hoare P m Q E \<Longrightarrow> P w \<Longrightarrow> outcome m w = Inr x \<Longrightarrow> Q x (world m w)"
  by (fastforce simp: hoare_def)

lemma hoare_early: "hoare P m Q E \<Longrightarrow> P w \<Longrightarrow> outcome m w = Inl e \<Longrightarrow> E (world m w)"
  by (fastforce simp: hoare_def)

lemma hoare_any: "hoare P m (\<lambda>_. Q) Q \<Longrightarrow> P w \<Longrightarrow> Q (world m w)"
  by (cases "outcome m w") (auto dest: hoare_return hoare_early)

lemma hoare_weaken:
  assumes "hoare P m Q E" and "\<And>w. P' w \<Longrightarrow> P w"
    and "\<And>x w. Q x w \<Longrightarrow> Q' x w" and "\<And>w. E w \<Longrightarrow> E' w"
  shows "hoare P' m Q' E'"
  by (rule hoareI) (blast intro: assms(2-4) hoare_return [OF assms(1)] hoare_early [OF assms(1)])+

lemma hoare_pre: "hoare P m Q E \<Longrightarrow> (\<And>w. P' w \<Longrightarrow> P w) \<Longrightarrow> hoare P' m Q E"
  by (erule hoare_weaken)

lemma hoare_conj:
  assumes "hoare P m Q E" and "hoare P' m Q' E'"
  shows "hoare (\<lambda>w. P w \<and> P' w) m (\<lambda>x w. Q x w \<and> Q' x w) (\<lambda>w. E w \<and> E' w)"
  by (auto intro!: hoareI dest: hoare_return [OF assms(1)] hoare_return [OF assms(2)] hoare_early [OF assms(1)] hoare_early [OF assms(2)])

text \<open>What a contract says of the result can be added to any triple.\<close>

lemma hoare_spec:
  assumes "hoare P m Q E" and "spec C m R S"
  shows "hoare P m (\<lambda>x w. R x \<and> Q x w) E"
  by (rule hoareI) (auto dest: hoare_return [OF assms(1)] hoare_early [OF assms(1)] spec_return [OF assms(2)])

lemma hoare_ret: "(\<And>w. P w \<Longrightarrow> Q x w) \<Longrightarrow> hoare P (retG x) Q E"
  by (simp add: hoare_def)

lemma hoare_stop: "(\<And>w. P w \<Longrightarrow> E w) \<Longrightarrow> hoare P (stopG e) Q E"
  by (simp add: hoare_def)

lemma hoare_bind:
  assumes "hoare P m R E" and "\<And>x. hoare (R x) (f x) Q E"
  shows "hoare P (bindG m f) Q E"
proof (rule hoareI)
  fix w x
  assume P: "P w" and o: "outcome (bindG m f) w = Inr x"
  then obtain y where y: "outcome m w = Inr y" and "outcome (f y) (world m w) = Inr x"
    by (auto simp: outcome_bindG split: sum.splits)
  with hoare_return [OF assms(2)] hoare_return [OF assms(1) P y] show "Q x (world (bindG m f) w)"
    by (simp add: world_bindG)
next
  fix w e
  assume P: "P w" and o: "outcome (bindG m f) w = Inl e"
  show "E (world (bindG m f) w)"
  proof (cases "outcome m w")
    case (Inl e')
    with hoare_early [OF assms(1) P] show ?thesis by (simp add: world_bindG)
  next
    case (Inr y)
    with o have "outcome (f y) (world m w) = Inl e" by (simp add: outcome_bindG)
    with hoare_early [OF assms(2) hoare_return [OF assms(1) P Inr]] Inr show ?thesis by (simp add: world_bindG)
  qed
qed

lemma hoare_call:
  assumes "\<And>w x w1. P w \<Longrightarrow> f w = (Inr x, w1) \<Longrightarrow> Q x w1" and "\<And>w e w1. P w \<Longrightarrow> f w = (Inl e, w1) \<Longrightarrow> E w1"
  shows "hoare P (callG c f) Q E"
proof (rule hoareI)
  fix w x
  assume P: "P w" and o: "outcome (callG c f) w = Inr x"
  from o have "f w = (Inr x, world (callG c f) w)"
    by (auto simp: outcome_callG world_callG prod_eq_iff split: sum.splits)
  with P show "Q x (world (callG c f) w)" by (rule assms(1))
next
  fix w e
  assume "P w" and o: "outcome (callG c f) w = Inl e"
  moreover obtain e' where "f w = (Inl e', world (callG c f) w)"
    using o by (auto simp: outcome_callG world_callG prod_eq_iff split: sum.splits)
  ultimately show "E (world (callG c f) w)" by (blast intro: assms(2))
qed

lemma hoare_lift:
  "(\<And>w x. P w \<Longrightarrow> r = Inr x \<Longrightarrow> Q x w) \<Longrightarrow> (\<And>w. P w \<Longrightarrow> E w) \<Longrightarrow> hoare P (liftG r) Q E"
  by (cases r) (simp_all add: hoare_ret hoare_stop)

lemma hoare_try:
  "hoare P m (\<lambda>x. Q (Inr x)) E \<Longrightarrow> (\<And>w e. E w \<Longrightarrow> Q (Inl e) w) \<Longrightarrow> hoare P (tryG m) Q E"
  by (fastforce simp: hoare_def outcome_tryG split: sum.splits stop.splits)

lemma hoare_if: "(b \<Longrightarrow> hoare P m Q E) \<Longrightarrow> (\<not> b \<Longrightarrow> hoare P n Q E) \<Longrightarrow> hoare P (if b then m else n) Q E"
  by simp

lemma hoare_option: "(x = None \<Longrightarrow> hoare P m Q E) \<Longrightarrow> (\<And>y. x = Some y \<Longrightarrow> hoare P (f y) Q E) \<Longrightarrow>
  hoare P (case x of None \<Rightarrow> m | Some y \<Rightarrow> f y) Q E"
  by (cases x) simp_all

lemma hoare_sum: "(\<And>e. x = Inl e \<Longrightarrow> hoare P (g e) Q E) \<Longrightarrow> (\<And>y. x = Inr y \<Longrightarrow> hoare P (f y) Q E) \<Longrightarrow>
  hoare P (case x of Inl e \<Rightarrow> g e | Inr y \<Rightarrow> f y) Q E"
  by (cases x) simp_all

lemma hoare_list: "(x = [] \<Longrightarrow> hoare P m Q E) \<Longrightarrow> (\<And>y ys. x = y # ys \<Longrightarrow> hoare P (f y ys) Q E) \<Longrightarrow>
  hoare P (case x of [] \<Rightarrow> m | y # ys \<Rightarrow> f y ys) Q E"
  by (cases x) simp_all

text \<open>A pure fact of the precondition may be used to choose the rule.\<close>

lemma hoare_assume: "(\<And>w. P w \<Longrightarrow> b) \<Longrightarrow> (b \<Longrightarrow> hoare P m Q E) \<Longrightarrow> hoare P m Q E"
  by (fastforce simp: hoare_def)

text \<open>When \<open>b\<close> holds the operation always returns.\<close>

lemma hoare_returning:
  assumes "hoare P m Q P" and "\<And>w. b \<Longrightarrow> \<exists>x. outcome m w = Inr x" and "\<And>w. \<not> b \<Longrightarrow> P w \<Longrightarrow> E w"
  shows "hoare P m Q E"
proof (rule hoareI)
  fix w e
  assume P: "P w" and o: "outcome m w = Inl e"
  with assms(2) [of w] have "\<not> b" by auto
  then show "E (world m w)" using hoare_early [OF assms(1) P o] by (rule assms(3))
qed (rule hoare_return [OF assms(1)])

lemmas hoare_intros = hoare_ret hoare_stop hoare_if hoare_option hoare_sum hoare_list

text \<open>An operation that moves the state only within a relation keeps what is stable under it.\<close>

lemma hoare_stable:
  "(\<And>w. R w (world m w)) \<Longrightarrow> (\<And>w w1. P w \<Longrightarrow> R w w1 \<Longrightarrow> P w1) \<Longrightarrow> hoare P m (\<lambda>_. P) P"
  by (rule hoareI) blast+

end
