(* ===== verification/Fleet.thy ===== *)
theory Fleet
  imports World StateLogic MachineLifecycle
begin

text \<open>
  All machines and all servers together, over any sequence of reconciles of all controllers, with
  other clients of the Kubernetes API in between. What a state holds for this is a \<open>view\<close>: the
  stored machines, every version of a machine there ever was, and the ids of the servers the cloud
  ever made for the operator. Kubernetes is relied on for optimistic locking only (an update of a
  version that is not the current one is refused), the cloud for answering a creation with the
  new server and a query with the server asked for.

  The invariant: the ids in the statuses are ids of servers the cloud made, no two machines have
  the same, and \<open>JoinedControlPlane\<close> is stored for machines without a server only. If moreover no
  answer is lost, reads are current and nobody else changes existing machines (\<open>exclusive\<close>), then
  every server ever made is the server of a stored machine, and a machine that had a server in some
  version has it still.
\<close>

section \<open>Views\<close>

record 'w view =
  v_machines :: "'w \<Rightarrow> key \<Rightarrow> KTMachine option"
  v_history :: "'w \<Rightarrow> key \<Rightarrow> string \<Rightarrow> KTMachine option"
  v_made :: "'w \<Rightarrow> string list"

abbreviation m_key :: "KTMachine \<Rightarrow> key" where
  "m_key m \<equiv> (m_Name m, m_Namespace m)"

abbreviation m_version :: "KTMachine \<Rightarrow> string" where
  "m_version m \<equiv> om_ResourceVersion (m_Meta m)"

abbreviation m_server :: "KTMachine \<Rightarrow> string" where
  "m_server m \<equiv> st_ID (m_Status m)"

text \<open>Every stored machine is in the history under its version.\<close>

definition coherent :: "'w view \<Rightarrow> 'w \<Rightarrow> bool" where
  "coherent V w \<longleftrightarrow> (\<forall>k m. v_machines V w k = Some m \<longrightarrow> v_history V w k (m_version m) = Some m)
     \<and> (\<forall>k v m. v_history V w k v = Some m \<longrightarrow> m_key m = k \<and> m_version m = v)"

text \<open>What other clients may do meanwhile: the history grows; a version that is new, and a machine
  that is stored now, has a zero status or one that the machine had already. When the operator is
  \<open>exclusive\<close>, existing machines stay as they are.\<close>

definition others :: "'w view \<Rightarrow> bool \<Rightarrow> 'w \<Rightarrow> 'w \<Rightarrow> bool" where
  "others V exclusive w w1 \<longleftrightarrow>
     (\<forall>k v m. v_history V w k v = Some m \<longrightarrow> v_history V w1 k v = Some m) \<and>
     (\<forall>k v m. v_history V w1 k v = Some m \<longrightarrow> m_Status m = zero_KTMachineStatus \<or>
        (\<exists>v' m'. v_history V w k v' = Some m' \<and> m_Status m' = m_Status m)) \<and>
     (\<forall>k m. v_machines V w1 k = Some m \<longrightarrow> m_Status m = zero_KTMachineStatus \<or>
        (\<exists>m'. v_machines V w k = Some m' \<and> m_Status m' = m_Status m)) \<and>
     (coherent V w \<longrightarrow> coherent V w1) \<and>
     (exclusive \<longrightarrow> (\<forall>k m. v_machines V w k = Some m \<longrightarrow> v_machines V w1 k = Some m))"

definition calm :: "'w view \<Rightarrow> bool \<Rightarrow> 'w \<Rightarrow> 'w \<Rightarrow> bool" where
  "calm V exclusive w w1 \<longleftrightarrow> others V exclusive w w1 \<and> v_made V w1 = v_made V w"

lemma others_refl: "others V x w w"
  unfolding others_def by blast

lemma others_trans: "others V x w w1 \<Longrightarrow> others V x w1 w2 \<Longrightarrow> others V x w w2"
  unfolding others_def by (intro conjI allI impI; metis)

text \<open>No version is ever forgotten.\<close>

definition grows :: "'w view \<Rightarrow> 'w \<Rightarrow> 'w \<Rightarrow> bool" where
  "grows V w w1 \<longleftrightarrow> (\<forall>k v m. v_history V w k v = Some m \<longrightarrow> v_history V w1 k v = Some m)"

lemma grows_refl: "grows V w w" "reflp (grows V)"
  by (simp_all add: grows_def reflp_def)

lemma grows_trans: "grows V w w1 \<Longrightarrow> grows V w1 w2 \<Longrightarrow> grows V w w2"
  by (simp add: grows_def)

lemma grows_transp: "transp (grows V)"
  by (auto simp: transp_def intro: grows_trans)

lemma grows_others: "others V x w w1 \<Longrightarrow> grows V w w1"
  by (simp add: others_def grows_def)

lemma grows_calm: "calm V x w w1 \<Longrightarrow> grows V w w1"
  unfolding calm_def by (rule grows_others) (rule conjunct1)

lemma others_machines: "others V True w w1 \<Longrightarrow> v_machines V w k = Some m \<Longrightarrow> v_machines V w1 k = Some m"
  unfolding others_def by blast

lemma calm_refl: "reflp (calm V x)"
  by (simp add: reflp_def calm_def others_refl)

lemma calm_trans: "transp (calm V x)"
  by (auto simp: transp_def calm_def intro: others_trans)

section \<open>What is relied on\<close>

text \<open>A status update that is accepted: it was made to the current version.\<close>

definition stored :: "'w view \<Rightarrow> KTMachine \<Rightarrow> KTMachine \<Rightarrow> 'w \<Rightarrow> 'w \<Rightarrow> bool" where
  "stored V m m' w w1 \<longleftrightarrow> (\<exists>old. v_machines V w (m_key m) = Some old \<and> m_version old = m_version m)
     \<and> v_history V w (m_key m) (m_version m') = None \<and> m_key m' = m_key m \<and> m_Status m' = m_Status m
     \<and> v_machines V w1 = (v_machines V w)(m_key m \<mapsto> m')
     \<and> v_history V w1 = (v_history V w)(m_key m := (v_history V w (m_key m))(m_version m' \<mapsto> m'))
     \<and> v_made V w1 = v_made V w"

definition locking :: "'w view \<Rightarrow> bool \<Rightarrow> 'w env \<Rightarrow> bool" where
  "locking V exclusive env \<longleftrightarrow> (\<forall>m w r w1. e_status_update_machine env m w = (r, w1) \<longrightarrow>
     (case r of Inr m' \<Rightarrow> stored V m m' w w1
      | Inl e \<Rightarrow> calm V exclusive w w1 \<or> (\<not> exclusive \<and> (\<exists>m'. stored V m m' w w1))) \<and>
     (exclusive \<longrightarrow> (\<exists>old. v_machines V w (m_key m) = Some old \<and> m_version old = m_version m) \<longrightarrow> (\<exists>m'. r = Inr m')))"

definition faithful_reads :: "'w view \<Rightarrow> bool \<Rightarrow> 'w env \<Rightarrow> bool" where
  "faithful_reads V exclusive env \<longleftrightarrow> (\<forall>k w m w1. e_get_machine env k w = (Inr m, w1) \<longrightarrow>
     v_history V w1 k (m_version m) = Some m \<and> (exclusive \<longrightarrow> v_machines V w1 k = Some m))"

text \<open>The description of a server in a successful answer.\<close>

definition answer_at :: "'w env \<Rightarrow> http_request \<Rightarrow> 'w \<Rightarrow> KTMachineStatus \<Rightarrow> bool" where
  "answer_at env rq w st \<longleftrightarrow> (\<exists>resp w1 body sr. e_http env rq w = (Inr resp, w1) \<and>
     status_ok (hr_StatusCode resp) \<and> hr_Body resp = Inr body \<and>
     json_unmarshal dec_ServerResponse zero_ServerResponse body = Inr sr \<and> st = sv_Server sr)"

text \<open>A machine with a server has a state, and is not marked as joined.\<close>

definition sound_status :: "KTMachineStatus \<Rightarrow> bool" where
  "sound_status st \<longleftrightarrow> (st_ID st \<noteq> '''' \<longrightarrow> st_Status st \<noteq> '''' \<and> \<not> wr_JoinedControlPlane (st_WorkerRef st))"

definition new_server :: "'w view \<Rightarrow> 'w \<Rightarrow> string \<Rightarrow> bool" where
  "new_server V w i \<longleftrightarrow> i \<noteq> '''' \<and> i \<notin> set (v_made V w)"

definition truthful_cloud :: "'w view \<Rightarrow> bool \<Rightarrow> 'w env \<Rightarrow> bool" where
  "truthful_cloud V exclusive env \<longleftrightarrow>
     (\<forall>rq w. server_create env (HttpCall rq) \<longrightarrow>
        others V exclusive w (effect env (HttpCall rq) w) \<and>
        (v_made V (effect env (HttpCall rq) w) = v_made V w \<or>
          (\<exists>i. new_server V w i \<and> v_made V (effect env (HttpCall rq) w) = v_made V w @ [i])) \<and>
        (\<forall>st. answer_at env rq w st \<longrightarrow> new_server V w (st_ID st) \<and> \<not> wr_JoinedControlPlane (st_WorkerRef st) \<and>
          v_made V (effect env (HttpCall rq) w) = v_made V w @ [st_ID st]) \<and>
        (exclusive \<longrightarrow> v_made V (effect env (HttpCall rq) w) \<noteq> v_made V w \<longrightarrow> (\<exists>st. answer_at env rq w st))) \<and>
     (\<forall>token m w st. answer_at env (vm_request env token m) w st \<longrightarrow> st_ID st = m_server m \<and> sound_status st)"

definition calm_call :: "'w env \<Rightarrow> call \<Rightarrow> bool" where
  "calm_call env c \<longleftrightarrow> (\<forall>m. c \<noteq> StatusUpdate (OMachine m)) \<and> \<not> server_create env c"

definition client_works :: "'w env \<Rightarrow> bool" where
  "client_works env \<longleftrightarrow> (\<forall>p w. fst (e_build_config env p w) = Inr ()) \<and> (\<forall>w. fst (e_default_config env w) = Inr ())
     \<and> (\<forall>w. fst (e_new_client env w) = Inr ())"

definition kube :: "'w view \<Rightarrow> bool \<Rightarrow> 'w env \<Rightarrow> bool" where
  "kube V exclusive env \<longleftrightarrow> (\<forall>c w. calm_call env c \<longrightarrow> calm V exclusive w (effect env c w))
     \<and> (\<forall>ks w. calm V exclusive w (snd (e_map_order env ks w)))
     \<and> locking V exclusive env \<and> faithful_reads V exclusive env \<and> truthful_cloud V exclusive env
     \<and> (exclusive \<longrightarrow> client_works env)"

lemma kubeD:
  assumes "kube V x env"
  shows "calm_call env c \<Longrightarrow> calm V x w (effect env c w)" and "calm V x w (snd (e_map_order env ks w))"
    and "locking V x env" and "faithful_reads V x env" and "truthful_cloud V x env" and "x \<Longrightarrow> client_works env"
  using assms by (simp_all add: kube_def)

section \<open>The invariant\<close>

definition core :: "'w view \<Rightarrow> 'w \<Rightarrow> bool" where
  "core V w \<longleftrightarrow> coherent V w
     \<and> (\<forall>k v m. v_history V w k v = Some m \<longrightarrow> sound_status (m_Status m))
     \<and> distinct (v_made V w) \<and> '''' \<notin> set (v_made V w)
     \<and> (\<forall>k m. v_machines V w k = Some m \<longrightarrow> m_server m \<noteq> '''' \<longrightarrow> m_server m \<in> set (v_made V w))
     \<and> (\<forall>k m k' m'. v_machines V w k = Some m \<longrightarrow> v_machines V w k' = Some m' \<longrightarrow>
          m_server m \<noteq> '''' \<longrightarrow> m_server m = m_server m' \<longrightarrow> k = k')"

text \<open>All servers but those of \<open>pend\<close> are servers of stored machines.\<close>

definition all_recorded :: "'w view \<Rightarrow> string set \<Rightarrow> 'w \<Rightarrow> bool" where
  "all_recorded V pend w \<longleftrightarrow> (\<forall>i \<in> set (v_made V w) - pend. \<exists>k m. v_machines V w k = Some m \<and> m_server m = i)"

text \<open>A machine that had a server in some version has it still.\<close>

definition steady :: "'w view \<Rightarrow> 'w \<Rightarrow> bool" where
  "steady V w \<longleftrightarrow> (\<forall>k v h. v_history V w k v = Some h \<longrightarrow> m_server h \<noteq> '''' \<longrightarrow>
     (\<exists>m. v_machines V w k = Some m \<and> m_server m = m_server h))"

definition accounted :: "'w view \<Rightarrow> string set \<Rightarrow> 'w \<Rightarrow> bool" where
  "accounted V pend w \<longleftrightarrow> all_recorded V pend w \<and> steady V w"

definition good :: "'w view \<Rightarrow> bool \<Rightarrow> 'w \<Rightarrow> bool" where
  "good V exclusive w \<longleftrightarrow> core V w \<and> (exclusive \<longrightarrow> accounted V {} w)"

text \<open>A machine that was read or written as it is, now or earlier, and one that is current.\<close>

definition known :: "'w view \<Rightarrow> KTMachine \<Rightarrow> 'w \<Rightarrow> bool" where
  "known V m w \<longleftrightarrow> v_history V w (m_key m) (m_version m) = Some m"

definition current :: "'w view \<Rightarrow> bool \<Rightarrow> KTMachine \<Rightarrow> 'w \<Rightarrow> bool" where
  "current V exclusive m w \<longleftrightarrow> known V m w \<and> (exclusive \<longrightarrow> v_machines V w (m_key m) = Some m)"

lemma sound_zero: "sound_status zero_KTMachineStatus"
  by (simp add: sound_status_def zero_KTMachineStatus_def)

lemma core_unique: "core V w \<Longrightarrow> v_machines V w k = Some m \<Longrightarrow> v_machines V w k' = Some m' \<Longrightarrow>
    m_server m \<noteq> '''' \<Longrightarrow> m_server m = m_server m' \<Longrightarrow> k = k'"
  unfolding core_def by blast

lemma core_made: "core V w \<Longrightarrow> v_machines V w k = Some m \<Longrightarrow> m_server m \<noteq> '''' \<Longrightarrow> m_server m \<in> set (v_made V w)"
  unfolding core_def by blast

lemma core_sound: "core V w \<Longrightarrow> v_history V w k v = Some m \<Longrightarrow> sound_status (m_Status m)"
  unfolding core_def by blast

lemma core_others:
  assumes "core V w" and "others V x w w1" and "v_made V w1 = v_made V w \<or> (\<exists>i. new_server V w i \<and> v_made V w1 = v_made V w @ [i])"
  shows "core V w1"
proof -
  have c: "coherent V w1" using assms(1,2) by (simp add: core_def others_def)
  have h: "sound_status (m_Status m)" if "v_history V w1 k v = Some m" for k v m
    using assms(1,2) that unfolding core_def others_def by (metis sound_zero)
  have made: "distinct (v_made V w1)" "'''' \<notin> set (v_made V w1)" "set (v_made V w) \<subseteq> set (v_made V w1)"
    using assms(1,3) by (auto simp: core_def new_server_def)
  have st: "\<exists>m'. v_machines V w k = Some m' \<and> m_server m' = m_server m" if "v_machines V w1 k = Some m" "m_server m \<noteq> ''''" for k m
  proof -
    have "st_ID zero_KTMachineStatus = []" by (simp add: zero_KTMachineStatus_def)
    then have "m_Status m \<noteq> zero_KTMachineStatus" using that(2) by auto
    with assms(2) that(1) obtain m' where "v_machines V w k = Some m'" "m_Status m' = m_Status m"
      unfolding others_def by blast
    then show ?thesis by auto
  qed
  have "m_server m \<in> set (v_made V w1)" if "v_machines V w1 k = Some m" "m_server m \<noteq> ''''" for k m
  proof -
    note t = that
    obtain a where a: "v_machines V w k = Some a" "m_server a = m_server m" using st [OF t] by blast
    with core_made [OF assms(1) a(1)] t(2) made(3) show ?thesis by auto
  qed
  moreover have "k = k'" if "v_machines V w1 k = Some m" "v_machines V w1 k' = Some m'" "m_server m \<noteq> ''''" "m_server m = m_server m'" for k m k' m'
  proof -
    note t = that
    obtain a where a: "v_machines V w k = Some a" "m_server a = m_server m" using st [OF t(1,3)] by blast
    obtain b where b: "v_machines V w k' = Some b" "m_server b = m_server m'" using st [OF t(2)] t(3,4) by auto
    have "m_server a \<noteq> ''''" "m_server a = m_server b" using t(3,4) a(2) b(2) by simp_all
    then show ?thesis by (rule core_unique [OF assms(1) a(1) b(1)])
  qed
  ultimately show ?thesis using c h made(1,2) unfolding core_def by blast
qed

lemma core_calm: "core V w \<Longrightarrow> calm V x w w1 \<Longrightarrow> core V w1"
  by (rule core_others [where x = x and w = w]) (auto simp: calm_def)

lemma recorded_calm: "all_recorded V p w \<Longrightarrow> calm V True w w1 \<Longrightarrow> all_recorded V p w1"
  unfolding all_recorded_def calm_def others_def by (metis (no_types, opaque_lifting))

lemma steadyD:
  assumes "steady V w" and "v_history V w k v = Some h" and "m_server h \<noteq> ''''"
  obtains m where "v_machines V w k = Some m" and "m_server m = m_server h"
  using assms unfolding steady_def by blast

lemma steady_others:
  assumes "steady V w" and "others V True w w1"
  shows "steady V w1"
  unfolding steady_def
proof (intro allI impI)
  fix k v h
  assume h: "v_history V w1 k v = Some h" and s: "m_server h \<noteq> ''''"
  then have "m_Status h \<noteq> zero_KTMachineStatus" by (auto simp: zero_KTMachineStatus_def)
  with h assms(2) obtain v' h' where "v_history V w k v' = Some h'" and e: "m_Status h' = m_Status h"
    unfolding others_def by blast
  with s obtain m where "v_machines V w k = Some m" "m_server m = m_server h'"
    by (auto elim: steadyD [OF assms(1)])
  with e have "v_machines V w1 k = Some m \<and> m_server m = m_server h"
    by (simp add: others_machines [OF assms(2)])
  then show "\<exists>m. v_machines V w1 k = Some m \<and> m_server m = m_server h" by blast
qed

lemma accounted_calm: "accounted V p w \<Longrightarrow> calm V True w w1 \<Longrightarrow> accounted V p w1"
  by (auto simp: accounted_def calm_def intro: steady_others recorded_calm [unfolded calm_def])

lemma good_calm: "good V x w \<Longrightarrow> calm V x w w1 \<Longrightarrow> good V x w1"
  unfolding good_def by (cases x) (auto intro: core_calm accounted_calm)

lemma known_others: "known V m w \<Longrightarrow> others V x w w1 \<Longrightarrow> known V m w1"
  by (simp add: known_def others_def)

lemma current_others: "current V x m w \<Longrightarrow> others V x w w1 \<Longrightarrow> current V x m w1"
  by (auto simp: current_def intro: known_others) (simp add: others_def)

lemma known_calm: "known V m w \<Longrightarrow> calm V x w w1 \<Longrightarrow> known V m w1"
  by (auto simp: calm_def intro: known_others)

lemma current_calm: "current V x m w \<Longrightarrow> calm V x w w1 \<Longrightarrow> current V x m w1"
  by (auto simp: calm_def intro: current_others)

lemma known_sound: "core V w \<Longrightarrow> known V m w \<Longrightarrow> sound_status (m_Status m)"
  unfolding core_def known_def by blast

section \<open>Triples for the calls\<close>

text \<open>A request about a server, in the shape it has in the code.\<close>

lemma hoare_answer:
  assumes F: "\<And>sr. hoare (\<lambda>w1. \<exists>w. P w \<and> answer_at env rq w (sv_Server sr) \<and> w1 = effect env (HttpCall rq) w) (F sr) Q E"
    and G: "\<And>resp. hoare (\<lambda>w1. \<exists>w. P w \<and> (\<forall>st. \<not> answer_at env rq w st) \<and> w1 = effect env (HttpCall rq) w) (G resp) Q E"
    and E: "\<And>w. P w \<Longrightarrow> E w" "\<And>w. P w \<Longrightarrow> (\<forall>st. \<not> answer_at env rq w st) \<Longrightarrow> E (effect env (HttpCall rq) w)"
  shows "hoare P (bindG (http_do env rq) (\<lambda>resp. bindG (read_body resp) (\<lambda>body.
    if status_ok (hr_StatusCode resp) then
      bindG (liftG (json_unmarshal dec_ServerResponse zero_ServerResponse body)) F
    else G resp))) Q E"
proof -
  let ?w1 = "\<lambda>w. effect env (HttpCall rq) w"
  let ?R = "\<lambda>resp w1. \<exists>w. P w \<and> e_http env rq w = (Inr resp, w1) \<and> w1 = ?w1 w"
  have http: "hoare P (http_do env rq) ?R E"
    unfolding http_do_def
  proof (rule hoare_bind)
    show "hoare P (liftG (e_url_parse env (rq_URL rq))) (\<lambda>_. P) E" by (rule hoare_lift) (simp_all add: E)
    show "hoare P (callG (HttpCall rq) (e_http env rq)) ?R E" for u :: url_parts
    proof (rule hoare_call)
      fix w e w1
      assume "P w" "e_http env rq w = (Inl e, w1)"
      with E(2) [of w] show "E w1" by (simp add: answer_at_def)
    qed force
  qed
  show ?thesis
  proof (rule hoare_bind [OF http], rule hoare_bind)
    fix resp
    let ?B = "\<lambda>body w1. ?R resp w1 \<and> hr_Body resp = Inr body"
    show "hoare (?R resp) (read_body resp) ?B E"
      unfolding read_body_def
    proof (cases "hr_Body resp")
      case (Inl e)
      then have "\<forall>st. \<not> answer_at env rq w st" if "e_http env rq w = (Inr resp, w1)" for w w1
        using that by (simp add: answer_at_def)
      with Inl show "hoare (?R resp) (liftG (hr_Body resp)) ?B E" by (auto intro!: hoare_stop E(2) [unfolded effect_simps])
    qed (auto intro!: hoare_ret)
    fix body
    show "hoare (?B body) (if status_ok (hr_StatusCode resp) then
        bindG (liftG (json_unmarshal dec_ServerResponse zero_ServerResponse body)) F else G resp) Q E"
    proof (rule hoare_if)
      assume ok: "status_ok (hr_StatusCode resp)"
      show "hoare (?B body) (bindG (liftG (json_unmarshal dec_ServerResponse zero_ServerResponse body)) F) Q E"
      proof (cases "json_unmarshal dec_ServerResponse zero_ServerResponse body")
        case (Inl e)
        have none: "\<forall>st. \<not> answer_at env rq w st" if "e_http env rq w = (Inr resp, w1)" "hr_Body resp = Inr body" for w w1
          using that Inl by (simp add: answer_at_def)
        show ?thesis unfolding Inl liftG_simps bindG_stopG
          by (rule hoare_stop) (use none E(2) in blast)
      next
        case (Inr sr)
        show ?thesis unfolding Inr liftG_simps bindG_retG
          by (rule hoare_pre [OF F]) (use ok Inr in \<open>unfold answer_at_def, blast\<close>)
      qed
    next
      assume "\<not> status_ok (hr_StatusCode resp)"
      then have "\<forall>st. \<not> answer_at env rq w st" if "e_http env rq w = (Inr resp, w1)" for w w1
        using that by (simp add: answer_at_def)
      then show "hoare (?B body) (G resp) Q E"
        by (intro hoare_pre [OF G]) blast
    qed
  qed
qed

text \<open>An operation without a status update of a machine and without a creation keeps what other
  clients keep.\<close>

lemma calm_op:
  assumes "kube V x env" and "driven env q" and "spec (calm_call env) q R S"
    and "\<And>w w1. P w \<Longrightarrow> calm V x w w1 \<Longrightarrow> P w1"
  shows "hoare P q (\<lambda>_. P) P"
  by (rule hoare_stable [where R = "calm V x"])
    (use assms(4) in \<open>auto intro: driven_within [OF assms(2,3) calm_refl calm_trans] kubeD(1,2) [OF assms(1)]\<close>)

lemma calm_read: "read_only c \<Longrightarrow> calm_call env c"
  by (auto simp: calm_call_def read_only_no_create) (simp add: read_only_def)

lemma calm_query:
  assumes "query q" and "kube V x env" and "driven env q" and "\<And>w w1. P w \<Longrightarrow> calm V x w w1 \<Longrightarrow> P w1"
  shows "hoare P q (\<lambda>_. P) P"
proof (rule calm_op [OF assms(2,3) _ assms(4)])
  show "spec (calm_call env) q (\<lambda>_. True) (\<lambda>_. True)"
    using assms(1) unfolding query_def by (rule spec_weaken) (simp_all add: calm_read)
qed

lemma calm_setup:
  assumes "kube V x env" and "\<And>w w1. P w \<Longrightarrow> calm V x w w1 \<Longrightarrow> P w1"
  shows "hoare P (getRestConfig env path) (\<lambda>_. P) P" and "hoare P (rest_config_or_panic env) (\<lambda>_. P) P"
    and "hoare P (client_or_exit env) (\<lambda>_. P) P"
  by (rule calm_op [OF assms(1) _ _ assms(2)], rule driven_services,
      intro spec_intros; simp add: calm_call_def server_create_def)+

text \<open>When the client works, its set-up does not stop.\<close>

lemma setup_returns:
  assumes "client_works env"
  shows "\<exists>u. outcome (rest_config_or_panic env) w = Inr u" and "\<exists>u. outcome (client_or_exit env) w = Inr u"
  using assms by (simp_all add: client_works_def rest_config_or_panic_def client_or_exit_def getRestConfig_def
      getClient_def outcome_bindG outcome_tryG outcome_callG)

lemma stored_core:
  assumes "core V w" and "stored V m m' w w1" and "known V m0 w" and "m_key m = m_key m0" and "m_version m = m_version m0"
    and "sound_status (m_Status m)"
    and "m_server m = m_server m0 \<or> (m_server m \<in> set (v_made V w) \<and> (\<forall>k n. v_machines V w k = Some n \<longrightarrow> m_server n \<noteq> m_server m))"
  shows "core V w1" and "known V m' w1" and "v_machines V w (m_key m) = Some m0" and "known V n w \<Longrightarrow> known V n w1"
proof -
  obtain old where old: "v_machines V w (m_key m) = Some old" "m_version old = m_version m"
    using assms(2) by (auto simp: stored_def)
  have coh: "coherent V w" using assms(1) by (simp add: core_def)
  then have "v_history V w (m_key m) (m_version old) = Some old" using old(1) by (simp add: coherent_def)
  moreover have "v_history V w (m_key m) (m_version old) = Some m0"
    using assms(3) unfolding known_def assms(4,5) [symmetric] old(2) .
  ultimately have "old = m0" by simp
  with old(1) show cur: "v_machines V w (m_key m) = Some m0" by simp
  have new: "v_machines V w1 = (v_machines V w)(m_key m \<mapsto> m')"
      "v_history V w1 = (v_history V w)(m_key m := (v_history V w (m_key m))(m_version m' \<mapsto> m'))"
      "v_made V w1 = v_made V w" "m_key m' = m_key m" "m_Status m' = m_Status m"
      "v_history V w (m_key m) (m_version m') = None"
    using assms(2) by (simp_all add: stored_def)
  show "known V m' w1" using new(2,4) by (simp add: known_def)
  show "known V n w1" if "known V n w"
    using that new(2,6) by (auto simp: known_def)
  have coh1: "v_machines V w k = Some n \<Longrightarrow> v_history V w k (m_version n) = Some n"
    and coh2: "v_history V w k v = Some n \<Longrightarrow> m_key n = k \<and> m_version n = v" for k v n
    using coh unfolding coherent_def by blast+
  have "coherent V w1"
    unfolding coherent_def
  proof (intro conjI allI impI)
    fix k n assume n: "v_machines V w1 k = Some n"
    show "v_history V w1 k (m_version n) = Some n"
    proof (cases "k = m_key m")
      case True
      with n new(1,2) show ?thesis by simp
    next
      case False
      with n new(1) have "v_machines V w k = Some n" by simp
      with False coh1 new(2) show ?thesis by simp
    qed
  next
    fix k v n assume n: "v_history V w1 k v = Some n"
    have "m_key n = k \<and> m_version n = v"
    proof (cases "k = m_key m \<and> v = m_version m'")
      case True
      with n new(2,4) show ?thesis by simp
    next
      case False
      with n new(2) have "v_history V w k v = Some n" by (auto split: if_splits)
      then show ?thesis by (rule coh2)
    qed
    then show "m_key n = k" "m_version n = v" by simp_all
  qed
  moreover have "sound_status (m_Status n)" if "v_history V w1 k v = Some n" for k v n
  proof -
    have "v_history V w k v = Some n \<or> n = m'" using that new(2) by (auto split: if_splits)
    then show ?thesis
    proof
      assume "v_history V w k v = Some n"
      then show ?thesis by (rule core_sound [OF assms(1)])
    qed (use assms(6) new(5) in simp)
  qed
  moreover have made: "m_server n \<in> set (v_made V w)" if "v_machines V w1 k = Some n" "m_server n \<noteq> ''''" for k n
  proof (cases "k = m_key m")
    case True
    with that new(1,5) have n: "m_server n = m_server m" by simp
    with that(2) have "m_server m0 \<noteq> '''' \<Longrightarrow> m_server m0 \<in> set (v_made V w)" using core_made [OF assms(1) cur] by simp
    with assms(7) n that(2) show ?thesis by auto
  qed (use that new(1) core_made [OF assms(1), of k n] in simp)
  moreover have "k = k'" if k: "v_machines V w1 k = Some n" "v_machines V w1 k' = Some n'" "m_server n \<noteq> ''''" "m_server n = m_server n'" for k n k' n'
  proof -
    have main: "l = m_key m" if "v_machines V w l = Some b" "m_server b = m_server m" "m_server m \<noteq> ''''" for l b
      using assms(7)
    proof
      assume "m_server m = m_server m0"
      then show ?thesis using core_unique [OF assms(1) that(1) cur] that by simp
    qed (use that in blast)
    show ?thesis
    proof (cases "k = m_key m"; cases "k' = m_key m")
      assume "k \<noteq> m_key m" "k' \<noteq> m_key m"
      with k new(1) show ?thesis by (intro core_unique [OF assms(1), of k n k' n']) simp_all
    next
      assume "k = m_key m" "k' \<noteq> m_key m"
      with k new(1,5) main [of k' n'] show ?thesis by simp
    next
      assume "k \<noteq> m_key m" "k' = m_key m"
      with k new(1,5) main [of k n] show ?thesis by simp
    qed simp
  qed
  moreover have "distinct (v_made V w)" "'''' \<notin> set (v_made V w)" using assms(1) by (simp_all add: core_def)
  ultimately show "core V w1" unfolding core_def new(3) by blast
qed

lemma recorded_kept:
  assumes "all_recorded V p w" and "stored V m m' w w1" and "v_machines V w (m_key m) = Some m0"
    and "m_server m0 = m_server m \<or> m_server m0 = ''''" and "core V w"
  shows "all_recorded V (p - {m_server m}) w1"
  unfolding all_recorded_def
proof
  have new: "v_machines V w1 = (v_machines V w)(m_key m \<mapsto> m')" "v_made V w1 = v_made V w" "m_server m' = m_server m"
    using assms(2) by (simp_all add: stored_def)
  fix i assume i: "i \<in> set (v_made V w1) - (p - {m_server m})"
  show "\<exists>k n. v_machines V w1 k = Some n \<and> m_server n = i"
  proof (cases "i = m_server m")
    case True
    with new show ?thesis by (intro exI [of _ "m_key m"] exI [of _ m']) simp
  next
    case False
    with i new(2) have "i \<in> set (v_made V w) - p" by simp
    with assms(1) obtain k n where n: "v_machines V w k = Some n" "m_server n = i"
      unfolding all_recorded_def by blast
    moreover have "i \<noteq> ''''" using i new(2) assms(5) by (auto simp: core_def)
    ultimately have "k \<noteq> m_key m" using assms(3,4) False by (metis option.inject)
    with n new(1) show ?thesis by (intro exI [of _ k] exI [of _ n]) simp
  qed
qed

lemma steady_stored:
  assumes "steady V w" and "stored V m m' w w1" and "v_machines V w (m_key m) = Some m0"
    and "m_server m0 = m_server m \<or> m_server m0 = ''''"
  shows "steady V w1"
  unfolding steady_def
proof (intro allI impI)
  fix k v h
  assume h: "v_history V w1 k v = Some h" and s: "m_server h \<noteq> ''''"
  have new: "v_machines V w1 = (v_machines V w)(m_key m \<mapsto> m')" "m_server m' = m_server m"
      "v_history V w1 = (v_history V w)(m_key m := (v_history V w (m_key m))(m_version m' \<mapsto> m'))"
    using assms(2) by (simp_all add: stored_def)
  consider "k = m_key m" "h = m'" | "v_history V w k v = Some h"
  proof (cases "k = m_key m \<and> v = m_version m'")
    case True
    with h new(3) have "h = m'" by simp
    with True that(1) show thesis by blast
  next
    case False
    with h new(3) have "v_history V w k v = Some h" by (simp add: fun_upd_def split: if_splits)
    then show thesis by (rule that(2))
  qed
  then show "\<exists>n. v_machines V w1 k = Some n \<and> m_server n = m_server h"
  proof cases
    case 2
    obtain n where n: "v_machines V w k = Some n" "m_server n = m_server h" by (rule steadyD [OF assms(1) 2 s])
    show ?thesis
    proof (cases "k = m_key m")
      case True
      with n s assms(3,4) new(1,2) show ?thesis by auto
    qed (use n new(1) in simp)
  qed (use new(1) in simp)
qed

lemma accounted_kept:
  assumes "accounted V p w" and "stored V m m' w w1" and "v_machines V w (m_key m) = Some m0"
    and "m_server m0 = m_server m \<or> m_server m0 = ''''" and "core V w"
  shows "accounted V (p - {m_server m}) w1"
  using assms(1) recorded_kept [OF _ assms(2-5)] steady_stored [OF _ assms(2-4)] by (simp add: accounted_def)

lemma grows_stored: "stored V m m' w w1 \<Longrightarrow> grows V w w1"
  by (auto simp: stored_def grows_def)

lemma lockingD:
  assumes "locking V x env"
  shows "e_status_update_machine env m w = (Inr m', w1) \<Longrightarrow> stored V m m' w w1"
    and "e_status_update_machine env m w = (Inl e, w1) \<Longrightarrow> calm V x w w1 \<or> (\<not> x \<and> (\<exists>m'. stored V m m' w w1))"
    and "e_status_update_machine env m w = (Inl e, w1) \<Longrightarrow> x \<Longrightarrow> v_machines V w (m_key m) = Some old \<Longrightarrow>
      m_version old = m_version m \<Longrightarrow> False"
proof -
  note l = assms [unfolded locking_def, rule_format]
  show "e_status_update_machine env m w = (Inr m', w1) \<Longrightarrow> stored V m m' w w1"
    by (drule l) simp
  show "e_status_update_machine env m w = (Inl e, w1) \<Longrightarrow> calm V x w w1 \<or> (\<not> x \<and> (\<exists>m'. stored V m m' w w1))"
    by (drule l) simp
  show "e_status_update_machine env m w = (Inl e, w1) \<Longrightarrow> x \<Longrightarrow> v_machines V w (m_key m) = Some old \<Longrightarrow>
      m_version old = m_version m \<Longrightarrow> False"
    by (drule l) auto
qed

text \<open>A status update that keeps the server: it may be refused or lost, and may be made to an old
  version.\<close>

lemma update_keeping:
  assumes "kube V x env" and "m_key m = m_key m0" and "m_version m = m_version m0" and "m_server m = m_server m0"
    and "sound_status (m_Status m)"
  shows "hoare (\<lambda>w. good V x w \<and> known V m0 w) (callG (StatusUpdate (OMachine m)) (e_status_update_machine env m))
    (\<lambda>m' w. good V x w \<and> known V m' w \<and> m_key m' = m_key m \<and> m_Status m' = m_Status m) (good V x)"
proof (rule hoare_call)
  have upd: "good V x w1 \<and> known V m' w1" if "stored V m m' w w1" "good V x w" "known V m0 w" for m' w w1
  proof -
    note st = that
    have c: "core V w" using st(2) by (simp add: good_def)
    note s = stored_core [OF c st(1,3) assms(2,3,5) disjI1 [OF assms(4)]]
    have "accounted V {} w1" if "x"
      using accounted_kept [OF _ st(1) s(3) _ c, of "{}"] st(2) that assms(4) by (simp add: good_def)
    with s(1,2) show ?thesis by (simp add: good_def)
  qed
  fix w m' w1
  assume w: "good V x w \<and> known V m0 w" and u: "e_status_update_machine env m w = (Inr m', w1)"
  have st: "stored V m m' w w1" by (rule lockingD(1) [OF kubeD(3) [OF assms(1)] u])
  then have "m_key m' = m_key m" "m_Status m' = m_Status m" by (simp_all add: stored_def)
  with upd [OF st] w show "good V x w1 \<and> known V m' w1 \<and> m_key m' = m_key m \<and> m_Status m' = m_Status m" by simp
next
  fix w e w1
  assume w: "good V x w \<and> known V m0 w" and u: "e_status_update_machine env m w = (Inl e, w1)"
  then consider "calm V x w w1" | m' where "\<not> x" "stored V m m' w w1"
    using lockingD(2) [OF kubeD(3) [OF assms(1)]] by blast
  then show "good V x w1"
  proof cases
    case 1
    with w show ?thesis by (blast intro: good_calm)
  next
    case 2
    have "core V w" "known V m0 w" using w by (simp_all add: good_def)
    from stored_core(1) [OF this(1) 2(2) this(2) assms(2,3,5) disjI1 [OF assms(4)]] 2(1) show ?thesis by (simp add: good_def)
  qed
qed

text \<open>After a creation: the new server is nobody's yet.\<close>

definition pending :: "'w view \<Rightarrow> bool \<Rightarrow> KTMachine \<Rightarrow> string \<Rightarrow> 'w \<Rightarrow> bool" where
  "pending V exclusive m i w \<longleftrightarrow> core V w \<and> current V exclusive m w \<and> i \<in> set (v_made V w)
     \<and> (\<forall>k n. v_machines V w k = Some n \<longrightarrow> m_server n \<noteq> i) \<and> (exclusive \<longrightarrow> accounted V {i} w)"

lemma pending_calm: "pending V x m i w \<Longrightarrow> calm V x w w1 \<Longrightarrow> pending V x m i w1"
proof -
  assume p: "pending V x m i w" and c: "calm V x w w1"
  have "m_server n \<noteq> i" if "v_machines V w1 k = Some n" for k n
  proof -
    have i: "i \<in> set (v_made V w)" "'''' \<notin> set (v_made V w)" using p by (simp_all add: pending_def core_def)
    have "st_ID zero_KTMachineStatus = ''''" by (simp add: zero_KTMachineStatus_def)
    moreover have "m_Status n = zero_KTMachineStatus \<or> (\<exists>n'. v_machines V w k = Some n' \<and> m_Status n' = m_Status n)"
      using c that unfolding calm_def others_def by blast
    ultimately show ?thesis using i p unfolding pending_def by (metis)
  qed
  moreover have "x \<longrightarrow> accounted V {i} w1" using p c accounted_calm [of V "{i}" w w1] by (auto simp: pending_def)
  moreover have "v_made V w1 = v_made V w" using c by (simp add: calm_def)
  ultimately show ?thesis
    using p unfolding pending_def by (simp add: core_calm [OF _ c] current_calm [OF _ c])
qed

lemma update_recording:
  assumes "kube V x env" and "m_key m = m_key m0" and "m_version m = m_version m0" and "m_server m0 = ''''"
    and "sound_status (m_Status m)"
  shows "hoare (pending V x m0 (m_server m)) (callG (StatusUpdate (OMachine m)) (e_status_update_machine env m))
    (\<lambda>m' w. good V x w \<and> known V m0 w) (good V x)"
proof -
  have upd: "good V x w1 \<and> known V m0 w1" if "stored V m m' w w1" "pending V x m0 (m_server m) w" for m' w w1
  proof -
    note st = that
    have p: "core V w" "known V m0 w" "m_server m \<in> set (v_made V w)"
        "\<forall>k n. v_machines V w k = Some n \<longrightarrow> m_server n \<noteq> m_server m"
      using st(2) by (simp_all add: pending_def current_def)
    note s = stored_core [OF p(1) st(1) p(2) assms(2,3,5) disjI2 [OF conjI [OF p(3,4)]]]
    have "accounted V {} w1" if "x"
      using accounted_kept [OF _ st(1) s(3) _ p(1), of "{m_server m}"] st(2) that assms(4) by (simp add: pending_def)
    with s(1) s(4) [OF p(2)] show ?thesis by (simp add: good_def)
  qed
  show ?thesis
  proof (rule hoare_call)
  fix w m' w1
  assume w: "pending V x m0 (m_server m) w" and u: "e_status_update_machine env m w = (Inr m', w1)"
  have "stored V m m' w w1" by (rule lockingD(1) [OF kubeD(3) [OF assms(1)] u])
  then show "good V x w1 \<and> known V m0 w1" using upd w by blast
next
  fix w e w1
  assume w: "pending V x m0 (m_server m) w" and u: "e_status_update_machine env m w = (Inl e, w1)"
  show "good V x w1"
  proof (cases x)
    case True
    with w have "v_machines V w (m_key m) = Some m0" by (simp add: pending_def current_def assms(2))
    from lockingD(3) [OF kubeD(3) [OF assms(1)] u True this] assms(3) show ?thesis by simp
  next
    case False
    from u consider "calm V x w w1" | m' where "stored V m m' w w1"
      using lockingD(2) [OF kubeD(3) [OF assms(1)]] by blast
    then show ?thesis
    proof cases
      case 1
      with w False show ?thesis by (auto simp: good_def pending_def intro: core_calm)
    qed (use upd w in blast)
  qed
  qed
qed

text \<open>The history grows with every call.\<close>

lemma kube_grows:
  assumes "kube V x env"
  shows "grows V w (effect env c w)"
proof -
  consider "calm_call env c" | m where "c = StatusUpdate (OMachine m)" | rq where "c = HttpCall rq" "server_create env c"
    unfolding calm_call_def server_create_def by blast
  then show ?thesis
  proof cases
    case 1
    from kubeD(1) [OF assms this] show ?thesis by (rule grows_calm)
  next
    case 2
    obtain r w1 where u: "e_status_update_machine env m w = (r, w1)" by (cases "e_status_update_machine env m w")
    have "calm V x w w1 \<or> (\<exists>m'. stored V m m' w w1)"
    proof (cases r)
      case (Inl e)
      with u show ?thesis using lockingD(2) [OF kubeD(3) [OF assms]] by blast
    next
      case (Inr m')
      with u show ?thesis using lockingD(1) [OF kubeD(3) [OF assms]] by blast
    qed
    with 2 u show ?thesis by (auto intro: grows_calm grows_stored)
  next
    case 3
    with kubeD(5) [OF assms] have "others V x w (effect env c w)" unfolding truthful_cloud_def by blast
    then show ?thesis by (rule grows_others)
  qed
qed

lemma driven_grows:
  assumes "kube V x env" and "driven env q"
  shows "grows V w (world q w)"
  by (rule runs_within [OF drivenD [OF assms(2)] grows_refl(2) grows_transp])
    (simp_all add: kube_grows [OF assms(1)] grows_calm [OF kubeD(2) [OF assms(1)]])

end
