(* ===== verification/FleetRuns.thy ===== *)
theory FleetRuns
  imports Fleet
begin

text \<open>
  The operations of the machine controller as triples over the invariant of \<open>Fleet\<close>, the
  controllers together as a transition system, and what holds in every state it reaches.
\<close>

section \<open>Asking the cloud\<close>

lemma GetCreatedVM_triple:
  assumes "kube V x env" and "\<And>w w1. P w \<Longrightarrow> calm V x w w1 \<Longrightarrow> P w1"
  shows "hoare P (GetCreatedVM env m token) (\<lambda>st w. P w \<and> st_ID st = m_server m \<and> sound_status st) P"
proof -
  let ?rq = "vm_request env token m"
  have eq: "GetCreatedVM env m token = bindG (http_do env ?rq) (\<lambda>resp. bindG (read_body resp) (\<lambda>body.
      if status_ok (hr_StatusCode resp) then
        bindG (liftG (json_unmarshal dec_ServerResponse zero_ServerResponse body)) (\<lambda>sr. retG (sv_Server sr))
      else failG (NewError (''GET request failed with status: '' @ hr_Status resp))))"
    by (simp add: GetCreatedVM_def vm_request_def get_request_def)
  have "calm_call env (HttpCall ?rq)"
    by (simp add: calm_call_def server_create_def vm_request_def get_request_def cloud_request_def)
  then have "calm V x w (effect env (HttpCall ?rq) w)" for w by (rule kubeD(1) [OF assms(1)])
  then have keep: "P w \<Longrightarrow> P (effect env (HttpCall ?rq) w)" for w using assms(2) by blast
  have truth: "answer_at env ?rq w st \<Longrightarrow> st_ID st = m_server m \<and> sound_status st" for w st
    using kubeD(5) [OF assms(1)] unfolding truthful_cloud_def by blast
  show ?thesis unfolding eq
  proof (rule hoare_answer)
    fix sr
    show "hoare (\<lambda>w1. \<exists>w. P w \<and> answer_at env ?rq w (sv_Server sr) \<and> w1 = effect env (HttpCall ?rq) w)
        (retG (sv_Server sr)) (\<lambda>st w. P w \<and> st_ID st = m_server m \<and> sound_status st) P"
      by (rule hoare_ret) (auto dest: truth simp del: effect_simps intro: keep)
  qed (auto intro!: hoare_stop keep simp del: effect_simps)
qed

lemma create_request_creates: "server_create env (HttpCall (create_request env token m script))"
  by (simp add: server_create_def create_request_def cloud_request_def)

text \<open>A creation that is answered leaves one server that no machine has yet.\<close>

lemma creation_answered:
  assumes "kube V x env" and "good V x w" and "current V x m w" and "answer_at env (create_request env token m script) w st"
  shows "pending V x m (st_ID st) (effect env (HttpCall (create_request env token m script)) w) \<and> st_ID st \<noteq> ''''
    \<and> \<not> wr_JoinedControlPlane (st_WorkerRef st)"
proof -
  let ?rq = "create_request env token m script"
  let ?w1 = "effect env (HttpCall ?rq) w"
  note creates = kubeD(5) [OF assms(1), unfolded truthful_cloud_def, THEN conjunct1, rule_format, OF create_request_creates [of env token m script]]
  have oth: "others V x w ?w1" using creates by blast
  have made: "v_made V ?w1 = v_made V w \<or> (\<exists>i. new_server V w i \<and> v_made V ?w1 = v_made V w @ [i])" using creates by blast
  have new: "new_server V w (st_ID st)" "\<not> wr_JoinedControlPlane (st_WorkerRef st)" "v_made V ?w1 = v_made V w @ [st_ID st]"
    using creates assms(4) by blast+
  have c: "core V w" using assms(2) by (simp add: good_def)
  have free: "m_server n \<noteq> st_ID st" if "v_machines V ?w1 k = Some n" for k n
  proof
    assume n: "m_server n = st_ID st"
    then have "m_Status n \<noteq> zero_KTMachineStatus" using new(1) by (auto simp: new_server_def zero_KTMachineStatus_def)
    with oth that obtain n' where "v_machines V w k = Some n'" "m_Status n' = m_Status n"
      unfolding others_def by blast
    with core_made [OF c, of k n'] n new(1) show False by (simp add: new_server_def)
  qed
  have "all_recorded V {st_ID st} ?w1" if "x"
    unfolding all_recorded_def
  proof
    fix i assume "i \<in> set (v_made V ?w1) - {st_ID st}"
    with new(3) have "i \<in> set (v_made V w) - {}" by auto
    with assms(2) \<open>x\<close> obtain k n where n: "v_machines V w k = Some n" "m_server n = i"
      unfolding good_def accounted_def all_recorded_def by blast
    with oth \<open>x\<close> have "v_machines V ?w1 k = Some n" unfolding others_def by blast
    with n show "\<exists>k n. v_machines V ?w1 k = Some n \<and> m_server n = i" by blast
  qed
  moreover have "steady V ?w1" if "x"
    by (rule steady_others [of V w]) (use assms(2) oth \<open>x\<close> in \<open>simp_all add: good_def accounted_def\<close>)
  ultimately show ?thesis using free new core_others [OF c oth made] current_others [OF assms(3) oth] by (simp add: pending_def new_server_def accounted_def)
qed

lemma create_server_triple:
  assumes "kube V x env" and "m_server m = ''''"
  shows "hoare (\<lambda>w. good V x w \<and> current V x m w) (create_server env token m script)
    (\<lambda>m' w. good V x w \<and> known V m w) (good V x)"
proof -
  let ?rq = "create_request env token m script"
  note creates = kubeD(5) [OF assms(1), unfolded truthful_cloud_def, THEN conjunct1, rule_format, OF create_request_creates [of env token m script]]
  have oth: "others V x w (effect env (HttpCall ?rq) w)" for w using creates by blast
  have made: "v_made V (effect env (HttpCall ?rq) w) = v_made V w \<or>
      (\<exists>i. new_server V w i \<and> v_made V (effect env (HttpCall ?rq) w) = v_made V w @ [i])" for w using creates by blast
  have core: "core V (effect env (HttpCall ?rq) w)" if "core V w" for w by (rule core_others [OF that oth made])
  have none: "good V x (effect env (HttpCall ?rq) w)" if "good V x w" "\<forall>st. \<not> answer_at env ?rq w st" for w
  proof (cases x)
    case True
    with that(2) have "v_made V (effect env (HttpCall ?rq) w) = v_made V w" using creates by blast
    then have "calm V x w (effect env (HttpCall ?rq) w)" using oth by (simp add: calm_def)
    with that(1) show ?thesis by (rule good_calm)
  qed (use that core in \<open>simp add: good_def\<close>)
  have cur: "current V x m (effect env (HttpCall ?rq) w)" if "current V x m w" for w
    by (rule current_others [OF that oth])
  note answered = creation_answered [OF assms(1)]
  show ?thesis unfolding create_server_def
  proof (rule hoare_answer)
    fix sr
    let ?st = "sv_Server sr" and ?m = "m\<lparr>m_Status := (sv_Server sr)\<lparr>st_Status := ''Creating''\<rparr>\<rparr>"
    let ?A = "pending V x m (m_server ?m)"
    have early: "pending V x m i w \<Longrightarrow> \<not> x \<Longrightarrow> good V x w" for i w by (simp add: pending_def good_def)
    have config: "hoare ?A (rest_config_or_panic env) (\<lambda>_. ?A) (good V x)"
      by (rule hoare_returning [where b = x, OF calm_setup(2) [OF assms(1) pending_calm]])
        (blast intro: early setup_returns(1) [OF kubeD(6) [OF assms(1)]])+
    have client: "hoare ?A (client_or_exit env) (\<lambda>_. ?A) (good V x)"
      by (rule hoare_returning [where b = x, OF calm_setup(3) [OF assms(1) pending_calm]])
        (blast intro: early setup_returns(2) [OF kubeD(6) [OF assms(1)]])+
    show "hoare (\<lambda>w1. \<exists>w. (good V x w \<and> current V x m w) \<and> answer_at env ?rq w ?st \<and> w1 = effect env (HttpCall ?rq) w)
        (bindG (rest_config_or_panic env) (\<lambda>_. bindG (client_or_exit env) (\<lambda>_. updateVMStatus env m ?st ''Creating'')))
        (\<lambda>m' w. good V x w \<and> known V m w) (good V x)"
    proof (rule hoare_assume)
      show "(\<exists>w0. good V x w0 \<and> current V x m w0 \<and> answer_at env ?rq w0 ?st)" if "\<exists>w. (good V x w \<and> current V x m w) \<and> answer_at env ?rq w ?st \<and> w1 = effect env (HttpCall ?rq) w" for w1
        using that by blast
      assume "\<exists>w0. good V x w0 \<and> current V x m w0 \<and> answer_at env ?rq w0 ?st"
      then have snd: "sound_status (m_Status ?m)" using answered by (auto simp: sound_status_def)
      have upd: "hoare ?A (updateVMStatus env m ?st ''Creating'') (\<lambda>m' w. good V x w \<and> known V m w) (good V x)"
        unfolding updateVMStatus_def Let_def by (rule update_recording [OF assms(1)]) (use assms(2) snd in simp_all)
      show "hoare (\<lambda>w1. \<exists>w. (good V x w \<and> current V x m w) \<and> answer_at env ?rq w ?st \<and> w1 = effect env (HttpCall ?rq) w)
        (bindG (rest_config_or_panic env) (\<lambda>_. bindG (client_or_exit env) (\<lambda>_. updateVMStatus env m ?st ''Creating'')))
        (\<lambda>m' w. good V x w \<and> known V m w) (good V x)"
        by (rule hoare_pre [OF hoare_bind [OF config hoare_bind [OF client upd]]])
          (use answered in \<open>auto simp del: effect_simps\<close>)
    qed
  qed (use none cur in \<open>auto intro!: hoare_ret simp: current_def simp del: effect_simps\<close>)
qed

section \<open>Control planes\<close>

abbreviation holds :: "'w view \<Rightarrow> bool \<Rightarrow> KTMachine \<Rightarrow> 'w \<Rightarrow> bool" where
  "holds V exclusive m w \<equiv> good V exclusive w \<and> known V m w"

lemma holds_calm: "holds V x m w \<Longrightarrow> calm V x w w1 \<Longrightarrow> holds V x m w1"
  by (blast intro: good_calm known_calm)

lemma holds_sound: "holds V x m w \<Longrightarrow> sound_status (m_Status m)"
  by (rule known_sound [where V = V and w = w]) (auto simp: good_def)

lemma holds_query:
  "kube V x env \<Longrightarrow> query q \<Longrightarrow> driven env q \<Longrightarrow> hoare (holds V x m) q (\<lambda>_. holds V x m) (good V x)"
  by (rule hoare_weaken [OF calm_query [where P = "holds V x m"]]) (auto intro: good_calm known_calm)

lemma holds_op:
  assumes "kube V x env" and "driven env q" and "spec (calm_call env) q (\<lambda>_. True) (\<lambda>_. True)"
  shows "hoare (holds V x m) q (\<lambda>_. holds V x m) (good V x)"
  by (rule hoare_weaken [OF calm_op [where P = "holds V x m", OF assms]]) (auto intro: good_calm known_calm)

lemma holds_setup:
  assumes "kube V x env"
  shows "hoare (holds V x m) (getRestConfig env path) (\<lambda>_. holds V x m) (good V x)"
    and "hoare (holds V x m) (client_or_exit env) (\<lambda>_. holds V x m) (good V x)"
  by (rule hoare_weaken [OF calm_setup(1) [where P = "holds V x m", OF assms holds_calm]]; simp)
    (rule hoare_weaken [OF calm_setup(3) [where P = "holds V x m", OF assms holds_calm]]; simp)

lemma sync_triple:
  assumes "kube V x env" and "m_key m = m_key m0" and "m_version m = m_version m0" and "st_ID server = m_server m0"
    and "sound_status server"
  shows "hoare (holds V x m0) (sync_status env m server)
    (\<lambda>m' w. good V x w \<and> (m' = m \<or> known V m' w)) (good V x)"
proof -
  have "hoare (holds V x m0) (update_machine_status env (m\<lparr>m_Status := server\<rparr>))
      (\<lambda>m' w. good V x w \<and> (m' = m \<or> known V m' w)) (good V x)"
    unfolding update_machine_status_def
    by (rule hoare_weaken [OF update_keeping [OF assms(1), where ?m0.0 = m0]]) (use assms in auto)
  then show ?thesis unfolding sync_status_def by (intro hoare_if hoare_ret) auto
qed

lemma attach_triple:
  fixes env :: "'w env"
  assumes "kube V x env"
  shows "hoare (holds V x m) (AttachPublicIP env m token) (\<lambda>m' w. holds V x m' w \<and> m_server m' = m_server m) (good V x)"
proof (rule hoare_assume)
  show "sound_status (m_Status m)" if "holds V x m w" for w using that by (rule holds_sound)
  assume s: "sound_status (m_Status m)"
  have pick: "hoare (holds V x m) (pickG (e_map_order env ks) :: ('w, string list) op) (\<lambda>_. holds V x m) (good V x)" for ks
    by (rule holds_op [OF assms driven_pick]) (rule spec_pick, simp)
  have post: "hoare (holds V x m) (http_do env (attach_request env token a b)) (\<lambda>_. holds V x m) (good V x)" for a b
    by (rule holds_op [OF assms driven_services(1)], rule spec_http_do)
      (simp_all add: calm_call_def server_create_def attach_request_def cloud_request_def api_url_def)
  have upd: "hoare (holds V x m) (updateVMStatus env m ((m_Status m)\<lparr>st_AssignedPublicIps := ips\<rparr>) (st_Status ((m_Status m)\<lparr>st_AssignedPublicIps := ips\<rparr>)))
      (\<lambda>m' w. holds V x m' w \<and> m_server m' = m_server m) (good V x)" for ips
    unfolding updateVMStatus_def Let_def
    by (rule hoare_weaken [OF update_keeping [OF assms, where ?m0.0 = m]]) (use s in \<open>auto simp: sound_status_def\<close>)
  have body: "hoare (holds V x m) (read_body resp) (\<lambda>_. holds V x m) (good V x)" for resp
    unfolding read_body_def by (rule hoare_lift) simp_all
  have lift: "hoare (holds V x m) (liftG r) (\<lambda>_. holds V x m) (good V x)" for r :: "gerror + 'c"
    by (rule hoare_lift) simp_all
  have avail: "hoare (holds V x m) (GetAvailablePublicIpAddresses env token) (\<lambda>_. holds V x m) (good V x)"
    by (rule holds_query [OF assms available_ips.query_axioms])
      (unfold GetAvailablePublicIpAddresses_def, intro driven_intros)
  show ?thesis
    unfolding AttachPublicIP_def Let_def
    by (intro hoare_bind [OF pick] hoare_list hoare_stop hoare_bind [OF avail] hoare_bind [OF post] hoare_bind [OF body]
        hoare_if hoare_bind [OF lift] hoare_bind [OF holds_setup(1) [OF assms]] hoare_bind [OF holds_setup(2) [OF assms]] upd)
      simp_all
qed

lemma firewall_triple:
  assumes "kube V x env"
  shows "hoare (holds V x m) (AddFirewallSettings env m' token rule flag) (\<lambda>_. holds V x m) (good V x)"
  by (rule holds_op [OF assms driven_firewall], rule spec_weaken [OF add_firewall_calls])
    (auto simp: calm_call_def dest: firewall_no_create, auto simp: firewall_write_def read_only_def)

lemma set_ref_simps [simp]:
  "m_Meta (set_control_plane_ref b m) = m_Meta m" "m_server (set_control_plane_ref b m) = m_server m"
  "sound_status (m_Status (set_control_plane_ref b m)) = sound_status (m_Status m)"
  by (simp_all add: set_control_plane_ref_def sound_status_def)

lemma ref_triple:
  assumes "kube V x env"
  shows "hoare (holds V x m) (update_machine_status env (set_control_plane_ref b m)) (\<lambda>m' w. holds V x m' w) (good V x)"
proof (rule hoare_assume)
  show "sound_status (m_Status m)" if "holds V x m w" for w using that by (rule holds_sound)
  assume "sound_status (m_Status m)"
  then show ?thesis unfolding update_machine_status_def
    by (intro hoare_weaken [OF update_keeping [OF assms, where ?m0.0 = m]]) auto
qed

lemma open_triple:
  assumes "kube V x env"
  shows "hoare (holds V x m) (open_network env m cluster token) (\<lambda>m' w. holds V x m' w) (good V x)"
proof -
  have att: "hoare (holds V x m) (AttachPublicIP env m token) (\<lambda>m'. holds V x m') (good V x)"
    by (rule hoare_weaken [OF attach_triple [OF assms]]) simp_all
  have fw: "hoare (holds V x m1) (if b then AddFirewallSettings env m1 token rule flag else retG ()) (\<lambda>_. holds V x m1) (good V x)"
    for b m1 rule flag
    by (intro hoare_if firewall_triple [OF assms] hoare_ret)
  show ?thesis
    unfolding open_network_def Let_def
    by (intro hoare_if hoare_bind [OF att] hoare_bind [OF fw] hoare_ret ref_triple [OF assms])
qed

lemma calm_http: "rq_Method rq = ''GET'' \<Longrightarrow> calm_call env (HttpCall rq)"
  by (simp add: calm_call_def server_create_def)

lemma calm_simps [simp]:
  "calm_call env (Sleep n)" "calm_call env (GetCall kd k)" "calm_call env (CreateCall y)" "calm_call env (UpdateCall y)"
  by (simp_all add: calm_call_def server_create_def)

lemma finish_triple:
  assumes "kube V x env"
  shows "hoare (holds V x m) (finish_bootstrap env m cluster) (\<lambda>_. good V x) (good V x)"
proof -
  have check: "hoare (holds V x m) (CheckControlPlaneMachineReady env m) (\<lambda>_. holds V x m) (good V x)"
    by (rule holds_op [OF assms driven_vm(3)], rule spec_CheckReady) (simp_all add: calm_http)
  have fetch: "hoare (holds V x m) (FetchAndCreateKubeconfigSecret env m cluster) (\<lambda>_. holds V x m) (good V x)"
    by (rule holds_op [OF assms driven_kubeconfig], rule spec_FetchAndCreate) (simp_all add: calm_http)
  show ?thesis unfolding finish_bootstrap_def
    by (intro hoare_if hoare_bind [OF check] hoare_bind [OF fetch] hoare_bind [OF ref_triple [OF assms]] hoare_ret) simp_all
qed

lemma control_plane_triple:
  assumes "kube V x env"
  shows "hoare (\<lambda>w. good V x w \<and> current V x m w) (reconcile_control_plane env m cluster token) (\<lambda>_. good V x) (good V x)"
  unfolding reconcile_control_plane_def
proof (rule hoare_if)
  assume "m_server m = ''''"
  from create_server_triple [OF assms this]
  show "hoare (\<lambda>w. good V x w \<and> current V x m w) (bindG (CreateVM env m token) (\<lambda>_. retG ())) (\<lambda>_. good V x) (good V x)"
    unfolding CreateVM_def by (rule hoare_bind) (auto intro: hoare_ret)
next
  have get: "hoare (holds V x m) (GetCreatedVM env m token) (\<lambda>st w. holds V x m w \<and> st_ID st = m_server m \<and> sound_status st) (good V x)"
    by (rule hoare_weaken [OF GetCreatedVM_triple [OF assms, where P = "holds V x m"]]) (auto intro: good_calm known_calm)
  have sync: "hoare (\<lambda>w. holds V x m w \<and> st_ID server = m_server m \<and> sound_status server) (sync_status env m server)
      (\<lambda>m' w. holds V x m' w) (good V x)" for server
  proof (rule hoare_assume)
    assume s: "st_ID server = m_server m \<and> sound_status server"
    have "hoare (holds V x m) (update_machine_status env (m\<lparr>m_Status := server\<rparr>)) (\<lambda>m' w. holds V x m' w) (good V x)"
      unfolding update_machine_status_def by (rule hoare_weaken [OF update_keeping [OF assms, where ?m0.0 = m]]) (use s in auto)
    then show "hoare (\<lambda>w. holds V x m w \<and> st_ID server = m_server m \<and> sound_status server) (sync_status env m server)
      (\<lambda>m' w. holds V x m' w) (good V x)"
      unfolding sync_status_def by (intro hoare_if hoare_ret) (auto elim: hoare_pre)
  qed simp
  have "hoare (holds V x m) (bindG (GetCreatedVM env m token) (\<lambda>server. bindG (sync_status env m server) (\<lambda>m1.
        if st_Status (m_Status m1) = StatusActive then bindG (open_network env m1 cluster token) (\<lambda>m2. finish_bootstrap env m2 cluster)
        else retG ()))) (\<lambda>_. good V x) (good V x)"
    by (intro hoare_bind [OF get] hoare_bind [OF sync] hoare_if hoare_bind [OF open_triple [OF assms]] finish_triple [OF assms] hoare_ret) simp
  then show "hoare (\<lambda>w. good V x w \<and> current V x m w) (bindG (GetCreatedVM env m token) (\<lambda>server. bindG (sync_status env m server) (\<lambda>m1.
        if st_Status (m_Status m1) = StatusActive then bindG (open_network env m1 cluster token) (\<lambda>m2. finish_bootstrap env m2 cluster)
        else retG ()))) (\<lambda>_. good V x) (good V x)"
    by (rule hoare_pre) (simp add: current_def)
qed

section \<open>Workers\<close>

abbreviation fresh :: "'w view \<Rightarrow> bool \<Rightarrow> KTMachine \<Rightarrow> 'w \<Rightarrow> bool" where
  "fresh V exclusive m w \<equiv> good V exclusive w \<and> current V exclusive m w"

lemma fresh_query:
  "kube V x env \<Longrightarrow> query q \<Longrightarrow> driven env q \<Longrightarrow> hoare (fresh V x m) q (\<lambda>_. fresh V x m) (fresh V x m)"
  by (rule calm_query [where P = "fresh V x m"]) (auto intro: good_calm current_calm)

lemma fresh_query_good:
  "kube V x env \<Longrightarrow> query q \<Longrightarrow> driven env q \<Longrightarrow> hoare (fresh V x m) q (\<lambda>_. fresh V x m) (good V x)"
  by (rule hoare_weaken [OF fresh_query]) auto

lemma join_triple:
  assumes "kube V x env" and "m_server m = ''''"
  shows "hoare (fresh V x m) (JoinControlPlane env cps m token) (\<lambda>_. holds V x m) (good V x)"
  unfolding JoinControlPlane_def CreateWorkerVM_def
  by (intro hoare_bind [OF fresh_query_good [OF assms(1) ready_loop.query_axioms driven_first_ready]] hoare_if hoare_stop
      hoare_list hoare_bind [OF create_server_triple [OF assms]] hoare_ret) simp_all

lemma set_joined_simps [simp]:
  "m_Meta (set_joined m) = m_Meta m" "m_server (set_joined m) = m_server m"
  "m_server m = '''' \<Longrightarrow> sound_status (m_Status (set_joined m))"
  by (simp_all add: set_joined_def sound_status_def)

text \<open>A worker that is to join has no server: one with a server has a state.\<close>

lemma join_if_new_triple:
  assumes "kube V x env"
  shows "hoare (fresh V x m) (join_if_new env m token)
    (\<lambda>r w. good V x w \<and> (\<forall>m1. r = Some m1 \<longrightarrow> known V m1 w)) (good V x)"
  unfolding join_if_new_def
proof (rule hoare_if)
  assume new: "st_Status (m_Status m) = '''' \<and> \<not> wr_JoinedControlPlane (st_WorkerRef (m_Status m))"
  show "hoare (fresh V x m) (bindG (GetBootstrapReadyMachineControlPlane env m) (\<lambda>cps. if length cps = 0 then retG None
      else bindG (JoinControlPlane env cps m token) (\<lambda>_. bindG (update_machine_status env (set_joined m)) (\<lambda>m1. retG (Some m1)))))
    (\<lambda>r w. good V x w \<and> (\<forall>m1. r = Some m1 \<longrightarrow> known V m1 w)) (good V x)"
  proof (rule hoare_assume)
    show "sound_status (m_Status m)" if "fresh V x m w" for w
      using that known_sound [of V w m] by (simp add: good_def current_def)
    assume "sound_status (m_Status m)"
    with new have none: "m_server m = ''''" by (auto simp: sound_status_def)
    have upd: "hoare (holds V x m) (update_machine_status env (set_joined m)) (\<lambda>m1. holds V x m1) (good V x)"
      unfolding update_machine_status_def
      by (rule hoare_weaken [OF update_keeping [OF assms, where ?m0.0 = m]]) (simp_all add: none)
    show ?thesis
      by (intro hoare_bind [OF fresh_query_good [OF assms candidates.query_axioms driven_machine_parts(3)]] hoare_if hoare_ret
          hoare_bind [OF join_triple [OF assms none]] hoare_bind [OF upd]) simp_all
  qed
next
  show "hoare (fresh V x m) (retG (Some m)) (\<lambda>r w. good V x w \<and> (\<forall>m1. r = Some m1 \<longrightarrow> known V m1 w)) (good V x)"
    by (rule hoare_ret) (simp add: current_def)
qed

lemma worker_triple:
  assumes "kube V x env"
  shows "hoare (fresh V x m) (reconcile_worker env m token) (\<lambda>_. good V x) (good V x)"
  unfolding reconcile_worker_def
proof (rule hoare_bind [OF join_if_new_triple [OF assms]])
  fix r
  have get: "hoare (holds V x m1) (GetCreatedVM env m1 token) (\<lambda>st w. holds V x m1 w \<and> st_ID st = m_server m1 \<and> sound_status st) (good V x)" for m1
    by (rule hoare_weaken [OF GetCreatedVM_triple [OF assms, where P = "holds V x m1"]]) (auto intro: good_calm known_calm)
  have sync: "hoare (\<lambda>w. holds V x m1 w \<and> st_ID server = m_server m1 \<and> sound_status server) (sync_status env (set_joined m1) server)
      (\<lambda>_. good V x) (good V x)" for m1 server
  proof (rule hoare_assume)
    assume s: "st_ID server = m_server m1 \<and> sound_status server"
    have "hoare (holds V x m1) (update_machine_status env ((set_joined m1)\<lparr>m_Status := server\<rparr>)) (\<lambda>_. good V x) (good V x)"
      unfolding update_machine_status_def by (rule hoare_weaken [OF update_keeping [OF assms, where ?m0.0 = m1]]) (use s in auto)
    then show "hoare (\<lambda>w. holds V x m1 w \<and> st_ID server = m_server m1 \<and> sound_status server) (sync_status env (set_joined m1) server)
      (\<lambda>_. good V x) (good V x)"
      unfolding sync_status_def by (intro hoare_if hoare_ret) (auto elim: hoare_pre)
  qed simp
  show "hoare (\<lambda>w. good V x w \<and> (\<forall>m1. r = Some m1 \<longrightarrow> known V m1 w)) (case r of None \<Rightarrow> retG ()
      | Some m1 \<Rightarrow> bindG (GetCreatedVM env m1 token) (\<lambda>server. bindG (sync_status env (set_joined m1) server) (\<lambda>_. retG ())))
    (\<lambda>_. good V x) (good V x)"
  proof (cases r)
    case (Some m1)
    have "hoare (holds V x m1) (bindG (GetCreatedVM env m1 token) (\<lambda>server. bindG (sync_status env (set_joined m1) server) (\<lambda>_. retG ())))
        (\<lambda>_. good V x) (good V x)"
      by (intro hoare_bind [OF get] hoare_bind [OF sync] hoare_ret)
    with Some show ?thesis by (auto elim: hoare_pre)
  qed (simp add: hoare_ret)
qed

section \<open>Reconciling\<close>

lemma read_triple:
  assumes "kube V x env"
  shows "hoare (good V x) (callG (GetCall KindKTMachine req) (e_get_machine env req)) (fresh V x) (good V x)"
proof (rule hoare_call)
  have calm: "calm V x w (snd (e_get_machine env req w))" for w
    using kubeD(1) [OF assms, of "GetCall KindKTMachine req" w] by simp
  fix w m w1
  assume w: "good V x w" and g: "e_get_machine env req w = (Inr m, w1)"
  have good: "good V x w1" using good_calm [OF w calm] g by simp
  have read: "v_history V w1 req (m_version m) = Some m" "x \<longrightarrow> v_machines V w1 req = Some m"
    using kubeD(4) [OF assms] g unfolding faithful_reads_def by blast+
  moreover have "m_key m = req" using good read(1) unfolding good_def core_def coherent_def by blast
  ultimately show "fresh V x m w1" using good by (simp add: current_def known_def)
next
  fix w e w1
  assume "good V x w" "e_get_machine env req w = (Inl e, w1)"
  with kubeD(1) [OF assms, of "GetCall KindKTMachine req" w] show "good V x w1" by (auto intro: good_calm)
qed

lemma body_triple:
  assumes "kube V x env"
  shows "hoare (fresh V x m) (reconcile_machine_body env req m) (\<lambda>_. good V x) (good V x)"
proof -
  have tok: "hoare (fresh V x m) (tryG (getSubjectToken env m)) (\<lambda>_. fresh V x m) (good V x)"
    by (rule hoare_weaken [OF hoare_try [OF fresh_query [OF assms token_of.query_axioms driven_token_of]]]) auto
  have infra: "hoare (fresh V x m) (reconcileInfrastructure env m cluster token) (\<lambda>_. good V x) (good V x)" for cluster token
    unfolding reconcileInfrastructure_def
    by (rule hoare_if) (rule control_plane_triple [OF assms], rule worker_triple [OF assms])
  show ?thesis
    unfolding reconcile_machine_body_def
    by (intro hoare_bind [OF tok] hoare_sum hoare_ret hoare_if
        hoare_bind [OF fresh_query_good [OF assms cluster_of.query_axioms driven_machine_parts(2)]] hoare_bind [OF infra]) simp_all
qed

lemma machine_triple:
  assumes "kube V x env"
  shows "hoare (good V x) (reconcile_machine env req) (\<lambda>_. good V x) (good V x)"
proof -
  have read: "hoare (good V x) (tryG (callG (GetCall KindKTMachine req) (e_get_machine env req)))
      (\<lambda>r w. case r of Inl e \<Rightarrow> good V x w | Inr m \<Rightarrow> fresh V x m w) (good V x)"
    by (rule hoare_try [OF hoare_weaken [OF read_triple [OF assms]]]) simp_all
  show ?thesis unfolding reconcile_machine_def with_object_def
  proof (rule hoare_bind [OF read])
    fix r
    show "hoare (\<lambda>w. case r of Inl e \<Rightarrow> good V x w | Inr m \<Rightarrow> fresh V x m w)
      (case r of Inl e \<Rightarrow> if is_not_found e then retG no_requeue else failG e | Inr m \<Rightarrow> reconcile_machine_body env req m)
      (\<lambda>_. good V x) (good V x)"
      by (cases r) (simp_all add: hoare_ret hoare_stop body_triple [OF assms])
  qed
qed

lemma settled_calm: "settled_call c \<Longrightarrow> calm_call env c"
  by (auto simp: settled_call_def calm_call_def server_create_def)

text \<open>The other controllers are calm.\<close>

lemma controllers_calm:
  assumes "kube V x env"
  shows "calm V x w (world (reconcile_deployment env req) w)" and "calm V x w (world (reconcile_cluster env req) w)"
    and "calm V x w (world (reconcile_template env req) w)" and "calm V x w (world (reconcile_ktcluster env req) w)"
    and "calm V x w (world (reconcile_token env req) w)"
  by (rule driven_within [OF driven_controllers(1) controllers_settled(1) calm_refl calm_trans]
      driven_within [OF driven_controllers(2) controllers_settled(2) calm_refl calm_trans]
      driven_within [OF driven_controllers(3) controllers_settled(3) calm_refl calm_trans]
      driven_within [OF driven_controllers(4) controllers_settled(4) calm_refl calm_trans]
      driven_within [OF driven_controllers(5) controllers_settled(5) calm_refl calm_trans];
    simp add: kubeD(2) [OF assms] kubeD(1) [OF assms settled_calm])+

section \<open>The operator as a transition system\<close>

inductive operates :: "'w env \<Rightarrow> 'w view \<Rightarrow> bool \<Rightarrow> 'w \<Rightarrow> 'w \<Rightarrow> bool" for env V exclusive w0 where
  start: "operates env V exclusive w0 w0"
| machine: "operates env V exclusive w0 w \<Longrightarrow> operates env V exclusive w0 (world (reconcile_machine env req) w)"
| deployment: "operates env V exclusive w0 w \<Longrightarrow> operates env V exclusive w0 (world (reconcile_deployment env req) w)"
| cluster: "operates env V exclusive w0 w \<Longrightarrow> operates env V exclusive w0 (world (reconcile_cluster env req) w)"
| template: "operates env V exclusive w0 w \<Longrightarrow> operates env V exclusive w0 (world (reconcile_template env req) w)"
| ktcluster: "operates env V exclusive w0 w \<Longrightarrow> operates env V exclusive w0 (world (reconcile_ktcluster env req) w)"
| token: "operates env V exclusive w0 w \<Longrightarrow> operates env V exclusive w0 (world (reconcile_token env req) w)"
| outside: "operates env V exclusive w0 w \<Longrightarrow> calm V exclusive w w1 \<Longrightarrow> operates env V exclusive w0 w1"

text \<open>No server yet, and no machine with a status.\<close>

definition untouched :: "'w view \<Rightarrow> 'w \<Rightarrow> bool" where
  "untouched V w \<longleftrightarrow> coherent V w \<and> v_made V w = [] \<and> (\<forall>k v m. v_history V w k v = Some m \<longrightarrow> m_Status m = zero_KTMachineStatus)"

lemma untouched_good: "untouched V w \<Longrightarrow> good V x w"
proof -
  assume u: "untouched V w"
  have old: "m_server h = ''''" if "v_history V w k v = Some h" for k v h
  proof -
    have "m_Status h = zero_KTMachineStatus" using u that unfolding untouched_def by blast
    then show ?thesis by (simp add: zero_KTMachineStatus_def)
  qed
  moreover have "m_server m = ''''" if "v_machines V w k = Some m" for k m
    by (rule old [of k "m_version m"]) (use u that in \<open>unfold untouched_def coherent_def, blast\<close>)
  ultimately show ?thesis using u unfolding good_def core_def accounted_def all_recorded_def steady_def untouched_def
    by (simp add: sound_zero)
qed

lemma operates_good:
  assumes "kube V x env" and "operates env V x w0 w" and "untouched V w0"
  shows "good V x w"
  using assms(2)
proof (induction rule: operates.induct)
  case start
  show ?case by (rule untouched_good [OF assms(3)])
next
  case (machine w req)
  from hoare_any [OF machine_triple [OF assms(1)] machine.IH] show ?case .
qed (blast intro: good_calm controllers_calm [OF assms(1)])+

end
