(* ===== verification/FleetTheorems.thy ===== *)
theory FleetTheorems
  imports FleetRuns
begin

text \<open>
  What holds in every state the operator reaches, whatever the order of the reconciles, the other
  clients and the failures, and a small Kubernetes and cloud on which it can be run.
\<close>

section \<open>A small Kubernetes and cloud\<close>

text \<open>The machines, all their versions and the servers made; an update of the current version is
  stored under a version longer than all others, a ready control plane answers, and
  the cloud accepts every creation or, with \<open>accepts\<close> false, refuses every one.\<close>

record fleet =
  fl_machines :: "key \<Rightarrow> KTMachine option"
  fl_versions :: "KTMachine list"
  fl_servers :: "string list"

definition version_of :: "key \<Rightarrow> string \<Rightarrow> KTMachine \<Rightarrow> bool" where
  "version_of k v m \<longleftrightarrow> m_key m = k \<and> m_version m = v"

definition fleet_view :: "fleet view" where
  "fleet_view = \<lparr>v_machines = fl_machines, v_history = (\<lambda>w k v. find (version_of k v) (fl_versions w)), v_made = fl_servers\<rparr>"

definition longer :: "string list \<Rightarrow> char \<Rightarrow> string" where
  "longer ss c = replicate (Suc (sum_list (map length ss))) c"

definition new_version :: "fleet \<Rightarrow> KTMachine \<Rightarrow> KTMachine" where
  "new_version w m = m\<lparr>m_Meta := (m_Meta m)\<lparr>om_ResourceVersion := longer (map m_version (fl_versions w)) (CHR ''x'')\<rparr>\<rparr>"

definition fleet_update :: "KTMachine \<Rightarrow> fleet \<Rightarrow> KTMachine answer \<times> fleet" where
  "fleet_update m w = (case fl_machines w (m_key m) of
     None \<Rightarrow> (Inl absent, w)
   | Some old \<Rightarrow> if m_version old = m_version m then
         (Inr (new_version w m), w\<lparr>fl_machines := (fl_machines w)(m_key m \<mapsto> new_version w m),
            fl_versions := fl_versions w @ [new_version w m]\<rparr>)
       else (Inl (NewError ''conflict''), w))"

definition fleet_get :: "key \<Rightarrow> fleet \<Rightarrow> KTMachine answer \<times> fleet" where
  "fleet_get k w = (case fl_machines w k of
     None \<Rightarrow> (Inl absent, w)
   | Some m \<Rightarrow> if find (version_of k (m_version m)) (fl_versions w) = Some m then (Inr m, w) else (Inl absent, w))"

definition built :: "string \<Rightarrow> KTMachineStatus" where
  "built i = zero_KTMachineStatus\<lparr>st_ID := i, st_Status := ''BUILD''\<rparr>"

definition fleet_http :: "bool \<Rightarrow> http_request \<Rightarrow> fleet \<Rightarrow> http_response answer \<times> fleet" where
  "fleet_http accepts rq w =
    (if rq_Method rq = ''POST'' \<and> rq_URL rq = ''/server/servers'' then
       if accepts then let i = longer (fl_servers w) (CHR ''v'') in
         (Inr (answer 202 ''202 Accepted'' (print_json (JObj [(''server'', enc_KTMachineStatus (built i))]))),
          w\<lparr>fl_servers := fl_servers w @ [i]\<rparr>)
       else (Inr (answer 403 ''403 Forbidden'' ''quota''), w)
     else if rq_URL rq = ''http://2.2.2.2:8000'' then (Inr (answer 200 ''200 OK'' ''x''), w)
     else (Inl (IOError ''down''), w))"

definition fleet_env :: "bool \<Rightarrow> fleet env" where
  "fleet_env accepts = (cluster_env down_env zero_KTMachine)\<lparr>e_get_machine := fleet_get,
     e_list_machines := (\<lambda>_ w. (Inr [ready_control_plane], w)),
     e_status_update_machine := fleet_update, e_http := fleet_http accepts\<rparr>"

lemma fleet_env_simps [simp]:
  "e_get_machine (fleet_env b) = fleet_get" "e_status_update_machine (fleet_env b) = fleet_update"
  "e_http (fleet_env b) = fleet_http b" "e_config (fleet_env b) = no_config" "e_map_order (fleet_env b) ks w = (ks, w)"
  "e_build_config (fleet_env b) p w = (Inr (), w)" "e_default_config (fleet_env b) w = (Inr (), w)"
  "e_new_client (fleet_env b) w = (Inr (), w)" "e_list_machines (fleet_env b) ns w = (Inr [ready_control_plane], w)"
  "e_url_parse (fleet_env b) u = Inr \<lparr>u_Scheme = '''', u_Host = u, u_Path = ''''\<rparr>"
  by (simp_all add: fleet_env_def cluster_env_def)

lemma fleet_view_simps [simp]:
  "v_machines fleet_view = fl_machines" "v_history fleet_view w k v = find (version_of k v) (fl_versions w)"
  "v_made fleet_view = fl_servers"
  by (simp_all add: fleet_view_def)

lemma longer_new: "longer ss c \<notin> set ss" "longer ss c \<noteq> ''''"
proof -
  have "length s < length (longer ss c)" if "s \<in> set ss" for s
    using member_le_sum_list [of "length s" "map length ss"] that by (simp add: longer_def less_Suc_eq_le)
  then show "longer ss c \<notin> set ss" by blast
qed (simp add: longer_def)

lemma new_version_simps [simp]:
  "m_Name (new_version w m) = m_Name m" "m_Namespace (new_version w m) = m_Namespace m"
  "m_Status (new_version w m) = m_Status m"
  by (simp_all add: new_version_def)

lemma find_snoc: "find P (xs @ [x]) = (case find P xs of None \<Rightarrow> if P x then Some x else None | Some y \<Rightarrow> Some y)"
  by (induction xs) auto

lemma version_unused: "find (version_of k (m_version (new_version w m))) (fl_versions w) = None"
  using longer_new(1) [of "map m_version (fl_versions w)" "CHR ''x''"]
  by (force simp: find_None_iff version_of_def new_version_def)

lemma fleet_stored: "fleet_update m w = (Inr m', w1) \<Longrightarrow> stored fleet_view m m' w w1"
proof -
  assume u: "fleet_update m w = (Inr m', w1)"
  then obtain old where old: "fl_machines w (m_key m) = Some old" "m_version old = m_version m"
    by (auto simp: fleet_update_def split: option.splits if_splits)
  with u have w1: "m' = new_version w m"
      "w1 = w\<lparr>fl_machines := (fl_machines w)(m_key m \<mapsto> m'), fl_versions := fl_versions w @ [m']\<rparr>"
    by (auto simp: fleet_update_def)
  have "v_history fleet_view w1 = (v_history fleet_view w)(m_key m := (v_history fleet_view w (m_key m))(m_version m' \<mapsto> m'))"
    by (intro ext) (use version_unused [of "m_key m" w m] in \<open>auto simp: w1 find_snoc version_of_def split: option.split\<close>)
  with old w1 version_unused [of "m_key m" w m] show ?thesis by (simp add: stored_def)
qed

text \<open>A creation that is answered, read back from its JSON text.\<close>

lemma built_ok: "machine_status_ok (built i)"
  by (simp add: built_def machine_status_ok_def zero_KTMachineStatus_def flavor_ok_def zero_Flavor_def int64_def)

lemma fleet_answer:
  "json_unmarshal dec_ServerResponse zero_ServerResponse (print_json (JObj [(''server'', enc_KTMachineStatus (built i))]))
     = Inr \<lparr>sv_Server = built i\<rparr>"
proof -
  have "wf_json (JObj [(''server'', enc_KTMachineStatus (built i))])" by (simp add: status_codec.enc_wf)
  then show ?thesis
    by (simp add: json_unmarshal_def json_roundtrip dec_ServerResponse_def dec_simps dec_struct_def zero_ServerResponse_def
        status_codec.dec_enc [OF built_ok] del: print_json.simps)
qed

abbreviation creation :: "http_request \<Rightarrow> bool" where
  "creation rq \<equiv> rq_Method rq = ''POST'' \<and> rq_URL rq = ''/server/servers''"

lemma fleet_create:
  "creation rq \<Longrightarrow> answer_at (fleet_env b) rq w st \<longleftrightarrow> b \<and> st = built (longer (fl_servers w) (CHR ''v''))"
  by (simp add: answer_at_def fleet_http_def Let_def status_ok_def fleet_answer del: print_json.simps)

lemma fleet_others: "\<not> creation rq \<Longrightarrow> snd (fleet_http b rq w) = w"
  by (auto simp: fleet_http_def)

lemma fleet_vm: "fleet_http b (vm_request (fleet_env b) token m) w = (Inl (IOError ''down''), w)"
  by (simp add: fleet_http_def vm_request_def get_request_def cloud_request_def api_url_def)

lemma fleet_calls: "calm_call (fleet_env b) c \<Longrightarrow> effect (fleet_env b) c w = w"
proof -
  assume c: "calm_call (fleet_env b) c"
  have get: "snd (fleet_get k w) = w" for k by (simp add: fleet_get_def split: option.split)
  have "snd (fleet_http b rq w) = w" if "c = HttpCall rq" for rq
    using c that by (intro fleet_others) (auto simp: calm_call_def server_create_def api_url_def)
  with c get show ?thesis
    by (auto simp: effect_def fleet_env_def cluster_env_def calm_call_def split: call.split kind.split obj.split)
qed

lemma fleet_kube: "kube fleet_view True (fleet_env b)"
  unfolding kube_def
proof (intro conjI allI impI)
  show "calm fleet_view True w (effect (fleet_env b) c w)" if "calm_call (fleet_env b) c" for c w
    using fleet_calls [OF that] by (simp add: calm_def others_refl)
  show "calm fleet_view True w (snd (e_map_order (fleet_env b) ks w))" for ks w by (simp add: calm_def others_refl)
  show "locking fleet_view True (fleet_env b)"
    unfolding locking_def
  proof (intro allI impI conjI)
    fix m w r w1
    assume u: "e_status_update_machine (fleet_env b) m w = (r, w1)"
    show "case r of Inl e \<Rightarrow> calm fleet_view True w w1 \<or> \<not> True \<and> (\<exists>m'. stored fleet_view m m' w w1)
        | Inr m' \<Rightarrow> stored fleet_view m m' w w1"
    proof (cases r)
      case (Inl e)
      with u have "w1 = w" by (auto simp: fleet_update_def split: option.splits if_splits)
      with Inl show ?thesis by (simp add: calm_def others_refl)
    qed (use u in \<open>simp add: fleet_stored\<close>)
    assume "\<exists>old. v_machines fleet_view w (m_key m) = Some old \<and> m_version old = m_version m"
    with u show "\<exists>m'. r = Inr m'" by (auto simp: fleet_update_def)
  qed
  show "faithful_reads fleet_view True (fleet_env b)"
    by (auto simp: faithful_reads_def fleet_get_def split: option.splits if_splits)
  show "truthful_cloud fleet_view True (fleet_env b)"
    unfolding truthful_cloud_def
  proof (intro conjI allI impI)
    fix rq w
    assume "server_create (fleet_env b) (HttpCall rq)"
    then have rq: "creation rq" by (auto simp: server_create_def api_url_def)
    let ?i = "longer (fl_servers w) (CHR ''v'')" and ?w1 = "effect (fleet_env b) (HttpCall rq) w"
    have w1: "?w1 = (if b then w\<lparr>fl_servers := fl_servers w @ [?i]\<rparr> else w)" using rq by (simp add: fleet_http_def Let_def)
    have new: "new_server fleet_view w ?i" using longer_new [of "fl_servers w"] by (simp add: new_server_def)
    show "others fleet_view True w ?w1" unfolding w1 others_def coherent_def by auto
    show "v_made fleet_view ?w1 = v_made fleet_view w \<or> (\<exists>i. new_server fleet_view w i \<and> v_made fleet_view ?w1 = v_made fleet_view w @ [i])"
      using new w1 by auto
    show "\<exists>st. answer_at (fleet_env b) rq w st" if "v_made fleet_view ?w1 \<noteq> v_made fleet_view w"
      using that w1 by (auto simp: fleet_create [OF rq] split: if_splits)
    fix st assume "answer_at (fleet_env b) rq w st"
    then have "b" "st = built ?i" by (simp_all add: fleet_create [OF rq])
    then show "new_server fleet_view w (st_ID st)" "\<not> wr_JoinedControlPlane (st_WorkerRef st)"
        "v_made fleet_view ?w1 = v_made fleet_view w @ [st_ID st]"
      using new w1 by (simp_all add: built_def)
  next
    fix token m w st
    assume "answer_at (fleet_env b) (vm_request (fleet_env b) token m) w st"
    then have False by (simp add: answer_at_def fleet_vm)
    then show "st_ID st = m_server m" "sound_status st" by blast+
  qed
  show "client_works (fleet_env b)" by (simp add: client_works_def)
qed

text \<open>Two runs: a control plane is created, and a worker is refused.\<close>

definition fleet_of :: "string \<Rightarrow> fleet" where
  "fleet_of n = \<lparr>fl_machines = [(n, '''') \<mapsto> sample_machine n], fl_versions = [sample_machine n], fl_servers = []\<rparr>"

definition fleet_run :: "bool \<Rightarrow> string \<Rightarrow> fleet" where
  "fleet_run accepts n = world (reconcile_machine (fleet_env accepts) (n, '''')) (fleet_of n)"

lemma sample_machine_meta [simp]: "m_Namespace (sample_machine n) = ''''" "m_version (sample_machine n) = ''''"
  by (simp_all add: sample_machine_def zero_KTMachine_def zero_ObjectMeta_def)

lemma fleet_of_simps [simp]:
  "fl_machines (fleet_of n) = [(n, '''') \<mapsto> sample_machine n]" "fl_versions (fleet_of n) = [sample_machine n]"
  "fl_servers (fleet_of n) = []" "fleet_get (n, '''') (fleet_of n) = (Inr (sample_machine n), fleet_of n)"
  by (simp_all add: fleet_of_def fleet_get_def version_of_def)

lemma fleet_untouched: "untouched fleet_view (fleet_of n)"
  by (auto simp: untouched_def coherent_def version_of_def split: if_splits)

lemma fleet_reached: "operates (fleet_env b) fleet_view True (fleet_of n) (fleet_run b n)"
  unfolding fleet_run_def by (intro operates.intros)

lemma fleet_reads:
  "getSubjectToken (fleet_env b) m w = (Inr sample_token,
     [GetCall KindKTCluster (ks_ClusterName (m_Spec m), m_Namespace m), GetCall KindKTSubjectToken (kc_Name sample_cluster, m_Namespace m)], w)"
  "GetMachineAssociatedCluster (fleet_env b) m w =
     (Inr sample_cluster, [GetCall KindKTCluster (ks_ClusterName (m_Spec m), m_Namespace m)], w)"
  by (simp_all add: fleet_env_def cluster_env_def getSubjectToken_def GetMachineAssociatedCluster_def go_simps Let_def sample_cluster_def)

lemma fleet_run_infra:
  "fleet_run b n = world (reconcileInfrastructure (fleet_env b) (sample_machine n) sample_cluster ''t'') (fleet_of n)"
  by (simp add: fleet_run_def reconcile_machine_def with_object_def reconcile_machine_body_def go_simps fleet_reads
      sample_token_def world_def split: prod.split sum.split)

lemma creation_create_request [simp]:
  "rq_Method (create_request (fleet_env b) t m script) = ''POST''"
  "rq_URL (create_request (fleet_env b) t m script) = ''/server/servers''"
  by (simp_all add: create_request_def cloud_request_def api_url_def)

text \<open>The server of the first creation is called \<open>v\<close>, the first new version \<open>x\<close>.\<close>

definition server_v :: "KTMachine \<Rightarrow> KTMachine" where
  "server_v m = m\<lparr>m_Status := (built ''v'')\<lparr>st_Status := ''Creating''\<rparr>, m_Meta := (m_Meta m)\<lparr>om_ResourceVersion := ''x''\<rparr>\<rparr>"

lemma fleet_creates:
  "create_server (fleet_env True) token (sample_machine n) script (fleet_of n) =
    (Inr (server_v (sample_machine n)),
     [HttpCall (create_request (fleet_env True) token (sample_machine n) script), DefaultConfig, NewClient,
      StatusUpdate (OMachine ((sample_machine n)\<lparr>m_Status := (built ''v'')\<lparr>st_Status := ''Creating''\<rparr>\<rparr>))],
     \<lparr>fl_machines = [(n, '''') \<mapsto> server_v (sample_machine n)],
      fl_versions = [sample_machine n, server_v (sample_machine n)], fl_servers = [''v'']\<rparr>)"
  by (simp add: create_server_def go_simps http_do_def read_body_def fleet_http_def Let_def status_ok_def fleet_answer
      rest_config_or_panic_def client_or_exit_def getRestConfig_def getClient_def updateVMStatus_def fleet_update_def
      longer_def server_v_def new_version_def fleet_of_def del: print_json.simps)

lemma control_plane_run:
  "fl_servers (fleet_run True ''control-plane'') = [''v'']"
  "fl_machines (fleet_run True ''control-plane'') (''control-plane'', '''') = Some (server_v (sample_machine ''control-plane''))"
  by (simp_all add: fleet_run_infra reconcileInfrastructure_def ControlPlaneLabel_def reconcile_control_plane_def
      CreateVM_def world_def bindG_apply fleet_creates go_simps)

lemma server_v_simps [simp]: "m_server (server_v m) = ''v''" by (simp add: server_v_def built_def)

section \<open>Every state\<close>

text \<open>C3: In every state the operator reaches from one without servers, whatever the order of the
  reconciles of all controllers, whatever other clients of the API do in between and whichever
  requests and updates fail: no two stored machines have the same server, and a server in a status
  is one the cloud made for the operator.\<close>

theorem servers_not_shared:
  assumes "kube V exclusive env" and "untouched V w0" and "operates env V exclusive w0 w"
    and "v_machines V w k = Some m" and "m_server m \<noteq> ''''"
  shows "m_server m \<in> set (v_made V w) \<and> (\<forall>k' m'. v_machines V w k' = Some m' \<and> m_server m' = m_server m \<longrightarrow> k' = k)"
proof -
  have c: "core V w" using operates_good [OF assms(1,3,2)] by (simp add: good_def)
  show ?thesis
  proof (intro conjI allI impI)
    show "m_server m \<in> set (v_made V w)" by (rule core_made [OF c assms(4,5)])
    show "k' = k" if "v_machines V w k' = Some m' \<and> m_server m' = m_server m" for k' m'
      using core_unique [OF c _ assms(4), of k' m'] that assms(5) by simp
  qed
qed

theorem servers_not_shared_witness:
  "''v'' \<in> set (fl_servers (fleet_run True ''control-plane''))
     \<and> {k. \<exists>m. fl_machines (fleet_run True ''control-plane'') k = Some m \<and> m_server m = ''v''} = {(''control-plane'', '''')}"
proof -
  have m: "v_machines fleet_view (fleet_run True ''control-plane'') (''control-plane'', '''') = Some (server_v (sample_machine ''control-plane''))"
    by (simp only: fleet_view_simps control_plane_run)
  have "m_server (server_v (sample_machine ''control-plane'')) \<noteq> ''''" by simp
  note u = servers_not_shared [OF fleet_kube fleet_untouched fleet_reached m this, unfolded fleet_view_simps server_v_simps]
  have "k = (''control-plane'', '''')" if "fl_machines (fleet_run True ''control-plane'') k = Some n" "m_server n = ''v''" for k n
    using u that by blast
  moreover have "fl_machines (fleet_run True ''control-plane'') (''control-plane'', '''') = Some (server_v (sample_machine ''control-plane''))
      \<and> m_server (server_v (sample_machine ''control-plane'')) = ''v''"
    using m by (simp only: fleet_view_simps server_v_simps)
  ultimately show ?thesis using u by blast
qed

text \<open>C2: While reads are current, no answer of the cloud is lost and nobody else changes existing
  machines, no server is orphaned: every server the cloud made is the server of exactly one stored
  machine, and it was made once.\<close>

theorem no_orphan_server:
  assumes "kube V True env" and "untouched V w0" and "operates env V True w0 w"
  shows "distinct (v_made V w) \<and> (\<forall>i \<in> set (v_made V w). \<exists>!k. \<exists>m. v_machines V w k = Some m \<and> m_server m = i)"
proof -
  have g: "core V w" "all_recorded V {} w" using operates_good [OF assms(1,3,2)] by (simp_all add: good_def accounted_def)
  have "\<exists>!k. \<exists>m. v_machines V w k = Some m \<and> m_server m = i" if i: "i \<in> set (v_made V w)" for i
  proof -
    have "i \<noteq> ''''" using g(1) i by (auto simp: core_def)
    obtain k m where m: "v_machines V w k = Some m" "m_server m = i"
      using g(2) i unfolding all_recorded_def by blast
    show ?thesis
    proof (rule ex1I [of _ k])
      show "\<exists>m. v_machines V w k = Some m \<and> m_server m = i" using m by blast
      fix l assume "\<exists>m. v_machines V w l = Some m \<and> m_server m = i"
      then obtain n where "v_machines V w l = Some n" "m_server n = i" by blast
      with core_unique [OF g(1) this(1) m(1)] m(2) \<open>i \<noteq> ''''\<close> show "l = k" by simp
    qed
  qed
  with g(1) show ?thesis by (simp add: core_def)
qed

theorem no_orphan_server_witness:
  "''v'' \<in> set (fl_servers (fleet_run True ''control-plane'')) \<and> (\<exists>!k. \<exists>m. fl_machines (fleet_run True ''control-plane'') k = Some m \<and> m_server m = ''v'')"
  using no_orphan_server [OF fleet_kube fleet_untouched fleet_reached [of True "''control-plane''"]]
  by (simp add: control_plane_run)

text \<open>C12: A stored machine that is marked as joined has no server: the mark is only ever stored when
  the creation of the worker's server was refused.\<close>

theorem joined_without_server:
  assumes "kube V exclusive env" and "untouched V w0" and "operates env V exclusive w0 w"
    and "v_machines V w k = Some m" and "wr_JoinedControlPlane (st_WorkerRef (m_Status m))"
  shows "m_server m = ''''"
proof -
  have c: "core V w" using operates_good [OF assms(1,3,2)] by (simp add: good_def)
  then have "v_history V w k (m_version m) = Some m" using assms(4) unfolding core_def coherent_def by blast
  from core_sound [OF c this] assms(5) show ?thesis by (auto simp: sound_status_def)
qed

definition ready_ip :: AssignedPublicIps where
  "ready_ip = hd (st_AssignedPublicIps (m_Status ready_control_plane))"

lemma worker_reads:
  "GetBootstrapReadyMachineControlPlane (fleet_env b) (sample_machine ''w'') w = (Inr [ready_control_plane], [ListMachines ''''], w)"
  "first_ready (fleet_env b) [ready_control_plane] w = (Inr ready_control_plane, [HttpCall (ready_request ready_ip)], w)"
  "st_AssignedPublicIps (m_Status ready_control_plane) = [ready_ip]"
  by (simp_all add: GetBootstrapReadyMachineControlPlane_def go_simps bootstrap_ready_def ready_control_plane_def ready_ip_def
      CheckControlPlaneMachineReady_def cp_with_ip_def http_do_def ready_request_def status_ok_def fleet_http_def)

definition joined_w :: KTMachine where
  "joined_w = new_version (fleet_of ''w'') (set_joined (sample_machine ''w''))"

lemma worker_run: "fl_machines (fleet_run False ''w'') (''w'', '''') = Some joined_w"
proof -
  have join: "JoinControlPlane (fleet_env False) [ready_control_plane] (sample_machine ''w'') token w = (Inr (),
      [HttpCall (ready_request ready_ip), HttpCall (create_request (fleet_env False) token (sample_machine ''w'')
        (worker_cloudInit (pp_VMPvtIP (ap_PairedPvtNetwork ready_ip))))], w)" for token w
    by (simp add: JoinControlPlane_def CreateWorkerVM_def go_simps worker_reads(2,3) create_server_def http_do_def read_body_def
        fleet_http_def status_ok_def del: first_ready.simps)
  have key: "m_key (set_joined (sample_machine ''w'')) = (''w'', '''')" "m_version (set_joined (sample_machine ''w'')) = ''''"
    by (simp_all add: set_joined_def)
  have upd: "fleet_update (set_joined (sample_machine ''w'')) (fleet_of ''w'') = (Inr joined_w,
      (fleet_of ''w'')\<lparr>fl_machines := [(''w'', '''') \<mapsto> joined_w], fl_versions := [sample_machine ''w'', joined_w]\<rparr>)"
    unfolding fleet_update_def key by (simp add: joined_w_def)
  have "\<exists>cs r. reconcileInfrastructure (fleet_env False) (sample_machine ''w'') sample_cluster ''t'' (fleet_of ''w'') = (r, cs,
      (fleet_of ''w'')\<lparr>fl_machines := [(''w'', '''') \<mapsto> joined_w], fl_versions := [sample_machine ''w'', joined_w]\<rparr>)"
    by (simp add: reconcileInfrastructure_def ControlPlaneLabel_def reconcile_worker_def join_if_new_def go_simps worker_reads(1)
        join update_machine_status_def upd GetCreatedVM_def http_do_def fleet_http_def cloud_request_def api_url_def)
  then show ?thesis by (auto simp: fleet_run_infra world_def)
qed

theorem joined_without_server_witness:
  "wr_JoinedControlPlane (st_WorkerRef (m_Status joined_w)) \<and> m_server joined_w = ''''"
proof
  show j: "wr_JoinedControlPlane (st_WorkerRef (m_Status joined_w))" by (simp add: joined_w_def set_joined_def)
  have "v_machines fleet_view (fleet_run False ''w'') (''w'', '''') = Some joined_w" by (simp add: worker_run)
  from joined_without_server [OF fleet_kube fleet_untouched fleet_reached this j] show "m_server joined_w = ''''" .
qed

section \<open>Updates that do not arrive\<close>

text \<open>C11: When a worker's server was created and stored, the reconcile that created it fails: the
  update that should mark the worker as joined is made to the copy of the machine read before the
  creation, which is no longer the current version.\<close>

theorem accepted_join_conflicts:
  assumes "kube V exclusive env" and "untouched V w0" and "operates env V exclusive w0 w"
    and "current V exclusive m w" and "\<not> contains_str (m_Name m) ''control-plane''" and "needs_server m"
    and "outcome (GetBootstrapReadyMachineControlPlane env m) w = Inr cps" and "cps \<noteq> []"
    and "w1 = world (GetBootstrapReadyMachineControlPlane env m) w"
    and "outcome (JoinControlPlane env cps m token) w1 = Inr ()" and "w2 = world (JoinControlPlane env cps m token) w1"
    and "v_machines V w2 (m_key m) = Some m2" and "m_server m2 \<noteq> ''''"
  shows "\<exists>e. outcome (reconcileInfrastructure env m cluster token) w = Inl (Fail e)
    \<and> e_status_update_machine env (set_joined m) w2 = (Inl e, world (reconcileInfrastructure env m cluster token) w)"
proof -
  have new: "st_Status (m_Status m) = '''' \<and> \<not> wr_JoinedControlPlane (st_WorkerRef (m_Status m))"
    using assms(5,6) by (simp add: needs_server_def)
  have f: "fresh V exclusive m w" using operates_good [OF assms(1,3,2)] assms(4) by simp
  then have "sound_status (m_Status m)" using known_sound [of V w m] by (simp add: good_def current_def)
  with new have none: "m_server m = ''''" by (auto simp: sound_status_def)
  have "fresh V exclusive m w1" unfolding assms(9)
    by (rule hoare_return [OF fresh_query [OF assms(1) candidates.query_axioms driven_machine_parts(3)] f assms(7)])
  from hoare_return [OF join_triple [OF assms(1) none] this assms(10)]
  have w2: "core V w2" "known V m w2" by (simp_all add: assms(11) good_def)
  have "v_history V w2 (m_key m) (m_version m2) = Some m2" using w2(1) assms(12) unfolding core_def coherent_def by blast
  with w2(2) none assms(13) have old: "m_version m2 \<noteq> m_version m" by (auto simp: known_def)
  obtain e w3 where u: "e_status_update_machine env (set_joined m) w2 = (Inl e, w3)"
  proof (cases "e_status_update_machine env (set_joined m) w2")
    case (Pair r w3)
    then show ?thesis
    proof (cases r)
      case (Inr m')
      with Pair lockingD(1) [OF kubeD(3) [OF assms(1)]] have "stored V (set_joined m) m' w2 w3" by blast
      with assms(12) old show ?thesis by (auto simp: stored_def)
    qed (use Pair that in blast)
  qed
  then have o: "outcome (update_machine_status env (set_joined m)) w2 = Inl (Fail e)"
      "world (update_machine_status env (set_joined m)) w2 = w3"
    by (simp_all add: update_machine_status_def outcome_callG world_callG)
  have "outcome (join_if_new env m token) w = Inl (Fail e)" "world (join_if_new env m token) w = w3"
    using new assms(7,8,10) o by (simp_all add: join_if_new_def outcome_bindG world_bindG assms(9,11))
  then show ?thesis
    using assms(5) u by (simp add: reconcileInfrastructure_def ControlPlaneLabel_def reconcile_worker_def outcome_bindG world_bindG)
qed

theorem accepted_join_conflicts_witness:
  "\<exists>e. outcome (reconcileInfrastructure (fleet_env True) (sample_machine ''w'') sample_cluster ''t'') (fleet_of ''w'') = Inl (Fail e)"
proof -
  let ?env = "fleet_env True" and ?m = "sample_machine ''w''" and ?w = "fleet_of ''w''"
  have join: "JoinControlPlane ?env [ready_control_plane] ?m ''t'' ?w = (Inr (), HttpCall (ready_request ready_ip) #
      fst (snd (create_server ?env ''t'' ?m (worker_cloudInit (pp_VMPvtIP (ap_PairedPvtNetwork ready_ip))) ?w)),
      \<lparr>fl_machines = [(''w'', '''') \<mapsto> server_v ?m], fl_versions = [?m, server_v ?m], fl_servers = [''v'']\<rparr>)"
    by (simp add: JoinControlPlane_def CreateWorkerVM_def go_simps worker_reads(2,3) fleet_creates del: first_ready.simps)
  have reached: "operates ?env fleet_view True ?w ?w" by (rule operates.start)
  have "\<exists>e. outcome (reconcileInfrastructure ?env ?m sample_cluster ''t'') ?w = Inl (Fail e)
      \<and> e_status_update_machine ?env (set_joined ?m) (world (JoinControlPlane ?env [ready_control_plane] ?m ''t'') ?w)
        = (Inl e, world (reconcileInfrastructure ?env ?m sample_cluster ''t'') ?w)"
    by (rule accepted_join_conflicts [OF fleet_kube fleet_untouched reached, where cps = "[ready_control_plane]" and ?m2.0 = "server_v ?m"
          and ?w1.0 = ?w and ?w2.0 = "world (JoinControlPlane ?env [ready_control_plane] ?m ''t'') ?w"])
      (simp_all add: needs_server_def current_def known_def version_of_def worker_reads(1) join run_defs)
  then show ?thesis by blast
qed

text \<open>C13: When the cloud made the server of a control plane but the update that should store it is
  refused, the id of the server is lost: the reconcile fails, and the next one asks the cloud for
  the same server again.\<close>

theorem lost_update_asks_again:
  assumes "contains_str (m_Name m) ''control-plane''" and "needs_server m"
    and "accepted env (create_request env token m cp_cloudInit) w dec_ServerResponse zero_ServerResponse sr w1"
    and "client_up env w1 w2"
    and "e_status_update_machine env (m\<lparr>m_Status := (sv_Server sr)\<lparr>st_Status := ''Creating''\<rparr>\<rparr>) w2 = (Inl e, w3)"
  shows "outcome (reconcileInfrastructure env m cluster token) w = Inl (Fail e)
    \<and> world (reconcileInfrastructure env m cluster token) w = w3
    \<and> (\<exists>rest. trace (reconcileInfrastructure env m cluster token) w3
          = HttpCall (create_request env token m cp_cloudInit) # rest)"
proof -
  have "st_ID (m_Status m) = ''''" using assms(1,2) by (simp add: needs_server_def)
  then have rec: "reconcileInfrastructure env m cluster token = bindG (create_server env token m cp_cloudInit) (\<lambda>_. retG ())"
    using assms(1) by (simp add: reconcileInfrastructure_def ControlPlaneLabel_def reconcile_control_plane_def CreateVM_def)
  obtain w' where up: "rest_config_or_panic env w1 = (Inr (), [DefaultConfig], w')" "client_or_exit env w' = (Inr (), [NewClient], w2)"
    using client_up_steps [OF assms(4)] by blast
  have "\<exists>cs. create_server env token m cp_cloudInit w = (Inl (Fail e), cs, w3)"
    using assms(3,5) up by (auto simp: accepted_def create_server_def http_do_def read_body_def updateVMStatus_def Let_def go_simps)
  moreover have "\<exists>rest. trace (create_server env token m cp_cloudInit) w3 = HttpCall (create_request env token m cp_cloudInit) # rest"
    using assms(3) by (auto simp: accepted_def create_server_def http_do_def trace_bindG trace_callG split: sum.split)
  ultimately show ?thesis unfolding rec by (auto simp: run_defs bindG_apply split: prod.split sum.split)
qed

definition refusing_env :: "unit env" where
  "refusing_env = vm_env\<lparr>e_status_update_machine := (\<lambda>m w. (Inl (NewError ''conflict''), w))\<rparr>"

theorem lost_update_asks_again_witness:
  "\<exists>rest. trace (reconcileInfrastructure refusing_env (sample_machine ''control-plane'') sample_cluster ''t'') ()
     = HttpCall (create_request refusing_env ''t'' (sample_machine ''control-plane'') cp_cloudInit) # rest"
proof -
  have "accepted refusing_env (create_request refusing_env ''t'' (sample_machine ''control-plane'') cp_cloudInit) ()
      dec_ServerResponse zero_ServerResponse \<lparr>sv_Server = zero_KTMachineStatus\<lparr>st_ID := ''vm-1''\<rparr>\<rparr> ()"
    by (simp add: accepted_def refusing_env_def vm_env_def status_ok_def vm_answer)
  from lost_update_asks_again [OF _ _ this, of "()" "NewError ''conflict''" "()" sample_cluster] show ?thesis
    by (simp add: needs_server_def client_up_def refusing_env_def vm_env_def)
qed

end
