(* ===== verification/FleetProgress.thy ===== *)
theory FleetProgress
  imports FleetTheorems
begin

text \<open>
  Progress of the fleet. One reconcile of a machine that needs a server gives it one when the token
  and the cluster can be read, the cloud answers the creation and the view is \<open>exclusive\<close>; and
  whatever is reconciled afterwards, in any order, the machine keeps that very server. The second
  part rests on the history: no version is forgotten, and what had a server in some version has it
  in every later one. Together they give the liveness of the fleet: in an endless run every machine
  that is reconciled when it is due is served, with servers that are not shared.
\<close>

section \<open>What later steps keep\<close>

lemma driven_machine: "driven env (reconcile_machine env req)"
  unfolding reconcile_machine_def with_object_def reconcile_machine_body_def reconcileInfrastructure_def
    reconcile_control_plane_def reconcile_worker_def join_if_new_def CreateVM_def sync_status_def open_network_def
    finish_bootstrap_def Let_def
  by (intro driven_intros; simp)

lemma operates_trans:
  assumes "operates env V x w0 w" and "operates env V x w w'"
  shows "operates env V x w0 w'"
  using assms(2) by (induction rule: operates.induct) (use assms(1) in \<open>blast intro: operates.intros\<close>)+

lemma operates_grows:
  assumes "kube V x env" and "operates env V x w w'"
  shows "grows V w w'"
  using assms(2)
proof (induction rule: operates.induct)
  case (machine w' req)
  from grows_trans [OF machine.IH driven_grows [OF assms(1) driven_machine]] show ?case .
qed (blast intro: grows_refl grows_trans grows_calm controllers_calm [OF assms(1)])+

text \<open>A machine has a server in some version.\<close>

definition served :: "'w view \<Rightarrow> key \<Rightarrow> 'w \<Rightarrow> bool" where
  "served V k w \<longleftrightarrow> (\<exists>v h. v_history V w k v = Some h \<and> m_server h \<noteq> '''')"

lemma served_grows: "served V k w \<Longrightarrow> grows V w w1 \<Longrightarrow> served V k w1"
  unfolding served_def grows_def by blast

lemma served_kept:
  "kube V x env \<Longrightarrow> driven env q \<Longrightarrow> hoare (served V k) q (\<lambda>_. served V k) (served V k)"
  by (rule hoare_stable [where R = "grows V"]) (blast intro: driven_grows served_grows)+

lemma served_forever:
  assumes "kube V True env" and "good V True w" and "served V k w"
  shows "\<exists>i. i \<noteq> '''' \<and> (\<forall>w'. operates env V True w w' \<longrightarrow> (\<exists>m. v_machines V w' k = Some m \<and> m_server m = i))"
proof -
  obtain v h where h: "v_history V w k v = Some h" "m_server h \<noteq> ''''"
    using assms(3) unfolding served_def by blast
  have "\<exists>m. v_machines V w' k = Some m \<and> m_server m = m_server h" if o: "operates env V True w w'" for w'
  proof -
    have "good V True w'"
      using o assms(2)
    proof (induction rule: operates.induct)
      case (machine w1 req)
      from hoare_any [OF machine_triple [OF assms(1)] machine.IH [OF machine.prems]] show ?case .
    qed (blast intro: good_calm controllers_calm [OF assms(1)])+
    then have "steady V w'" by (simp add: good_def accounted_def)
    moreover have "v_history V w' k v = Some h"
      using operates_grows [OF assms(1) o] h(1) unfolding grows_def by blast
    ultimately show ?thesis using h(2) by (blast elim: steadyD)
  qed
  with h(2) show ?thesis by blast
qed

section \<open>A creation that is answered\<close>

definition answers :: "'w env \<Rightarrow> bool" where
  "answers env \<longleftrightarrow> (\<forall>token m script w. \<exists>sr w1.
     accepted env (create_request env token m script) w dec_ServerResponse zero_ServerResponse sr w1)"

text \<open>After the answer nothing stops the operation before the server is stored.\<close>

lemma store_served:
  assumes "kube V True env" and "m_server m = ''''"
  shows "hoare (pending V True m i) (bindG (rest_config_or_panic env) (\<lambda>_. bindG (client_or_exit env)
      (\<lambda>_. updateVMStatus env m (st\<lparr>st_ID := i\<rparr>) ''Creating'')))
    (\<lambda>_ w. i \<noteq> '''' \<longrightarrow> served V (m_key m) w) (\<lambda>_. False)"
proof -
  have config: "hoare (pending V True m i) (rest_config_or_panic env) (\<lambda>_. pending V True m i) (\<lambda>_. False)"
    by (rule hoare_returning [where b = True, OF calm_setup(2) [OF assms(1) pending_calm]])
      (blast intro: setup_returns(1) [OF kubeD(6) [OF assms(1) TrueI]])+
  have client: "hoare (pending V True m i) (client_or_exit env) (\<lambda>_. pending V True m i) (\<lambda>_. False)"
    by (rule hoare_returning [where b = True, OF calm_setup(3) [OF assms(1) pending_calm]])
      (blast intro: setup_returns(2) [OF kubeD(6) [OF assms(1) TrueI]])+
  have store: "hoare (pending V True m i) (updateVMStatus env m (st\<lparr>st_ID := i\<rparr>) ''Creating'')
      (\<lambda>_ w. i \<noteq> '''' \<longrightarrow> served V (m_key m) w) (\<lambda>_. False)"
    unfolding updateVMStatus_def Let_def
  proof (rule hoare_call)
    let ?m = "m\<lparr>m_Status := st\<lparr>st_ID := i, st_Status := ''Creating''\<rparr>\<rparr>"
    fix w m' w1
    assume "e_status_update_machine env ?m w = (Inr m', w1)"
    then have "stored V ?m m' w w1" by (rule lockingD(1) [OF kubeD(3) [OF assms(1)]])
    then have "v_history V w1 (m_key m) (m_version m') = Some m'" "m_server m' = i" by (simp_all add: stored_def)
    then show "i \<noteq> '''' \<longrightarrow> served V (m_key m) w1" unfolding served_def by blast
  next
    let ?m = "m\<lparr>m_Status := st\<lparr>st_ID := i, st_Status := ''Creating''\<rparr>\<rparr>"
    fix w e w1
    assume p: "pending V True m i w" and u: "e_status_update_machine env ?m w = (Inl e, w1)"
    from p have "v_machines V w (m_key ?m) = Some m" by (simp add: pending_def current_def)
    from lockingD(3) [OF kubeD(3) [OF assms(1)] u TrueI this] show False by simp
  qed
  show ?thesis by (rule hoare_bind [OF config hoare_bind [OF client store]])
qed

lemma create_server_served:
  assumes "kube V True env" and "answers env" and "m_server m = ''''"
  shows "hoare (fresh V True m) (create_server env token m script) (\<lambda>_. served V (m_key m)) (\<lambda>_. False)"
proof -
  let ?rest = "\<lambda>sr :: ServerResponse. bindG (rest_config_or_panic env) (\<lambda>_. bindG (client_or_exit env)
      (\<lambda>_. updateVMStatus env m (sv_Server sr) ''Creating''))"
  have main: "\<exists>sr w1. outcome (create_server env token m script) w = outcome (?rest sr) w1
      \<and> world (create_server env token m script) w = world (?rest sr) w1
      \<and> pending V True m (st_ID (sv_Server sr)) w1 \<and> st_ID (sv_Server sr) \<noteq> ''''" if f: "fresh V True m w" for w
  proof -
    let ?rq = "create_request env token m script"
    obtain sr w1 where a: "accepted env ?rq w dec_ServerResponse zero_ServerResponse sr w1"
      using assms(2) unfolding answers_def by blast
    then have "answer_at env ?rq w (sv_Server sr)" and w1: "effect env (HttpCall ?rq) w = w1"
      unfolding accepted_def answer_at_def by auto
    from creation_answered [OF assms(1) conjunct1 [OF f] conjunct2 [OF f] this(1)]
    have "pending V True m (st_ID (sv_Server sr)) w1 \<and> st_ID (sv_Server sr) \<noteq> ''''" unfolding w1 by blast
    moreover from a have "outcome (create_server env token m script) w = outcome (?rest sr) w1"
        "world (create_server env token m script) w = world (?rest sr) w1"
      by (auto simp: accepted_def create_server_def http_do_def read_body_def outcome_bindG world_bindG outcome_callG world_callG)
    ultimately show ?thesis by (intro exI [of _ sr] exI [of _ w1]) simp
  qed
  have rest: "hoare (pending V True m (st_ID (sv_Server sr))) (?rest sr)
      (\<lambda>_ w. st_ID (sv_Server sr) \<noteq> '''' \<longrightarrow> served V (m_key m) w) (\<lambda>_. False)" for sr
    using store_served [OF assms(1,3), where st = "sv_Server sr" and i = "st_ID (sv_Server sr)"] by simp
  show ?thesis
  proof (rule hoareI)
    fix w y
    assume f: "fresh V True m w" and o: "outcome (create_server env token m script) w = Inr y"
    then show "served V (m_key m) (world (create_server env token m script) w)"
      using main [OF f] hoare_return [OF rest] by force
  next
    fix w e
    assume f: "fresh V True m w" and o: "outcome (create_server env token m script) w = Inl e"
    then show False using main [OF f] hoare_early [OF rest] by force
  qed
qed

section \<open>Facts that only a creation or a status update can end\<close>

definition persists :: "'w env \<Rightarrow> ('w \<Rightarrow> bool) \<Rightarrow> bool" where
  "persists env F \<longleftrightarrow> (\<forall>c w. calm_call env c \<longrightarrow> F w \<longrightarrow> F (effect env c w)) \<and> (\<forall>ks w. F w \<longrightarrow> F (snd (e_map_order env ks w)))"

lemma persists_True: "persists env (\<lambda>_. True)"
  by (simp add: persists_def)

lemma persists_query:
  assumes "persists env F" and "query q" and "driven env q"
  shows "hoare F q (\<lambda>_. F) F"
proof (rule hoare_stable [where R = "\<lambda>w w1. F w \<longrightarrow> F w1"])
  show "F w \<longrightarrow> F (world q w)" for w
    by (rule driven_within [OF assms(3) query.reads [OF assms(2)], where R = "\<lambda>w w1. F w \<longrightarrow> F w1"])
      (use assms(1) in \<open>auto simp: persists_def reflp_def transp_def dest: calm_read\<close>)
qed blast

lemma fresh_query_with:
  assumes "kube V x env" and "persists env F" and "query q" and "driven env q"
  shows "hoare (\<lambda>w. fresh V x m w \<and> F w) q (\<lambda>_ w. fresh V x m w \<and> F w) (\<lambda>w. fresh V x m w \<and> F w)"
  by (rule hoare_conj [OF fresh_query [OF assms(1,3,4)] persists_query [OF assms(2-4)]])

section \<open>Reconciling a machine that is to get a server\<close>

text \<open>The token and the cluster of the machine can be read.\<close>

definition readable :: "'w env \<Rightarrow> KTMachine \<Rightarrow> bool" where
  "readable env m \<longleftrightarrow> (\<forall>w. (\<exists>t. outcome (getSubjectToken env m) w = Inr t \<and> us_SubjectToken (kt_Spec t) \<noteq> '''')
     \<and> (\<exists>c. outcome (GetMachineAssociatedCluster env m) w = Inr c))"

text \<open>There is a control plane to join, and the one that answers has an address.\<close>

definition joinable :: "'w env \<Rightarrow> KTMachine \<Rightarrow> bool" where
  "joinable env m \<longleftrightarrow> (\<forall>w. \<exists>cps. cps \<noteq> [] \<and> outcome (GetBootstrapReadyMachineControlPlane env m) w = Inr cps
     \<and> (\<forall>w. \<exists>cp. outcome (first_ready env cps) w = Inr cp \<and> st_AssignedPublicIps (m_Status cp) \<noteq> []))"

text \<open>The two steps before a worker's creation.\<close>

lemma look_ready:
  assumes "kube V True env" and "persists env F" and "joinable env m"
  shows "hoare (\<lambda>w. fresh V True m w \<and> F w) (GetBootstrapReadyMachineControlPlane env m)
    (\<lambda>cps w. (fresh V True m w \<and> F w) \<and> cps \<noteq> [] \<and> (\<forall>w. \<exists>cp. outcome (first_ready env cps) w = Inr cp \<and> st_AssignedPublicIps (m_Status cp) \<noteq> []))
    (\<lambda>_. False)"
proof (rule hoareI)
  fix w cps
  assume f: "fresh V True m w \<and> F w" and o: "outcome (GetBootstrapReadyMachineControlPlane env m) w = Inr cps"
  then have "cps \<noteq> [] \<and> (\<forall>w. \<exists>cp. outcome (first_ready env cps) w = Inr cp \<and> st_AssignedPublicIps (m_Status cp) \<noteq> [])"
    using assms(3) unfolding joinable_def by (metis sum.inject(2))
  with hoare_any [OF fresh_query_with [OF assms(1,2) candidates.query_axioms driven_machine_parts(3)] f]
  show "(fresh V True m (world (GetBootstrapReadyMachineControlPlane env m) w) \<and> F (world (GetBootstrapReadyMachineControlPlane env m) w))
      \<and> cps \<noteq> [] \<and> (\<forall>w. \<exists>cp. outcome (first_ready env cps) w = Inr cp \<and> st_AssignedPublicIps (m_Status cp) \<noteq> [])" by blast
next
  fix w e
  assume "outcome (GetBootstrapReadyMachineControlPlane env m) w = Inl e"
  with assms(3) show False unfolding joinable_def by (metis sum.distinct(1))
qed

lemma pick_ready:
  assumes "kube V True env" and "persists env F"
    and "\<And>w. \<exists>cp. outcome (first_ready env cps) w = Inr cp \<and> st_AssignedPublicIps (m_Status cp) \<noteq> []"
  shows "hoare (\<lambda>w. fresh V True m w \<and> F w) (first_ready env cps)
    (\<lambda>cp w. (fresh V True m w \<and> F w) \<and> st_AssignedPublicIps (m_Status cp) \<noteq> []) (\<lambda>_. False)"
proof (rule hoareI)
  fix w cp
  assume f: "fresh V True m w \<and> F w" and o: "outcome (first_ready env cps) w = Inr cp"
  from hoare_any [OF fresh_query_with [OF assms(1,2) ready_loop.query_axioms driven_first_ready] f] assms(3) [of w] o
  show "(fresh V True m (world (first_ready env cps) w) \<and> F (world (first_ready env cps) w)) \<and> st_AssignedPublicIps (m_Status cp) \<noteq> []"
    by auto
next
  fix w e
  assume "outcome (first_ready env cps) w = Inl e"
  with assms(3) [of w] show False by simp
qed

lemma join_worker:
  assumes "kube V True env" and "persists env F" and "cps \<noteq> []"
    and "\<And>w. \<exists>cp. outcome (first_ready env cps) w = Inr cp \<and> st_AssignedPublicIps (m_Status cp) \<noteq> []"
    and create: "\<And>script. hoare (\<lambda>w. fresh V True m w \<and> F w) (create_server env token m script) (\<lambda>_. Q) (\<lambda>_. False)"
  shows "hoare (\<lambda>w. fresh V True m w \<and> F w) (JoinControlPlane env cps m token) (\<lambda>_. Q) (\<lambda>_. False)"
proof -
  have "hoare (\<lambda>w. (fresh V True m w \<and> F w) \<and> st_AssignedPublicIps (m_Status cp) \<noteq> [])
      (case st_AssignedPublicIps (m_Status cp) of [] \<Rightarrow> panicG index_panic
       | a # _ \<Rightarrow> bindG (CreateWorkerVM env m token (pp_VMPvtIP (ap_PairedPvtNetwork a))) (\<lambda>_. retG ()))
      (\<lambda>_. Q) (\<lambda>_. False)" for cp
    unfolding CreateWorkerVM_def
    by (intro hoare_list hoare_stop hoare_pre [OF hoare_bind [OF create hoare_ret]]) simp_all
  then show ?thesis unfolding JoinControlPlane_def
    by (intro hoare_bind [OF pick_ready [OF assms(1,2,4)]]) (simp only: if_not_P [OF assms(3)])
qed

text \<open>A worker that joins and is marked: what holds after the creation, and then after the mark.\<close>

lemma join_if_new_worker:
  assumes "kube V True env" and "persists env F" and "joinable env m"
    and "st_Status (m_Status m) = ''''" and "\<not> wr_JoinedControlPlane (st_WorkerRef (m_Status m))"
    and create: "\<And>script. hoare (\<lambda>w. fresh V True m w \<and> F w) (create_server env token m script) (\<lambda>_. Q) (\<lambda>_. False)"
    and mark: "hoare Q (update_machine_status env (set_joined m)) R E"
  shows "hoare (\<lambda>w. fresh V True m w \<and> F w) (join_if_new env m token) (\<lambda>r w. \<exists>m1. r = Some m1 \<and> R m1 w) E"
proof -
  let ?ready = "\<lambda>cps. cps \<noteq> [] \<and> (\<forall>w. \<exists>cp. outcome (first_ready env cps) w = Inr cp \<and> st_AssignedPublicIps (m_Status cp) \<noteq> [])"
  have look: "hoare (\<lambda>w. fresh V True m w \<and> F w) (GetBootstrapReadyMachineControlPlane env m)
      (\<lambda>cps w. (fresh V True m w \<and> F w) \<and> ?ready cps) E"
    by (rule hoare_weaken [OF look_ready [OF assms(1-3)]]) blast+
  have join: "hoare (\<lambda>w. (fresh V True m w \<and> F w) \<and> ?ready cps) (JoinControlPlane env cps m token) (\<lambda>_. Q) E" for cps
  proof (rule hoare_assume)
    assume r: "?ready cps"
    show "hoare (\<lambda>w. (fresh V True m w \<and> F w) \<and> ?ready cps) (JoinControlPlane env cps m token) (\<lambda>_. Q) E"
      by (rule hoare_weaken [OF join_worker [OF assms(1,2) _ _ create]]) (use r in blast)+
  qed blast
  have "hoare Q (bindG (update_machine_status env (set_joined m)) (\<lambda>m1. retG (Some m1))) (\<lambda>r w. \<exists>m1. r = Some m1 \<and> R m1 w) E"
    by (rule hoare_bind [OF mark]) (simp add: hoare_ret)
  then have "hoare (\<lambda>w. fresh V True m w \<and> F w) (bindG (GetBootstrapReadyMachineControlPlane env m) (\<lambda>cps. if length cps = 0 then retG None
        else bindG (JoinControlPlane env cps m token) (\<lambda>_. bindG (update_machine_status env (set_joined m)) (\<lambda>m1. retG (Some m1)))))
      (\<lambda>r w. \<exists>m1. r = Some m1 \<and> R m1 w) E"
    by (intro hoare_bind [OF look] hoare_if hoare_bind [OF join] hoare_ret) auto
  with assms(4,5) show ?thesis by (simp add: join_if_new_def)
qed

lemma control_plane_serves:
  assumes "kube V True env" and "answers env" and "m_server m = ''''"
  shows "hoare (fresh V True m) (reconcile_control_plane env m cluster token) (\<lambda>_. served V (m_key m)) (served V (m_key m))"
proof -
  have "hoare (fresh V True m) (CreateVM env m token) (\<lambda>_. served V (m_key m)) (served V (m_key m))"
    unfolding CreateVM_def by (rule hoare_weaken [OF create_server_served [OF assms]]) simp_all
  then show ?thesis
    using assms(3) unfolding reconcile_control_plane_def by (simp add: hoare_bind [OF _ hoare_ret])
qed

lemma worker_serves:
  assumes "kube V True env" and "answers env" and "joinable env m" and "m_server m = ''''"
    and "st_Status (m_Status m) = ''''" and "\<not> wr_JoinedControlPlane (st_WorkerRef (m_Status m))"
  shows "hoare (fresh V True m) (reconcile_worker env m token) (\<lambda>_. served V (m_key m)) (served V (m_key m))"
proof -
  have create: "hoare (\<lambda>w. fresh V True m w \<and> True) (create_server env token m script) (\<lambda>_. served V (m_key m)) (\<lambda>_. False)" for script
    using create_server_served [OF assms(1,2,4)] by simp
  have mark: "hoare (served V (m_key m)) (update_machine_status env (set_joined m)) (\<lambda>_. served V (m_key m)) (served V (m_key m))"
    by (rule served_kept [OF assms(1) driven_machine_parts(1)])
  have first: "hoare (fresh V True m) (join_if_new env m token) (\<lambda>_. served V (m_key m)) (served V (m_key m))"
    by (rule hoare_weaken [OF join_if_new_worker [OF assms(1) persists_True assms(3,5,6) create mark]]) auto
  show ?thesis unfolding reconcile_worker_def sync_status_def
    by (rule hoare_bind [OF first], rule served_kept [OF assms(1)]) (intro driven_intros)
qed

text \<open>A machine that is read as it is stored is reconciled with its token and cluster.\<close>

lemma read_fresh:
  assumes "kube V True env" and "persists env F" and "good V True w" and "F w" and "e_get_machine env k w = (Inr m, w1)"
  shows "fresh V True m w1 \<and> F w1" and "m_key m = k"
proof -
  have o: "outcome (callG (GetCall KindKTMachine k) (e_get_machine env k)) w = Inr m"
      "world (callG (GetCall KindKTMachine k) (e_get_machine env k)) w = w1"
    using assms(5) by (simp_all add: outcome_callG world_callG)
  have f: "fresh V True m w1" using hoare_return [OF read_triple [OF assms(1)] assms(3) o(1)] unfolding o(2) .
  have "F (effect env (GetCall KindKTMachine k) w)"
    using assms(2,4) unfolding persists_def by (metis calm_simps(2))
  with f assms(5) show "fresh V True m w1 \<and> F w1" by simp
  have "coherent V w1" using f by (simp add: good_def core_def)
  moreover have "v_history V w1 k (m_version m) = Some m"
    using kubeD(4) [OF assms(1)] assms(5) unfolding faithful_reads_def by blast
  ultimately show "m_key m = k" unfolding coherent_def by blast
qed

lemma machine_serves:
  assumes "kube V True env" and "persists env F" and "readable env m" and "fst (e_get_machine env k w) = Inr m"
    and "good V True w" and "F w"
    and infra: "\<And>cluster token. hoare (\<lambda>w. fresh V True m w \<and> F w) (reconcileInfrastructure env m cluster token) (\<lambda>_. Q) Q"
  shows "Q (world (reconcile_machine env k) w)"
proof -
  let ?P = "\<lambda>w. fresh V True m w \<and> F w"
  obtain w1 where g: "e_get_machine env k w = (Inr m, w1)" using assms(4) by (metis prod.collapse)
  have f: "?P w1" by (rule read_fresh(1) [OF assms(1,2,5,6) g])
  have tok: "hoare ?P (tryG (getSubjectToken env m)) (\<lambda>r w. ?P w \<and> (\<exists>t. r = Inr t \<and> us_SubjectToken (kt_Spec t) \<noteq> '''')) Q"
  proof (rule hoare_weaken [OF hoare_try])
    show "hoare ?P (getSubjectToken env m) (\<lambda>x w. ?P w \<and> (\<exists>t. Inr x = Inr t \<and> us_SubjectToken (kt_Spec t) \<noteq> '''')) (\<lambda>_. False)"
    proof (rule hoareI)
      fix w x
      assume f: "?P w" and o: "outcome (getSubjectToken env m) w = Inr x"
      from hoare_any [OF fresh_query_with [OF assms(1,2) token_of.query_axioms driven_token_of] f] o assms(3)
      show "?P (world (getSubjectToken env m) w) \<and> (\<exists>t. Inr x = Inr t \<and> us_SubjectToken (kt_Spec t) \<noteq> '''')"
        unfolding readable_def by (metis sum.inject(2))
    next
      fix w e
      assume "outcome (getSubjectToken env m) w = Inl e"
      with assms(3) show False unfolding readable_def by (metis sum.distinct(1))
    qed
  qed simp_all
  have cl: "hoare ?P (GetMachineAssociatedCluster env m) (\<lambda>_. ?P) Q"
  proof (rule hoare_returning [where b = True, OF fresh_query_with [OF assms(1,2) cluster_of.query_axioms driven_machine_parts(2)]])
    show "\<exists>x. outcome (GetMachineAssociatedCluster env m) w = Inr x" for w using assms(3) unfolding readable_def by blast
  qed simp
  have body: "hoare ?P (reconcile_machine_body env k m) (\<lambda>_. Q) Q"
    unfolding reconcile_machine_body_def
  proof (rule hoare_bind [OF tok])
    fix r
    show "hoare (\<lambda>w. ?P w \<and> (\<exists>t. r = Inr t \<and> us_SubjectToken (kt_Spec t) \<noteq> '''')) (case r of Inl _ \<Rightarrow> retG requeue_minute
      | Inr t \<Rightarrow> if us_SubjectToken (kt_Spec t) = '''' then retG requeue_minute
          else bindG (GetMachineAssociatedCluster env m) (\<lambda>cluster. bindG (reconcileInfrastructure env m cluster (us_SubjectToken (kt_Spec t)))
            (\<lambda>_. retG requeue_minute))) (\<lambda>_. Q) Q"
      by (intro hoare_sum hoare_if hoare_ret hoare_pre [OF hoare_bind [OF cl hoare_bind [OF infra hoare_ret]]]) auto
  qed
  have "world (reconcile_machine env k) w = world (reconcile_machine_body env k m) w1"
    using g by (simp add: reconcile_machine_def with_object_def world_bindG outcome_tryG outcome_callG world_callG)
  with hoare_any [OF body f] show ?thesis by simp
qed

section \<open>Progress\<close>

text \<open>A machine that is due for a server: it is read as it is stored, its token and cluster can be read,
  and it is a control plane, or a worker that needs a server and can join.\<close>

definition due :: "'w view \<Rightarrow> 'w env \<Rightarrow> key \<Rightarrow> 'w \<Rightarrow> bool" where
  "due V env k w \<longleftrightarrow> (\<exists>m. v_machines V w k = Some m \<and> fst (e_get_machine env k w) = Inr m \<and> readable env m \<and>
     (contains_str (m_Name m) ''control-plane'' \<or> needs_server m \<and> joinable env m))"

lemma due_served:
  assumes "kube V True env" and "answers env" and "good V True w" and "due V env k w"
  shows "served V k (world (reconcile_machine env k) w)"
proof -
  obtain m where m: "v_machines V w k = Some m" "fst (e_get_machine env k w) = Inr m" "readable env m"
      "contains_str (m_Name m) ''control-plane'' \<or> needs_server m \<and> joinable env m"
    using assms(4) unfolding due_def by blast
  have h: "v_history V w k (m_version m) = Some m"
    using assms(3) m(1) unfolding good_def core_def coherent_def by blast
  show ?thesis
  proof (cases "m_server m = ''''")
    case False
    with h have "served V k w" unfolding served_def by blast
    then show ?thesis by (rule served_grows [OF _ driven_grows [OF assms(1) driven_machine]])
  next
    case True
    obtain w1 where "e_get_machine env k w = (Inr m, w1)" using m(2) by (metis prod.collapse)
    then have key: "m_key m = k" by (rule read_fresh(2) [OF assms(1) persists_True assms(3) TrueI])
    have infra: "hoare (\<lambda>w. fresh V True m w \<and> True) (reconcileInfrastructure env m cluster token) (\<lambda>_. served V (m_key m)) (served V (m_key m))"
        for cluster token
      proof (cases "contains_str (m_Name m) ''control-plane''")
        case cp: True
        then show ?thesis
          by (simp add: reconcileInfrastructure_def ControlPlaneLabel_def control_plane_serves [OF assms(1,2) True])
      next
        case False
        with m(4) have "joinable env m" "st_Status (m_Status m) = ''''" "\<not> wr_JoinedControlPlane (st_WorkerRef (m_Status m))"
          by (auto simp: needs_server_def)
        from worker_serves [OF assms(1,2) this(1) True this(2,3)] False show ?thesis
          by (simp add: reconcileInfrastructure_def ControlPlaneLabel_def)
      qed
    from machine_serves [OF assms(1) persists_True m(3,2) assms(3) TrueI infra] show ?thesis unfolding key .
  qed
qed

lemma steps_operate:
  assumes "\<And>n. operates env V x (run n) (run (Suc n))" and "i \<le> j"
  shows "operates env V x (run i) (run j)"
  using assms(2)
proof (induction j)
  case (Suc j)
  then show ?case
    by (cases "i = Suc j") (auto intro: operates.start operates_trans [OF _ assms(1)] simp: le_Suc_eq)
qed (simp add: operates.start)


section \<open>An instance\<close>

lemma fleet_answers: "answers (fleet_env True)"
  unfolding answers_def
proof (intro allI)
  fix token m script w
  let ?rq = "create_request (fleet_env True) token m script"
  have "creation ?rq" by simp
  then have "answer_at (fleet_env True) ?rq w (built (longer (fl_servers w) (CHR ''v'')))" by (simp add: fleet_create)
  then show "\<exists>sr w1. accepted (fleet_env True) ?rq w dec_ServerResponse zero_ServerResponse sr w1"
    unfolding answer_at_def accepted_def by fastforce
qed

lemma fleet_readable: "readable (fleet_env b) m"
  by (simp add: readable_def outcome_def fleet_reads sample_token_def)

lemma fleet_joinable: "joinable (fleet_env b) (sample_machine ''w'')"
  by (simp add: joinable_def outcome_def worker_reads del: first_ready.simps)

lemma fleet_infra:
  "fleet_get k w = (Inr m, w) \<Longrightarrow>
   world (reconcile_machine (fleet_env b) k) w = world (reconcileInfrastructure (fleet_env b) m sample_cluster ''t'') w"
  by (simp add: reconcile_machine_def with_object_def reconcile_machine_body_def go_simps fleet_reads
      sample_token_def world_def split: prod.split sum.split)

text \<open>A control plane and a worker, reconciled one after the other.\<close>

definition fleet_two :: fleet where
  "fleet_two = \<lparr>fl_machines = [(''control-plane'', '''') \<mapsto> sample_machine ''control-plane'', (''w'', '''') \<mapsto> sample_machine ''w''],
     fl_versions = [sample_machine ''control-plane'', sample_machine ''w''], fl_servers = []\<rparr>"

definition two_run :: "nat \<Rightarrow> fleet" where
  "two_run n = (let w1 = world (reconcile_machine (fleet_env True) (''control-plane'', '''')) fleet_two in
     if n = 0 then fleet_two else if n = 1 then w1 else world (reconcile_machine (fleet_env True) (''w'', '''')) w1)"

definition two_times :: "key \<Rightarrow> nat" where
  "two_times k = (if fst k = ''w'' then 1 else 0)"

lemma two_times: "two_times (''control-plane'', '''') = 0" "two_times (''w'', '''') = 1"
  by (simp_all add: two_times_def)

lemma two_untouched: "untouched fleet_view fleet_two"
  by (auto simp: untouched_def coherent_def version_of_def fleet_two_def split: if_splits)

lemma two_operates: "operates (fleet_env True) fleet_view True (two_run n) (two_run (Suc n))"
  by (auto simp: two_run_def Let_def intro: operates.intros)

lemma create_elsewhere:
  assumes "k \<noteq> m_key m"
  shows "fl_machines (world (create_server (fleet_env True) token m script) w) k = fl_machines w k"
proof -
  let ?m = "m\<lparr>m_Status := (built (longer (fl_servers w) (CHR ''v'')))\<lparr>st_Status := ''Creating''\<rparr>\<rparr>"
  let ?w = "w\<lparr>fl_servers := fl_servers w @ [longer (fl_servers w) (CHR ''v'')]\<rparr>"
  have "world (create_server (fleet_env True) token m script) w = snd (fleet_update ?m ?w)"
    by (simp add: create_server_def http_do_def read_body_def fleet_http_def Let_def status_ok_def fleet_answer
        rest_config_or_panic_def client_or_exit_def getRestConfig_def getClient_def updateVMStatus_def run_defs go_simps
        del: print_json.simps split: prod.split sum.split)
  with assms show ?thesis by (auto simp: fleet_update_def split: option.split)
qed

lemma two_due:
  "due fleet_view (fleet_env True) (''control-plane'', '''') (two_run 0)"
  "due fleet_view (fleet_env True) (''w'', '''') (two_run 1)"
proof -
  show "due fleet_view (fleet_env True) (''control-plane'', '''') (two_run 0)"
    by (simp add: due_def two_run_def fleet_two_def fleet_get_def version_of_def fleet_readable)
  have coh: "coherent fleet_view (two_run 1)"
    using operates_good [OF fleet_kube _ two_untouched, of True "two_run 1"] two_operates [of 0]
    by (simp add: good_def core_def two_run_def)
  have "two_run 1 = world (create_server (fleet_env True) ''t'' (sample_machine ''control-plane'') cp_cloudInit) fleet_two"
  proof -
    have "fleet_get (''control-plane'', '''') fleet_two = (Inr (sample_machine ''control-plane''), fleet_two)"
      by (simp add: fleet_two_def fleet_get_def version_of_def)
    from fleet_infra [OF this] show ?thesis
      by (simp add: two_run_def reconcileInfrastructure_def ControlPlaneLabel_def reconcile_control_plane_def CreateVM_def
          world_bindG split: sum.split)
  qed
  then have w: "fl_machines (two_run 1) (''w'', '''') = Some (sample_machine ''w'')"
    by (simp add: create_elsewhere fleet_two_def)
  then have "v_machines fleet_view (two_run 1) (''w'', '''') = Some (sample_machine ''w'')" by (simp only: fleet_view_simps)
  with coh have "v_history fleet_view (two_run 1) (''w'', '''') (m_version (sample_machine ''w'')) = Some (sample_machine ''w'')"
    unfolding coherent_def by blast
  with w show "due fleet_view (fleet_env True) (''w'', '''') (two_run 1)"
    by (simp add: due_def fleet_get_def fleet_readable fleet_joinable needs_server_def)
qed


end
