(* ===== verification/FleetRefusals.thy ===== *)
theory FleetRefusals
  imports FleetProgress
begin

text \<open>
  What becomes of a worker whose server the cloud refuses. The refusal is swallowed, so the worker is
  stored as joined, without a server and without a state. From then on no reconcile of it writes
  anything, and no other operation of the program touches it: the stored machine stays as it is and
  is never given a server, even when the cloud would make one.
\<close>

section \<open>A creation that is refused\<close>

text \<open>While \<open>full\<close> holds (a quota is used up, say) the cloud refuses every creation; the condition
  is about the cloud and does not end through reads.\<close>

definition refuses_while :: "'w env \<Rightarrow> ('w \<Rightarrow> bool) \<Rightarrow> bool" where
  "refuses_while env full \<longleftrightarrow> persists env full \<and>
     (\<forall>w. full w \<longrightarrow> (\<forall>token m script. \<exists>line w1. refused env (create_request env token m script) w line w1))"

lemma create_server_refused:
  assumes "kube V True env" and "refuses_while env full"
  shows "hoare (\<lambda>w. fresh V True m w \<and> full w) (create_server env token m script) (\<lambda>_. fresh V True m) (\<lambda>_. False)"
proof -
  let ?rq = "create_request env token m script"
  have run: "outcome (create_server env token m script) w = Inr m
      \<and> world (create_server env token m script) w = effect env (HttpCall ?rq) w \<and> (\<forall>st. \<not> answer_at env ?rq w st)"
    if "full w" for w
  proof -
    have "\<exists>line w1. refused env ?rq w line w1" using assms(2) that unfolding refuses_while_def by blast
    then show ?thesis
      by (auto simp: refused_def create_server_def http_do_def read_body_def outcome_bindG world_bindG outcome_callG
          world_callG answer_at_def)
  qed
  note creates = kubeD(5) [OF assms(1), unfolded truthful_cloud_def, THEN conjunct1, rule_format, OF create_request_creates [of env token m script]]
  have keep: "fresh V True m (effect env (HttpCall ?rq) w)" if "fresh V True m w" "\<forall>st. \<not> answer_at env ?rq w st" for w
  proof -
    have "v_made V (effect env (HttpCall ?rq) w) = v_made V w" using creates that(2) by blast
    moreover have "others V True w (effect env (HttpCall ?rq) w)" using creates by blast
    ultimately have "calm V True w (effect env (HttpCall ?rq) w)" by (simp add: calm_def)
    with that(1) show ?thesis by (blast intro: good_calm current_calm)
  qed
  show ?thesis
    by (rule hoareI) (use run keep in \<open>auto simp del: effect_simps\<close>)
qed

section \<open>A worker that is marked and has nothing\<close>

definition stranded :: "KTMachine \<Rightarrow> bool" where
  "stranded m \<longleftrightarrow> \<not> contains_str (m_Name m) ''control-plane'' \<and> wr_JoinedControlPlane (st_WorkerRef (m_Status m))
     \<and> m_server m = '''' \<and> st_Status (m_Status m) = ''''"

text \<open>The answer to a query without an id, a list of servers, has no state.\<close>

definition lists_without_state :: "'w env \<Rightarrow> bool" where
  "lists_without_state env \<longleftrightarrow> (\<forall>token m w st. m_server m = '''' \<longrightarrow> answer_at env (vm_request env token m) w st \<longrightarrow>
     st_Status st = '''')"

lemma GetCreatedVM_answer:
  assumes "outcome (GetCreatedVM env m token) w = Inr st"
  shows "answer_at env (vm_request env token m) w st"
proof -
  have "outcome (cloud_get env token (''/server/servers/'' @ st_ID (m_Status m)) dec_ServerResponse zero_ServerResponse) w
      = Inr \<lparr>sv_Server = st\<rparr>"
    using assms by (auto simp: GetCreatedVM_eq outcome_bindG split: sum.splits)
  from cloud_get_answer [OF this] show ?thesis
    by (auto simp: accepted_def answer_at_def vm_request_def)
qed

text \<open>What follows the join: the query finds no state, so nothing is written.\<close>

lemma stranded_query:
  assumes "lists_without_state env" and "stranded m"
  shows "spec read_only (bindG (GetCreatedVM env m token) (\<lambda>server. bindG (sync_status env (set_joined m) server) (\<lambda>_. retG ())))
    (\<lambda>_. True) (\<lambda>_. True)"
proof (rule spec_bind [OF spec_weaken [OF spec_outcome [OF get_vm.reads]]])
  fix server
  assume "\<exists>w. outcome (GetCreatedVM env m token) w = Inr server"
  then obtain w where "outcome (GetCreatedVM env m token) w = Inr server" ..
  then have "answer_at env (vm_request env token m) w server" by (rule GetCreatedVM_answer)
  moreover have "m_server m = ''''" using assms(2) by (simp add: stranded_def)
  ultimately have "st_Status server = ''''" using assms(1) by (simp add: lists_without_state_def)
  then have "sync_status env (set_joined m) server = retG (set_joined m)"
    using assms(2) by (simp add: sync_status_def set_joined_def stranded_def)
  then show "spec read_only (bindG (sync_status env (set_joined m) server) (\<lambda>_. retG ())) (\<lambda>_. True) (\<lambda>_. True)"
    by (simp add: spec_ret)
qed auto

lemma stranded_reads:
  assumes "lists_without_state env" and "stranded m"
  shows "spec read_only (reconcile_machine_body env req m) (\<lambda>_. True) (\<lambda>_. True)"
proof -
  have "join_if_new env m token = retG (Some m)" for token using assms(2) by (simp add: join_if_new_def stranded_def)
  then have infra: "spec read_only (reconcileInfrastructure env m cluster token) (\<lambda>_. True) (\<lambda>_. True)" for cluster token
    using stranded_query [OF assms] assms(2)
    by (simp add: reconcileInfrastructure_def ControlPlaneLabel_def reconcile_worker_def stranded_def)
  have "spec read_only (tryG (getSubjectToken env m)) (\<lambda>_. True) (\<lambda>_. True)"
    by (rule settled_try [OF token_of.reads])
  then show ?thesis unfolding reconcile_machine_body_def
    by (intro spec_bind_any spec_sum spec_if spec_ret TrueI cluster_of.reads infra)
qed

section \<open>What the reconciles of other machines write\<close>

text \<open>An update whose machine has the key that is reconciled.\<close>

definition own_update :: "key \<Rightarrow> call \<Rightarrow> bool" where
  "own_update k c \<longleftrightarrow> (\<forall>n. c = StatusUpdate (OMachine n) \<longrightarrow> m_key n = k)"

definition keeps_key :: "'w env \<Rightarrow> bool" where
  "keeps_key env \<longleftrightarrow> (\<forall>m w m' w1. e_status_update_machine env m w = (Inr m', w1) \<longrightarrow> m_key m' = m_key m)"

lemma locking_keeps_key: "locking V x env \<Longrightarrow> keeps_key env"
  unfolding keeps_key_def by (blast dest: lockingD(1) stored_def [THEN iffD1])

lemma own_reads: "read_only c \<Longrightarrow> own_update k c"
  by (auto simp: own_update_def read_only_def)

lemma own_update_spec:
  assumes "keeps_key env" and "m_key m = k"
  shows "spec (own_update k) (callG (StatusUpdate (OMachine m)) (e_status_update_machine env m)) (\<lambda>m'. m_key m' = k) (\<lambda>_. True)"
proof (rule spec_call)
  show "m_key m' = k" if "e_status_update_machine env m w = (Inr m', w1)" for m' w w1
    using assms that unfolding keeps_key_def by blast
qed (use assms(2) in \<open>simp_all add: own_update_def\<close>)

lemma own_create:
  assumes "keeps_key env"
  shows "spec (own_update (m_key m)) (create_server env token m script) (\<lambda>m'. m_key m' = m_key m) (\<lambda>_. True)"
  unfolding create_server_def updateVMStatus_def Let_def
  by (intro spec_bind_any [OF spec_http_do] spec_bind_any [OF spec_read_body] spec_if spec_bind_any [OF spec_lift]
      spec_bind_any [OF spec_rest_config_or_panic] spec_bind_any [OF spec_client_or_exit] own_update_spec [OF assms] spec_ret TrueI)
    (simp_all add: own_update_def)

lemma own_attach:
  assumes "keeps_key env"
  shows "spec (own_update (m_key m)) (AttachPublicIP env m token) (\<lambda>m'. m_key m' = m_key m) (\<lambda>_. True)"
proof -
  have look: "spec (own_update (m_key m)) (GetAvailablePublicIpAddresses env token) (\<lambda>_. True) (\<lambda>_. True)"
    by (rule spec_weaken [OF available_ips.reads]) (simp_all add: own_reads)
  show ?thesis unfolding AttachPublicIP_def updateVMStatus_def Let_def
    by (intro spec_bind_any [OF look] spec_bind_any [OF spec_pick] spec_bind_any [OF spec_http_do]
        spec_bind_any [OF spec_read_body] spec_bind_any [OF spec_lift] spec_bind_any [OF spec_getRestConfig]
        spec_bind_any [OF spec_client_or_exit] spec_list spec_stopI TrueI spec_if own_update_spec [OF assms])
      (simp_all add: own_update_def)
qed

lemma set_ref_key [simp]: "m_key (set_control_plane_ref b m) = m_key m" "m_key (set_joined m) = m_key m"
  by (simp_all add: set_control_plane_ref_def set_joined_def)

lemma own_sync:
  assumes "keeps_key env" and "m_key m = k"
  shows "spec (own_update k) (sync_status env m server) (\<lambda>m'. m_key m' = k) (\<lambda>_. True)"
  unfolding sync_status_def update_machine_status_def
  by (intro spec_if own_update_spec [OF assms(1)] spec_ret) (use assms(2) in simp_all)

lemma own_query: "query q \<Longrightarrow> spec (own_update k) q (\<lambda>_. True) (\<lambda>_. True)"
  unfolding query_def by (erule spec_weaken) (simp_all add: own_reads)

lemma own_open:
  assumes "keeps_key env" and "m_key m = k"
  shows "spec (own_update k) (open_network env m cluster token) (\<lambda>m'. m_key m' = k) (\<lambda>_. True)"
proof -
  have fw: "spec (own_update k) (AddFirewallSettings env m1 token rule flag) (\<lambda>_. True) (\<lambda>_. True)" for m1 rule flag
    by (rule spec_weaken [OF add_firewall_calls]) (auto simp: firewall_write_def own_reads, auto simp: own_update_def)
  have att: "spec (own_update k) (AttachPublicIP env m token) (\<lambda>m'. m_key m' = k) (\<lambda>_. True)"
    using own_attach [OF assms(1), of m token] unfolding assms(2) .
  show ?thesis unfolding open_network_def update_machine_status_def Let_def
    by (intro spec_if spec_bind [OF att] spec_bind_any [OF fw] spec_bind_any [OF spec_if] fw spec_ret own_update_spec [OF assms(1)] TrueI)
      (use assms(2) in \<open>simp_all\<close>)
qed

lemma own_finish:
  assumes "keeps_key env" and "m_key m = k"
  shows "spec (own_update k) (finish_bootstrap env m cluster) (\<lambda>_. True) (\<lambda>_. True)"
proof -
  have check: "spec (own_update k) (CheckControlPlaneMachineReady env m) (\<lambda>_. True) (\<lambda>_. True)"
    by (rule spec_CheckReady) (simp_all add: own_update_def)
  have fetch: "spec (own_update k) (FetchAndCreateKubeconfigSecret env m cluster) (\<lambda>_. True) (\<lambda>_. True)"
    by (rule spec_FetchAndCreate) (simp_all add: own_update_def)
  show ?thesis unfolding finish_bootstrap_def update_machine_status_def
    by (intro spec_if spec_bind_any [OF check] spec_bind_any [OF fetch]
        spec_bind_any [OF spec_weaken [OF own_update_spec [OF assms(1)]]] spec_ret TrueI)
      (use assms(2) in simp_all)
qed

lemma own_join:
  assumes "keeps_key env"
  shows "spec (own_update (m_key m)) (join_if_new env m token) (\<lambda>r. \<forall>m1. r = Some m1 \<longrightarrow> m_key m1 = m_key m) (\<lambda>_. True)"
proof -
  have join: "spec (own_update (m_key m)) (JoinControlPlane env cps m token) (\<lambda>_. True) (\<lambda>_. True)" for cps
    unfolding JoinControlPlane_def CreateWorkerVM_def
    by (intro spec_if spec_stopI TrueI spec_bind_any [OF own_query [OF ready_loop.query_axioms]] spec_list
        spec_bind_any [OF spec_weaken [OF own_create [OF assms]]] spec_ret) simp_all
  have mark: "spec (own_update (m_key m)) (update_machine_status env (set_joined m)) (\<lambda>m1. m_key m1 = m_key m) (\<lambda>_. True)"
    unfolding update_machine_status_def by (rule own_update_spec [OF assms]) simp
  show ?thesis unfolding join_if_new_def
    by (intro spec_if spec_bind_any [OF own_query [OF candidates.query_axioms]] spec_bind_any [OF join] spec_bind [OF mark] spec_ret)
      simp_all
qed

lemma own_infrastructure:
  assumes "keeps_key env"
  shows "spec (own_update (m_key m)) (reconcileInfrastructure env m cluster token) (\<lambda>_. True) (\<lambda>_. True)"
proof -
  have create: "spec (own_update (m_key m)) (CreateVM env m token) (\<lambda>_. True) (\<lambda>_. True)"
    unfolding CreateVM_def by (rule spec_weaken [OF own_create [OF assms]]) simp_all
  have get: "spec (own_update (m_key m)) (GetCreatedVM env m1 token) (\<lambda>_. True) (\<lambda>_. True)" for m1
    by (rule own_query [OF get_vm.query_axioms])
  have cp: "spec (own_update (m_key m)) (reconcile_control_plane env m cluster token) (\<lambda>_. True) (\<lambda>_. True)"
    unfolding reconcile_control_plane_def
    by (intro spec_if spec_bind_any [OF create] spec_bind_any [OF get] spec_bind [OF own_sync [OF assms]]
        spec_bind [OF own_open [OF assms]] own_finish [OF assms] spec_ret TrueI) simp_all
  have worker: "spec (own_update (m_key m)) (reconcile_worker env m token) (\<lambda>_. True) (\<lambda>_. True)"
    unfolding reconcile_worker_def
    by (intro spec_bind [OF own_join [OF assms]] spec_option spec_ret TrueI spec_bind_any [OF get]
        spec_bind_any [OF spec_weaken [OF own_sync [OF assms]]]) simp_all
  show ?thesis unfolding reconcileInfrastructure_def by (intro spec_if cp worker)
qed

lemma own_body:
  assumes "keeps_key env"
  shows "spec (own_update (m_key m)) (reconcile_machine_body env req m) (\<lambda>_. True) (\<lambda>_. True)"
  unfolding reconcile_machine_body_def
  by (intro spec_bind_any [OF settled_try [OF own_query [OF token_of.query_axioms]]] spec_sum spec_if spec_ret TrueI
      spec_bind_any [OF own_query [OF cluster_of.query_axioms]] spec_bind_any [OF own_infrastructure [OF assms]])

section \<open>The stranded worker stays as it is\<close>

lemma kept_elsewhere:
  assumes "kube V True env" and "\<And>n. c = StatusUpdate (OMachine n) \<Longrightarrow> m_key n \<noteq> k" and m: "v_machines V w k = Some m"
  shows "v_machines V (effect env c w) k = Some m"
proof -
  have calm: "calm V True w v \<Longrightarrow> v_machines V v k = Some m" for v
    using m unfolding calm_def by (blast intro: others_machines)
  consider "calm_call env c" | n where "c = StatusUpdate (OMachine n)" | rq where "c = HttpCall rq" "server_create env c"
    unfolding calm_call_def server_create_def by blast
  then show ?thesis
  proof cases
    case 1
    from calm [OF kubeD(1) [OF assms(1) this]] show ?thesis .
  next
    case 2
    obtain r w1 where u: "e_status_update_machine env n w = (r, w1)" by (cases "e_status_update_machine env n w")
    have "v_machines V w1 k = Some m"
    proof (cases r)
      case (Inl e)
      with u have "calm V True w w1" using lockingD(2) [OF kubeD(3) [OF assms(1)]] by blast
      then show ?thesis by (rule calm)
    next
      case (Inr n')
      with u have "stored V n n' w w1" using lockingD(1) [OF kubeD(3) [OF assms(1)]] by blast
      then have "v_machines V w1 = (v_machines V w)(m_key n \<mapsto> n')" by (simp add: stored_def)
      with assms(2) [OF 2] m show ?thesis by simp
    qed
    with u 2 show ?thesis by simp
  next
    case 3
    with kubeD(5) [OF assms(1)] have "others V True w (effect env c w)" unfolding truthful_cloud_def by blast
    then show ?thesis using m by (rule others_machines)
  qed
qed

lemma kept_by:
  assumes "kube V True env" and "driven env q" and "spec (\<lambda>c. \<forall>n. c = StatusUpdate (OMachine n) \<longrightarrow> m_key n \<noteq> k) q Q S"
    and "v_machines V w k = Some m"
  shows "v_machines V (world q w) k = Some m"
proof -
  let ?R = "\<lambda>w w1. v_machines V w k = Some m \<longrightarrow> v_machines V w1 k = Some m"
  have "?R w (world q w)"
  proof (rule driven_within [OF assms(2,3), where R = ?R])
    show "?R w (effect env c w)" if "\<forall>n. c = StatusUpdate (OMachine n) \<longrightarrow> m_key n \<noteq> k" for c w
      using kept_elsewhere [OF assms(1)] that by blast
    show "?R w (snd (e_map_order env ks w))" for ks w
      using kubeD(2) [OF assms(1), of w ks] unfolding calm_def by (blast intro: others_machines)
  qed (auto simp: reflp_def transp_def)
  with assms(4) show ?thesis by blast
qed

lemma driven_body: "driven env (reconcile_machine_body env req m)"
  unfolding reconcile_machine_body_def reconcileInfrastructure_def reconcile_control_plane_def reconcile_worker_def
    join_if_new_def CreateVM_def sync_status_def open_network_def finish_bootstrap_def Let_def
  by (intro driven_intros; simp)

lemma stranded_step:
  assumes "kube V True env" and "lists_without_state env" and "good V True w"
    and m1: "v_machines V w k = Some m1" and "stranded m1"
  shows "v_machines V (world (reconcile_machine env req) w) k = Some m1"
    and "c \<in> set (trace (reconcile_machine env k) w) \<Longrightarrow> read_only c"
proof -
  have got: "v_machines V (snd (e_get_machine env i w)) k = Some m1" for i
    using kept_elsewhere [OF assms(1) _ m1, of "GetCall KindKTMachine i"] by simp
  have same: "n = m1" if "e_get_machine env k w = (Inr n, w1)" for n w1
  proof -
    have "v_machines V w1 k = Some n" using kubeD(4) [OF assms(1)] that unfolding faithful_reads_def by blast
    with got [of k] that show ?thesis by simp
  qed
  show "v_machines V (world (reconcile_machine env req) w) k = Some m1"
  proof (cases "fst (e_get_machine env req w)")
    case (Inl e)
    with got [of req] show ?thesis
      by (auto simp: reconcile_machine_def with_object_def world_bindG outcome_tryG outcome_callG world_callG)
  next
    case (Inr n)
    then obtain w1 where g: "e_get_machine env req w = (Inr n, w1)" by (metis prod.collapse)
    have "spec (\<lambda>c. \<forall>n. c = StatusUpdate (OMachine n) \<longrightarrow> m_key n \<noteq> k) (reconcile_machine_body env req n) (\<lambda>_. True) (\<lambda>_. True)"
    proof (cases "req = k")
      case True
      with same g have "n = m1" by blast
      show ?thesis unfolding \<open>n = m1\<close>
        by (rule spec_weaken [OF stranded_reads [OF assms(2,5)]]) (auto simp: read_only_def)
    next
      case False
      have "m_key n = req" by (rule read_fresh(2) [OF assms(1) persists_True assms(3) TrueI g])
      then have other: "own_update (m_key n) c \<Longrightarrow> \<forall>n'. c = StatusUpdate (OMachine n') \<longrightarrow> m_key n' \<noteq> k" for c
        using False unfolding own_update_def by metis
      show ?thesis
        by (rule spec_weaken [OF own_body [OF locking_keeps_key [OF kubeD(3) [OF assms(1)]]]]) (erule other, rule TrueI, rule TrueI)
    qed
    from kept_by [OF assms(1) driven_body this] got [of req] g
    have "v_machines V (world (reconcile_machine_body env req n) w1) k = Some m1" by simp
    with g show ?thesis
      by (simp add: reconcile_machine_def with_object_def world_bindG outcome_tryG outcome_callG world_callG)
  qed
  assume c: "c \<in> set (trace (reconcile_machine env k) w)"
  show "read_only c"
  proof (cases "c = GetCall KindKTMachine k")
    case False
    then obtain n w1 where g: "e_get_machine env k w = (Inr n, w1)" and b: "c \<in> set (trace (reconcile_machine_body env k n) w1)"
      using machine_reconciler.call_of_body [OF c] by blast
    from g have "n = m1" by (rule same)
    with b spec_trace [OF stranded_reads [OF assms(2,5)]] show ?thesis by blast
  qed (simp add: read_only_def)
qed

lemma stranded_forever:
  assumes "kube V True env" and "lists_without_state env" and "good V True w"
    and "v_machines V w k = Some m1" and "stranded m1" and "operates env V True w w'"
  shows "v_machines V w' k = Some m1 \<and> good V True w'"
  using assms(6)
proof (induction rule: operates.induct)
  case start
  show ?case using assms(3,4) by simp
next
  case (machine w1 req)
  from stranded_step(1) [OF assms(1,2) _ _ assms(5)] machine.IH hoare_any [OF machine_triple [OF assms(1)]]
  show ?case by blast
next
  case (outside w1 w2)
  then show ?case by (auto simp: calm_def intro: others_machines good_calm [unfolded calm_def])
qed (use controllers_calm [OF assms(1)] in \<open>unfold calm_def, blast intro: others_machines good_calm [unfolded calm_def]\<close>)+

section \<open>The refused worker\<close>

lemma worker_stranded:
  assumes "kube V True env" and "refuses_while env full" and "lists_without_state env" and "joinable env m"
    and "\<not> contains_str (m_Name m) ''control-plane''" and "m_server m = ''''"
    and "st_Status (m_Status m) = ''''" and "\<not> wr_JoinedControlPlane (st_WorkerRef (m_Status m))"
  shows "hoare (\<lambda>w. fresh V True m w \<and> full w) (reconcile_worker env m token)
    (\<lambda>_ w. \<exists>m1. v_machines V w (m_key m) = Some m1 \<and> stranded m1)
    (\<lambda>w. \<exists>m1. v_machines V w (m_key m) = Some m1 \<and> stranded m1)"
proof -
  let ?R = "\<lambda>m1 w. v_machines V w (m_key m) = Some m1 \<and> stranded m1"
  have mark: "hoare (fresh V True m) (update_machine_status env (set_joined m)) ?R (\<lambda>w. \<exists>m1. ?R m1 w)"
    unfolding update_machine_status_def
  proof (rule hoare_call)
    fix w m1 w1
    assume "e_status_update_machine env (set_joined m) w = (Inr m1, w1)"
    then have "stored V (set_joined m) m1 w w1" by (rule lockingD(1) [OF kubeD(3) [OF assms(1)]])
    then have "v_machines V w1 = (v_machines V w)(m_key m \<mapsto> m1)" "m_Status m1 = m_Status (set_joined m)" "m_key m1 = m_key m"
      by (simp_all add: stored_def)
    with assms(5-7) show "?R m1 w1" by (simp add: stranded_def set_joined_def)
  next
    fix w e w1
    assume f: "fresh V True m w" and u: "e_status_update_machine env (set_joined m) w = (Inl e, w1)"
    then have "v_machines V w (m_key (set_joined m)) = Some m" by (simp add: current_def)
    from lockingD(3) [OF kubeD(3) [OF assms(1)] u TrueI this] have False by simp
    then show "\<exists>m1. ?R m1 w1" ..
  qed
  have first: "hoare (\<lambda>w. fresh V True m w \<and> full w) (join_if_new env m token) (\<lambda>r w. \<exists>m1. r = Some m1 \<and> ?R m1 w) (\<lambda>w. \<exists>m1. ?R m1 w)"
    by (rule join_if_new_worker [OF assms(1) _ assms(4,7,8) create_server_refused [OF assms(1,2)] mark])
      (use assms(2) in \<open>simp add: refuses_while_def\<close>)
  let ?tail = "\<lambda>m1. bindG (GetCreatedVM env m1 token) (\<lambda>server. bindG (sync_status env (set_joined m1) server) (\<lambda>_. retG ()))"
  have tail: "hoare (?R m1) (?tail m1) (\<lambda>_ w. \<exists>m1. ?R m1 w) (\<lambda>w. \<exists>m1. ?R m1 w)" for m1
  proof -
    have keep: "?R m1 (world (?tail m1) w)" if "?R m1 w" for w
    proof -
      have "driven env (?tail m1)" unfolding sync_status_def by (intro driven_intros)
      moreover have "spec (\<lambda>c. \<forall>n. c = StatusUpdate (OMachine n) \<longrightarrow> m_key n \<noteq> m_key m) (?tail m1) (\<lambda>_. True) (\<lambda>_. True)"
        by (rule spec_weaken [OF stranded_query [OF assms(3)]]) (use that in \<open>auto simp: read_only_def\<close>)
      ultimately show ?thesis using kept_by [OF assms(1)] that by blast
    qed
    show ?thesis by (rule hoareI) (use keep in blast)+
  qed
  show ?thesis unfolding reconcile_worker_def
  proof (rule hoare_bind [OF first])
    fix r
    show "hoare (\<lambda>w. \<exists>m1. r = Some m1 \<and> ?R m1 w) (case r of None \<Rightarrow> retG () | Some m1 \<Rightarrow> ?tail m1)
      (\<lambda>_ w. \<exists>m1. ?R m1 w) (\<lambda>w. \<exists>m1. ?R m1 w)"
      by (rule hoare_option) (simp add: hoare_ret, rule hoare_pre [OF tail], simp)
  qed
qed


text \<open>The fleet with a worker and a cloud that refuses.\<close>

lemma fleet_refuses: "refuses_while (fleet_env False) (\<lambda>_. True)"
  by (simp add: refuses_while_def persists_def refused_def fleet_http_def status_ok_def)

lemma fleet_lists: "lists_without_state (fleet_env b)"
  by (simp add: lists_without_state_def answer_at_def fleet_vm)


end
