(* ===== verification/GoHeap.thy ===== *)
theory GoHeap
  imports Prelude "HOL-Library.Monad_Syntax" "HOL-Library.List_Lexorder" "HOL-Library.Char_ord"
begin

text \<open>
  Go memory, as far as copying needs it: a heap of cells that grows by allocation, pointers, slices
  and maps as references into it, and what it means to copy a value with everything it refers to.

  A heap is the list of its cells, an address the position of a cell; a cell holds a variable, the
  array behind slices or a map, and \<open>mk\<close>/\<open>prj\<close> are the embedding of a Go type into the cells and
  its partial inverse. Reading gives the value a variable denotes, with the memory it refers to
  read as well; \<open>None\<close> is memory that is not typed as Go's always is.

  The contract \<open>copying\<close>: copying never fails, leaves the memory there was as it is, and gives a
  variable that denotes the same value whatever becomes of that memory later.
\<close>

named_theorems copying_intros \<open>which copies are faithful, by the shape of the type\<close>

type_synonym addr = nat

record slice =
  sc_array :: addr
  sc_off :: nat
  sc_len :: nat

type_synonym ('c, 'a) copier = "'a \<Rightarrow> 'c list \<Rightarrow> ('a \<times> 'c list) option"
type_synonym ('c, 'a, 'v) reader = "'c list \<Rightarrow> 'a \<Rightarrow> 'v option"

section \<open>References\<close>

definition deref :: "('c \<Rightarrow> 'x option) \<Rightarrow> 'c list \<Rightarrow> addr \<Rightarrow> 'x option" where
  "deref prj h a = (if a < length h then prj (h ! a) else None)"

definition elements :: "('c \<Rightarrow> 'x list option) \<Rightarrow> 'c list \<Rightarrow> slice \<Rightarrow> 'x list option" where
  "elements prj h s = do { xs \<leftarrow> deref prj h (sc_array s);
     if sc_off s + sc_len s \<le> length xs then Some (take (sc_len s) (drop (sc_off s) xs)) else None }"

text \<open>\<open>*out = *in\<close>.\<close>

definition copy_plain :: "('c, 'a) copier" where
  "copy_plain x h = Some (x, h)"

definition read_plain :: "('c, 'a, 'a) reader" where
  "read_plain h x = Some x"

text \<open>\<open>if in.P != nil { *out = new(T); **out = **in }\<close> for a field \<open>P\<close>.\<close>

definition copy_pointer :: "('x \<Rightarrow> 'c) \<Rightarrow> ('c \<Rightarrow> 'x option) \<Rightarrow> ('c, addr option) copier" where
  "copy_pointer mk prj p h = (case p of None \<Rightarrow> Some (None, h)
     | Some a \<Rightarrow> do { x \<leftarrow> deref prj h a; Some (Some (length h), h @ [mk x]) })"

definition read_pointer :: "('c \<Rightarrow> 'x option) \<Rightarrow> ('c, addr option, 'x option) reader" where
  "read_pointer prj h p = (case p of None \<Rightarrow> Some None | Some a \<Rightarrow> map_option Some (deref prj h a))"

text \<open>\<open>for i := range *in { (*in)[i].DeepCopyInto(&(*out)[i]) }\<close>, and \<open>copy(*out, *in)\<close> for
  elements without references. The array made is nobody else's before the loop is over; it is
  written here at the end, with all its elements.\<close>

fun copy_elements :: "('c, 'x) copier \<Rightarrow> ('c, 'x list) copier" where
  "copy_elements into [] h = Some ([], h)"
| "copy_elements into (x # xs) h = do { (y, h) \<leftarrow> into x h; (ys, h) \<leftarrow> copy_elements into xs h; Some (y # ys, h) }"

definition copy_slice :: "('x list \<Rightarrow> 'c) \<Rightarrow> ('c \<Rightarrow> 'x list option) \<Rightarrow> ('c, 'x) copier \<Rightarrow> ('c, slice option) copier" where
  "copy_slice mk prj into s h = (case s of None \<Rightarrow> Some (None, h)
     | Some s \<Rightarrow> do { xs \<leftarrow> elements prj h s; (ys, h) \<leftarrow> copy_elements into xs h;
         Some (Some \<lparr>sc_array = length h, sc_off = 0, sc_len = length ys\<rparr>, h @ [mk ys]) })"

definition read_elements :: "('c, 'x, 'v) reader \<Rightarrow> ('c, 'x list, 'v list) reader" where
  "read_elements rd h xs = those (map (rd h) xs)"

definition read_slice :: "('c \<Rightarrow> 'x list option) \<Rightarrow> ('c, 'x, 'v) reader \<Rightarrow> ('c, slice option, 'v list) reader" where
  "read_slice prj rd h s = (case s of None \<Rightarrow> Some [] | Some s \<Rightarrow> elements prj h s \<bind> read_elements rd h)"

text \<open>\<open>for key, val := range *in { (*out)[key] = ... }\<close>. The order of a range over a map is not
  determined: \<open>visit\<close> gives one (an order that does not list every key once is not one). What a
  map denotes is its entries, listed by key.\<close>

definition visited :: "(string list \<Rightarrow> string list) \<Rightarrow> (string \<times> 'x) list \<Rightarrow> (string \<times> 'x) list" where
  "visited visit kvs = (let ks = map fst kvs; ks' = visit ks in
     if mset ks' = mset ks then map (\<lambda>k. (k, the (map_of kvs k))) ks' else kvs)"

definition copy_entry :: "('c, 'x) copier \<Rightarrow> ('c, string \<times> 'x) copier" where
  "copy_entry into kx h = do { (y, h) \<leftarrow> into (snd kx) h; Some ((fst kx, y), h) }"

definition copy_map :: "(string list \<Rightarrow> string list) \<Rightarrow> ((string \<times> 'x) list \<Rightarrow> 'c) \<Rightarrow> ('c \<Rightarrow> (string \<times> 'x) list option)
    \<Rightarrow> ('c, 'x) copier \<Rightarrow> ('c, addr option) copier" where
  "copy_map visit mk prj into p h = (case p of None \<Rightarrow> Some (None, h)
     | Some a \<Rightarrow> do { kvs \<leftarrow> deref prj h a; (kys, h) \<leftarrow> copy_elements (copy_entry into) (visited visit kvs) h;
         Some (Some (length h), h @ [mk kys]) })"

definition read_entry :: "('c, 'x, 'v) reader \<Rightarrow> ('c, string \<times> 'x, string \<times> 'v) reader" where
  "read_entry rd h kx = map_option (Pair (fst kx)) (rd h (snd kx))"

definition read_map :: "('c \<Rightarrow> (string \<times> 'x) list option) \<Rightarrow> ('c, 'x, 'v) reader \<Rightarrow> ('c, addr option, (string \<times> 'v) list) reader" where
  "read_map prj rd h p = (case p of None \<Rightarrow> Some []
     | Some a \<Rightarrow> do { kvs \<leftarrow> deref prj h a; vs \<leftarrow> read_elements (read_entry rd) h kvs;
         if distinct (map fst kvs) then Some (sort_key fst vs) else None })"

text \<open>\<open>DeepCopy\<close>: nil for nil, and otherwise a new variable that \<open>DeepCopyInto\<close> writes.\<close>

definition deep_copy :: "('x \<Rightarrow> 'c) \<Rightarrow> ('c \<Rightarrow> 'x option) \<Rightarrow> ('c, 'x) copier \<Rightarrow> ('c, addr option) copier" where
  "deep_copy mk prj into p h = (case p of None \<Rightarrow> Some (None, h)
     | Some a \<Rightarrow> do { x \<leftarrow> deref prj h a; (y, h) \<leftarrow> into x h; Some (Some (length h), h @ [mk y]) })"

definition read_object :: "('c \<Rightarrow> 'x option) \<Rightarrow> ('c, 'x, 'v) reader \<Rightarrow> ('c, addr option, 'v option) reader" where
  "read_object prj rd h p = (case p of None \<Rightarrow> Some None | Some a \<Rightarrow> map_option Some (deref prj h a \<bind> rd h))"

section \<open>Later heaps\<close>

text \<open>A later heap in which the cells from \<open>n\<close> on are as they were.\<close>

definition intact :: "nat \<Rightarrow> 'c list \<Rightarrow> 'c list \<Rightarrow> bool" where
  "intact n h h' \<longleftrightarrow> length h \<le> length h' \<and> (\<forall>a. n \<le> a \<longrightarrow> a < length h \<longrightarrow> h' ! a = h ! a)"

lemma intact_refl [simp]: "intact n h h"
  by (simp add: intact_def)

lemma intact_append [simp]: "intact n h (h @ k)"
  by (simp add: intact_def nth_append)

lemma intact_trans: "intact n h h1 \<Longrightarrow> intact n h1 h2 \<Longrightarrow> intact n h h2"
  by (simp add: intact_def)

lemma intact_mono: "intact n h h' \<Longrightarrow> n \<le> m \<Longrightarrow> intact m h h'"
  by (simp add: intact_def)

lemma intact_length: "intact n h h' \<Longrightarrow> length h \<le> length h'"
  by (simp add: intact_def)

lemma intact_after: "intact 0 h h1 \<Longrightarrow> intact n h1 h2 \<Longrightarrow> intact n h h2"
  by (simp add: intact_def)

lemma intact_write: "intact n h h' \<Longrightarrow> a < n \<or> length h \<le> a \<Longrightarrow> intact n h (h'[a := c])"
  by (auto simp: intact_def nth_list_update)

lemma deref_later: "deref prj h a = Some x \<Longrightarrow> intact 0 h h' \<Longrightarrow> deref prj h' a = Some x"
  by (auto simp: deref_def intact_def split: if_splits)

lemma elements_later: "elements prj h s = Some xs \<Longrightarrow> intact 0 h h' \<Longrightarrow> elements prj h' s = Some xs"
  by (auto simp: elements_def bind_eq_Some_conv split: if_splits dest: deref_later)

text \<open>A run that leaves the heap as it is, up to new cells, and gives a result that satisfies \<open>Q\<close> in
  all heaps in which the cells from \<open>n\<close> on stay as the run left them.\<close>

definition gives :: "nat \<Rightarrow> ('c list \<Rightarrow> ('y \<times> 'c list) option) \<Rightarrow> 'c list \<Rightarrow> ('c list \<Rightarrow> 'y \<Rightarrow> bool) \<Rightarrow> bool" where
  "gives n c h Q \<longleftrightarrow> (\<exists>y h'. c h = Some (y, h') \<and> intact 0 h h' \<and> (\<forall>h''. intact n h' h'' \<longrightarrow> Q h'' y))"

lemma gives_bind:
  assumes "gives n c h Q1"
    and "\<And>y h'. intact 0 h h' \<Longrightarrow> (\<And>h''. intact n h' h'' \<Longrightarrow> Q1 h'' y) \<Longrightarrow> gives n (f y) h' Q2"
  shows "gives n (\<lambda>h. c h \<bind> (\<lambda>(y, h). f y h)) h Q2"
proof -
  obtain y h1 where 1: "c h = Some (y, h1)" "intact 0 h h1" "\<And>h''. intact n h1 h'' \<Longrightarrow> Q1 h'' y"
    using assms(1) by (auto simp: gives_def)
  obtain z h2 where 2: "f y h1 = Some (z, h2)" "intact 0 h1 h2" "\<And>h''. intact n h2 h'' \<Longrightarrow> Q2 h'' z"
    using assms(2) [OF 1(2,3)] by (auto simp: gives_def)
  from 1(1,2) 2 show ?thesis unfolding gives_def
    by (intro exI [of _ z] exI [of _ h2]) (auto intro: intact_trans)
qed

lemma gives_ret: "(\<And>h''. intact n h h'' \<Longrightarrow> Q h'' z) \<Longrightarrow> gives n (\<lambda>h. Some (z, h)) h Q"
  by (simp add: gives_def)

lemma gives_mono: "gives n c h Q \<Longrightarrow> m \<le> n \<Longrightarrow> (\<And>h' y. Q h' y \<Longrightarrow> R h' y) \<Longrightarrow> gives m c h R"
  unfolding gives_def by (meson intact_mono)

text \<open>A new cell, and the reference to it.\<close>

lemma gives_new:
  assumes "n \<le> length h" and "\<And>h''. intact n (h @ [c]) h'' \<Longrightarrow> length h < length h'' \<Longrightarrow> h'' ! length h = c \<Longrightarrow> Q h'' z"
  shows "gives n (\<lambda>h. Some (z, h @ [c])) h Q"
proof -
  have "Q h'' z" if "intact n (h @ [c]) h''" for h''
    by (rule assms(2)) (use that assms(1) in \<open>auto simp: intact_def\<close>)
  then show ?thesis by (auto simp: gives_def)
qed

lemma read_elements_simps [simp]:
  "read_elements rd h [] = Some vs \<longleftrightarrow> vs = []"
  "read_elements rd h (x # xs) = Some vs \<longleftrightarrow> (\<exists>v ws. rd h x = Some v \<and> read_elements rd h xs = Some ws \<and> vs = v # ws)"
  by (auto simp: read_elements_def split: option.splits)

section \<open>The contract of a copy\<close>

locale copying =
  fixes into :: "('c, 'a) copier" and rd :: "('c, 'a, 'v) reader"
  assumes later: "rd h x = Some v \<Longrightarrow> intact 0 h h' \<Longrightarrow> rd h' x = Some v"
    and copied: "rd h x = Some v \<Longrightarrow> gives (length h) (into x) h (\<lambda>h' y. rd h' y = Some v)"
begin

lemma copied_from: "rd h x = Some v \<Longrightarrow> n \<le> length h \<Longrightarrow> gives n (into x) h (\<lambda>h' y. rd h' y = Some v)"
  by (erule gives_mono [OF copied])

text \<open>Copying gives an equal value, and from then on the original and the copy are independent:
  writes to the memory there was before do not reach the copy, writes to new memory do not reach
  the original.\<close>

lemma independent:
  assumes "rd h x = Some v"
  shows "\<exists>y h'. into x h = Some (y, h') \<and> rd h' y = Some v \<and> rd h' x = Some v
    \<and> (\<forall>a c. a < length h \<longrightarrow> rd (h'[a := c]) y = Some v)
    \<and> (\<forall>a c. length h \<le> a \<longrightarrow> rd (h'[a := c]) x = Some v)"
proof -
  obtain y h' where y: "into x h = Some (y, h')" "intact 0 h h'" "\<And>h''. intact (length h) h' h'' \<Longrightarrow> rd h'' y = Some v"
    using copied [OF assms] by (auto simp: gives_def)
  have "rd (h'[a := c]) y = Some v" if "a < length h" for a c
    by (rule y(3)) (use that in \<open>simp add: intact_write\<close>)
  moreover have "rd (h'[a := c]) x = Some v" if "length h \<le> a" for a c
    by (rule later [OF assms intact_write [OF y(2)]]) (use that in simp)
  ultimately show ?thesis using y later [OF assms y(2)] by auto
qed

lemma later_elements: "read_elements rd h xs = Some vs \<Longrightarrow> intact 0 h h' \<Longrightarrow> read_elements rd h' xs = Some vs"
  by (induction xs arbitrary: vs) (auto intro: later)

lemma copied_elements:
  "read_elements rd h xs = Some vs \<Longrightarrow> n \<le> length h \<Longrightarrow>
   gives n (copy_elements into xs) h (\<lambda>h' ys. read_elements rd h' ys = Some vs \<and> length ys = length xs)"
proof (induction xs arbitrary: h vs)
  case Nil
  then show ?case by (auto simp: gives_def)
next
  case (Cons x xs)
  then obtain v ws where v: "rd h x = Some v" "read_elements rd h xs = Some ws" "vs = v # ws"
    by auto
  show ?case unfolding copy_elements.simps
  proof (rule gives_bind [OF copied_from [OF v(1) Cons.prems(2)]])
    fix y h1
    assume y: "intact 0 h h1" "\<And>h''. intact n h1 h'' \<Longrightarrow> rd h'' y = Some v"
    have n: "n \<le> length h1" using Cons.prems(2) intact_length [OF y(1)] by simp
    show "gives n (\<lambda>h. copy_elements into xs h \<bind> (\<lambda>(ys, h). Some (y # ys, h))) h1
        (\<lambda>h' ys. read_elements rd h' ys = Some vs \<and> length ys = length (x # xs))"
    proof (rule gives_bind [OF Cons.IH [OF later_elements [OF v(2) y(1)] n]])
      fix ys h2
      assume k: "intact 0 h1 h2" "\<And>h''. intact n h2 h'' \<Longrightarrow> read_elements rd h'' ys = Some ws \<and> length ys = length xs"
      have "rd h'' y = Some v" if "intact n h2 h''" for h'' by (rule y(2) [OF intact_after [OF k(1) that]])
      with k(2) v(3) show "gives n (\<lambda>h. Some (y # ys, h)) h2
          (\<lambda>h' ys. read_elements rd h' ys = Some vs \<and> length ys = length (x # xs))"
        by (intro gives_ret) simp
    qed
  qed
qed

end

section \<open>How copies compose\<close>

text \<open>A constructor of the cells and its partial inverse.\<close>

locale cell =
  fixes mk :: "'x \<Rightarrow> 'c" and prj :: "'c \<Rightarrow> 'x option"
  assumes prj_mk: "prj (mk x) = Some x"
begin

lemma deref_new: "h'' ! length h = mk x \<Longrightarrow> length h < length h'' \<Longrightarrow> deref prj h'' (length h) = Some x"
  by (simp add: deref_def prj_mk)

end

lemma copying_plain [copying_intros]: "copying copy_plain read_plain"
  by unfold_locales (auto simp: copy_plain_def read_plain_def gives_def)

lemma copying_pointer [copying_intros]:
  assumes "cell mk prj"
  shows "copying (copy_pointer mk prj) (read_pointer prj)"
proof
  fix h h' and p v
  assume "read_pointer prj h p = Some v" "intact 0 h h'"
  then show "read_pointer prj h' p = Some v" by (auto simp: read_pointer_def split: option.splits dest: deref_later)
next
  fix h and p v
  assume v: "read_pointer prj h p = Some v"
  show "gives (length h) (copy_pointer mk prj p) h (\<lambda>h' y. read_pointer prj h' y = Some v)"
  proof (cases p)
    case (Some a)
    with v obtain x where x: "deref prj h a = Some x" "v = Some x" by (auto simp: read_pointer_def)
    have "gives (length h) (\<lambda>h. Some (Some (length h), h @ [mk x])) h (\<lambda>h' y. read_pointer prj h' y = Some v)"
      using gives_new [of "length h" h "mk x" "\<lambda>h' y. read_pointer prj h' y = Some v" "Some (length h)"]
      by (simp add: gives_def read_pointer_def x(2) cell.deref_new [OF assms])
    with Some x show ?thesis by (simp add: copy_pointer_def gives_def)
  qed (use v in \<open>auto simp: copy_pointer_def read_pointer_def gives_def\<close>)
qed

text \<open>A new cell for what was just copied, and the reference to it.\<close>

lemma gives_cell:
  assumes "gives n c h Q" and "n \<le> length h"
    and "\<And>h' y h''. intact n h' h'' \<Longrightarrow> Q h'' y \<Longrightarrow> length h' < length h'' \<Longrightarrow> h'' ! length h' = mk y \<Longrightarrow> R h'' (ref h' y)"
  shows "gives n (\<lambda>h. c h \<bind> (\<lambda>(y, h). Some (ref h y, h @ [mk y]))) h R"
proof (rule gives_bind [OF assms(1)])
  fix y h'
  assume y: "intact 0 h h'" "\<And>h''. intact n h' h'' \<Longrightarrow> Q h'' y"
  have "gives n (\<lambda>x. Some (ref h' y, x @ [mk y])) h' R"
  proof (rule gives_new)
    show "n \<le> length h'" using assms(2) intact_length [OF y(1)] by simp
    fix h'' assume k: "intact n (h' @ [mk y]) h''" "length h' < length h''" "h'' ! length h' = mk y"
    have "intact n h' h''" by (rule intact_trans [OF intact_append k(1)])
    with k(2,3) y(2) show "R h'' (ref h' y)" by (intro assms(3)) simp_all
  qed
  then show "gives n (\<lambda>h. Some (ref h y, h @ [mk y])) h' R" by (simp add: gives_def)
qed

lemma copying_slice [copying_intros]:
  assumes "cell mk prj" and "copying into rd"
  shows "copying (copy_slice mk prj into) (read_slice prj rd)"
proof
  fix h h' and s v
  assume "read_slice prj rd h s = Some v" "intact 0 h h'"
  then show "read_slice prj rd h' s = Some v"
    by (auto simp: read_slice_def bind_eq_Some_conv split: option.splits
        dest: elements_later copying.later_elements [OF assms(2)])
next
  fix h and s v
  assume v: "read_slice prj rd h s = Some v"
  show "gives (length h) (copy_slice mk prj into s) h (\<lambda>h' y. read_slice prj rd h' y = Some v)"
  proof (cases s)
    case (Some a)
    with v obtain xs where xs: "elements prj h a = Some xs" "read_elements rd h xs = Some v"
      by (auto simp: read_slice_def bind_eq_Some_conv)
    have "gives (length h) (\<lambda>h. copy_elements into xs h \<bind> (\<lambda>(ys, h).
        Some (Some \<lparr>sc_array = length h, sc_off = 0, sc_len = length ys\<rparr>, h @ [mk ys]))) h
        (\<lambda>h' y. read_slice prj rd h' y = Some v)"
      by (rule gives_cell [OF copying.copied_elements [OF assms(2) xs(2) order.refl]])
        (simp_all add: read_slice_def elements_def cell.deref_new [OF assms(1)])
    with Some xs(1) show ?thesis by (simp add: copy_slice_def gives_def)
  qed (use v in \<open>auto simp: copy_slice_def read_slice_def gives_def\<close>)
qed

lemma copying_entry:
  assumes "copying into rd"
  shows "copying (copy_entry into) (read_entry rd)"
proof
  fix h h' and kx v
  assume "read_entry rd h kx = Some v" "intact 0 h h'"
  then show "read_entry rd h' kx = Some v" by (auto simp: read_entry_def intro: copying.later [OF assms])
next
  fix h and kx v
  assume "read_entry rd h kx = Some v"
  then obtain u where u: "rd h (snd kx) = Some u" "v = (fst kx, u)" by (auto simp: read_entry_def)
  show "gives (length h) (copy_entry into kx) h (\<lambda>h' y. read_entry rd h' y = Some v)"
    unfolding copy_entry_def
    by (rule gives_bind [OF copying.copied [OF assms u(1)]]) (auto intro!: gives_ret simp: read_entry_def u(2))
qed

lemma mset_visited:
  assumes "distinct (map fst kvs)"
  shows "mset (visited visit kvs) = mset kvs"
proof -
  have "map (\<lambda>k. (k, the (map_of kvs k))) (map fst kvs) = kvs"
    using assms by (auto simp: comp_def intro!: map_idI)
  then have "image_mset (\<lambda>k. (k, the (map_of kvs k))) (mset (map fst kvs)) = mset kvs"
    by (metis mset_map)
  then show ?thesis by (auto simp: visited_def Let_def)
qed

text \<open>What a map denotes does not depend on the order of its entries.\<close>

lemma mset_single_eq: "mset xs = mset ys \<Longrightarrow> length ys \<le> 1 \<Longrightarrow> xs = ys"
  by (cases ys) auto

lemma sort_key_fst_cong:
  assumes "mset us = mset vs" and "distinct (map fst us)"
  shows "sort_key fst us = sort_key fst (vs :: (string \<times> 'v) list)"
proof (rule properties_for_sort_key [symmetric])
  have d: "distinct (map fst vs)"
    using assms by (metis mset_eq_imp_distinct_iff mset_map)
  show "mset (sort_key fst us) = mset vs" using assms(1) by simp
  show "sorted (map fst (sort_key fst us))" by simp
  fix k
  let ?P = "\<lambda>p :: string \<times> 'v. fst k = fst p"
  have single: "length (filter ?P ws) \<le> 1" if "distinct (map fst ws)" for ws
    using that by (induction ws) (auto simp: filter_empty_conv rev_image_eqI)
  have "mset (filter ?P (sort_key fst us)) = mset (filter ?P vs)" using assms(1) by (metis mset_filter mset_sort)
  then show "filter ?P (sort_key fst us) = filter ?P vs" by (rule mset_single_eq [OF _ single [OF d]])
qed

lemma read_elements_mset:
  assumes "mset ys = mset xs" and "read_elements rd h xs = Some vs"
  shows "\<exists>ws. read_elements rd h ys = Some ws \<and> mset ws = mset vs"
proof -
  have all: "read_elements rd h zs = Some ws \<longleftrightarrow> (\<forall>x \<in> set zs. rd h x \<noteq> None) \<and> ws = map (\<lambda>x. the (rd h x)) zs" for zs ws
    by (induction zs arbitrary: ws) auto
  have "set ys = set xs" using assms(1) by (metis set_mset_mset)
  with assms(2) have "read_elements rd h ys = Some (map (\<lambda>x. the (rd h x)) ys)" by (simp add: all)
  moreover have "mset (map (\<lambda>x. the (rd h x)) ys) = mset vs" using assms by (simp add: all)
  ultimately show ?thesis by blast
qed

lemma keys_read: "read_elements (read_entry rd) h kvs = Some vs \<Longrightarrow> map fst vs = map fst kvs"
  by (induction kvs arbitrary: vs) (auto simp: read_entry_def)

lemma copying_map [copying_intros]:
  assumes "cell mk prj" and "copying into rd"
  shows "copying (copy_map visit mk prj into) (read_map prj rd)"
proof
  note e = copying_entry [OF assms(2)]
  fix h h' and p v
  assume "read_map prj rd h p = Some v" "intact 0 h h'"
  then show "read_map prj rd h' p = Some v"
    by (auto simp: read_map_def bind_eq_Some_conv split: option.splits if_splits
        dest: deref_later copying.later_elements [OF e])
next
  note e = copying_entry [OF assms(2)]
  fix h and p v
  assume v: "read_map prj rd h p = Some v"
  show "gives (length h) (copy_map visit mk prj into p) h (\<lambda>h' y. read_map prj rd h' y = Some v)"
  proof (cases p)
    case (Some a)
    with v obtain kvs vs where kvs: "deref prj h a = Some kvs" "read_elements (read_entry rd) h kvs = Some vs"
        "distinct (map fst kvs)" "v = sort_key fst vs"
      by (auto simp: read_map_def bind_eq_Some_conv split: if_splits)
    obtain us where us: "read_elements (read_entry rd) h (visited visit kvs) = Some us" "mset us = mset vs"
      using read_elements_mset [OF mset_visited [OF kvs(3)] kvs(2)] by blast
    have d: "distinct (map fst us)"
      using us(2) kvs(3) keys_read [OF kvs(2)] by (metis mset_eq_imp_distinct_iff mset_map)
    have "gives (length h) (\<lambda>h. copy_elements (copy_entry into) (visited visit kvs) h \<bind> (\<lambda>(kys, h).
        Some (Some (length h), h @ [mk kys]))) h (\<lambda>h' y. read_map prj rd h' y = Some v)"
    proof (rule gives_cell [OF copying.copied_elements [OF e us(1) order.refl] order.refl])
      fix h' kys h''
      assume q: "read_elements (read_entry rd) h'' kys = Some us \<and> length kys = length (visited visit kvs)"
        and n: "length h' < length h''" "h'' ! length h' = mk kys"
      have "distinct (map fst kys)" using d keys_read [of rd h'' kys us] q by simp
      with q n show "read_map prj rd h'' (Some (length h')) = Some v"
        by (simp add: read_map_def cell.deref_new [OF assms(1)] kvs(4) sort_key_fst_cong [OF us(2) d])
    qed
    with Some kvs(1) show ?thesis by (simp add: copy_map_def gives_def)
  qed (use v in \<open>auto simp: copy_map_def read_map_def gives_def\<close>)
qed

lemma copying_deep:
  assumes "cell mk prj" and "copying into rd"
  shows "copying (deep_copy mk prj into) (read_object prj rd)"
proof
  fix h h' and p v
  assume "read_object prj rd h p = Some v" "intact 0 h h'"
  then show "read_object prj rd h' p = Some v"
    by (auto simp: read_object_def bind_eq_Some_conv split: option.splits dest: deref_later copying.later [OF assms(2)])
next
  fix h and p v
  assume v: "read_object prj rd h p = Some v"
  show "gives (length h) (deep_copy mk prj into p) h (\<lambda>h' y. read_object prj rd h' y = Some v)"
  proof (cases p)
    case (Some a)
    with v obtain x u where x: "deref prj h a = Some x" "rd h x = Some u" "v = Some u"
      by (auto simp: read_object_def bind_eq_Some_conv)
    have "gives (length h) (\<lambda>h. into x h \<bind> (\<lambda>(y, h). Some (Some (length h), h @ [mk y]))) h
        (\<lambda>h' y. read_object prj rd h' y = Some v)"
      by (rule gives_cell [OF copying.copied [OF assms(2) x(2)] order.refl])
        (simp add: read_object_def cell.deref_new [OF assms(1)] x(3))
    with Some x(1) show ?thesis by (simp add: deep_copy_def gives_def)
  qed (use v in \<open>auto simp: deep_copy_def read_object_def gives_def\<close>)
qed

text \<open>Structs: the fields with references are copied one after the other.\<close>

definition copy_both :: "('c, 'a) copier \<Rightarrow> ('c, 'b) copier \<Rightarrow> ('c, 'a \<times> 'b) copier" where
  "copy_both c1 c2 xy h = do { (x, h) \<leftarrow> c1 (fst xy) h; (y, h) \<leftarrow> c2 (snd xy) h; Some ((x, y), h) }"

definition read_both :: "('c, 'a, 'u) reader \<Rightarrow> ('c, 'b, 'v) reader \<Rightarrow> ('c, 'a \<times> 'b, 'u \<times> 'v) reader" where
  "read_both r1 r2 h xy = do { u \<leftarrow> r1 h (fst xy); v \<leftarrow> r2 h (snd xy); Some (u, v) }"

lemma copying_both [copying_intros]:
  assumes "copying c1 r1" and "copying c2 r2"
  shows "copying (copy_both c1 c2) (read_both r1 r2)"
proof
  fix h h' and xy v
  assume "read_both r1 r2 h xy = Some v" "intact 0 h h'"
  then show "read_both r1 r2 h' xy = Some v"
    by (auto simp: read_both_def bind_eq_Some_conv dest: copying.later [OF assms(1)] copying.later [OF assms(2)])
next
  fix h and xy v
  assume "read_both r1 r2 h xy = Some v"
  then obtain u w where u: "r1 h (fst xy) = Some u" "r2 h (snd xy) = Some w" "v = (u, w)"
    by (auto simp: read_both_def bind_eq_Some_conv)
  show "gives (length h) (copy_both c1 c2 xy) h (\<lambda>h' y. read_both r1 r2 h' y = Some v)"
    unfolding copy_both_def
  proof (rule gives_bind [OF copying.copied [OF assms(1) u(1)]])
    fix x h1
    assume x: "intact 0 h h1" "\<And>h''. intact (length h) h1 h'' \<Longrightarrow> r1 h'' x = Some u"
    show "gives (length h) (\<lambda>h. c2 (snd xy) h \<bind> (\<lambda>(y, h). Some ((x, y), h))) h1 (\<lambda>h' y. read_both r1 r2 h' y = Some v)"
    proof (rule gives_bind [OF copying.copied_from [OF assms(2) copying.later [OF assms(2) u(2) x(1)] intact_length [OF x(1)]]])
      fix y h2
      assume y: "intact 0 h1 h2" "\<And>h''. intact (length h) h2 h'' \<Longrightarrow> r2 h'' y = Some w"
      have "r1 h'' x = Some u" if "intact (length h) h2 h''" for h'' by (rule x(2) [OF intact_after [OF y(1) that]])
      with y(2) show "gives (length h) (\<lambda>h. Some ((x, y), h)) h2 (\<lambda>h' y. read_both r1 r2 h' y = Some v)"
        by (intro gives_ret) (simp add: read_both_def u(3))
    qed
  qed
qed

definition copy_struct :: "('a \<Rightarrow> 't) \<Rightarrow> ('a \<Rightarrow> 't \<Rightarrow> 'a) \<Rightarrow> ('c, 't) copier \<Rightarrow> ('c, 'a) copier" where
  "copy_struct get set_fields c x h = do { (t, h) \<leftarrow> c (get x) h; Some (set_fields x t, h) }"

definition read_struct :: "('a \<Rightarrow> 't) \<Rightarrow> ('a \<Rightarrow> 'u \<Rightarrow> 'v) \<Rightarrow> ('c, 't, 'u) reader \<Rightarrow> ('c, 'a, 'v) reader" where
  "read_struct get build r h x = do { u \<leftarrow> r h (get x); Some (build x u) }"

lemma copying_struct:
  assumes "copying c r" and "\<And>x t. get (set_fields x t) = t" and "\<And>x t u. build (set_fields x t) u = build x u"
  shows "copying (copy_struct get set_fields c) (read_struct get build r)"
proof
  fix h h' and x v
  assume "read_struct get build r h x = Some v" "intact 0 h h'"
  then show "read_struct get build r h' x = Some v"
    by (auto simp: read_struct_def bind_eq_Some_conv dest: copying.later [OF assms(1)])
next
  fix h and x v
  assume "read_struct get build r h x = Some v"
  then obtain u where u: "r h (get x) = Some u" "v = build x u" by (auto simp: read_struct_def bind_eq_Some_conv)
  show "gives (length h) (copy_struct get set_fields c x) h (\<lambda>h' y. read_struct get build r h' y = Some v)"
    unfolding copy_struct_def
    by (rule gives_bind [OF copying.copied [OF assms(1) u(1)]])
      (auto intro!: gives_ret simp: read_struct_def assms(2,3) u(2))
qed

end
