(* ===== verification/ApiHeap.thy ===== *)
theory ApiHeap
  imports GoHeap ApiTypes
begin

text \<open>
  The structs of \<^verbatim>\<open>api/v1beta1\<close> as they lie in memory: a field that is a pointer or a map is an
  address, a slice field a slice, and everything else is held in place. A struct without references
  is the record of \<open>ApiTypes\<close> itself. The objects all have the shape of \<open>object\<close>, the lists of
  objects that of \<open>object_list\<close>; how \<open>metav1.ObjectMeta\<close> and \<open>metav1.ListMeta\<close> lie in memory is
  Kubernetes' own business, so their types \<open>'m\<close> and \<open>'l\<close> are parameters.
\<close>

section \<open>Structs with references\<close>

record FixedIPM =
  fim_Subnet :: "addr option"

record PortM =
  pom_Network :: "addr option"
  pom_FixedIPs :: "slice option"

record SpecM =
  spm_Flavor :: string
  spm_SSHKeyName :: string
  spm_BlockDeviceMapping :: "slice option"
  spm_NetworkTier :: "slice option"
  spm_Ports :: "slice option"

record TemplateM =
  tem_Spec :: SpecM

record KTMachineTemplateSpecM =
  tsm_Template :: TemplateM

record KTMachineSpecM =
  ksm_ClusterName :: string
  ksm_Flavor :: string
  ksm_SSHKeyName :: string
  ksm_BlockDeviceMapping :: "slice option"
  ksm_NetworkTier :: "slice option"
  ksm_Networks :: "slice option"
  ksm_Ports :: "slice option"
  ksm_AvailabilityZone :: string
  ksm_UserData :: string
  ksm_ControlPlaneNumber :: int

record FlavorM =
  flm_Disk :: int
  flm_Swap :: int
  flm_Original :: string
  flm_ExtraSpecs :: "addr option"
  flm_Ephemeral :: int
  flm_VCPUs :: int
  flm_RAM :: int

record KTMachineStatusM =
  stm_ID :: string
  stm_AdminPass :: string
  stm_Links :: "slice option"
  stm_SecurityGroups :: "slice option"
  stm_AssignedPublicIps :: "slice option"
  stm_TenantID :: string
  stm_Addresses :: "addr option"
  stm_TaskState :: "addr option"
  stm_Description :: "addr option"
  stm_DiskConfig :: string
  stm_TrustedImageCerts :: "addr option"
  stm_AvailabilityZone :: string
  stm_PowerState :: int
  stm_VolumesAttached :: "slice option"
  stm_Locked :: bool
  stm_Image :: string
  stm_AccessIPv4 :: string
  stm_AccessIPv6 :: string
  stm_Created :: string
  stm_HostID :: string
  stm_Tags :: "slice option"
  stm_Flavor :: FlavorM
  stm_KeyName :: string
  stm_VMState :: string
  stm_UserID :: string
  stm_Name :: string
  stm_Progress :: int
  stm_LaunchedAt :: string
  stm_Updated :: string
  stm_Status :: string
  stm_TerminatedAt :: "addr option"
  stm_ConfigDrive :: string
  stm_ControlPlaneRef :: ControlPlaneRef
  stm_WorkerRef :: WorkerRef

record SelectorM =
  slm_MatchLabels :: "addr option"

record MachineDeploymentSpecM =
  dsm_Replicas :: int
  dsm_Type :: string
  dsm_Selector :: SelectorM
  dsm_Template :: MachineSpec

record FirewallRulesM =
  frm_SrcNat :: bool
  frm_StartPort :: string
  frm_EndPort :: string
  frm_Protocol :: string
  frm_Action :: string
  frm_SrcNetwork :: "slice option"
  frm_DstNetwork :: "slice option"
  frm_StaticNatId :: string
  frm_SrcAddress :: "slice option"
  frm_DstAddress :: "slice option"

record KTNetworkFirewallSpecM =
  fsm_FirewallRules :: "slice option"

record KTNetworkFirewallStatusM =
  ftm_FirewallJobs :: "slice option"

record ('m, 's, 't) object =
  ob_TypeMeta :: TypeMeta
  ob_Meta :: 'm
  ob_Spec :: 's
  ob_Status :: 't

record 'l object_list =
  ol_TypeMeta :: TypeMeta
  ol_Meta :: 'l
  ol_Items :: "slice option"

text \<open>The resources the program does not look into: scaffolds with one field, and empty statuses.\<close>

record KTPublicNetworkSpec = pn_Foo :: string
record KubeadmConfigTemplateSpec = kg_Foo :: string
record KubeadmControlPlaneSpec = kn_Foo :: string

type_synonym ClusterStatus = unit
type_synonym KTClusterStatus = unit
type_synonym KTMachineTemplateStatus = unit
type_synonym MachineDeploymentStatus = unit
type_synonym KTPublicNetworkStatus = unit
type_synonym KubeadmConfigTemplateStatus = unit
type_synonym KubeadmControlPlaneStatus = unit

section \<open>Cells\<close>

text \<open>Targets of pointer fields, arrays behind slices and maps.\<close>

datatype (plugins only: code) value_cell =
    V_String string
  | V_Network Network
  | V_Subnet Subnet
  | V_Strings "string list"
  | V_Blocks "BlockDeviceMapping list"
  | V_Tiers "NetworkTier list"
  | V_Networks "Networks list"
  | V_FixedIPs "FixedIPM list"
  | V_Ports "PortM list"
  | V_Links "Links list"
  | V_SecurityGroups "SecurityGroups list"
  | V_PublicIps "AssignedPublicIps list"
  | V_Addresses "Address list"
  | V_Volumes "VolumeAttached list"
  | V_Rules "FirewallRulesM list"
  | V_Jobs "FirewallJobs list"
  | V_StringMap "(string \<times> string) list"
  | V_AddressMap "(string \<times> slice option) list"

text \<open>Structs without references.\<close>

datatype (plugins only: code) plain_cell =
    P_APIServerLoadBalancer APIServerLoadBalancer
  | P_Address Address
  | P_AssignedPublicIps AssignedPublicIps
  | P_BlockDeviceMapping BlockDeviceMapping
  | P_Bootstrap Bootstrap
  | P_ClusterRef ClusterRef
  | P_ClusterSpec ClusterSpec
  | P_ClusterStatus ClusterStatus
  | P_ConfigRef ConfigRef
  | P_ControlPlaneRef ControlPlaneRef
  | P_FirewallJobs FirewallJobs
  | P_IdentityRef IdentityRef
  | P_InfrastructureRef InfrastructureRef
  | P_KTClusterSpec KTClusterSpec
  | P_KTClusterStatus KTClusterStatus
  | P_KTMachineTemplateStatus KTMachineTemplateStatus
  | P_KTPublicNetworkSpec KTPublicNetworkSpec
  | P_KTPublicNetworkStatus KTPublicNetworkStatus
  | P_KTSubjectTokenSpec KTSubjectTokenSpec
  | P_KTSubjectTokenStatus KTSubjectTokenStatus
  | P_KubeadmConfigTemplateSpec KubeadmConfigTemplateSpec
  | P_KubeadmConfigTemplateStatus KubeadmConfigTemplateStatus
  | P_KubeadmControlPlaneSpec KubeadmControlPlaneSpec
  | P_KubeadmControlPlaneStatus KubeadmControlPlaneStatus
  | P_Links Links
  | P_MachineDeploymentStatus MachineDeploymentStatus
  | P_MachineSpec MachineSpec
  | P_MachineSpecDetails MachineSpecDetails
  | P_ManagedSecurityGroups ManagedSecurityGroups
  | P_Network Network
  | P_NetworkTier NetworkTier
  | P_Networks Networks
  | P_PairedPvtNetwork PairedPvtNetwork
  | P_SecurityGroupRule SecurityGroupRule
  | P_SecurityGroups SecurityGroups
  | P_Subnet Subnet
  | P_Token Token
  | P_VolumeAttached VolumeAttached
  | P_WorkerRef WorkerRef

text \<open>Structs with references.\<close>

datatype struct_cell =
    S_FixedIP FixedIPM
  | S_Port PortM
  | S_Spec SpecM
  | S_Template TemplateM
  | S_KTMachineTemplateSpec KTMachineTemplateSpecM
  | S_KTMachineSpec KTMachineSpecM
  | S_Flavor FlavorM
  | S_KTMachineStatus KTMachineStatusM
  | S_Selector SelectorM
  | S_MachineDeploymentSpec MachineDeploymentSpecM
  | S_FirewallRules FirewallRulesM
  | S_KTNetworkFirewallSpec KTNetworkFirewallSpecM
  | S_KTNetworkFirewallStatus KTNetworkFirewallStatusM

text \<open>Objects, the arrays behind the items of lists, and lists.\<close>

type_synonym 'm ClusterM = "('m, ClusterSpec, ClusterStatus) object"
type_synonym 'm KTClusterM = "('m, KTClusterSpec, KTClusterStatus) object"
type_synonym 'm KTMachineM = "('m, KTMachineSpecM, KTMachineStatusM) object"
type_synonym 'm KTMachineTemplateM = "('m, KTMachineTemplateSpecM, KTMachineTemplateStatus) object"
type_synonym 'm KTNetworkFirewallM = "('m, KTNetworkFirewallSpecM, KTNetworkFirewallStatusM) object"
type_synonym 'm KTPublicNetworkM = "('m, KTPublicNetworkSpec, KTPublicNetworkStatus) object"
type_synonym 'm KTSubjectTokenM = "('m, KTSubjectTokenSpec, KTSubjectTokenStatus) object"
type_synonym 'm KubeadmConfigTemplateM = "('m, KubeadmConfigTemplateSpec, KubeadmConfigTemplateStatus) object"
type_synonym 'm KubeadmControlPlaneM = "('m, KubeadmControlPlaneSpec, KubeadmControlPlaneStatus) object"
type_synonym 'm MachineDeploymentM = "('m, MachineDeploymentSpecM, MachineDeploymentStatus) object"

datatype 'm object_cell =
    O_Cluster "'m ClusterM"
  | O_KTCluster "'m KTClusterM"
  | O_KTMachine "'m KTMachineM"
  | O_KTMachineTemplate "'m KTMachineTemplateM"
  | O_KTNetworkFirewall "'m KTNetworkFirewallM"
  | O_KTPublicNetwork "'m KTPublicNetworkM"
  | O_KTSubjectToken "'m KTSubjectTokenM"
  | O_KubeadmConfigTemplate "'m KubeadmConfigTemplateM"
  | O_KubeadmControlPlane "'m KubeadmControlPlaneM"
  | O_MachineDeployment "'m MachineDeploymentM"

datatype 'm items_cell =
    I_Cluster "'m ClusterM list"
  | I_KTCluster "'m KTClusterM list"
  | I_KTMachine "'m KTMachineM list"
  | I_KTMachineTemplate "'m KTMachineTemplateM list"
  | I_KTNetworkFirewall "'m KTNetworkFirewallM list"
  | I_KTPublicNetwork "'m KTPublicNetworkM list"
  | I_KTSubjectToken "'m KTSubjectTokenM list"
  | I_KubeadmConfigTemplate "'m KubeadmConfigTemplateM list"
  | I_KubeadmControlPlane "'m KubeadmControlPlaneM list"
  | I_MachineDeployment "'m MachineDeploymentM list"

datatype 'l list_cell =
    L_Cluster "'l object_list"
  | L_KTCluster "'l object_list"
  | L_KTMachine "'l object_list"
  | L_KTMachineTemplate "'l object_list"
  | L_KTNetworkFirewall "'l object_list"
  | L_KTPublicNetwork "'l object_list"
  | L_KTSubjectToken "'l object_list"
  | L_KubeadmConfigTemplate "'l object_list"
  | L_KubeadmControlPlane "'l object_list"
  | L_MachineDeployment "'l object_list"

datatype ('m, 'l) cell = C_value value_cell | C_plain plain_cell | C_struct struct_cell | C_object "'m object_cell"
  | C_items "'m items_cell" | C_list "'l list_cell"

text \<open>For each type, the cell that holds it and what a cell holds of it.\<close>

definition as_value :: "(value_cell \<Rightarrow> 'x option) \<Rightarrow> ('m, 'l) cell \<Rightarrow> 'x option" where
  "as_value f c = (case c of C_value v \<Rightarrow> f v | _ \<Rightarrow> None)"

definition as_plain :: "(plain_cell \<Rightarrow> 'x option) \<Rightarrow> ('m, 'l) cell \<Rightarrow> 'x option" where
  "as_plain f c = (case c of C_plain v \<Rightarrow> f v | _ \<Rightarrow> None)"

definition as_struct :: "(struct_cell \<Rightarrow> 'x option) \<Rightarrow> ('m, 'l) cell \<Rightarrow> 'x option" where
  "as_struct f c = (case c of C_struct v \<Rightarrow> f v | _ \<Rightarrow> None)"

definition as_object :: "('m object_cell \<Rightarrow> 'x option) \<Rightarrow> ('m, 'l) cell \<Rightarrow> 'x option" where
  "as_object f c = (case c of C_object v \<Rightarrow> f v | _ \<Rightarrow> None)"

definition as_items :: "('m items_cell \<Rightarrow> 'x option) \<Rightarrow> ('m, 'l) cell \<Rightarrow> 'x option" where
  "as_items f c = (case c of C_items v \<Rightarrow> f v | _ \<Rightarrow> None)"

definition as_list :: "('l list_cell \<Rightarrow> 'x option) \<Rightarrow> ('m, 'l) cell \<Rightarrow> 'x option" where
  "as_list f c = (case c of C_list v \<Rightarrow> f v | _ \<Rightarrow> None)"

abbreviation "cell_String \<equiv> C_value \<circ> V_String"
abbreviation "as_String \<equiv> as_value (\<lambda>v. case v of V_String x \<Rightarrow> Some x | _ \<Rightarrow> None)"
abbreviation "cell_Network \<equiv> C_value \<circ> V_Network"
abbreviation "as_Network \<equiv> as_value (\<lambda>v. case v of V_Network x \<Rightarrow> Some x | _ \<Rightarrow> None)"
abbreviation "cell_Subnet \<equiv> C_value \<circ> V_Subnet"
abbreviation "as_Subnet \<equiv> as_value (\<lambda>v. case v of V_Subnet x \<Rightarrow> Some x | _ \<Rightarrow> None)"
abbreviation "cell_Strings \<equiv> C_value \<circ> V_Strings"
abbreviation "as_Strings \<equiv> as_value (\<lambda>v. case v of V_Strings x \<Rightarrow> Some x | _ \<Rightarrow> None)"
abbreviation "cell_Blocks \<equiv> C_value \<circ> V_Blocks"
abbreviation "as_Blocks \<equiv> as_value (\<lambda>v. case v of V_Blocks x \<Rightarrow> Some x | _ \<Rightarrow> None)"
abbreviation "cell_Tiers \<equiv> C_value \<circ> V_Tiers"
abbreviation "as_Tiers \<equiv> as_value (\<lambda>v. case v of V_Tiers x \<Rightarrow> Some x | _ \<Rightarrow> None)"
abbreviation "cell_Networks \<equiv> C_value \<circ> V_Networks"
abbreviation "as_Networks \<equiv> as_value (\<lambda>v. case v of V_Networks x \<Rightarrow> Some x | _ \<Rightarrow> None)"
abbreviation "cell_FixedIPs \<equiv> C_value \<circ> V_FixedIPs"
abbreviation "as_FixedIPs \<equiv> as_value (\<lambda>v. case v of V_FixedIPs x \<Rightarrow> Some x | _ \<Rightarrow> None)"
abbreviation "cell_Ports \<equiv> C_value \<circ> V_Ports"
abbreviation "as_Ports \<equiv> as_value (\<lambda>v. case v of V_Ports x \<Rightarrow> Some x | _ \<Rightarrow> None)"
abbreviation "cell_Links \<equiv> C_value \<circ> V_Links"
abbreviation "as_Links \<equiv> as_value (\<lambda>v. case v of V_Links x \<Rightarrow> Some x | _ \<Rightarrow> None)"
abbreviation "cell_SecurityGroups \<equiv> C_value \<circ> V_SecurityGroups"
abbreviation "as_SecurityGroups \<equiv> as_value (\<lambda>v. case v of V_SecurityGroups x \<Rightarrow> Some x | _ \<Rightarrow> None)"
abbreviation "cell_PublicIps \<equiv> C_value \<circ> V_PublicIps"
abbreviation "as_PublicIps \<equiv> as_value (\<lambda>v. case v of V_PublicIps x \<Rightarrow> Some x | _ \<Rightarrow> None)"
abbreviation "cell_Addresses \<equiv> C_value \<circ> V_Addresses"
abbreviation "as_Addresses \<equiv> as_value (\<lambda>v. case v of V_Addresses x \<Rightarrow> Some x | _ \<Rightarrow> None)"
abbreviation "cell_Volumes \<equiv> C_value \<circ> V_Volumes"
abbreviation "as_Volumes \<equiv> as_value (\<lambda>v. case v of V_Volumes x \<Rightarrow> Some x | _ \<Rightarrow> None)"
abbreviation "cell_Rules \<equiv> C_value \<circ> V_Rules"
abbreviation "as_Rules \<equiv> as_value (\<lambda>v. case v of V_Rules x \<Rightarrow> Some x | _ \<Rightarrow> None)"
abbreviation "cell_Jobs \<equiv> C_value \<circ> V_Jobs"
abbreviation "as_Jobs \<equiv> as_value (\<lambda>v. case v of V_Jobs x \<Rightarrow> Some x | _ \<Rightarrow> None)"
abbreviation "cell_StringMap \<equiv> C_value \<circ> V_StringMap"
abbreviation "as_StringMap \<equiv> as_value (\<lambda>v. case v of V_StringMap x \<Rightarrow> Some x | _ \<Rightarrow> None)"
abbreviation "cell_AddressMap \<equiv> C_value \<circ> V_AddressMap"
abbreviation "as_AddressMap \<equiv> as_value (\<lambda>v. case v of V_AddressMap x \<Rightarrow> Some x | _ \<Rightarrow> None)"

abbreviation "cell_APIServerLoadBalancer_plain \<equiv> C_plain \<circ> P_APIServerLoadBalancer"
abbreviation "as_APIServerLoadBalancer_plain \<equiv> as_plain (\<lambda>v. case v of P_APIServerLoadBalancer x \<Rightarrow> Some x | _ \<Rightarrow> None)"
abbreviation "cell_Address_plain \<equiv> C_plain \<circ> P_Address"
abbreviation "as_Address_plain \<equiv> as_plain (\<lambda>v. case v of P_Address x \<Rightarrow> Some x | _ \<Rightarrow> None)"
abbreviation "cell_AssignedPublicIps_plain \<equiv> C_plain \<circ> P_AssignedPublicIps"
abbreviation "as_AssignedPublicIps_plain \<equiv> as_plain (\<lambda>v. case v of P_AssignedPublicIps x \<Rightarrow> Some x | _ \<Rightarrow> None)"
abbreviation "cell_BlockDeviceMapping_plain \<equiv> C_plain \<circ> P_BlockDeviceMapping"
abbreviation "as_BlockDeviceMapping_plain \<equiv> as_plain (\<lambda>v. case v of P_BlockDeviceMapping x \<Rightarrow> Some x | _ \<Rightarrow> None)"
abbreviation "cell_Bootstrap_plain \<equiv> C_plain \<circ> P_Bootstrap"
abbreviation "as_Bootstrap_plain \<equiv> as_plain (\<lambda>v. case v of P_Bootstrap x \<Rightarrow> Some x | _ \<Rightarrow> None)"
abbreviation "cell_ClusterRef_plain \<equiv> C_plain \<circ> P_ClusterRef"
abbreviation "as_ClusterRef_plain \<equiv> as_plain (\<lambda>v. case v of P_ClusterRef x \<Rightarrow> Some x | _ \<Rightarrow> None)"
abbreviation "cell_ClusterSpec_plain \<equiv> C_plain \<circ> P_ClusterSpec"
abbreviation "as_ClusterSpec_plain \<equiv> as_plain (\<lambda>v. case v of P_ClusterSpec x \<Rightarrow> Some x | _ \<Rightarrow> None)"
abbreviation "cell_ClusterStatus_plain \<equiv> C_plain \<circ> P_ClusterStatus"
abbreviation "as_ClusterStatus_plain \<equiv> as_plain (\<lambda>v. case v of P_ClusterStatus x \<Rightarrow> Some x | _ \<Rightarrow> None)"
abbreviation "cell_ConfigRef_plain \<equiv> C_plain \<circ> P_ConfigRef"
abbreviation "as_ConfigRef_plain \<equiv> as_plain (\<lambda>v. case v of P_ConfigRef x \<Rightarrow> Some x | _ \<Rightarrow> None)"
abbreviation "cell_ControlPlaneRef_plain \<equiv> C_plain \<circ> P_ControlPlaneRef"
abbreviation "as_ControlPlaneRef_plain \<equiv> as_plain (\<lambda>v. case v of P_ControlPlaneRef x \<Rightarrow> Some x | _ \<Rightarrow> None)"
abbreviation "cell_FirewallJobs_plain \<equiv> C_plain \<circ> P_FirewallJobs"
abbreviation "as_FirewallJobs_plain \<equiv> as_plain (\<lambda>v. case v of P_FirewallJobs x \<Rightarrow> Some x | _ \<Rightarrow> None)"
abbreviation "cell_IdentityRef_plain \<equiv> C_plain \<circ> P_IdentityRef"
abbreviation "as_IdentityRef_plain \<equiv> as_plain (\<lambda>v. case v of P_IdentityRef x \<Rightarrow> Some x | _ \<Rightarrow> None)"
abbreviation "cell_InfrastructureRef_plain \<equiv> C_plain \<circ> P_InfrastructureRef"
abbreviation "as_InfrastructureRef_plain \<equiv> as_plain (\<lambda>v. case v of P_InfrastructureRef x \<Rightarrow> Some x | _ \<Rightarrow> None)"
abbreviation "cell_KTClusterSpec_plain \<equiv> C_plain \<circ> P_KTClusterSpec"
abbreviation "as_KTClusterSpec_plain \<equiv> as_plain (\<lambda>v. case v of P_KTClusterSpec x \<Rightarrow> Some x | _ \<Rightarrow> None)"
abbreviation "cell_KTClusterStatus_plain \<equiv> C_plain \<circ> P_KTClusterStatus"
abbreviation "as_KTClusterStatus_plain \<equiv> as_plain (\<lambda>v. case v of P_KTClusterStatus x \<Rightarrow> Some x | _ \<Rightarrow> None)"
abbreviation "cell_KTMachineTemplateStatus_plain \<equiv> C_plain \<circ> P_KTMachineTemplateStatus"
abbreviation "as_KTMachineTemplateStatus_plain \<equiv> as_plain (\<lambda>v. case v of P_KTMachineTemplateStatus x \<Rightarrow> Some x | _ \<Rightarrow> None)"
abbreviation "cell_KTPublicNetworkSpec_plain \<equiv> C_plain \<circ> P_KTPublicNetworkSpec"
abbreviation "as_KTPublicNetworkSpec_plain \<equiv> as_plain (\<lambda>v. case v of P_KTPublicNetworkSpec x \<Rightarrow> Some x | _ \<Rightarrow> None)"
abbreviation "cell_KTPublicNetworkStatus_plain \<equiv> C_plain \<circ> P_KTPublicNetworkStatus"
abbreviation "as_KTPublicNetworkStatus_plain \<equiv> as_plain (\<lambda>v. case v of P_KTPublicNetworkStatus x \<Rightarrow> Some x | _ \<Rightarrow> None)"
abbreviation "cell_KTSubjectTokenSpec_plain \<equiv> C_plain \<circ> P_KTSubjectTokenSpec"
abbreviation "as_KTSubjectTokenSpec_plain \<equiv> as_plain (\<lambda>v. case v of P_KTSubjectTokenSpec x \<Rightarrow> Some x | _ \<Rightarrow> None)"
abbreviation "cell_KTSubjectTokenStatus_plain \<equiv> C_plain \<circ> P_KTSubjectTokenStatus"
abbreviation "as_KTSubjectTokenStatus_plain \<equiv> as_plain (\<lambda>v. case v of P_KTSubjectTokenStatus x \<Rightarrow> Some x | _ \<Rightarrow> None)"
abbreviation "cell_KubeadmConfigTemplateSpec_plain \<equiv> C_plain \<circ> P_KubeadmConfigTemplateSpec"
abbreviation "as_KubeadmConfigTemplateSpec_plain \<equiv> as_plain (\<lambda>v. case v of P_KubeadmConfigTemplateSpec x \<Rightarrow> Some x | _ \<Rightarrow> None)"
abbreviation "cell_KubeadmConfigTemplateStatus_plain \<equiv> C_plain \<circ> P_KubeadmConfigTemplateStatus"
abbreviation "as_KubeadmConfigTemplateStatus_plain \<equiv> as_plain (\<lambda>v. case v of P_KubeadmConfigTemplateStatus x \<Rightarrow> Some x | _ \<Rightarrow> None)"
abbreviation "cell_KubeadmControlPlaneSpec_plain \<equiv> C_plain \<circ> P_KubeadmControlPlaneSpec"
abbreviation "as_KubeadmControlPlaneSpec_plain \<equiv> as_plain (\<lambda>v. case v of P_KubeadmControlPlaneSpec x \<Rightarrow> Some x | _ \<Rightarrow> None)"
abbreviation "cell_KubeadmControlPlaneStatus_plain \<equiv> C_plain \<circ> P_KubeadmControlPlaneStatus"
abbreviation "as_KubeadmControlPlaneStatus_plain \<equiv> as_plain (\<lambda>v. case v of P_KubeadmControlPlaneStatus x \<Rightarrow> Some x | _ \<Rightarrow> None)"
abbreviation "cell_Links_plain \<equiv> C_plain \<circ> P_Links"
abbreviation "as_Links_plain \<equiv> as_plain (\<lambda>v. case v of P_Links x \<Rightarrow> Some x | _ \<Rightarrow> None)"
abbreviation "cell_MachineDeploymentStatus_plain \<equiv> C_plain \<circ> P_MachineDeploymentStatus"
abbreviation "as_MachineDeploymentStatus_plain \<equiv> as_plain (\<lambda>v. case v of P_MachineDeploymentStatus x \<Rightarrow> Some x | _ \<Rightarrow> None)"
abbreviation "cell_MachineSpec_plain \<equiv> C_plain \<circ> P_MachineSpec"
abbreviation "as_MachineSpec_plain \<equiv> as_plain (\<lambda>v. case v of P_MachineSpec x \<Rightarrow> Some x | _ \<Rightarrow> None)"
abbreviation "cell_MachineSpecDetails_plain \<equiv> C_plain \<circ> P_MachineSpecDetails"
abbreviation "as_MachineSpecDetails_plain \<equiv> as_plain (\<lambda>v. case v of P_MachineSpecDetails x \<Rightarrow> Some x | _ \<Rightarrow> None)"
abbreviation "cell_ManagedSecurityGroups_plain \<equiv> C_plain \<circ> P_ManagedSecurityGroups"
abbreviation "as_ManagedSecurityGroups_plain \<equiv> as_plain (\<lambda>v. case v of P_ManagedSecurityGroups x \<Rightarrow> Some x | _ \<Rightarrow> None)"
abbreviation "cell_Network_plain \<equiv> C_plain \<circ> P_Network"
abbreviation "as_Network_plain \<equiv> as_plain (\<lambda>v. case v of P_Network x \<Rightarrow> Some x | _ \<Rightarrow> None)"
abbreviation "cell_NetworkTier_plain \<equiv> C_plain \<circ> P_NetworkTier"
abbreviation "as_NetworkTier_plain \<equiv> as_plain (\<lambda>v. case v of P_NetworkTier x \<Rightarrow> Some x | _ \<Rightarrow> None)"
abbreviation "cell_Networks_plain \<equiv> C_plain \<circ> P_Networks"
abbreviation "as_Networks_plain \<equiv> as_plain (\<lambda>v. case v of P_Networks x \<Rightarrow> Some x | _ \<Rightarrow> None)"
abbreviation "cell_PairedPvtNetwork_plain \<equiv> C_plain \<circ> P_PairedPvtNetwork"
abbreviation "as_PairedPvtNetwork_plain \<equiv> as_plain (\<lambda>v. case v of P_PairedPvtNetwork x \<Rightarrow> Some x | _ \<Rightarrow> None)"
abbreviation "cell_SecurityGroupRule_plain \<equiv> C_plain \<circ> P_SecurityGroupRule"
abbreviation "as_SecurityGroupRule_plain \<equiv> as_plain (\<lambda>v. case v of P_SecurityGroupRule x \<Rightarrow> Some x | _ \<Rightarrow> None)"
abbreviation "cell_SecurityGroups_plain \<equiv> C_plain \<circ> P_SecurityGroups"
abbreviation "as_SecurityGroups_plain \<equiv> as_plain (\<lambda>v. case v of P_SecurityGroups x \<Rightarrow> Some x | _ \<Rightarrow> None)"
abbreviation "cell_Subnet_plain \<equiv> C_plain \<circ> P_Subnet"
abbreviation "as_Subnet_plain \<equiv> as_plain (\<lambda>v. case v of P_Subnet x \<Rightarrow> Some x | _ \<Rightarrow> None)"
abbreviation "cell_Token_plain \<equiv> C_plain \<circ> P_Token"
abbreviation "as_Token_plain \<equiv> as_plain (\<lambda>v. case v of P_Token x \<Rightarrow> Some x | _ \<Rightarrow> None)"
abbreviation "cell_VolumeAttached_plain \<equiv> C_plain \<circ> P_VolumeAttached"
abbreviation "as_VolumeAttached_plain \<equiv> as_plain (\<lambda>v. case v of P_VolumeAttached x \<Rightarrow> Some x | _ \<Rightarrow> None)"
abbreviation "cell_WorkerRef_plain \<equiv> C_plain \<circ> P_WorkerRef"
abbreviation "as_WorkerRef_plain \<equiv> as_plain (\<lambda>v. case v of P_WorkerRef x \<Rightarrow> Some x | _ \<Rightarrow> None)"

abbreviation "cell_FixedIP_struct \<equiv> C_struct \<circ> S_FixedIP"
abbreviation "as_FixedIP_struct \<equiv> as_struct (\<lambda>v. case v of S_FixedIP x \<Rightarrow> Some x | _ \<Rightarrow> None)"
abbreviation "cell_Port_struct \<equiv> C_struct \<circ> S_Port"
abbreviation "as_Port_struct \<equiv> as_struct (\<lambda>v. case v of S_Port x \<Rightarrow> Some x | _ \<Rightarrow> None)"
abbreviation "cell_Spec_struct \<equiv> C_struct \<circ> S_Spec"
abbreviation "as_Spec_struct \<equiv> as_struct (\<lambda>v. case v of S_Spec x \<Rightarrow> Some x | _ \<Rightarrow> None)"
abbreviation "cell_Template_struct \<equiv> C_struct \<circ> S_Template"
abbreviation "as_Template_struct \<equiv> as_struct (\<lambda>v. case v of S_Template x \<Rightarrow> Some x | _ \<Rightarrow> None)"
abbreviation "cell_KTMachineTemplateSpec_struct \<equiv> C_struct \<circ> S_KTMachineTemplateSpec"
abbreviation "as_KTMachineTemplateSpec_struct \<equiv> as_struct (\<lambda>v. case v of S_KTMachineTemplateSpec x \<Rightarrow> Some x | _ \<Rightarrow> None)"
abbreviation "cell_KTMachineSpec_struct \<equiv> C_struct \<circ> S_KTMachineSpec"
abbreviation "as_KTMachineSpec_struct \<equiv> as_struct (\<lambda>v. case v of S_KTMachineSpec x \<Rightarrow> Some x | _ \<Rightarrow> None)"
abbreviation "cell_Flavor_struct \<equiv> C_struct \<circ> S_Flavor"
abbreviation "as_Flavor_struct \<equiv> as_struct (\<lambda>v. case v of S_Flavor x \<Rightarrow> Some x | _ \<Rightarrow> None)"
abbreviation "cell_KTMachineStatus_struct \<equiv> C_struct \<circ> S_KTMachineStatus"
abbreviation "as_KTMachineStatus_struct \<equiv> as_struct (\<lambda>v. case v of S_KTMachineStatus x \<Rightarrow> Some x | _ \<Rightarrow> None)"
abbreviation "cell_Selector_struct \<equiv> C_struct \<circ> S_Selector"
abbreviation "as_Selector_struct \<equiv> as_struct (\<lambda>v. case v of S_Selector x \<Rightarrow> Some x | _ \<Rightarrow> None)"
abbreviation "cell_MachineDeploymentSpec_struct \<equiv> C_struct \<circ> S_MachineDeploymentSpec"
abbreviation "as_MachineDeploymentSpec_struct \<equiv> as_struct (\<lambda>v. case v of S_MachineDeploymentSpec x \<Rightarrow> Some x | _ \<Rightarrow> None)"
abbreviation "cell_FirewallRules_struct \<equiv> C_struct \<circ> S_FirewallRules"
abbreviation "as_FirewallRules_struct \<equiv> as_struct (\<lambda>v. case v of S_FirewallRules x \<Rightarrow> Some x | _ \<Rightarrow> None)"
abbreviation "cell_KTNetworkFirewallSpec_struct \<equiv> C_struct \<circ> S_KTNetworkFirewallSpec"
abbreviation "as_KTNetworkFirewallSpec_struct \<equiv> as_struct (\<lambda>v. case v of S_KTNetworkFirewallSpec x \<Rightarrow> Some x | _ \<Rightarrow> None)"
abbreviation "cell_KTNetworkFirewallStatus_struct \<equiv> C_struct \<circ> S_KTNetworkFirewallStatus"
abbreviation "as_KTNetworkFirewallStatus_struct \<equiv> as_struct (\<lambda>v. case v of S_KTNetworkFirewallStatus x \<Rightarrow> Some x | _ \<Rightarrow> None)"

abbreviation "cell_Cluster_object \<equiv> C_object \<circ> O_Cluster"
abbreviation "as_Cluster_object \<equiv> as_object (\<lambda>v. case v of O_Cluster x \<Rightarrow> Some x | _ \<Rightarrow> None)"
abbreviation "cell_KTCluster_object \<equiv> C_object \<circ> O_KTCluster"
abbreviation "as_KTCluster_object \<equiv> as_object (\<lambda>v. case v of O_KTCluster x \<Rightarrow> Some x | _ \<Rightarrow> None)"
abbreviation "cell_KTMachine_object \<equiv> C_object \<circ> O_KTMachine"
abbreviation "as_KTMachine_object \<equiv> as_object (\<lambda>v. case v of O_KTMachine x \<Rightarrow> Some x | _ \<Rightarrow> None)"
abbreviation "cell_KTMachineTemplate_object \<equiv> C_object \<circ> O_KTMachineTemplate"
abbreviation "as_KTMachineTemplate_object \<equiv> as_object (\<lambda>v. case v of O_KTMachineTemplate x \<Rightarrow> Some x | _ \<Rightarrow> None)"
abbreviation "cell_KTNetworkFirewall_object \<equiv> C_object \<circ> O_KTNetworkFirewall"
abbreviation "as_KTNetworkFirewall_object \<equiv> as_object (\<lambda>v. case v of O_KTNetworkFirewall x \<Rightarrow> Some x | _ \<Rightarrow> None)"
abbreviation "cell_KTPublicNetwork_object \<equiv> C_object \<circ> O_KTPublicNetwork"
abbreviation "as_KTPublicNetwork_object \<equiv> as_object (\<lambda>v. case v of O_KTPublicNetwork x \<Rightarrow> Some x | _ \<Rightarrow> None)"
abbreviation "cell_KTSubjectToken_object \<equiv> C_object \<circ> O_KTSubjectToken"
abbreviation "as_KTSubjectToken_object \<equiv> as_object (\<lambda>v. case v of O_KTSubjectToken x \<Rightarrow> Some x | _ \<Rightarrow> None)"
abbreviation "cell_KubeadmConfigTemplate_object \<equiv> C_object \<circ> O_KubeadmConfigTemplate"
abbreviation "as_KubeadmConfigTemplate_object \<equiv> as_object (\<lambda>v. case v of O_KubeadmConfigTemplate x \<Rightarrow> Some x | _ \<Rightarrow> None)"
abbreviation "cell_KubeadmControlPlane_object \<equiv> C_object \<circ> O_KubeadmControlPlane"
abbreviation "as_KubeadmControlPlane_object \<equiv> as_object (\<lambda>v. case v of O_KubeadmControlPlane x \<Rightarrow> Some x | _ \<Rightarrow> None)"
abbreviation "cell_MachineDeployment_object \<equiv> C_object \<circ> O_MachineDeployment"
abbreviation "as_MachineDeployment_object \<equiv> as_object (\<lambda>v. case v of O_MachineDeployment x \<Rightarrow> Some x | _ \<Rightarrow> None)"

abbreviation "cell_Cluster_items \<equiv> C_items \<circ> I_Cluster"
abbreviation "as_Cluster_items \<equiv> as_items (\<lambda>v. case v of I_Cluster x \<Rightarrow> Some x | _ \<Rightarrow> None)"
abbreviation "cell_KTCluster_items \<equiv> C_items \<circ> I_KTCluster"
abbreviation "as_KTCluster_items \<equiv> as_items (\<lambda>v. case v of I_KTCluster x \<Rightarrow> Some x | _ \<Rightarrow> None)"
abbreviation "cell_KTMachine_items \<equiv> C_items \<circ> I_KTMachine"
abbreviation "as_KTMachine_items \<equiv> as_items (\<lambda>v. case v of I_KTMachine x \<Rightarrow> Some x | _ \<Rightarrow> None)"
abbreviation "cell_KTMachineTemplate_items \<equiv> C_items \<circ> I_KTMachineTemplate"
abbreviation "as_KTMachineTemplate_items \<equiv> as_items (\<lambda>v. case v of I_KTMachineTemplate x \<Rightarrow> Some x | _ \<Rightarrow> None)"
abbreviation "cell_KTNetworkFirewall_items \<equiv> C_items \<circ> I_KTNetworkFirewall"
abbreviation "as_KTNetworkFirewall_items \<equiv> as_items (\<lambda>v. case v of I_KTNetworkFirewall x \<Rightarrow> Some x | _ \<Rightarrow> None)"
abbreviation "cell_KTPublicNetwork_items \<equiv> C_items \<circ> I_KTPublicNetwork"
abbreviation "as_KTPublicNetwork_items \<equiv> as_items (\<lambda>v. case v of I_KTPublicNetwork x \<Rightarrow> Some x | _ \<Rightarrow> None)"
abbreviation "cell_KTSubjectToken_items \<equiv> C_items \<circ> I_KTSubjectToken"
abbreviation "as_KTSubjectToken_items \<equiv> as_items (\<lambda>v. case v of I_KTSubjectToken x \<Rightarrow> Some x | _ \<Rightarrow> None)"
abbreviation "cell_KubeadmConfigTemplate_items \<equiv> C_items \<circ> I_KubeadmConfigTemplate"
abbreviation "as_KubeadmConfigTemplate_items \<equiv> as_items (\<lambda>v. case v of I_KubeadmConfigTemplate x \<Rightarrow> Some x | _ \<Rightarrow> None)"
abbreviation "cell_KubeadmControlPlane_items \<equiv> C_items \<circ> I_KubeadmControlPlane"
abbreviation "as_KubeadmControlPlane_items \<equiv> as_items (\<lambda>v. case v of I_KubeadmControlPlane x \<Rightarrow> Some x | _ \<Rightarrow> None)"
abbreviation "cell_MachineDeployment_items \<equiv> C_items \<circ> I_MachineDeployment"
abbreviation "as_MachineDeployment_items \<equiv> as_items (\<lambda>v. case v of I_MachineDeployment x \<Rightarrow> Some x | _ \<Rightarrow> None)"

abbreviation "cell_Cluster_list \<equiv> C_list \<circ> L_Cluster"
abbreviation "as_Cluster_list \<equiv> as_list (\<lambda>v. case v of L_Cluster x \<Rightarrow> Some x | _ \<Rightarrow> None)"
abbreviation "cell_KTCluster_list \<equiv> C_list \<circ> L_KTCluster"
abbreviation "as_KTCluster_list \<equiv> as_list (\<lambda>v. case v of L_KTCluster x \<Rightarrow> Some x | _ \<Rightarrow> None)"
abbreviation "cell_KTMachine_list \<equiv> C_list \<circ> L_KTMachine"
abbreviation "as_KTMachine_list \<equiv> as_list (\<lambda>v. case v of L_KTMachine x \<Rightarrow> Some x | _ \<Rightarrow> None)"
abbreviation "cell_KTMachineTemplate_list \<equiv> C_list \<circ> L_KTMachineTemplate"
abbreviation "as_KTMachineTemplate_list \<equiv> as_list (\<lambda>v. case v of L_KTMachineTemplate x \<Rightarrow> Some x | _ \<Rightarrow> None)"
abbreviation "cell_KTNetworkFirewall_list \<equiv> C_list \<circ> L_KTNetworkFirewall"
abbreviation "as_KTNetworkFirewall_list \<equiv> as_list (\<lambda>v. case v of L_KTNetworkFirewall x \<Rightarrow> Some x | _ \<Rightarrow> None)"
abbreviation "cell_KTPublicNetwork_list \<equiv> C_list \<circ> L_KTPublicNetwork"
abbreviation "as_KTPublicNetwork_list \<equiv> as_list (\<lambda>v. case v of L_KTPublicNetwork x \<Rightarrow> Some x | _ \<Rightarrow> None)"
abbreviation "cell_KTSubjectToken_list \<equiv> C_list \<circ> L_KTSubjectToken"
abbreviation "as_KTSubjectToken_list \<equiv> as_list (\<lambda>v. case v of L_KTSubjectToken x \<Rightarrow> Some x | _ \<Rightarrow> None)"
abbreviation "cell_KubeadmConfigTemplate_list \<equiv> C_list \<circ> L_KubeadmConfigTemplate"
abbreviation "as_KubeadmConfigTemplate_list \<equiv> as_list (\<lambda>v. case v of L_KubeadmConfigTemplate x \<Rightarrow> Some x | _ \<Rightarrow> None)"
abbreviation "cell_KubeadmControlPlane_list \<equiv> C_list \<circ> L_KubeadmControlPlane"
abbreviation "as_KubeadmControlPlane_list \<equiv> as_list (\<lambda>v. case v of L_KubeadmControlPlane x \<Rightarrow> Some x | _ \<Rightarrow> None)"
abbreviation "cell_MachineDeployment_list \<equiv> C_list \<circ> L_MachineDeployment"
abbreviation "as_MachineDeployment_list \<equiv> as_list (\<lambda>v. case v of L_MachineDeployment x \<Rightarrow> Some x | _ \<Rightarrow> None)"

lemma value_cells:
  "cell cell_String as_String"
  "cell cell_Network as_Network"
  "cell cell_Subnet as_Subnet"
  "cell cell_Strings as_Strings"
  "cell cell_Blocks as_Blocks"
  "cell cell_Tiers as_Tiers"
  "cell cell_Networks as_Networks"
  "cell cell_FixedIPs as_FixedIPs"
  "cell cell_Ports as_Ports"
  "cell cell_Links as_Links"
  "cell cell_SecurityGroups as_SecurityGroups"
  "cell cell_PublicIps as_PublicIps"
  "cell cell_Addresses as_Addresses"
  "cell cell_Volumes as_Volumes"
  "cell cell_Rules as_Rules"
  "cell cell_Jobs as_Jobs"
  "cell cell_StringMap as_StringMap"
  "cell cell_AddressMap as_AddressMap"
  by (simp_all add: cell_def as_value_def)

lemma plain_cells:
  "cell cell_APIServerLoadBalancer_plain as_APIServerLoadBalancer_plain"
  "cell cell_Address_plain as_Address_plain"
  "cell cell_AssignedPublicIps_plain as_AssignedPublicIps_plain"
  "cell cell_BlockDeviceMapping_plain as_BlockDeviceMapping_plain"
  "cell cell_Bootstrap_plain as_Bootstrap_plain"
  "cell cell_ClusterRef_plain as_ClusterRef_plain"
  "cell cell_ClusterSpec_plain as_ClusterSpec_plain"
  "cell cell_ClusterStatus_plain as_ClusterStatus_plain"
  "cell cell_ConfigRef_plain as_ConfigRef_plain"
  "cell cell_ControlPlaneRef_plain as_ControlPlaneRef_plain"
  "cell cell_FirewallJobs_plain as_FirewallJobs_plain"
  "cell cell_IdentityRef_plain as_IdentityRef_plain"
  "cell cell_InfrastructureRef_plain as_InfrastructureRef_plain"
  "cell cell_KTClusterSpec_plain as_KTClusterSpec_plain"
  "cell cell_KTClusterStatus_plain as_KTClusterStatus_plain"
  "cell cell_KTMachineTemplateStatus_plain as_KTMachineTemplateStatus_plain"
  "cell cell_KTPublicNetworkSpec_plain as_KTPublicNetworkSpec_plain"
  "cell cell_KTPublicNetworkStatus_plain as_KTPublicNetworkStatus_plain"
  "cell cell_KTSubjectTokenSpec_plain as_KTSubjectTokenSpec_plain"
  "cell cell_KTSubjectTokenStatus_plain as_KTSubjectTokenStatus_plain"
  "cell cell_KubeadmConfigTemplateSpec_plain as_KubeadmConfigTemplateSpec_plain"
  "cell cell_KubeadmConfigTemplateStatus_plain as_KubeadmConfigTemplateStatus_plain"
  "cell cell_KubeadmControlPlaneSpec_plain as_KubeadmControlPlaneSpec_plain"
  "cell cell_KubeadmControlPlaneStatus_plain as_KubeadmControlPlaneStatus_plain"
  "cell cell_Links_plain as_Links_plain"
  "cell cell_MachineDeploymentStatus_plain as_MachineDeploymentStatus_plain"
  "cell cell_MachineSpec_plain as_MachineSpec_plain"
  "cell cell_MachineSpecDetails_plain as_MachineSpecDetails_plain"
  "cell cell_ManagedSecurityGroups_plain as_ManagedSecurityGroups_plain"
  "cell cell_Network_plain as_Network_plain"
  "cell cell_NetworkTier_plain as_NetworkTier_plain"
  "cell cell_Networks_plain as_Networks_plain"
  "cell cell_PairedPvtNetwork_plain as_PairedPvtNetwork_plain"
  "cell cell_SecurityGroupRule_plain as_SecurityGroupRule_plain"
  "cell cell_SecurityGroups_plain as_SecurityGroups_plain"
  "cell cell_Subnet_plain as_Subnet_plain"
  "cell cell_Token_plain as_Token_plain"
  "cell cell_VolumeAttached_plain as_VolumeAttached_plain"
  "cell cell_WorkerRef_plain as_WorkerRef_plain"
  by (simp_all add: cell_def as_plain_def)

lemma struct_cells:
  "cell cell_FixedIP_struct as_FixedIP_struct"
  "cell cell_Port_struct as_Port_struct"
  "cell cell_Spec_struct as_Spec_struct"
  "cell cell_Template_struct as_Template_struct"
  "cell cell_KTMachineTemplateSpec_struct as_KTMachineTemplateSpec_struct"
  "cell cell_KTMachineSpec_struct as_KTMachineSpec_struct"
  "cell cell_Flavor_struct as_Flavor_struct"
  "cell cell_KTMachineStatus_struct as_KTMachineStatus_struct"
  "cell cell_Selector_struct as_Selector_struct"
  "cell cell_MachineDeploymentSpec_struct as_MachineDeploymentSpec_struct"
  "cell cell_FirewallRules_struct as_FirewallRules_struct"
  "cell cell_KTNetworkFirewallSpec_struct as_KTNetworkFirewallSpec_struct"
  "cell cell_KTNetworkFirewallStatus_struct as_KTNetworkFirewallStatus_struct"
  by (simp_all add: cell_def as_struct_def)

lemma object_cells:
  "cell cell_Cluster_object as_Cluster_object"
  "cell cell_KTCluster_object as_KTCluster_object"
  "cell cell_KTMachine_object as_KTMachine_object"
  "cell cell_KTMachineTemplate_object as_KTMachineTemplate_object"
  "cell cell_KTNetworkFirewall_object as_KTNetworkFirewall_object"
  "cell cell_KTPublicNetwork_object as_KTPublicNetwork_object"
  "cell cell_KTSubjectToken_object as_KTSubjectToken_object"
  "cell cell_KubeadmConfigTemplate_object as_KubeadmConfigTemplate_object"
  "cell cell_KubeadmControlPlane_object as_KubeadmControlPlane_object"
  "cell cell_MachineDeployment_object as_MachineDeployment_object"
  by (simp_all add: cell_def as_object_def)

lemma items_cells:
  "cell cell_Cluster_items as_Cluster_items"
  "cell cell_KTCluster_items as_KTCluster_items"
  "cell cell_KTMachine_items as_KTMachine_items"
  "cell cell_KTMachineTemplate_items as_KTMachineTemplate_items"
  "cell cell_KTNetworkFirewall_items as_KTNetworkFirewall_items"
  "cell cell_KTPublicNetwork_items as_KTPublicNetwork_items"
  "cell cell_KTSubjectToken_items as_KTSubjectToken_items"
  "cell cell_KubeadmConfigTemplate_items as_KubeadmConfigTemplate_items"
  "cell cell_KubeadmControlPlane_items as_KubeadmControlPlane_items"
  "cell cell_MachineDeployment_items as_MachineDeployment_items"
  by (simp_all add: cell_def as_items_def)

lemma list_cells:
  "cell cell_Cluster_list as_Cluster_list"
  "cell cell_KTCluster_list as_KTCluster_list"
  "cell cell_KTMachine_list as_KTMachine_list"
  "cell cell_KTMachineTemplate_list as_KTMachineTemplate_list"
  "cell cell_KTNetworkFirewall_list as_KTNetworkFirewall_list"
  "cell cell_KTPublicNetwork_list as_KTPublicNetwork_list"
  "cell cell_KTSubjectToken_list as_KTSubjectToken_list"
  "cell cell_KubeadmConfigTemplate_list as_KubeadmConfigTemplate_list"
  "cell cell_KubeadmControlPlane_list as_KubeadmControlPlane_list"
  "cell cell_MachineDeployment_list as_MachineDeployment_list"
  by (simp_all add: cell_def as_list_def)

lemmas cells = value_cells plain_cells struct_cells object_cells items_cells list_cells

interpretation string_cell: cell cell_String as_String
  by (rule cells)

end
