(* ===== verification/DeepCopy.thy ===== *)
theory DeepCopy
  imports ApiHeap
begin

text \<open>
  \<^verbatim>\<open>api/v1beta1/zz_generated.deepcopy.go\<close>: \<open>DeepCopyInto\<close>, \<open>DeepCopy\<close> and \<open>DeepCopyObject\<close> of every
  type that refers to other memory, and of all objects and lists of objects. The Kubernetes client
  hands out deep copies of the objects it holds, so this code is why a controller can change the
  machine it read without changing what another reconcile reads.

  \<open>DeepCopyInto_T x h\<close> is the value \<open>in.DeepCopyInto(out)\<close> leaves in \<open>*out\<close> when \<open>*in\<close> is \<open>x\<close>: all fields
  of \<open>x\<close>, with those that refer to other memory replaced by copies, made in the order of the code.
  \<open>read_T\<close> gives the value of \<open>ApiTypes\<close> that a struct in memory denotes. Each type has one lemma:
  \<open>copying\<close>, the contract of \<open>GoHeap\<close>. A struct without references is copied by \<open>*out = *in\<close> alone
  (\<open>copy_plain\<close>).
\<close>

section \<open>The library\<close>

text \<open>What is Kubernetes' and Go's: copying \<open>metav1.ObjectMeta\<close> and \<open>metav1.ListMeta\<close>, with the
  values they denote, and the order in which a map is visited.\<close>

record ('m, 'l, 'w) lib =
  lib_meta :: "(('m, 'l) cell, 'm) copier"
  lib_read_meta :: "(('m, 'l) cell, 'm, ObjectMeta) reader"
  lib_list_meta :: "(('m, 'l) cell, 'l) copier"
  lib_read_list_meta :: "(('m, 'l) cell, 'l, 'w) reader"
  lib_visit :: "string list \<Rightarrow> string list"

definition lib_ok :: "('m, 'l, 'w) lib \<Rightarrow> bool" where
  "lib_ok lib \<longleftrightarrow> copying (lib_meta lib) (lib_read_meta lib) \<and> copying (lib_list_meta lib) (lib_read_list_meta lib)"

lemma lib_okD [copying_intros]:
  "lib_ok lib \<Longrightarrow> copying (lib_meta lib) (lib_read_meta lib)"
  "lib_ok lib \<Longrightarrow> copying (lib_list_meta lib) (lib_read_list_meta lib)"
  by (simp_all add: lib_ok_def)

section \<open>Structs without references\<close>

text \<open>\<open>*out = *in\<close>; where the code assigns fields again, so does the definition.\<close>

definition DeepCopyInto_APIServerLoadBalancer :: "(('m, 'l) cell, APIServerLoadBalancer) copier" where
  "DeepCopyInto_APIServerLoadBalancer = copy_plain"

definition DeepCopyInto_Address :: "(('m, 'l) cell, Address) copier" where
  "DeepCopyInto_Address = copy_plain"

definition DeepCopyInto_AssignedPublicIps :: "(('m, 'l) cell, AssignedPublicIps) copier" where
  "DeepCopyInto_AssignedPublicIps = copy_struct (\<lambda>x. ap_PairedPvtNetwork x)
     (\<lambda>x a. x\<lparr>ap_PairedPvtNetwork := a\<rparr>) copy_plain"

definition DeepCopyInto_BlockDeviceMapping :: "(('m, 'l) cell, BlockDeviceMapping) copier" where
  "DeepCopyInto_BlockDeviceMapping = copy_plain"

definition DeepCopyInto_Bootstrap :: "(('m, 'l) cell, Bootstrap) copier" where
  "DeepCopyInto_Bootstrap = copy_struct (\<lambda>x. bo_ConfigRef x)
     (\<lambda>x a. x\<lparr>bo_ConfigRef := a\<rparr>) copy_plain"

definition DeepCopyInto_ClusterRef :: "(('m, 'l) cell, ClusterRef) copier" where
  "DeepCopyInto_ClusterRef = copy_plain"

definition DeepCopyInto_ClusterSpec :: "(('m, 'l) cell, ClusterSpec) copier" where
  "DeepCopyInto_ClusterSpec = copy_plain"

definition DeepCopyInto_ClusterStatus :: "(('m, 'l) cell, ClusterStatus) copier" where
  "DeepCopyInto_ClusterStatus = copy_plain"

definition DeepCopyInto_ConfigRef :: "(('m, 'l) cell, ConfigRef) copier" where
  "DeepCopyInto_ConfigRef = copy_plain"

definition DeepCopyInto_ControlPlaneRef :: "(('m, 'l) cell, ControlPlaneRef) copier" where
  "DeepCopyInto_ControlPlaneRef = copy_plain"

definition DeepCopyInto_FirewallJobs :: "(('m, 'l) cell, FirewallJobs) copier" where
  "DeepCopyInto_FirewallJobs = copy_plain"

definition DeepCopyInto_IdentityRef :: "(('m, 'l) cell, IdentityRef) copier" where
  "DeepCopyInto_IdentityRef = copy_plain"

definition DeepCopyInto_InfrastructureRef :: "(('m, 'l) cell, InfrastructureRef) copier" where
  "DeepCopyInto_InfrastructureRef = copy_plain"

definition DeepCopyInto_KTClusterSpec :: "(('m, 'l) cell, KTClusterSpec) copier" where
  "DeepCopyInto_KTClusterSpec = copy_struct (\<lambda>x. (cs_APIServerLoadBalancer x, cs_IdentityRef x, cs_ManagedSecurityGroups x))
     (\<lambda>x (a, b, c). x\<lparr>cs_APIServerLoadBalancer := a, cs_IdentityRef := b, cs_ManagedSecurityGroups := c\<rparr>) (copy_both copy_plain (copy_both copy_plain copy_plain))"

definition DeepCopyInto_KTClusterStatus :: "(('m, 'l) cell, KTClusterStatus) copier" where
  "DeepCopyInto_KTClusterStatus = copy_plain"

definition DeepCopyInto_KTMachineTemplateStatus :: "(('m, 'l) cell, KTMachineTemplateStatus) copier" where
  "DeepCopyInto_KTMachineTemplateStatus = copy_plain"

definition DeepCopyInto_KTPublicNetworkSpec :: "(('m, 'l) cell, KTPublicNetworkSpec) copier" where
  "DeepCopyInto_KTPublicNetworkSpec = copy_plain"

definition DeepCopyInto_KTPublicNetworkStatus :: "(('m, 'l) cell, KTPublicNetworkStatus) copier" where
  "DeepCopyInto_KTPublicNetworkStatus = copy_plain"

definition DeepCopyInto_KTSubjectTokenSpec :: "(('m, 'l) cell, KTSubjectTokenSpec) copier" where
  "DeepCopyInto_KTSubjectTokenSpec = copy_struct (\<lambda>x. (us_Token x, us_ClusterRef x))
     (\<lambda>x (a, b). x\<lparr>us_Token := a, us_ClusterRef := b\<rparr>) (copy_both copy_plain copy_plain)"

definition DeepCopyInto_KTSubjectTokenStatus :: "(('m, 'l) cell, KTSubjectTokenStatus) copier" where
  "DeepCopyInto_KTSubjectTokenStatus = copy_struct (\<lambda>x. ut_Token x)
     (\<lambda>x a. x\<lparr>ut_Token := a\<rparr>) copy_plain"

definition DeepCopyInto_KubeadmConfigTemplateSpec :: "(('m, 'l) cell, KubeadmConfigTemplateSpec) copier" where
  "DeepCopyInto_KubeadmConfigTemplateSpec = copy_plain"

definition DeepCopyInto_KubeadmConfigTemplateStatus :: "(('m, 'l) cell, KubeadmConfigTemplateStatus) copier" where
  "DeepCopyInto_KubeadmConfigTemplateStatus = copy_plain"

definition DeepCopyInto_KubeadmControlPlaneSpec :: "(('m, 'l) cell, KubeadmControlPlaneSpec) copier" where
  "DeepCopyInto_KubeadmControlPlaneSpec = copy_plain"

definition DeepCopyInto_KubeadmControlPlaneStatus :: "(('m, 'l) cell, KubeadmControlPlaneStatus) copier" where
  "DeepCopyInto_KubeadmControlPlaneStatus = copy_plain"

definition DeepCopyInto_Links :: "(('m, 'l) cell, Links) copier" where
  "DeepCopyInto_Links = copy_plain"

definition DeepCopyInto_MachineDeploymentStatus :: "(('m, 'l) cell, MachineDeploymentStatus) copier" where
  "DeepCopyInto_MachineDeploymentStatus = copy_plain"

definition DeepCopyInto_MachineSpec :: "(('m, 'l) cell, MachineSpec) copier" where
  "DeepCopyInto_MachineSpec = copy_struct (\<lambda>x. mp_Spec x)
     (\<lambda>x a. x\<lparr>mp_Spec := a\<rparr>) copy_plain"

definition DeepCopyInto_MachineSpecDetails :: "(('m, 'l) cell, MachineSpecDetails) copier" where
  "DeepCopyInto_MachineSpecDetails = copy_struct (\<lambda>x. (sd_Bootstrap x, sd_InfrastructureRef x))
     (\<lambda>x (a, b). x\<lparr>sd_Bootstrap := a, sd_InfrastructureRef := b\<rparr>) (copy_both copy_plain copy_plain)"

definition DeepCopyInto_ManagedSecurityGroups :: "(('m, 'l) cell, ManagedSecurityGroups) copier" where
  "DeepCopyInto_ManagedSecurityGroups = copy_struct (\<lambda>x. (ms_ControlPlaneRules x, ms_WorkerRules x))
     (\<lambda>x (a, b). x\<lparr>ms_ControlPlaneRules := a, ms_WorkerRules := b\<rparr>) (copy_both copy_plain copy_plain)"

definition DeepCopyInto_Network :: "(('m, 'l) cell, Network) copier" where
  "DeepCopyInto_Network = copy_plain"

definition DeepCopyInto_NetworkTier :: "(('m, 'l) cell, NetworkTier) copier" where
  "DeepCopyInto_NetworkTier = copy_plain"

definition DeepCopyInto_Networks :: "(('m, 'l) cell, Networks) copier" where
  "DeepCopyInto_Networks = copy_plain"

definition DeepCopyInto_PairedPvtNetwork :: "(('m, 'l) cell, PairedPvtNetwork) copier" where
  "DeepCopyInto_PairedPvtNetwork = copy_plain"

definition DeepCopyInto_SecurityGroupRule :: "(('m, 'l) cell, SecurityGroupRule) copier" where
  "DeepCopyInto_SecurityGroupRule = copy_plain"

definition DeepCopyInto_SecurityGroups :: "(('m, 'l) cell, SecurityGroups) copier" where
  "DeepCopyInto_SecurityGroups = copy_plain"

definition DeepCopyInto_Subnet :: "(('m, 'l) cell, Subnet) copier" where
  "DeepCopyInto_Subnet = copy_plain"

definition DeepCopyInto_Token :: "(('m, 'l) cell, Token) copier" where
  "DeepCopyInto_Token = copy_plain"

definition DeepCopyInto_VolumeAttached :: "(('m, 'l) cell, VolumeAttached) copier" where
  "DeepCopyInto_VolumeAttached = copy_plain"

definition DeepCopyInto_WorkerRef :: "(('m, 'l) cell, WorkerRef) copier" where
  "DeepCopyInto_WorkerRef = copy_plain"

definition DeepCopy_APIServerLoadBalancer :: "(('m, 'l) cell, addr option) copier" where
  "DeepCopy_APIServerLoadBalancer = deep_copy cell_APIServerLoadBalancer_plain as_APIServerLoadBalancer_plain DeepCopyInto_APIServerLoadBalancer"

definition DeepCopy_Address :: "(('m, 'l) cell, addr option) copier" where
  "DeepCopy_Address = deep_copy cell_Address_plain as_Address_plain DeepCopyInto_Address"

definition DeepCopy_AssignedPublicIps :: "(('m, 'l) cell, addr option) copier" where
  "DeepCopy_AssignedPublicIps = deep_copy cell_AssignedPublicIps_plain as_AssignedPublicIps_plain DeepCopyInto_AssignedPublicIps"

definition DeepCopy_BlockDeviceMapping :: "(('m, 'l) cell, addr option) copier" where
  "DeepCopy_BlockDeviceMapping = deep_copy cell_BlockDeviceMapping_plain as_BlockDeviceMapping_plain DeepCopyInto_BlockDeviceMapping"

definition DeepCopy_Bootstrap :: "(('m, 'l) cell, addr option) copier" where
  "DeepCopy_Bootstrap = deep_copy cell_Bootstrap_plain as_Bootstrap_plain DeepCopyInto_Bootstrap"

definition DeepCopy_ClusterRef :: "(('m, 'l) cell, addr option) copier" where
  "DeepCopy_ClusterRef = deep_copy cell_ClusterRef_plain as_ClusterRef_plain DeepCopyInto_ClusterRef"

definition DeepCopy_ClusterSpec :: "(('m, 'l) cell, addr option) copier" where
  "DeepCopy_ClusterSpec = deep_copy cell_ClusterSpec_plain as_ClusterSpec_plain DeepCopyInto_ClusterSpec"

definition DeepCopy_ClusterStatus :: "(('m, 'l) cell, addr option) copier" where
  "DeepCopy_ClusterStatus = deep_copy cell_ClusterStatus_plain as_ClusterStatus_plain DeepCopyInto_ClusterStatus"

definition DeepCopy_ConfigRef :: "(('m, 'l) cell, addr option) copier" where
  "DeepCopy_ConfigRef = deep_copy cell_ConfigRef_plain as_ConfigRef_plain DeepCopyInto_ConfigRef"

definition DeepCopy_ControlPlaneRef :: "(('m, 'l) cell, addr option) copier" where
  "DeepCopy_ControlPlaneRef = deep_copy cell_ControlPlaneRef_plain as_ControlPlaneRef_plain DeepCopyInto_ControlPlaneRef"

definition DeepCopy_FirewallJobs :: "(('m, 'l) cell, addr option) copier" where
  "DeepCopy_FirewallJobs = deep_copy cell_FirewallJobs_plain as_FirewallJobs_plain DeepCopyInto_FirewallJobs"

definition DeepCopy_IdentityRef :: "(('m, 'l) cell, addr option) copier" where
  "DeepCopy_IdentityRef = deep_copy cell_IdentityRef_plain as_IdentityRef_plain DeepCopyInto_IdentityRef"

definition DeepCopy_InfrastructureRef :: "(('m, 'l) cell, addr option) copier" where
  "DeepCopy_InfrastructureRef = deep_copy cell_InfrastructureRef_plain as_InfrastructureRef_plain DeepCopyInto_InfrastructureRef"

definition DeepCopy_KTClusterSpec :: "(('m, 'l) cell, addr option) copier" where
  "DeepCopy_KTClusterSpec = deep_copy cell_KTClusterSpec_plain as_KTClusterSpec_plain DeepCopyInto_KTClusterSpec"

definition DeepCopy_KTClusterStatus :: "(('m, 'l) cell, addr option) copier" where
  "DeepCopy_KTClusterStatus = deep_copy cell_KTClusterStatus_plain as_KTClusterStatus_plain DeepCopyInto_KTClusterStatus"

definition DeepCopy_KTMachineTemplateStatus :: "(('m, 'l) cell, addr option) copier" where
  "DeepCopy_KTMachineTemplateStatus = deep_copy cell_KTMachineTemplateStatus_plain as_KTMachineTemplateStatus_plain DeepCopyInto_KTMachineTemplateStatus"

definition DeepCopy_KTPublicNetworkSpec :: "(('m, 'l) cell, addr option) copier" where
  "DeepCopy_KTPublicNetworkSpec = deep_copy cell_KTPublicNetworkSpec_plain as_KTPublicNetworkSpec_plain DeepCopyInto_KTPublicNetworkSpec"

definition DeepCopy_KTPublicNetworkStatus :: "(('m, 'l) cell, addr option) copier" where
  "DeepCopy_KTPublicNetworkStatus = deep_copy cell_KTPublicNetworkStatus_plain as_KTPublicNetworkStatus_plain DeepCopyInto_KTPublicNetworkStatus"

definition DeepCopy_KTSubjectTokenSpec :: "(('m, 'l) cell, addr option) copier" where
  "DeepCopy_KTSubjectTokenSpec = deep_copy cell_KTSubjectTokenSpec_plain as_KTSubjectTokenSpec_plain DeepCopyInto_KTSubjectTokenSpec"

definition DeepCopy_KTSubjectTokenStatus :: "(('m, 'l) cell, addr option) copier" where
  "DeepCopy_KTSubjectTokenStatus = deep_copy cell_KTSubjectTokenStatus_plain as_KTSubjectTokenStatus_plain DeepCopyInto_KTSubjectTokenStatus"

definition DeepCopy_KubeadmConfigTemplateSpec :: "(('m, 'l) cell, addr option) copier" where
  "DeepCopy_KubeadmConfigTemplateSpec = deep_copy cell_KubeadmConfigTemplateSpec_plain as_KubeadmConfigTemplateSpec_plain DeepCopyInto_KubeadmConfigTemplateSpec"

definition DeepCopy_KubeadmConfigTemplateStatus :: "(('m, 'l) cell, addr option) copier" where
  "DeepCopy_KubeadmConfigTemplateStatus = deep_copy cell_KubeadmConfigTemplateStatus_plain as_KubeadmConfigTemplateStatus_plain DeepCopyInto_KubeadmConfigTemplateStatus"

definition DeepCopy_KubeadmControlPlaneSpec :: "(('m, 'l) cell, addr option) copier" where
  "DeepCopy_KubeadmControlPlaneSpec = deep_copy cell_KubeadmControlPlaneSpec_plain as_KubeadmControlPlaneSpec_plain DeepCopyInto_KubeadmControlPlaneSpec"

definition DeepCopy_KubeadmControlPlaneStatus :: "(('m, 'l) cell, addr option) copier" where
  "DeepCopy_KubeadmControlPlaneStatus = deep_copy cell_KubeadmControlPlaneStatus_plain as_KubeadmControlPlaneStatus_plain DeepCopyInto_KubeadmControlPlaneStatus"

definition DeepCopy_Links :: "(('m, 'l) cell, addr option) copier" where
  "DeepCopy_Links = deep_copy cell_Links_plain as_Links_plain DeepCopyInto_Links"

definition DeepCopy_MachineDeploymentStatus :: "(('m, 'l) cell, addr option) copier" where
  "DeepCopy_MachineDeploymentStatus = deep_copy cell_MachineDeploymentStatus_plain as_MachineDeploymentStatus_plain DeepCopyInto_MachineDeploymentStatus"

definition DeepCopy_MachineSpec :: "(('m, 'l) cell, addr option) copier" where
  "DeepCopy_MachineSpec = deep_copy cell_MachineSpec_plain as_MachineSpec_plain DeepCopyInto_MachineSpec"

definition DeepCopy_MachineSpecDetails :: "(('m, 'l) cell, addr option) copier" where
  "DeepCopy_MachineSpecDetails = deep_copy cell_MachineSpecDetails_plain as_MachineSpecDetails_plain DeepCopyInto_MachineSpecDetails"

definition DeepCopy_ManagedSecurityGroups :: "(('m, 'l) cell, addr option) copier" where
  "DeepCopy_ManagedSecurityGroups = deep_copy cell_ManagedSecurityGroups_plain as_ManagedSecurityGroups_plain DeepCopyInto_ManagedSecurityGroups"

definition DeepCopy_Network :: "(('m, 'l) cell, addr option) copier" where
  "DeepCopy_Network = deep_copy cell_Network_plain as_Network_plain DeepCopyInto_Network"

definition DeepCopy_NetworkTier :: "(('m, 'l) cell, addr option) copier" where
  "DeepCopy_NetworkTier = deep_copy cell_NetworkTier_plain as_NetworkTier_plain DeepCopyInto_NetworkTier"

definition DeepCopy_Networks :: "(('m, 'l) cell, addr option) copier" where
  "DeepCopy_Networks = deep_copy cell_Networks_plain as_Networks_plain DeepCopyInto_Networks"

definition DeepCopy_PairedPvtNetwork :: "(('m, 'l) cell, addr option) copier" where
  "DeepCopy_PairedPvtNetwork = deep_copy cell_PairedPvtNetwork_plain as_PairedPvtNetwork_plain DeepCopyInto_PairedPvtNetwork"

definition DeepCopy_SecurityGroupRule :: "(('m, 'l) cell, addr option) copier" where
  "DeepCopy_SecurityGroupRule = deep_copy cell_SecurityGroupRule_plain as_SecurityGroupRule_plain DeepCopyInto_SecurityGroupRule"

definition DeepCopy_SecurityGroups :: "(('m, 'l) cell, addr option) copier" where
  "DeepCopy_SecurityGroups = deep_copy cell_SecurityGroups_plain as_SecurityGroups_plain DeepCopyInto_SecurityGroups"

definition DeepCopy_Subnet :: "(('m, 'l) cell, addr option) copier" where
  "DeepCopy_Subnet = deep_copy cell_Subnet_plain as_Subnet_plain DeepCopyInto_Subnet"

definition DeepCopy_Token :: "(('m, 'l) cell, addr option) copier" where
  "DeepCopy_Token = deep_copy cell_Token_plain as_Token_plain DeepCopyInto_Token"

definition DeepCopy_VolumeAttached :: "(('m, 'l) cell, addr option) copier" where
  "DeepCopy_VolumeAttached = deep_copy cell_VolumeAttached_plain as_VolumeAttached_plain DeepCopyInto_VolumeAttached"

definition DeepCopy_WorkerRef :: "(('m, 'l) cell, addr option) copier" where
  "DeepCopy_WorkerRef = deep_copy cell_WorkerRef_plain as_WorkerRef_plain DeepCopyInto_WorkerRef"


lemma reassigned_plain:
  assumes "\<And>x. set_fields x (get x) = x"
  shows "copy_struct get set_fields copy_plain = copy_plain"
  by (intro ext) (simp add: copy_struct_def copy_plain_def assms)

lemma both_plain: "copy_both copy_plain copy_plain = copy_plain"
  by (intro ext) (simp add: copy_both_def copy_plain_def)

text \<open>So all of them are plain copies.\<close>

lemma plain_copies [simp]:
  "DeepCopyInto_APIServerLoadBalancer = copy_plain"
  "DeepCopyInto_Address = copy_plain"
  "DeepCopyInto_AssignedPublicIps = copy_plain"
  "DeepCopyInto_BlockDeviceMapping = copy_plain"
  "DeepCopyInto_Bootstrap = copy_plain"
  "DeepCopyInto_ClusterRef = copy_plain"
  "DeepCopyInto_ClusterSpec = copy_plain"
  "DeepCopyInto_ClusterStatus = copy_plain"
  "DeepCopyInto_ConfigRef = copy_plain"
  "DeepCopyInto_ControlPlaneRef = copy_plain"
  "DeepCopyInto_FirewallJobs = copy_plain"
  "DeepCopyInto_IdentityRef = copy_plain"
  "DeepCopyInto_InfrastructureRef = copy_plain"
  "DeepCopyInto_KTClusterSpec = copy_plain"
  "DeepCopyInto_KTClusterStatus = copy_plain"
  "DeepCopyInto_KTMachineTemplateStatus = copy_plain"
  "DeepCopyInto_KTPublicNetworkSpec = copy_plain"
  "DeepCopyInto_KTPublicNetworkStatus = copy_plain"
  "DeepCopyInto_KTSubjectTokenSpec = copy_plain"
  "DeepCopyInto_KTSubjectTokenStatus = copy_plain"
  "DeepCopyInto_KubeadmConfigTemplateSpec = copy_plain"
  "DeepCopyInto_KubeadmConfigTemplateStatus = copy_plain"
  "DeepCopyInto_KubeadmControlPlaneSpec = copy_plain"
  "DeepCopyInto_KubeadmControlPlaneStatus = copy_plain"
  "DeepCopyInto_Links = copy_plain"
  "DeepCopyInto_MachineDeploymentStatus = copy_plain"
  "DeepCopyInto_MachineSpec = copy_plain"
  "DeepCopyInto_MachineSpecDetails = copy_plain"
  "DeepCopyInto_ManagedSecurityGroups = copy_plain"
  "DeepCopyInto_Network = copy_plain"
  "DeepCopyInto_NetworkTier = copy_plain"
  "DeepCopyInto_Networks = copy_plain"
  "DeepCopyInto_PairedPvtNetwork = copy_plain"
  "DeepCopyInto_SecurityGroupRule = copy_plain"
  "DeepCopyInto_SecurityGroups = copy_plain"
  "DeepCopyInto_Subnet = copy_plain"
  "DeepCopyInto_Token = copy_plain"
  "DeepCopyInto_VolumeAttached = copy_plain"
  "DeepCopyInto_WorkerRef = copy_plain"
  by (simp_all add: DeepCopyInto_APIServerLoadBalancer_def DeepCopyInto_Address_def DeepCopyInto_AssignedPublicIps_def
      DeepCopyInto_BlockDeviceMapping_def DeepCopyInto_Bootstrap_def DeepCopyInto_ClusterRef_def
      DeepCopyInto_ClusterSpec_def DeepCopyInto_ClusterStatus_def DeepCopyInto_ConfigRef_def
      DeepCopyInto_ControlPlaneRef_def DeepCopyInto_FirewallJobs_def DeepCopyInto_IdentityRef_def
      DeepCopyInto_InfrastructureRef_def DeepCopyInto_KTClusterSpec_def DeepCopyInto_KTClusterStatus_def
      DeepCopyInto_KTMachineTemplateStatus_def DeepCopyInto_KTPublicNetworkSpec_def DeepCopyInto_KTPublicNetworkStatus_def
      DeepCopyInto_KTSubjectTokenSpec_def DeepCopyInto_KTSubjectTokenStatus_def DeepCopyInto_KubeadmConfigTemplateSpec_def
      DeepCopyInto_KubeadmConfigTemplateStatus_def DeepCopyInto_KubeadmControlPlaneSpec_def DeepCopyInto_KubeadmControlPlaneStatus_def
      DeepCopyInto_Links_def DeepCopyInto_MachineDeploymentStatus_def DeepCopyInto_MachineSpec_def
      DeepCopyInto_MachineSpecDetails_def DeepCopyInto_ManagedSecurityGroups_def DeepCopyInto_Network_def
      DeepCopyInto_NetworkTier_def DeepCopyInto_Networks_def DeepCopyInto_PairedPvtNetwork_def
      DeepCopyInto_SecurityGroupRule_def DeepCopyInto_SecurityGroups_def DeepCopyInto_Subnet_def
      DeepCopyInto_Token_def DeepCopyInto_VolumeAttached_def DeepCopyInto_WorkerRef_def
     
      reassigned_plain both_plain)

section \<open>Structs with references\<close>

definition DeepCopyInto_FixedIP :: "(('m, 'l) cell, FixedIPM) copier" where
  "DeepCopyInto_FixedIP = copy_struct
     (\<lambda>x. fim_Subnet x)
     (\<lambda>x a. x\<lparr>fim_Subnet := a\<rparr>)
     (copy_pointer cell_Subnet as_Subnet)"

definition read_FixedIP :: "(('m, 'l) cell, FixedIPM, FixedIP) reader" where
  "read_FixedIP = read_struct
     (\<lambda>x. fim_Subnet x)
     (\<lambda>x a. \<lparr>fi_Subnet = a\<rparr>)
     (read_pointer as_Subnet)"

lemma copying_FixedIP [copying_intros]: "copying DeepCopyInto_FixedIP read_FixedIP"
  unfolding DeepCopyInto_FixedIP_def read_FixedIP_def
  by (rule copying_struct, intro copying_intros cells) (simp_all split: prod.splits)

definition DeepCopyInto_Port :: "(('m, 'l) cell, PortM) copier" where
  "DeepCopyInto_Port = copy_struct
     (\<lambda>x. (pom_Network x, pom_FixedIPs x))
     (\<lambda>x (a, b). x\<lparr>pom_Network := a, pom_FixedIPs := b\<rparr>)
     (copy_both (copy_pointer cell_Network as_Network)
     (copy_slice cell_FixedIPs as_FixedIPs DeepCopyInto_FixedIP))"

definition read_Port :: "(('m, 'l) cell, PortM, Port) reader" where
  "read_Port = read_struct
     (\<lambda>x. (pom_Network x, pom_FixedIPs x))
     (\<lambda>x (a, b). \<lparr>po_Network = a, po_FixedIPs = b\<rparr>)
     (read_both (read_pointer as_Network)
     (read_slice as_FixedIPs read_FixedIP))"

lemma copying_Port [copying_intros]: "copying DeepCopyInto_Port read_Port"
  unfolding DeepCopyInto_Port_def read_Port_def
  by (rule copying_struct, intro copying_intros cells) (simp_all split: prod.splits)

definition DeepCopyInto_Spec :: "(('m, 'l) cell, SpecM) copier" where
  "DeepCopyInto_Spec = copy_struct
     (\<lambda>x. (spm_BlockDeviceMapping x, spm_NetworkTier x, spm_Ports x))
     (\<lambda>x (a, b, c). x\<lparr>spm_BlockDeviceMapping := a, spm_NetworkTier := b, spm_Ports := c\<rparr>)
     (copy_both (copy_slice cell_Blocks as_Blocks copy_plain)
     (copy_both (copy_slice cell_Tiers as_Tiers copy_plain)
     (copy_slice cell_Ports as_Ports DeepCopyInto_Port)))"

definition read_Spec :: "(('m, 'l) cell, SpecM, Spec) reader" where
  "read_Spec = read_struct
     (\<lambda>x. (spm_BlockDeviceMapping x, spm_NetworkTier x, spm_Ports x))
     (\<lambda>x (a, b, c). \<lparr>sp_Flavor = spm_Flavor x, sp_SSHKeyName = spm_SSHKeyName x,
       sp_BlockDeviceMapping = a, sp_NetworkTier = b, sp_Ports = c\<rparr>)
     (read_both (read_slice as_Blocks read_plain)
     (read_both (read_slice as_Tiers read_plain)
     (read_slice as_Ports read_Port)))"

lemma copying_Spec [copying_intros]: "copying DeepCopyInto_Spec read_Spec"
  unfolding DeepCopyInto_Spec_def read_Spec_def
  by (rule copying_struct, intro copying_intros cells) (simp_all split: prod.splits)

definition DeepCopyInto_Template :: "(('m, 'l) cell, TemplateM) copier" where
  "DeepCopyInto_Template = copy_struct
     (\<lambda>x. tem_Spec x)
     (\<lambda>x a. x\<lparr>tem_Spec := a\<rparr>)
     DeepCopyInto_Spec"

definition read_Template :: "(('m, 'l) cell, TemplateM, Template) reader" where
  "read_Template = read_struct
     (\<lambda>x. tem_Spec x)
     (\<lambda>x a. \<lparr>te_Spec = a\<rparr>)
     read_Spec"

lemma copying_Template [copying_intros]: "copying DeepCopyInto_Template read_Template"
  unfolding DeepCopyInto_Template_def read_Template_def
  by (rule copying_struct, intro copying_intros cells) (simp_all split: prod.splits)

definition DeepCopyInto_KTMachineTemplateSpec :: "(('m, 'l) cell, KTMachineTemplateSpecM) copier" where
  "DeepCopyInto_KTMachineTemplateSpec = copy_struct
     (\<lambda>x. tsm_Template x)
     (\<lambda>x a. x\<lparr>tsm_Template := a\<rparr>)
     DeepCopyInto_Template"

definition read_KTMachineTemplateSpec :: "(('m, 'l) cell, KTMachineTemplateSpecM, KTMachineTemplateSpec) reader" where
  "read_KTMachineTemplateSpec = read_struct
     (\<lambda>x. tsm_Template x)
     (\<lambda>x a. \<lparr>ts_Template = a\<rparr>)
     read_Template"

lemma copying_KTMachineTemplateSpec [copying_intros]: "copying DeepCopyInto_KTMachineTemplateSpec read_KTMachineTemplateSpec"
  unfolding DeepCopyInto_KTMachineTemplateSpec_def read_KTMachineTemplateSpec_def
  by (rule copying_struct, intro copying_intros cells) (simp_all split: prod.splits)

definition DeepCopyInto_KTMachineSpec :: "(('m, 'l) cell, KTMachineSpecM) copier" where
  "DeepCopyInto_KTMachineSpec = copy_struct
     (\<lambda>x. (ksm_BlockDeviceMapping x, ksm_NetworkTier x, ksm_Networks x, ksm_Ports x))
     (\<lambda>x (a, b, c, d). x\<lparr>ksm_BlockDeviceMapping := a, ksm_NetworkTier := b, ksm_Networks := c,
       ksm_Ports := d\<rparr>)
     (copy_both (copy_slice cell_Blocks as_Blocks copy_plain)
     (copy_both (copy_slice cell_Tiers as_Tiers copy_plain)
     (copy_both (copy_slice cell_Networks as_Networks copy_plain)
     (copy_slice cell_Ports as_Ports DeepCopyInto_Port))))"

definition read_KTMachineSpec :: "(('m, 'l) cell, KTMachineSpecM, KTMachineSpec) reader" where
  "read_KTMachineSpec = read_struct
     (\<lambda>x. (ksm_BlockDeviceMapping x, ksm_NetworkTier x, ksm_Networks x, ksm_Ports x))
     (\<lambda>x (a, b, c, d). \<lparr>ks_ClusterName = ksm_ClusterName x, ks_Flavor = ksm_Flavor x, ks_SSHKeyName =
       ksm_SSHKeyName x, ks_BlockDeviceMapping = a, ks_NetworkTier = b, ks_Networks = c, ks_Ports = d,
       ks_AvailabilityZone = ksm_AvailabilityZone x, ks_UserData = ksm_UserData x, ks_ControlPlaneNumber =
       ksm_ControlPlaneNumber x\<rparr>)
     (read_both (read_slice as_Blocks read_plain)
     (read_both (read_slice as_Tiers read_plain)
     (read_both (read_slice as_Networks read_plain)
     (read_slice as_Ports read_Port))))"

lemma copying_KTMachineSpec [copying_intros]: "copying DeepCopyInto_KTMachineSpec read_KTMachineSpec"
  unfolding DeepCopyInto_KTMachineSpec_def read_KTMachineSpec_def
  by (rule copying_struct, intro copying_intros cells) (simp_all split: prod.splits)

definition DeepCopyInto_Flavor :: "('m, 'l, 'w) lib \<Rightarrow> (('m, 'l) cell, FlavorM) copier" where
  "DeepCopyInto_Flavor lib = copy_struct
     (\<lambda>x. flm_ExtraSpecs x)
     (\<lambda>x a. x\<lparr>flm_ExtraSpecs := a\<rparr>)
     (copy_map (lib_visit lib) cell_StringMap as_StringMap copy_plain)"

definition read_Flavor :: "(('m, 'l) cell, FlavorM, Flavor) reader" where
  "read_Flavor = read_struct
     (\<lambda>x. flm_ExtraSpecs x)
     (\<lambda>x a. \<lparr>fl_Disk = flm_Disk x, fl_Swap = flm_Swap x, fl_Original = flm_Original x, fl_ExtraSpecs
       = a, fl_Ephemeral = flm_Ephemeral x, fl_VCPUs = flm_VCPUs x, fl_RAM = flm_RAM x\<rparr>)
     (read_map as_StringMap read_plain)"

lemma copying_Flavor [copying_intros]: "copying (DeepCopyInto_Flavor lib) read_Flavor"
  unfolding DeepCopyInto_Flavor_def read_Flavor_def
  by (rule copying_struct, intro copying_intros cells) (simp_all split: prod.splits)

definition DeepCopyInto_KTMachineStatus :: "('m, 'l, 'w) lib \<Rightarrow> (('m, 'l) cell, KTMachineStatusM) copier" where
  "DeepCopyInto_KTMachineStatus lib = copy_struct
     (\<lambda>x. (stm_Links x, stm_SecurityGroups x, stm_AssignedPublicIps x, stm_Addresses x, stm_TaskState x,
       stm_Description x, stm_TrustedImageCerts x, stm_VolumesAttached x, stm_Tags x, stm_Flavor x, stm_TerminatedAt
       x))
     (\<lambda>x (a, b, c, d, e, f, g, i, j, k, l). x\<lparr>stm_Links := a, stm_SecurityGroups := b,
       stm_AssignedPublicIps := c, stm_Addresses := d, stm_TaskState := e, stm_Description := f, stm_TrustedImageCerts
       := g, stm_VolumesAttached := i, stm_Tags := j, stm_Flavor := k, stm_TerminatedAt := l\<rparr>)
     (copy_both (copy_slice cell_Links as_Links copy_plain)
     (copy_both (copy_slice cell_SecurityGroups as_SecurityGroups copy_plain)
     (copy_both (copy_slice cell_PublicIps as_PublicIps copy_plain)
     (copy_both (copy_map (lib_visit lib) cell_AddressMap as_AddressMap (copy_slice cell_Addresses as_Addresses copy_plain))
     (copy_both (copy_pointer cell_String as_String)
     (copy_both (copy_pointer cell_String as_String)
     (copy_both (copy_pointer cell_String as_String)
     (copy_both (copy_slice cell_Volumes as_Volumes copy_plain)
     (copy_both (copy_slice cell_Strings as_Strings copy_plain)
     (copy_both (DeepCopyInto_Flavor lib)
     (copy_pointer cell_String as_String)))))))))))"

definition read_KTMachineStatus :: "(('m, 'l) cell, KTMachineStatusM, KTMachineStatus) reader" where
  "read_KTMachineStatus = read_struct
     (\<lambda>x. (stm_Links x, stm_SecurityGroups x, stm_AssignedPublicIps x, stm_Addresses x, stm_TaskState x,
       stm_Description x, stm_TrustedImageCerts x, stm_VolumesAttached x, stm_Tags x, stm_Flavor x, stm_TerminatedAt
       x))
     (\<lambda>x (a, b, c, d, e, f, g, i, j, k, l). \<lparr>st_ID = stm_ID x, st_AdminPass = stm_AdminPass x,
       st_Links = a, st_SecurityGroups = b, st_AssignedPublicIps = c, st_TenantID = stm_TenantID x, st_Addresses = d,
       st_TaskState = e, st_Description = f, st_DiskConfig = stm_DiskConfig x, st_TrustedImageCerts = g,
       st_AvailabilityZone = stm_AvailabilityZone x, st_PowerState = stm_PowerState x, st_VolumesAttached = i,
       st_Locked = stm_Locked x, st_Image = stm_Image x, st_AccessIPv4 = stm_AccessIPv4 x, st_AccessIPv6 =
       stm_AccessIPv6 x, st_Created = stm_Created x, st_HostID = stm_HostID x, st_Tags = j, st_Flavor = k, st_KeyName
       = stm_KeyName x, st_VMState = stm_VMState x, st_UserID = stm_UserID x, st_Name = stm_Name x, st_Progress =
       stm_Progress x, st_LaunchedAt = stm_LaunchedAt x, st_Updated = stm_Updated x, st_Status = stm_Status x,
       st_TerminatedAt = l, st_ConfigDrive = stm_ConfigDrive x, st_ControlPlaneRef = stm_ControlPlaneRef x,
       st_WorkerRef = stm_WorkerRef x\<rparr>)
     (read_both (read_slice as_Links read_plain)
     (read_both (read_slice as_SecurityGroups read_plain)
     (read_both (read_slice as_PublicIps read_plain)
     (read_both (read_map as_AddressMap (read_slice as_Addresses read_plain))
     (read_both (read_pointer as_String)
     (read_both (read_pointer as_String)
     (read_both (read_pointer as_String)
     (read_both (read_slice as_Volumes read_plain)
     (read_both (read_slice as_Strings read_plain)
     (read_both (read_Flavor)
     (read_pointer as_String)))))))))))"

lemma copying_KTMachineStatus [copying_intros]: "copying (DeepCopyInto_KTMachineStatus lib) read_KTMachineStatus"
  unfolding DeepCopyInto_KTMachineStatus_def read_KTMachineStatus_def
  by (rule copying_struct, intro copying_intros cells) (simp_all split: prod.splits)

definition DeepCopyInto_Selector :: "('m, 'l, 'w) lib \<Rightarrow> (('m, 'l) cell, SelectorM) copier" where
  "DeepCopyInto_Selector lib = copy_struct
     (\<lambda>x. slm_MatchLabels x)
     (\<lambda>x a. x\<lparr>slm_MatchLabels := a\<rparr>)
     (copy_map (lib_visit lib) cell_StringMap as_StringMap copy_plain)"

definition read_Selector :: "(('m, 'l) cell, SelectorM, Selector) reader" where
  "read_Selector = read_struct
     (\<lambda>x. slm_MatchLabels x)
     (\<lambda>x a. \<lparr>sl_MatchLabels = a\<rparr>)
     (read_map as_StringMap read_plain)"

lemma copying_Selector [copying_intros]: "copying (DeepCopyInto_Selector lib) read_Selector"
  unfolding DeepCopyInto_Selector_def read_Selector_def
  by (rule copying_struct, intro copying_intros cells) (simp_all split: prod.splits)

definition DeepCopyInto_MachineDeploymentSpec :: "('m, 'l, 'w) lib \<Rightarrow> (('m, 'l) cell, MachineDeploymentSpecM) copier" where
  "DeepCopyInto_MachineDeploymentSpec lib = copy_struct
     (\<lambda>x. dsm_Selector x)
     (\<lambda>x a. x\<lparr>dsm_Selector := a\<rparr>)
     (DeepCopyInto_Selector lib)"

definition read_MachineDeploymentSpec :: "(('m, 'l) cell, MachineDeploymentSpecM, MachineDeploymentSpec) reader" where
  "read_MachineDeploymentSpec = read_struct
     (\<lambda>x. dsm_Selector x)
     (\<lambda>x a. \<lparr>ds_Replicas = dsm_Replicas x, ds_Type = dsm_Type x, ds_Selector = a, ds_Template =
       dsm_Template x\<rparr>)
     read_Selector"

lemma copying_MachineDeploymentSpec [copying_intros]: "copying (DeepCopyInto_MachineDeploymentSpec lib) read_MachineDeploymentSpec"
  unfolding DeepCopyInto_MachineDeploymentSpec_def read_MachineDeploymentSpec_def
  by (rule copying_struct, intro copying_intros cells) (simp_all split: prod.splits)

definition DeepCopyInto_FirewallRules :: "(('m, 'l) cell, FirewallRulesM) copier" where
  "DeepCopyInto_FirewallRules = copy_struct
     (\<lambda>x. (frm_SrcNetwork x, frm_DstNetwork x, frm_SrcAddress x, frm_DstAddress x))
     (\<lambda>x (a, b, c, d). x\<lparr>frm_SrcNetwork := a, frm_DstNetwork := b, frm_SrcAddress := c,
       frm_DstAddress := d\<rparr>)
     (copy_both (copy_slice cell_Strings as_Strings copy_plain)
     (copy_both (copy_slice cell_Strings as_Strings copy_plain)
     (copy_both (copy_slice cell_Strings as_Strings copy_plain)
     (copy_slice cell_Strings as_Strings copy_plain))))"

definition read_FirewallRules :: "(('m, 'l) cell, FirewallRulesM, FirewallRules) reader" where
  "read_FirewallRules = read_struct
     (\<lambda>x. (frm_SrcNetwork x, frm_DstNetwork x, frm_SrcAddress x, frm_DstAddress x))
     (\<lambda>x (a, b, c, d). \<lparr>fr_SrcNat = frm_SrcNat x, fr_StartPort = frm_StartPort x, fr_EndPort =
       frm_EndPort x, fr_Protocol = frm_Protocol x, fr_Action = frm_Action x, fr_SrcNetwork = a, fr_DstNetwork = b,
       fr_StaticNatId = frm_StaticNatId x, fr_SrcAddress = c, fr_DstAddress = d\<rparr>)
     (read_both (read_slice as_Strings read_plain)
     (read_both (read_slice as_Strings read_plain)
     (read_both (read_slice as_Strings read_plain)
     (read_slice as_Strings read_plain))))"

lemma copying_FirewallRules [copying_intros]: "copying DeepCopyInto_FirewallRules read_FirewallRules"
  unfolding DeepCopyInto_FirewallRules_def read_FirewallRules_def
  by (rule copying_struct, intro copying_intros cells) (simp_all split: prod.splits)

definition DeepCopyInto_KTNetworkFirewallSpec :: "(('m, 'l) cell, KTNetworkFirewallSpecM) copier" where
  "DeepCopyInto_KTNetworkFirewallSpec = copy_struct
     (\<lambda>x. fsm_FirewallRules x)
     (\<lambda>x a. x\<lparr>fsm_FirewallRules := a\<rparr>)
     (copy_slice cell_Rules as_Rules DeepCopyInto_FirewallRules)"

definition read_KTNetworkFirewallSpec :: "(('m, 'l) cell, KTNetworkFirewallSpecM, KTNetworkFirewallSpec) reader" where
  "read_KTNetworkFirewallSpec = read_struct
     (\<lambda>x. fsm_FirewallRules x)
     (\<lambda>x a. \<lparr>fs_FirewallRules = a\<rparr>)
     (read_slice as_Rules read_FirewallRules)"

lemma copying_KTNetworkFirewallSpec [copying_intros]: "copying DeepCopyInto_KTNetworkFirewallSpec read_KTNetworkFirewallSpec"
  unfolding DeepCopyInto_KTNetworkFirewallSpec_def read_KTNetworkFirewallSpec_def
  by (rule copying_struct, intro copying_intros cells) (simp_all split: prod.splits)

definition DeepCopyInto_KTNetworkFirewallStatus :: "(('m, 'l) cell, KTNetworkFirewallStatusM) copier" where
  "DeepCopyInto_KTNetworkFirewallStatus = copy_struct
     (\<lambda>x. ftm_FirewallJobs x)
     (\<lambda>x a. x\<lparr>ftm_FirewallJobs := a\<rparr>)
     (copy_slice cell_Jobs as_Jobs copy_plain)"

definition read_KTNetworkFirewallStatus :: "(('m, 'l) cell, KTNetworkFirewallStatusM, KTNetworkFirewallStatus) reader" where
  "read_KTNetworkFirewallStatus = read_struct
     (\<lambda>x. ftm_FirewallJobs x)
     (\<lambda>x a. \<lparr>ft_FirewallJobs = a\<rparr>)
     (read_slice as_Jobs read_plain)"

lemma copying_KTNetworkFirewallStatus [copying_intros]: "copying DeepCopyInto_KTNetworkFirewallStatus read_KTNetworkFirewallStatus"
  unfolding DeepCopyInto_KTNetworkFirewallStatus_def read_KTNetworkFirewallStatus_def
  by (rule copying_struct, intro copying_intros cells) (simp_all split: prod.splits)

text \<open>What the contract says of each of them is at hand by name, \<open>port_copy.independent\<close> and so on.\<close>

interpretation fixedip_copy: copying "DeepCopyInto_FixedIP" read_FixedIP
  by (rule copying_FixedIP)

interpretation port_copy: copying "DeepCopyInto_Port" read_Port
  by (rule copying_Port)

interpretation spec_copy: copying "DeepCopyInto_Spec" read_Spec
  by (rule copying_Spec)

interpretation template_copy: copying "DeepCopyInto_Template" read_Template
  by (rule copying_Template)

interpretation ktmachinetemplatespec_copy: copying "DeepCopyInto_KTMachineTemplateSpec" read_KTMachineTemplateSpec
  by (rule copying_KTMachineTemplateSpec)

interpretation ktmachinespec_copy: copying "DeepCopyInto_KTMachineSpec" read_KTMachineSpec
  by (rule copying_KTMachineSpec)

interpretation flavor_copy: copying "DeepCopyInto_Flavor lib" read_Flavor for lib
  by (rule copying_Flavor)

interpretation ktmachinestatus_copy: copying "DeepCopyInto_KTMachineStatus lib" read_KTMachineStatus for lib
  by (rule copying_KTMachineStatus)

interpretation selector_copy: copying "DeepCopyInto_Selector lib" read_Selector for lib
  by (rule copying_Selector)

interpretation machinedeploymentspec_copy: copying "DeepCopyInto_MachineDeploymentSpec lib" read_MachineDeploymentSpec for lib
  by (rule copying_MachineDeploymentSpec)

interpretation firewallrules_copy: copying "DeepCopyInto_FirewallRules" read_FirewallRules
  by (rule copying_FirewallRules)

interpretation ktnetworkfirewallspec_copy: copying "DeepCopyInto_KTNetworkFirewallSpec" read_KTNetworkFirewallSpec
  by (rule copying_KTNetworkFirewallSpec)

interpretation ktnetworkfirewallstatus_copy: copying "DeepCopyInto_KTNetworkFirewallStatus" read_KTNetworkFirewallStatus
  by (rule copying_KTNetworkFirewallStatus)

text \<open>\<open>DeepCopy\<close> of these types.\<close>

definition DeepCopy_FixedIP :: "(('m, 'l) cell, addr option) copier" where
  "DeepCopy_FixedIP = deep_copy cell_FixedIP_struct as_FixedIP_struct DeepCopyInto_FixedIP"

definition DeepCopy_Port :: "(('m, 'l) cell, addr option) copier" where
  "DeepCopy_Port = deep_copy cell_Port_struct as_Port_struct DeepCopyInto_Port"

definition DeepCopy_Spec :: "(('m, 'l) cell, addr option) copier" where
  "DeepCopy_Spec = deep_copy cell_Spec_struct as_Spec_struct DeepCopyInto_Spec"

definition DeepCopy_Template :: "(('m, 'l) cell, addr option) copier" where
  "DeepCopy_Template = deep_copy cell_Template_struct as_Template_struct DeepCopyInto_Template"

definition DeepCopy_KTMachineTemplateSpec :: "(('m, 'l) cell, addr option) copier" where
  "DeepCopy_KTMachineTemplateSpec = deep_copy cell_KTMachineTemplateSpec_struct as_KTMachineTemplateSpec_struct DeepCopyInto_KTMachineTemplateSpec"

definition DeepCopy_KTMachineSpec :: "(('m, 'l) cell, addr option) copier" where
  "DeepCopy_KTMachineSpec = deep_copy cell_KTMachineSpec_struct as_KTMachineSpec_struct DeepCopyInto_KTMachineSpec"

definition DeepCopy_Flavor :: "('m, 'l, 'w) lib \<Rightarrow> (('m, 'l) cell, addr option) copier" where
  "DeepCopy_Flavor lib = deep_copy cell_Flavor_struct as_Flavor_struct (DeepCopyInto_Flavor lib)"

definition DeepCopy_KTMachineStatus :: "('m, 'l, 'w) lib \<Rightarrow> (('m, 'l) cell, addr option) copier" where
  "DeepCopy_KTMachineStatus lib = deep_copy cell_KTMachineStatus_struct as_KTMachineStatus_struct (DeepCopyInto_KTMachineStatus lib)"

definition DeepCopy_Selector :: "('m, 'l, 'w) lib \<Rightarrow> (('m, 'l) cell, addr option) copier" where
  "DeepCopy_Selector lib = deep_copy cell_Selector_struct as_Selector_struct (DeepCopyInto_Selector lib)"

definition DeepCopy_MachineDeploymentSpec :: "('m, 'l, 'w) lib \<Rightarrow> (('m, 'l) cell, addr option) copier" where
  "DeepCopy_MachineDeploymentSpec lib = deep_copy cell_MachineDeploymentSpec_struct as_MachineDeploymentSpec_struct (DeepCopyInto_MachineDeploymentSpec lib)"

definition DeepCopy_FirewallRules :: "(('m, 'l) cell, addr option) copier" where
  "DeepCopy_FirewallRules = deep_copy cell_FirewallRules_struct as_FirewallRules_struct DeepCopyInto_FirewallRules"

definition DeepCopy_KTNetworkFirewallSpec :: "(('m, 'l) cell, addr option) copier" where
  "DeepCopy_KTNetworkFirewallSpec = deep_copy cell_KTNetworkFirewallSpec_struct as_KTNetworkFirewallSpec_struct DeepCopyInto_KTNetworkFirewallSpec"

definition DeepCopy_KTNetworkFirewallStatus :: "(('m, 'l) cell, addr option) copier" where
  "DeepCopy_KTNetworkFirewallStatus = deep_copy cell_KTNetworkFirewallStatus_struct as_KTNetworkFirewallStatus_struct DeepCopyInto_KTNetworkFirewallStatus"

section \<open>Objects\<close>

text \<open>An object: the metadata, the spec and the status are copied in this order.\<close>

definition object_into :: "('m, 'l, 'w) lib \<Rightarrow> (('m, 'l) cell, 's) copier \<Rightarrow> (('m, 'l) cell, 't) copier
    \<Rightarrow> (('m, 'l) cell, ('m, 's, 't) object) copier" where
  "object_into lib cs ct = copy_struct (\<lambda>x. (ob_Meta x, ob_Spec x, ob_Status x))
     (\<lambda>x (a, b, c). x\<lparr>ob_Meta := a, ob_Spec := b, ob_Status := c\<rparr>) (copy_both (lib_meta lib) (copy_both cs ct))"

definition object_value :: "('m, 'l, 'w) lib \<Rightarrow> (('m, 'l) cell, 's, 'sv) reader \<Rightarrow> (('m, 'l) cell, 't, 'tv) reader
    \<Rightarrow> (('m, 's, 't) object \<Rightarrow> ObjectMeta \<times> 'sv \<times> 'tv \<Rightarrow> 'v) \<Rightarrow> (('m, 'l) cell, ('m, 's, 't) object, 'v) reader" where
  "object_value lib cs ct build = read_struct (\<lambda>x. (ob_Meta x, ob_Spec x, ob_Status x)) build
     (read_both (lib_read_meta lib) (read_both cs ct))"

lemma copying_object:
  assumes "lib_ok lib" and "copying cs rs" and "copying ct rt"
    and "\<And>x a b c v. build (x\<lparr>ob_Meta := a, ob_Spec := b, ob_Status := c\<rparr>) v = build x v"
  shows "copying (object_into lib cs ct) (object_value lib rs rt build)"
  unfolding object_into_def object_value_def
  by (rule copying_struct, intro copying_intros assms(1-3)) (simp_all add: assms(4) split: prod.splits)

definition DeepCopyInto_Cluster :: "('m, 'l, 'w) lib \<Rightarrow> (('m, 'l) cell, 'm ClusterM) copier" where
  "DeepCopyInto_Cluster lib = object_into lib copy_plain copy_plain"

definition read_Cluster :: "('m, 'l, 'w) lib \<Rightarrow> (('m, 'l) cell, 'm ClusterM, Cluster) reader" where
  "read_Cluster lib = object_value lib read_plain read_plain
     (\<lambda>x (a, b, c). \<lparr>cl_TypeMeta = ob_TypeMeta x, cl_Meta = a, cl_Spec = b\<rparr>)"

definition DeepCopyInto_KTCluster :: "('m, 'l, 'w) lib \<Rightarrow> (('m, 'l) cell, 'm KTClusterM) copier" where
  "DeepCopyInto_KTCluster lib = object_into lib copy_plain copy_plain"

definition read_KTCluster :: "('m, 'l, 'w) lib \<Rightarrow> (('m, 'l) cell, 'm KTClusterM, KTCluster) reader" where
  "read_KTCluster lib = object_value lib read_plain read_plain
     (\<lambda>x (a, b, c). \<lparr>kc_TypeMeta = ob_TypeMeta x, kc_Meta = a, kc_Spec = b\<rparr>)"

definition DeepCopyInto_KTMachine :: "('m, 'l, 'w) lib \<Rightarrow> (('m, 'l) cell, 'm KTMachineM) copier" where
  "DeepCopyInto_KTMachine lib = object_into lib DeepCopyInto_KTMachineSpec (DeepCopyInto_KTMachineStatus lib)"

definition read_KTMachine :: "('m, 'l, 'w) lib \<Rightarrow> (('m, 'l) cell, 'm KTMachineM, KTMachine) reader" where
  "read_KTMachine lib = object_value lib read_KTMachineSpec read_KTMachineStatus
     (\<lambda>x (a, b, c). \<lparr>m_TypeMeta = ob_TypeMeta x, m_Meta = a, m_Spec = b, m_Status = c\<rparr>)"

definition DeepCopyInto_KTMachineTemplate :: "('m, 'l, 'w) lib \<Rightarrow> (('m, 'l) cell, 'm KTMachineTemplateM) copier" where
  "DeepCopyInto_KTMachineTemplate lib = object_into lib DeepCopyInto_KTMachineTemplateSpec copy_plain"

definition read_KTMachineTemplate :: "('m, 'l, 'w) lib \<Rightarrow> (('m, 'l) cell, 'm KTMachineTemplateM, KTMachineTemplate) reader" where
  "read_KTMachineTemplate lib = object_value lib read_KTMachineTemplateSpec read_plain
     (\<lambda>x (a, b, c). \<lparr>mt_TypeMeta = ob_TypeMeta x, mt_Meta = a, mt_Spec = b\<rparr>)"

definition DeepCopyInto_KTNetworkFirewall :: "('m, 'l, 'w) lib \<Rightarrow> (('m, 'l) cell, 'm KTNetworkFirewallM) copier" where
  "DeepCopyInto_KTNetworkFirewall lib = object_into lib DeepCopyInto_KTNetworkFirewallSpec DeepCopyInto_KTNetworkFirewallStatus"

definition read_KTNetworkFirewall :: "('m, 'l, 'w) lib \<Rightarrow> (('m, 'l) cell, 'm KTNetworkFirewallM, KTNetworkFirewall) reader" where
  "read_KTNetworkFirewall lib = object_value lib read_KTNetworkFirewallSpec read_KTNetworkFirewallStatus
     (\<lambda>x (a, b, c). \<lparr>kf_TypeMeta = ob_TypeMeta x, kf_Meta = a, kf_Spec = b, kf_Status = c\<rparr>)"

definition DeepCopyInto_KTPublicNetwork :: "('m, 'l, 'w) lib \<Rightarrow> (('m, 'l) cell, 'm KTPublicNetworkM) copier" where
  "DeepCopyInto_KTPublicNetwork lib = object_into lib copy_plain copy_plain"

definition read_KTPublicNetwork :: "('m, 'l, 'w) lib \<Rightarrow> (('m, 'l) cell, 'm KTPublicNetworkM, TypeMeta \<times> ObjectMeta \<times> KTPublicNetworkSpec) reader" where
  "read_KTPublicNetwork lib = object_value lib read_plain read_plain
     (\<lambda>x (a, b, c). (ob_TypeMeta x, a, b))"

definition DeepCopyInto_KTSubjectToken :: "('m, 'l, 'w) lib \<Rightarrow> (('m, 'l) cell, 'm KTSubjectTokenM) copier" where
  "DeepCopyInto_KTSubjectToken lib = object_into lib copy_plain copy_plain"

definition read_KTSubjectToken :: "('m, 'l, 'w) lib \<Rightarrow> (('m, 'l) cell, 'm KTSubjectTokenM, KTSubjectToken) reader" where
  "read_KTSubjectToken lib = object_value lib read_plain read_plain
     (\<lambda>x (a, b, c). \<lparr>kt_TypeMeta = ob_TypeMeta x, kt_Meta = a, kt_Spec = b, kt_Status = c\<rparr>)"

definition DeepCopyInto_KubeadmConfigTemplate :: "('m, 'l, 'w) lib \<Rightarrow> (('m, 'l) cell, 'm KubeadmConfigTemplateM) copier" where
  "DeepCopyInto_KubeadmConfigTemplate lib = object_into lib copy_plain copy_plain"

definition read_KubeadmConfigTemplate :: "('m, 'l, 'w) lib \<Rightarrow> (('m, 'l) cell, 'm KubeadmConfigTemplateM, TypeMeta \<times> ObjectMeta \<times> KubeadmConfigTemplateSpec) reader" where
  "read_KubeadmConfigTemplate lib = object_value lib read_plain read_plain
     (\<lambda>x (a, b, c). (ob_TypeMeta x, a, b))"

definition DeepCopyInto_KubeadmControlPlane :: "('m, 'l, 'w) lib \<Rightarrow> (('m, 'l) cell, 'm KubeadmControlPlaneM) copier" where
  "DeepCopyInto_KubeadmControlPlane lib = object_into lib copy_plain copy_plain"

definition read_KubeadmControlPlane :: "('m, 'l, 'w) lib \<Rightarrow> (('m, 'l) cell, 'm KubeadmControlPlaneM, TypeMeta \<times> ObjectMeta \<times> KubeadmControlPlaneSpec) reader" where
  "read_KubeadmControlPlane lib = object_value lib read_plain read_plain
     (\<lambda>x (a, b, c). (ob_TypeMeta x, a, b))"

definition DeepCopyInto_MachineDeployment :: "('m, 'l, 'w) lib \<Rightarrow> (('m, 'l) cell, 'm MachineDeploymentM) copier" where
  "DeepCopyInto_MachineDeployment lib = object_into lib (DeepCopyInto_MachineDeploymentSpec lib) copy_plain"

definition read_MachineDeployment :: "('m, 'l, 'w) lib \<Rightarrow> (('m, 'l) cell, 'm MachineDeploymentM, MachineDeployment) reader" where
  "read_MachineDeployment lib = object_value lib read_MachineDeploymentSpec read_plain
     (\<lambda>x (a, b, c). \<lparr>md_TypeMeta = ob_TypeMeta x, md_Meta = a, md_Spec = b\<rparr>)"

lemma copying_objects [copying_intros]:
  assumes "lib_ok lib"
  shows "copying (DeepCopyInto_Cluster lib) (read_Cluster lib)"
    and "copying (DeepCopyInto_KTCluster lib) (read_KTCluster lib)"
    and "copying (DeepCopyInto_KTMachine lib) (read_KTMachine lib)"
    and "copying (DeepCopyInto_KTMachineTemplate lib) (read_KTMachineTemplate lib)"
    and "copying (DeepCopyInto_KTNetworkFirewall lib) (read_KTNetworkFirewall lib)"
    and "copying (DeepCopyInto_KTPublicNetwork lib) (read_KTPublicNetwork lib)"
    and "copying (DeepCopyInto_KTSubjectToken lib) (read_KTSubjectToken lib)"
    and "copying (DeepCopyInto_KubeadmConfigTemplate lib) (read_KubeadmConfigTemplate lib)"
    and "copying (DeepCopyInto_KubeadmControlPlane lib) (read_KubeadmControlPlane lib)"
    and "copying (DeepCopyInto_MachineDeployment lib) (read_MachineDeployment lib)"
  unfolding DeepCopyInto_Cluster_def read_Cluster_def DeepCopyInto_KTCluster_def read_KTCluster_def DeepCopyInto_KTMachine_def read_KTMachine_def DeepCopyInto_KTMachineTemplate_def read_KTMachineTemplate_def
    DeepCopyInto_KTNetworkFirewall_def read_KTNetworkFirewall_def DeepCopyInto_KTPublicNetwork_def read_KTPublicNetwork_def DeepCopyInto_KTSubjectToken_def read_KTSubjectToken_def
    DeepCopyInto_KubeadmConfigTemplate_def read_KubeadmConfigTemplate_def DeepCopyInto_KubeadmControlPlane_def read_KubeadmControlPlane_def DeepCopyInto_MachineDeployment_def read_MachineDeployment_def
  by (rule copying_object, rule assms, intro copying_intros cells, intro copying_intros cells, simp split: prod.splits)+

text \<open>\<open>DeepCopy\<close>, and \<open>DeepCopyObject\<close>, which returns an interface: no value at all instead of a typed nil
  pointer.\<close>

type_synonym ('m, 'l) object_copier = "addr option \<Rightarrow> ('m, 'l) cell list \<Rightarrow> ((string \<times> addr) option \<times> ('m, 'l) cell list) option"

definition deep_copy_object :: "string \<Rightarrow> (('m, 'l) cell, addr option) copier \<Rightarrow> ('m, 'l) object_copier" where
  "deep_copy_object kind copy p h = do { (c, h) \<leftarrow> copy p h; Some (map_option (Pair kind) c, h) }"

definition DeepCopy_Cluster :: "('m, 'l, 'w) lib \<Rightarrow> (('m, 'l) cell, addr option) copier" where
  "DeepCopy_Cluster lib = deep_copy cell_Cluster_object as_Cluster_object (DeepCopyInto_Cluster lib)"

definition DeepCopyObject_Cluster :: "('m, 'l, 'w) lib \<Rightarrow> ('m, 'l) object_copier" where
  "DeepCopyObject_Cluster lib = deep_copy_object ''Cluster'' (DeepCopy_Cluster lib)"

definition DeepCopy_KTCluster :: "('m, 'l, 'w) lib \<Rightarrow> (('m, 'l) cell, addr option) copier" where
  "DeepCopy_KTCluster lib = deep_copy cell_KTCluster_object as_KTCluster_object (DeepCopyInto_KTCluster lib)"

definition DeepCopyObject_KTCluster :: "('m, 'l, 'w) lib \<Rightarrow> ('m, 'l) object_copier" where
  "DeepCopyObject_KTCluster lib = deep_copy_object ''KTCluster'' (DeepCopy_KTCluster lib)"

definition DeepCopy_KTMachine :: "('m, 'l, 'w) lib \<Rightarrow> (('m, 'l) cell, addr option) copier" where
  "DeepCopy_KTMachine lib = deep_copy cell_KTMachine_object as_KTMachine_object (DeepCopyInto_KTMachine lib)"

definition DeepCopyObject_KTMachine :: "('m, 'l, 'w) lib \<Rightarrow> ('m, 'l) object_copier" where
  "DeepCopyObject_KTMachine lib = deep_copy_object ''KTMachine'' (DeepCopy_KTMachine lib)"

definition DeepCopy_KTMachineTemplate :: "('m, 'l, 'w) lib \<Rightarrow> (('m, 'l) cell, addr option) copier" where
  "DeepCopy_KTMachineTemplate lib = deep_copy cell_KTMachineTemplate_object as_KTMachineTemplate_object (DeepCopyInto_KTMachineTemplate lib)"

definition DeepCopyObject_KTMachineTemplate :: "('m, 'l, 'w) lib \<Rightarrow> ('m, 'l) object_copier" where
  "DeepCopyObject_KTMachineTemplate lib = deep_copy_object ''KTMachineTemplate'' (DeepCopy_KTMachineTemplate lib)"

definition DeepCopy_KTNetworkFirewall :: "('m, 'l, 'w) lib \<Rightarrow> (('m, 'l) cell, addr option) copier" where
  "DeepCopy_KTNetworkFirewall lib = deep_copy cell_KTNetworkFirewall_object as_KTNetworkFirewall_object (DeepCopyInto_KTNetworkFirewall lib)"

definition DeepCopyObject_KTNetworkFirewall :: "('m, 'l, 'w) lib \<Rightarrow> ('m, 'l) object_copier" where
  "DeepCopyObject_KTNetworkFirewall lib = deep_copy_object ''KTNetworkFirewall'' (DeepCopy_KTNetworkFirewall lib)"

definition DeepCopy_KTPublicNetwork :: "('m, 'l, 'w) lib \<Rightarrow> (('m, 'l) cell, addr option) copier" where
  "DeepCopy_KTPublicNetwork lib = deep_copy cell_KTPublicNetwork_object as_KTPublicNetwork_object (DeepCopyInto_KTPublicNetwork lib)"

definition DeepCopyObject_KTPublicNetwork :: "('m, 'l, 'w) lib \<Rightarrow> ('m, 'l) object_copier" where
  "DeepCopyObject_KTPublicNetwork lib = deep_copy_object ''KTPublicNetwork'' (DeepCopy_KTPublicNetwork lib)"

definition DeepCopy_KTSubjectToken :: "('m, 'l, 'w) lib \<Rightarrow> (('m, 'l) cell, addr option) copier" where
  "DeepCopy_KTSubjectToken lib = deep_copy cell_KTSubjectToken_object as_KTSubjectToken_object (DeepCopyInto_KTSubjectToken lib)"

definition DeepCopyObject_KTSubjectToken :: "('m, 'l, 'w) lib \<Rightarrow> ('m, 'l) object_copier" where
  "DeepCopyObject_KTSubjectToken lib = deep_copy_object ''KTSubjectToken'' (DeepCopy_KTSubjectToken lib)"

definition DeepCopy_KubeadmConfigTemplate :: "('m, 'l, 'w) lib \<Rightarrow> (('m, 'l) cell, addr option) copier" where
  "DeepCopy_KubeadmConfigTemplate lib = deep_copy cell_KubeadmConfigTemplate_object as_KubeadmConfigTemplate_object (DeepCopyInto_KubeadmConfigTemplate lib)"

definition DeepCopyObject_KubeadmConfigTemplate :: "('m, 'l, 'w) lib \<Rightarrow> ('m, 'l) object_copier" where
  "DeepCopyObject_KubeadmConfigTemplate lib = deep_copy_object ''KubeadmConfigTemplate'' (DeepCopy_KubeadmConfigTemplate lib)"

definition DeepCopy_KubeadmControlPlane :: "('m, 'l, 'w) lib \<Rightarrow> (('m, 'l) cell, addr option) copier" where
  "DeepCopy_KubeadmControlPlane lib = deep_copy cell_KubeadmControlPlane_object as_KubeadmControlPlane_object (DeepCopyInto_KubeadmControlPlane lib)"

definition DeepCopyObject_KubeadmControlPlane :: "('m, 'l, 'w) lib \<Rightarrow> ('m, 'l) object_copier" where
  "DeepCopyObject_KubeadmControlPlane lib = deep_copy_object ''KubeadmControlPlane'' (DeepCopy_KubeadmControlPlane lib)"

definition DeepCopy_MachineDeployment :: "('m, 'l, 'w) lib \<Rightarrow> (('m, 'l) cell, addr option) copier" where
  "DeepCopy_MachineDeployment lib = deep_copy cell_MachineDeployment_object as_MachineDeployment_object (DeepCopyInto_MachineDeployment lib)"

definition DeepCopyObject_MachineDeployment :: "('m, 'l, 'w) lib \<Rightarrow> ('m, 'l) object_copier" where
  "DeepCopyObject_MachineDeployment lib = deep_copy_object ''MachineDeployment'' (DeepCopy_MachineDeployment lib)"

section \<open>Lists of objects\<close>

definition list_into :: "('m, 'l, 'w) lib \<Rightarrow> (('m, 'l) cell, slice option) copier \<Rightarrow> (('m, 'l) cell, 'l object_list) copier" where
  "list_into lib items = copy_struct (\<lambda>x. (ol_Meta x, ol_Items x)) (\<lambda>x (a, b). x\<lparr>ol_Meta := a, ol_Items := b\<rparr>)
     (copy_both (lib_list_meta lib) items)"

definition list_value :: "('m, 'l, 'w) lib \<Rightarrow> (('m, 'l) cell, slice option, 'v list) reader
    \<Rightarrow> (('m, 'l) cell, 'l object_list, TypeMeta \<times> 'w \<times> 'v list) reader" where
  "list_value lib items = read_struct (\<lambda>x. (ol_Meta x, ol_Items x)) (\<lambda>x (a, b). (ol_TypeMeta x, a, b))
     (read_both (lib_read_list_meta lib) items)"

lemma copying_list:
  assumes "lib_ok lib" and "copying items ritems"
  shows "copying (list_into lib items) (list_value lib ritems)"
  unfolding list_into_def list_value_def
  by (rule copying_struct, intro copying_intros assms) (simp_all split: prod.splits)

definition DeepCopyInto_ClusterList :: "('m, 'l, 'w) lib \<Rightarrow> (('m, 'l) cell, 'l object_list) copier" where
  "DeepCopyInto_ClusterList lib = list_into lib (copy_slice cell_Cluster_items as_Cluster_items (DeepCopyInto_Cluster lib))"

definition DeepCopyInto_KTClusterList :: "('m, 'l, 'w) lib \<Rightarrow> (('m, 'l) cell, 'l object_list) copier" where
  "DeepCopyInto_KTClusterList lib = list_into lib (copy_slice cell_KTCluster_items as_KTCluster_items (DeepCopyInto_KTCluster lib))"

definition DeepCopyInto_KTMachineList :: "('m, 'l, 'w) lib \<Rightarrow> (('m, 'l) cell, 'l object_list) copier" where
  "DeepCopyInto_KTMachineList lib = list_into lib (copy_slice cell_KTMachine_items as_KTMachine_items (DeepCopyInto_KTMachine lib))"

definition DeepCopyInto_KTMachineTemplateList :: "('m, 'l, 'w) lib \<Rightarrow> (('m, 'l) cell, 'l object_list) copier" where
  "DeepCopyInto_KTMachineTemplateList lib = list_into lib (copy_slice cell_KTMachineTemplate_items as_KTMachineTemplate_items (DeepCopyInto_KTMachineTemplate lib))"

definition DeepCopyInto_KTNetworkFirewallList :: "('m, 'l, 'w) lib \<Rightarrow> (('m, 'l) cell, 'l object_list) copier" where
  "DeepCopyInto_KTNetworkFirewallList lib = list_into lib (copy_slice cell_KTNetworkFirewall_items as_KTNetworkFirewall_items (DeepCopyInto_KTNetworkFirewall lib))"

definition DeepCopyInto_KTPublicNetworkList :: "('m, 'l, 'w) lib \<Rightarrow> (('m, 'l) cell, 'l object_list) copier" where
  "DeepCopyInto_KTPublicNetworkList lib = list_into lib (copy_slice cell_KTPublicNetwork_items as_KTPublicNetwork_items (DeepCopyInto_KTPublicNetwork lib))"

definition DeepCopyInto_KTSubjectTokenList :: "('m, 'l, 'w) lib \<Rightarrow> (('m, 'l) cell, 'l object_list) copier" where
  "DeepCopyInto_KTSubjectTokenList lib = list_into lib (copy_slice cell_KTSubjectToken_items as_KTSubjectToken_items (DeepCopyInto_KTSubjectToken lib))"

definition DeepCopyInto_KubeadmConfigTemplateList :: "('m, 'l, 'w) lib \<Rightarrow> (('m, 'l) cell, 'l object_list) copier" where
  "DeepCopyInto_KubeadmConfigTemplateList lib = list_into lib (copy_slice cell_KubeadmConfigTemplate_items as_KubeadmConfigTemplate_items (DeepCopyInto_KubeadmConfigTemplate lib))"

definition DeepCopyInto_KubeadmControlPlaneList :: "('m, 'l, 'w) lib \<Rightarrow> (('m, 'l) cell, 'l object_list) copier" where
  "DeepCopyInto_KubeadmControlPlaneList lib = list_into lib (copy_slice cell_KubeadmControlPlane_items as_KubeadmControlPlane_items (DeepCopyInto_KubeadmControlPlane lib))"

definition DeepCopyInto_MachineDeploymentList :: "('m, 'l, 'w) lib \<Rightarrow> (('m, 'l) cell, 'l object_list) copier" where
  "DeepCopyInto_MachineDeploymentList lib = list_into lib (copy_slice cell_MachineDeployment_items as_MachineDeployment_items (DeepCopyInto_MachineDeployment lib))"

text \<open>What a list of each kind denotes.\<close>

definition "read_ClusterList lib = list_value lib (read_slice as_Cluster_items (read_Cluster lib))"
definition "read_KTClusterList lib = list_value lib (read_slice as_KTCluster_items (read_KTCluster lib))"
definition "read_KTMachineList lib = list_value lib (read_slice as_KTMachine_items (read_KTMachine lib))"
definition "read_KTMachineTemplateList lib = list_value lib (read_slice as_KTMachineTemplate_items (read_KTMachineTemplate lib))"
definition "read_KTNetworkFirewallList lib = list_value lib (read_slice as_KTNetworkFirewall_items (read_KTNetworkFirewall lib))"
definition "read_KTPublicNetworkList lib = list_value lib (read_slice as_KTPublicNetwork_items (read_KTPublicNetwork lib))"
definition "read_KTSubjectTokenList lib = list_value lib (read_slice as_KTSubjectToken_items (read_KTSubjectToken lib))"
definition "read_KubeadmConfigTemplateList lib = list_value lib (read_slice as_KubeadmConfigTemplate_items (read_KubeadmConfigTemplate lib))"
definition "read_KubeadmControlPlaneList lib = list_value lib (read_slice as_KubeadmControlPlane_items (read_KubeadmControlPlane lib))"
definition "read_MachineDeploymentList lib = list_value lib (read_slice as_MachineDeployment_items (read_MachineDeployment lib))"

lemma copying_lists [copying_intros]:
  assumes "lib_ok lib"
  shows "copying (DeepCopyInto_ClusterList lib) (read_ClusterList lib)"
    and "copying (DeepCopyInto_KTClusterList lib) (read_KTClusterList lib)"
    and "copying (DeepCopyInto_KTMachineList lib) (read_KTMachineList lib)"
    and "copying (DeepCopyInto_KTMachineTemplateList lib) (read_KTMachineTemplateList lib)"
    and "copying (DeepCopyInto_KTNetworkFirewallList lib) (read_KTNetworkFirewallList lib)"
    and "copying (DeepCopyInto_KTPublicNetworkList lib) (read_KTPublicNetworkList lib)"
    and "copying (DeepCopyInto_KTSubjectTokenList lib) (read_KTSubjectTokenList lib)"
    and "copying (DeepCopyInto_KubeadmConfigTemplateList lib) (read_KubeadmConfigTemplateList lib)"
    and "copying (DeepCopyInto_KubeadmControlPlaneList lib) (read_KubeadmControlPlaneList lib)"
    and "copying (DeepCopyInto_MachineDeploymentList lib) (read_MachineDeploymentList lib)"
  unfolding DeepCopyInto_ClusterList_def read_ClusterList_def DeepCopyInto_KTClusterList_def read_KTClusterList_def DeepCopyInto_KTMachineList_def read_KTMachineList_def DeepCopyInto_KTMachineTemplateList_def read_KTMachineTemplateList_def
    DeepCopyInto_KTNetworkFirewallList_def read_KTNetworkFirewallList_def DeepCopyInto_KTPublicNetworkList_def read_KTPublicNetworkList_def DeepCopyInto_KTSubjectTokenList_def read_KTSubjectTokenList_def
    DeepCopyInto_KubeadmConfigTemplateList_def read_KubeadmConfigTemplateList_def DeepCopyInto_KubeadmControlPlaneList_def read_KubeadmControlPlaneList_def DeepCopyInto_MachineDeploymentList_def read_MachineDeploymentList_def
  by (intro copying_list assms copying_slice copying_objects cells)+

definition DeepCopy_ClusterList :: "('m, 'l, 'w) lib \<Rightarrow> (('m, 'l) cell, addr option) copier" where
  "DeepCopy_ClusterList lib = deep_copy cell_Cluster_list as_Cluster_list (DeepCopyInto_ClusterList lib)"

definition DeepCopyObject_ClusterList :: "('m, 'l, 'w) lib \<Rightarrow> ('m, 'l) object_copier" where
  "DeepCopyObject_ClusterList lib = deep_copy_object ''ClusterList'' (DeepCopy_ClusterList lib)"

definition DeepCopy_KTClusterList :: "('m, 'l, 'w) lib \<Rightarrow> (('m, 'l) cell, addr option) copier" where
  "DeepCopy_KTClusterList lib = deep_copy cell_KTCluster_list as_KTCluster_list (DeepCopyInto_KTClusterList lib)"

definition DeepCopyObject_KTClusterList :: "('m, 'l, 'w) lib \<Rightarrow> ('m, 'l) object_copier" where
  "DeepCopyObject_KTClusterList lib = deep_copy_object ''KTClusterList'' (DeepCopy_KTClusterList lib)"

definition DeepCopy_KTMachineList :: "('m, 'l, 'w) lib \<Rightarrow> (('m, 'l) cell, addr option) copier" where
  "DeepCopy_KTMachineList lib = deep_copy cell_KTMachine_list as_KTMachine_list (DeepCopyInto_KTMachineList lib)"

definition DeepCopyObject_KTMachineList :: "('m, 'l, 'w) lib \<Rightarrow> ('m, 'l) object_copier" where
  "DeepCopyObject_KTMachineList lib = deep_copy_object ''KTMachineList'' (DeepCopy_KTMachineList lib)"

definition DeepCopy_KTMachineTemplateList :: "('m, 'l, 'w) lib \<Rightarrow> (('m, 'l) cell, addr option) copier" where
  "DeepCopy_KTMachineTemplateList lib = deep_copy cell_KTMachineTemplate_list as_KTMachineTemplate_list (DeepCopyInto_KTMachineTemplateList lib)"

definition DeepCopyObject_KTMachineTemplateList :: "('m, 'l, 'w) lib \<Rightarrow> ('m, 'l) object_copier" where
  "DeepCopyObject_KTMachineTemplateList lib = deep_copy_object ''KTMachineTemplateList'' (DeepCopy_KTMachineTemplateList lib)"

definition DeepCopy_KTNetworkFirewallList :: "('m, 'l, 'w) lib \<Rightarrow> (('m, 'l) cell, addr option) copier" where
  "DeepCopy_KTNetworkFirewallList lib = deep_copy cell_KTNetworkFirewall_list as_KTNetworkFirewall_list (DeepCopyInto_KTNetworkFirewallList lib)"

definition DeepCopyObject_KTNetworkFirewallList :: "('m, 'l, 'w) lib \<Rightarrow> ('m, 'l) object_copier" where
  "DeepCopyObject_KTNetworkFirewallList lib = deep_copy_object ''KTNetworkFirewallList'' (DeepCopy_KTNetworkFirewallList lib)"

definition DeepCopy_KTPublicNetworkList :: "('m, 'l, 'w) lib \<Rightarrow> (('m, 'l) cell, addr option) copier" where
  "DeepCopy_KTPublicNetworkList lib = deep_copy cell_KTPublicNetwork_list as_KTPublicNetwork_list (DeepCopyInto_KTPublicNetworkList lib)"

definition DeepCopyObject_KTPublicNetworkList :: "('m, 'l, 'w) lib \<Rightarrow> ('m, 'l) object_copier" where
  "DeepCopyObject_KTPublicNetworkList lib = deep_copy_object ''KTPublicNetworkList'' (DeepCopy_KTPublicNetworkList lib)"

definition DeepCopy_KTSubjectTokenList :: "('m, 'l, 'w) lib \<Rightarrow> (('m, 'l) cell, addr option) copier" where
  "DeepCopy_KTSubjectTokenList lib = deep_copy cell_KTSubjectToken_list as_KTSubjectToken_list (DeepCopyInto_KTSubjectTokenList lib)"

definition DeepCopyObject_KTSubjectTokenList :: "('m, 'l, 'w) lib \<Rightarrow> ('m, 'l) object_copier" where
  "DeepCopyObject_KTSubjectTokenList lib = deep_copy_object ''KTSubjectTokenList'' (DeepCopy_KTSubjectTokenList lib)"

definition DeepCopy_KubeadmConfigTemplateList :: "('m, 'l, 'w) lib \<Rightarrow> (('m, 'l) cell, addr option) copier" where
  "DeepCopy_KubeadmConfigTemplateList lib = deep_copy cell_KubeadmConfigTemplate_list as_KubeadmConfigTemplate_list (DeepCopyInto_KubeadmConfigTemplateList lib)"

definition DeepCopyObject_KubeadmConfigTemplateList :: "('m, 'l, 'w) lib \<Rightarrow> ('m, 'l) object_copier" where
  "DeepCopyObject_KubeadmConfigTemplateList lib = deep_copy_object ''KubeadmConfigTemplateList'' (DeepCopy_KubeadmConfigTemplateList lib)"

definition DeepCopy_KubeadmControlPlaneList :: "('m, 'l, 'w) lib \<Rightarrow> (('m, 'l) cell, addr option) copier" where
  "DeepCopy_KubeadmControlPlaneList lib = deep_copy cell_KubeadmControlPlane_list as_KubeadmControlPlane_list (DeepCopyInto_KubeadmControlPlaneList lib)"

definition DeepCopyObject_KubeadmControlPlaneList :: "('m, 'l, 'w) lib \<Rightarrow> ('m, 'l) object_copier" where
  "DeepCopyObject_KubeadmControlPlaneList lib = deep_copy_object ''KubeadmControlPlaneList'' (DeepCopy_KubeadmControlPlaneList lib)"

definition DeepCopy_MachineDeploymentList :: "('m, 'l, 'w) lib \<Rightarrow> (('m, 'l) cell, addr option) copier" where
  "DeepCopy_MachineDeploymentList lib = deep_copy cell_MachineDeployment_list as_MachineDeployment_list (DeepCopyInto_MachineDeploymentList lib)"

definition DeepCopyObject_MachineDeploymentList :: "('m, 'l, 'w) lib \<Rightarrow> ('m, 'l) object_copier" where
  "DeepCopyObject_MachineDeploymentList lib = deep_copy_object ''MachineDeploymentList'' (DeepCopy_MachineDeploymentList lib)"

section \<open>Independence\<close>

text \<open>What \<open>DeepCopyObject\<close> promises for any object or list: the same value, and memory of its own.\<close>

lemma deep_copy_object_independent:
  assumes "cell mk prj" and "copying into rd" and "read_object prj rd h p = Some v"
  shows "\<exists>q h'. deep_copy_object kind (deep_copy mk prj into) p h = Some (map_option (Pair kind) q, h')
    \<and> (q = None \<longleftrightarrow> p = None) \<and> read_object prj rd h' q = Some v \<and> read_object prj rd h' p = Some v
    \<and> (\<forall>a c. a < length h \<longrightarrow> read_object prj rd (h'[a := c]) q = Some v)
    \<and> (\<forall>a c. length h \<le> a \<longrightarrow> read_object prj rd (h'[a := c]) p = Some v)"
proof -
  obtain q h' where q: "deep_copy mk prj into p h = Some (q, h')" and r: "read_object prj rd h' q = Some v"
      "read_object prj rd h' p = Some v" "\<forall>a c. a < length h \<longrightarrow> read_object prj rd (h'[a := c]) q = Some v"
      "\<forall>a c. length h \<le> a \<longrightarrow> read_object prj rd (h'[a := c]) p = Some v"
    using copying.independent [OF copying_deep [OF assms(1,2)] assms(3)] by blast
  have "q = None \<longleftrightarrow> p = None"
    using q by (auto simp: deep_copy_def bind_eq_Some_conv split: option.splits)
  with q r show ?thesis by (intro exI [of _ q] exI [of _ h']) (simp add: deep_copy_object_def)
qed

text \<open>C14: Copying a machine (\<open>DeepCopyObject\<close>, which the Kubernetes client calls on the object it
  caches) gives a machine of the same value, nil for nil, and the two are independent: no write to
  memory there was before reaches the copy, and no write to the copy's memory reaches the original.\<close>

theorem machine_copy_independent:
  assumes "lib_ok lib" and "read_object as_KTMachine_object (read_KTMachine lib) h p = Some v"
  shows "\<exists>q h'. DeepCopyObject_KTMachine lib p h = Some (map_option (Pair ''KTMachine'') q, h')
    \<and> (q = None \<longleftrightarrow> p = None)
    \<and> read_object as_KTMachine_object (read_KTMachine lib) h' q = Some v
    \<and> (\<forall>a c. a < length h \<longrightarrow> read_object as_KTMachine_object (read_KTMachine lib) (h'[a := c]) q = Some v)
    \<and> (\<forall>a c. length h \<le> a \<longrightarrow> read_object as_KTMachine_object (read_KTMachine lib) (h'[a := c]) p = Some v)"
  using deep_copy_object_independent [OF object_cells(3) copying_objects(3) [OF assms(1)] assms(2), of "''KTMachine''"]
  unfolding DeepCopyObject_KTMachine_def DeepCopy_KTMachine_def by blast

text \<open>A library, a memory and a machine in it: the metadata is a name and a map of labels.\<close>

definition sample_lib :: "(string \<times> addr option, unit, unit) lib" where
  "sample_lib = \<lparr>lib_meta = copy_struct snd (\<lambda>x a. (fst x, a)) (copy_map rev cell_StringMap as_StringMap copy_plain),
     lib_read_meta = read_struct snd (\<lambda>x a. zero_ObjectMeta\<lparr>om_Name := fst x, om_Labels := Some a\<rparr>) (read_map as_StringMap read_plain),
     lib_list_meta = copy_plain, lib_read_list_meta = read_plain, lib_visit = rev\<rparr>"

lemma sample_lib_ok: "lib_ok sample_lib"
  unfolding lib_ok_def sample_lib_def lib.simps
  by (intro conjI copying_plain, rule copying_struct, intro copying_intros cells) simp_all

definition sample_status_mem :: KTMachineStatusM where
  "sample_status_mem = \<lparr>stm_ID = '''', stm_AdminPass = '''', stm_Links = None, stm_SecurityGroups = None,
     stm_AssignedPublicIps = None, stm_TenantID = '''', stm_Addresses = None, stm_TaskState = Some 3,
     stm_Description = None, stm_DiskConfig = '''', stm_TrustedImageCerts = None,
     stm_AvailabilityZone = '''', stm_PowerState = 0, stm_VolumesAttached = None, stm_Locked = False,
     stm_Image = '''', stm_AccessIPv4 = '''', stm_AccessIPv6 = '''', stm_Created = '''', stm_HostID = '''',
     stm_Tags = Some \<lparr>sc_array = 2, sc_off = 1, sc_len = 1\<rparr>,
     stm_Flavor = \<lparr>flm_Disk = 0, flm_Swap = 0, flm_Original = '''', flm_ExtraSpecs = None, flm_Ephemeral = 0,
       flm_VCPUs = 0, flm_RAM = 0\<rparr>,
     stm_KeyName = '''', stm_VMState = '''', stm_UserID = '''', stm_Name = '''', stm_Progress = 0,
     stm_LaunchedAt = '''', stm_Updated = '''', stm_Status = '''', stm_TerminatedAt = None, stm_ConfigDrive = '''',
     stm_ControlPlaneRef = zero_ControlPlaneRef, stm_WorkerRef = zero_WorkerRef\<rparr>"

definition sample_spec_mem :: KTMachineSpecM where
  "sample_spec_mem = \<lparr>ksm_ClusterName = '''', ksm_Flavor = '''', ksm_SSHKeyName = '''', ksm_BlockDeviceMapping = None,
     ksm_NetworkTier = None, ksm_Networks = None, ksm_Ports = None, ksm_AvailabilityZone = '''',
     ksm_UserData = '''', ksm_ControlPlaneNumber = 0\<rparr>"

definition sample_mem :: "(string \<times> addr option, unit) cell list" where
  "sample_mem = [cell_KTMachine_object \<lparr>ob_TypeMeta = zero_TypeMeta, ob_Meta = (''m'', Some 1), ob_Spec = sample_spec_mem,
       ob_Status = sample_status_mem\<rparr>,
     cell_StringMap [(''a'', ''b'')], cell_Strings [''old'', ''tag''], cell_String ''task'']"

definition sample_mem_machine :: KTMachine where
  "sample_mem_machine = zero_KTMachine\<lparr>m_Meta := zero_ObjectMeta\<lparr>om_Name := ''m'', om_Labels := Some [(''a'', ''b'')]\<rparr>,
     m_Status := zero_KTMachineStatus\<lparr>st_TaskState := Some ''task'', st_Tags := [''tag'']\<rparr>\<rparr>"

lemma sample_mem_reads:
  "read_object as_KTMachine_object (read_KTMachine sample_lib) sample_mem (Some 0) = Some (Some sample_mem_machine)"
  by (simp add: read_object_def deref_def sample_mem_def as_object_def read_KTMachine_def object_value_def read_struct_def
      read_both_def sample_lib_def read_map_def as_value_def read_entry_def read_plain_def read_KTMachineSpec_def sample_spec_mem_def
      read_slice_def read_KTMachineStatus_def sample_status_mem_def read_pointer_def elements_def read_Flavor_def read_elements_def
      sample_mem_machine_def zero_KTMachine_def zero_KTMachineSpec_def zero_KTMachineStatus_def zero_Flavor_def)

theorem machine_copy_independent_witness:
  "\<exists>q h'. DeepCopyObject_KTMachine sample_lib (Some 0) sample_mem = Some (Some (''KTMachine'', q), h')
    \<and> read_object as_KTMachine_object (read_KTMachine sample_lib) (h'[3 := cell_String ''gone'']) (Some q)
      = Some (Some sample_mem_machine)"
proof -
  from machine_copy_independent [OF sample_lib_ok sample_mem_reads] obtain q h' where
    q: "DeepCopyObject_KTMachine sample_lib (Some 0) sample_mem = Some (map_option (Pair ''KTMachine'') q, h')" "q \<noteq> None"
      "\<forall>a c. a < length sample_mem \<longrightarrow> read_object as_KTMachine_object (read_KTMachine sample_lib) (h'[a := c]) q
        = Some (Some sample_mem_machine)"
    by auto
  moreover have "3 < length sample_mem" by (simp add: sample_mem_def)
  ultimately show ?thesis by auto
qed

text \<open>Copying a list of machines copies every machine of the list: the copy denotes the same
  machines in the same order, and shares no memory with the list or with any of its machines.\<close>

theorem machine_list_copy_independent:
  assumes "lib_ok lib" and "read_object as_KTMachine_list (read_KTMachineList lib) h p = Some v"
  shows "\<exists>q h'. DeepCopyObject_KTMachineList lib p h = Some (map_option (Pair ''KTMachineList'') q, h')
    \<and> (q = None \<longleftrightarrow> p = None)
    \<and> read_object as_KTMachine_list (read_KTMachineList lib) h' q = Some v
    \<and> (\<forall>a c. a < length h \<longrightarrow> read_object as_KTMachine_list (read_KTMachineList lib) (h'[a := c]) q = Some v)
    \<and> (\<forall>a c. length h \<le> a \<longrightarrow> read_object as_KTMachine_list (read_KTMachineList lib) (h'[a := c]) p = Some v)"
  using deep_copy_object_independent [OF list_cells(3) copying_lists(3) [OF assms(1)] assms(2), of "''KTMachineList''"]
  unfolding DeepCopyObject_KTMachineList_def DeepCopy_KTMachineList_def by blast

definition sample_list_mem :: "(string \<times> addr option, unit) cell list" where
  "sample_list_mem = sample_mem @ [cell_KTMachine_items [\<lparr>ob_TypeMeta = zero_TypeMeta, ob_Meta = (''m'', Some 1), ob_Spec = sample_spec_mem,
       ob_Status = sample_status_mem\<rparr>],
     cell_KTMachine_list \<lparr>ol_TypeMeta = zero_TypeMeta, ol_Meta = (), ol_Items = Some \<lparr>sc_array = 4, sc_off = 0, sc_len = 1\<rparr>\<rparr>]"

theorem machine_list_copy_independent_witness:
  "\<exists>q h'. DeepCopyObject_KTMachineList sample_lib (Some 5) sample_list_mem = Some (Some (''KTMachineList'', q), h')
    \<and> read_object as_KTMachine_list (read_KTMachineList sample_lib) (h'[2 := cell_Strings []]) (Some q)
      = Some (Some (zero_TypeMeta, (), [sample_mem_machine]))"
proof -
  have "read_object as_KTMachine_list (read_KTMachineList sample_lib) sample_list_mem (Some 5)
      = Some (Some (zero_TypeMeta, (), [sample_mem_machine]))"
    by (simp add: read_object_def deref_def sample_list_mem_def sample_mem_def as_object_def as_items_def as_list_def
        read_KTMachineList_def list_value_def read_KTMachine_def object_value_def read_struct_def
        read_both_def sample_lib_def read_map_def as_value_def read_entry_def read_plain_def read_KTMachineSpec_def sample_spec_mem_def
        read_slice_def read_KTMachineStatus_def sample_status_mem_def read_pointer_def elements_def read_Flavor_def read_elements_def
        sample_mem_machine_def zero_KTMachine_def zero_KTMachineSpec_def zero_KTMachineStatus_def zero_Flavor_def)
  from machine_list_copy_independent [OF sample_lib_ok this] obtain q h' where
    q: "DeepCopyObject_KTMachineList sample_lib (Some 5) sample_list_mem = Some (map_option (Pair ''KTMachineList'') q, h')" "q \<noteq> None"
      "\<forall>a c. a < length sample_list_mem \<longrightarrow> read_object as_KTMachine_list (read_KTMachineList sample_lib) (h'[a := c]) q
        = Some (Some (zero_TypeMeta, (), [sample_mem_machine]))"
    by auto
  moreover have "2 < length sample_list_mem" by (simp add: sample_list_mem_def sample_mem_def)
  ultimately show ?thesis by auto
qed

end
