(* ===== verification/Registration.thy ===== *)
theory Registration
  imports Services Startup
begin

text \<open>
  What runs before \<open>main\<close>: the \<open>init\<close> functions of \<^verbatim>\<open>api/v1beta1\<close>, which collect the types of the API
  for the scheme, the scheme of \<^verbatim>\<open>cmd/main.go\<close>, and \<open>ProcessEnvVariables\<close> of \<^verbatim>\<open>cmd/httpapi\<close>, which reads
  the configuration. \<open>envconfig\<close>, \<open>zap\<close> and the part of the scheme that Kubernetes adds are parameters.
\<close>

section \<open>The scheme\<close>

text \<open>Each \<open>init\<close> appends an object type and its list to \<open>objectTypes\<close>.\<close>

definition init_cluster :: "string list \<Rightarrow> string list" where
  "init_cluster objectTypes = objectTypes @ [''Cluster'', ''ClusterList'']"

definition init_ktcluster :: "string list \<Rightarrow> string list" where
  "init_ktcluster objectTypes = objectTypes @ [''KTCluster'', ''KTClusterList'']"

definition init_ktmachine :: "string list \<Rightarrow> string list" where
  "init_ktmachine objectTypes = objectTypes @ [''KTMachine'', ''KTMachineList'']"

definition init_ktmachinetemplate :: "string list \<Rightarrow> string list" where
  "init_ktmachinetemplate objectTypes = objectTypes @ [''KTMachineTemplate'', ''KTMachineTemplateList'']"

definition init_ktnetworkfirewall :: "string list \<Rightarrow> string list" where
  "init_ktnetworkfirewall objectTypes = objectTypes @ [''KTNetworkFirewall'', ''KTNetworkFirewallList'']"

definition init_ktpublicnetwork :: "string list \<Rightarrow> string list" where
  "init_ktpublicnetwork objectTypes = objectTypes @ [''KTPublicNetwork'', ''KTPublicNetworkList'']"

definition init_ktsubjecttoken :: "string list \<Rightarrow> string list" where
  "init_ktsubjecttoken objectTypes = objectTypes @ [''KTSubjectToken'', ''KTSubjectTokenList'']"

definition init_kubeadmconfigtemplate :: "string list \<Rightarrow> string list" where
  "init_kubeadmconfigtemplate objectTypes = objectTypes @ [''KubeadmConfigTemplate'', ''KubeadmConfigTemplateList'']"

definition init_kubeadmcontrolplane :: "string list \<Rightarrow> string list" where
  "init_kubeadmcontrolplane objectTypes = objectTypes @ [''KubeadmControlPlane'', ''KubeadmControlPlaneList'']"

definition init_machinedeployment :: "string list \<Rightarrow> string list" where
  "init_machinedeployment objectTypes = objectTypes @ [''MachineDeployment'', ''MachineDeploymentList'']"

text \<open>Go runs the \<open>init\<close> functions of a package in the order of its files.\<close>

definition objectTypes :: "string list" where
  "objectTypes = fold (\<lambda>f. f) [init_cluster, init_ktcluster, init_ktmachine, init_ktmachinetemplate, init_ktnetworkfirewall,
     init_ktpublicnetwork, init_ktsubjecttoken, init_kubeadmconfigtemplate, init_kubeadmcontrolplane, init_machinedeployment] []"

type_synonym gvk = "(string \<times> string) \<times> string"

definition SchemeGroupVersion :: "string \<times> string" where
  "SchemeGroupVersion = (''infrastructure.dcnlab.ssu.ac.kr'', ''v1beta1'')"

definition addKnownTypes :: "(string \<times> string \<Rightarrow> gvk list \<Rightarrow> gvk list) \<Rightarrow> gvk list \<Rightarrow> gerror + gvk list" where
  "addKnownTypes add_meta scheme = Inr (add_meta SchemeGroupVersion (scheme @ map (Pair SchemeGroupVersion) objectTypes))"

text \<open>\<open>init\<close> of \<^verbatim>\<open>main.go\<close>: \<open>Must\<close> panics on an error.\<close>

definition init_scheme :: "(gvk list \<Rightarrow> gerror + gvk list) \<Rightarrow> (string \<times> string \<Rightarrow> gvk list \<Rightarrow> gvk list) \<Rightarrow> stop + gvk list" where
  "init_scheme client_go add_meta = (case client_go [] of Inl e \<Rightarrow> Inl (Panicked (error_text e))
     | Inr scheme \<Rightarrow> (case addKnownTypes add_meta scheme of Inl e \<Rightarrow> Inl (Panicked (error_text e)) | Inr s \<Rightarrow> Inr s))"

text \<open>Every kind a controller is for or owns is in the scheme together with its list, so the client
  can read and list it; and no type is registered twice.\<close>

lemma kinds_registered:
  assumes "\<And>gv s. set s \<subseteq> set (add_meta gv s)" and "init_scheme client_go add_meta = Inr scheme"
    and "c \<in> set controllers" and "k = ct_For c \<or> k \<in> set (ct_Owns c)"
  shows "(SchemeGroupVersion, k) \<in> set scheme \<and> (SchemeGroupVersion, k @ ''List'') \<in> set scheme"
proof -
  have "k \<in> set objectTypes \<and> k @ ''List'' \<in> set objectTypes"
    using assms(3,4)
    by (auto simp: controllers_def cluster_setup_def ktcluster_setup_def ktmachine_setup_def ktmachinetemplate_setup_def
        ktnetworkfirewall_setup_def ktpublicnetwork_setup_def ktsubjecttoken_setup_def kubeadmconfigtemplate_setup_def
        kubeadmcontrolplane_setup_def machinedeployment_setup_def objectTypes_def init_cluster_def init_ktcluster_def init_ktmachine_def
        init_ktmachinetemplate_def init_ktnetworkfirewall_def init_ktpublicnetwork_def init_ktsubjecttoken_def
        init_kubeadmconfigtemplate_def init_kubeadmcontrolplane_def init_machinedeployment_def)
  moreover obtain s where "scheme = add_meta SchemeGroupVersion (s @ map (Pair SchemeGroupVersion) objectTypes)"
    using assms(2) by (auto simp: init_scheme_def addKnownTypes_def split: sum.splits)
  with assms(1) [of "s @ map (Pair SchemeGroupVersion) objectTypes" SchemeGroupVersion]
  have "Pair SchemeGroupVersion ` set objectTypes \<subseteq> set scheme" by auto
  ultimately show ?thesis by blast
qed

lemma distinct_objectTypes: "distinct objectTypes"
  by (simp add: objectTypes_def init_cluster_def init_ktcluster_def init_ktmachine_def init_ktmachinetemplate_def init_ktnetworkfirewall_def
      init_ktpublicnetwork_def init_ktsubjecttoken_def init_kubeadmconfigtemplate_def init_kubeadmcontrolplane_def init_machinedeployment_def)

section \<open>The environment\<close>

text \<open>\<open>logger\<close>: the level of the text, and a logger built at that level.\<close>

definition new_logger :: "(string \<Rightarrow> gerror + 'level) \<Rightarrow> ('level \<Rightarrow> gerror + 'log) \<Rightarrow> string \<Rightarrow> gerror + 'log" where
  "new_logger level build logLevel = (case level logLevel of Inl e \<Rightarrow> Inl e | Inr l \<Rightarrow> build l)"

definition ProcessEnvVariables :: "gerror + Config \<Rightarrow> (string \<Rightarrow> gerror + 'log) \<Rightarrow> stop + Config \<times> 'log" where
  "ProcessEnvVariables process logger = (case process of Inl e \<Rightarrow> Inl (Panicked (error_text e))
     | Inr config \<Rightarrow> (case logger (c_LogLevel config) of Inl e \<Rightarrow> Inl (Panicked (error_text e))
        | Inr log \<Rightarrow> Inr (config, log)))"

text \<open>The program does not come up on a configuration it cannot read or a log level it does not
  know: it panics before \<open>main\<close> starts.\<close>

lemma env_or_panic:
  "ProcessEnvVariables process (new_logger level build) = Inr (config, log) \<longleftrightarrow>
     process = Inr config \<and> (\<exists>l. level (c_LogLevel config) = Inr l \<and> build l = Inr log)"
  by (auto simp: ProcessEnvVariables_def new_logger_def split: sum.splits)

lemma unknown_level_panics:
  "process = Inr config \<Longrightarrow> level (c_LogLevel config) = Inl e \<Longrightarrow>
   ProcessEnvVariables process (new_logger level build) = Inl (Panicked (error_text e))"
  by (simp add: ProcessEnvVariables_def new_logger_def)

end
