(* ===== verification/TestUtils.thy ===== *)
theory TestUtils
  imports GoEffects
begin

text \<open>
  The helpers of the end-to-end tests (\<open>test/utils/utils.go\<close>): running a command in the directory of
  the project, installing what the tests need, looking for definitions in the output of \<open>kubectl\<close>,
  and uncommenting a block of a file. The file system, the environment, the processes and Ginkgo's
  writer are parameters; the string functions and \<open>bufio.Scanner\<close> of the Go library are written out.
\<close>

section \<open>What the helpers call\<close>

datatype tool_call =
    Getwd
  | Chdir string
  | Environ
  | LookupEnv string
  | Exec "string list" string "string list"
  | ReadFile string
  | WriteFile string string nat
  | Log string

text \<open>\<open>os.Getwd\<close> and \<open>CombinedOutput\<close> return a text together with an error.\<close>

record 'w tools =
  t_getwd :: "'w \<Rightarrow> (string \<times> gerror option) \<times> 'w"
  t_chdir :: "string \<Rightarrow> 'w \<Rightarrow> gerror option \<times> 'w"
  t_environ :: "'w \<Rightarrow> string list \<times> 'w"
  t_lookup_env :: "string \<Rightarrow> 'w \<Rightarrow> string option \<times> 'w"
  t_exec :: "string list \<Rightarrow> string \<Rightarrow> string list \<Rightarrow> 'w \<Rightarrow> (string \<times> gerror option) \<times> 'w"
  t_read_file :: "string \<Rightarrow> 'w \<Rightarrow> (gerror + string) \<times> 'w"
  t_write_file :: "string \<Rightarrow> string \<Rightarrow> nat \<Rightarrow> 'w \<Rightarrow> (gerror + unit) \<times> 'w"
  t_log :: "string \<Rightarrow> 'w \<Rightarrow> unit \<times> 'w"

type_synonym ('w, 'a) tool_op = "('w, tool_call, 'a) go"

definition logG :: "'w tools \<Rightarrow> string \<Rightarrow> ('w, unit) tool_op" where
  "logG env t = askG (Log t) (t_log env t)"

text \<open>An error that was returned beside a value.\<close>

definition returnG :: "gerror option \<Rightarrow> ('w, unit) tool_op" where
  "returnG err = (case err of None \<Rightarrow> retG () | Some e \<Rightarrow> failG e)"

section \<open>Strings\<close>

text \<open>\<open>strings.Split(s, "\n")\<close>.\<close>

fun split_lines :: "string \<Rightarrow> string list" where
  "split_lines [] = [[]]"
| "split_lines (c # cs) = (if c = newline then [] # split_lines cs
     else (case split_lines cs of [] \<Rightarrow> [[c]] | l # ls \<Rightarrow> (c # l) # ls))"

text \<open>\<open>strings.Join\<close>.\<close>

fun join_with :: "string \<Rightarrow> string list \<Rightarrow> string" where
  "join_with sep [] = []"
| "join_with sep [l] = l"
| "join_with sep (l # ls) = l @ sep @ join_with sep ls"

text \<open>\<open>strings.Index\<close>, \<open>None\<close> for \<open>-1\<close>.\<close>

fun index_str :: "string \<Rightarrow> string \<Rightarrow> nat option" where
  "index_str [] sub = (if sub = [] then Some 0 else None)"
| "index_str (c # cs) sub = (if prefix sub (c # cs) then Some 0 else map_option Suc (index_str cs sub))"

text \<open>\<open>strings.Replace(s, sub, "", -1)\<close>, from the left and without overlaps.\<close>

function remove_all :: "string \<Rightarrow> string \<Rightarrow> string" where
  "remove_all sub [] = []"
| "remove_all sub (c # cs) = (if sub = [] then c # cs
     else if prefix sub (c # cs) then remove_all sub (drop (length sub) (c # cs))
     else c # remove_all sub cs)"
  by pat_completeness auto
termination by (relation "measure (length \<circ> snd)") (auto simp: neq_Nil_conv)

definition trim_prefix :: "string \<Rightarrow> string \<Rightarrow> string" where
  "trim_prefix s p = (if prefix p s then drop (length p) s else s)"

text \<open>The lines a \<open>bufio.Scanner\<close> delivers: without a final newline there is a last line unless it
  is empty, a carriage return at the end of a line is dropped, and the scan ends at a line that does
  not fit the buffer of 64 KiB (\<open>ErrTooLong\<close>).\<close>

definition drop_cr :: "string \<Rightarrow> string" where
  "drop_cr l = (if l \<noteq> [] \<and> last l = CHR 0x0D then butlast l else l)"

definition scan_lines :: "string \<Rightarrow> string list" where
  "scan_lines s = (let ls = split_lines s in
     map drop_cr (takeWhile (\<lambda>l. length l < 65536) (if last ls = [] then butlast ls else ls)))"

section \<open>The helpers\<close>

definition prometheusOperatorVersion :: string where "prometheusOperatorVersion = ''v0.77.1''"

definition prometheusOperatorURL :: "string \<Rightarrow> string" where
  "prometheusOperatorURL v = ''https://github.com/prometheus-operator/prometheus-operator/'' @
     ''releases/download/'' @ v @ ''/bundle.yaml''"

definition certmanagerVersion :: string where "certmanagerVersion = ''v1.16.0''"

definition certmanagerURLTmpl :: "string \<Rightarrow> string" where
  "certmanagerURLTmpl v = ''https://github.com/jetstack/cert-manager/releases/download/'' @ v @ ''/cert-manager.yaml''"

definition warnError :: "'w tools \<Rightarrow> gerror \<Rightarrow> ('w, unit) tool_op" where
  "warnError env err = logG env (''warning: '' @ error_text err @ [newline])"

definition GetProjectDir :: "'w tools \<Rightarrow> ('w, string \<times> gerror option) tool_op" where
  "GetProjectDir env = bindG (askG Getwd (t_getwd env)) (\<lambda>(wd, err). case err of
     Some e \<Rightarrow> retG (wd, Some e)
   | None \<Rightarrow> retG (remove_all ''/test/e2e'' wd, None))"

definition Run :: "'w tools \<Rightarrow> string list \<Rightarrow> ('w, string \<times> gerror option) tool_op" where
  "Run env args =
     bindG (GetProjectDir env) (\<lambda>(dir, _).
     bindG (askG (Chdir dir) (t_chdir env dir)) (\<lambda>err.
     bindG (case err of None \<Rightarrow> retG () | Some e \<Rightarrow> logG env (''chdir dir: '' @ error_text e @ [newline])) (\<lambda>_.
     bindG (askG Environ (t_environ env)) (\<lambda>vars.
     let vars' = vars @ [''GO111MODULE=on'']; command = join_with '' '' args in
     bindG (logG env (''running: '' @ command @ [newline])) (\<lambda>_.
     bindG (askG (Exec args dir vars') (t_exec env args dir vars')) (\<lambda>(output, err).
     retG (output, map_option (\<lambda>e. NewError (command @ '' failed with error: ('' @ error_text e @ '') '' @ output)) err)))))))"

definition InstallPrometheusOperator :: "'w tools \<Rightarrow> ('w, unit) tool_op" where
  "InstallPrometheusOperator env =
     bindG (Run env [''kubectl'', ''create'', ''-f'', prometheusOperatorURL prometheusOperatorVersion]) (\<lambda>(_, err). returnG err)"

definition UninstallPrometheusOperator :: "'w tools \<Rightarrow> ('w, unit) tool_op" where
  "UninstallPrometheusOperator env =
     bindG (Run env [''kubectl'', ''delete'', ''-f'', prometheusOperatorURL prometheusOperatorVersion]) (\<lambda>(_, err).
     case err of None \<Rightarrow> retG () | Some e \<Rightarrow> warnError env e)"

definition GetNonEmptyLines :: "string \<Rightarrow> string list" where
  "GetNonEmptyLines output = filter (\<lambda>element. element \<noteq> []) (split_lines output)"

text \<open>The two nested loops over the names and the lines, which both functions have.\<close>

definition any_installed :: "string list \<Rightarrow> string list \<Rightarrow> bool" where
  "any_installed crds crdList = list_ex (\<lambda>crd. list_ex (\<lambda>line. contains_str line crd) crdList) crds"

definition prometheusCRDs :: "string list" where
  "prometheusCRDs = [''prometheuses.monitoring.coreos.com'', ''prometheusrules.monitoring.coreos.com'',
     ''prometheusagents.monitoring.coreos.com'']"

definition IsPrometheusCRDsInstalled :: "'w tools \<Rightarrow> ('w, bool) tool_op" where
  "IsPrometheusCRDsInstalled env =
     bindG (Run env [''kubectl'', ''get'', ''crds'', ''-o'', ''custom-columns=NAME:.metadata.name'']) (\<lambda>(output, err).
     case err of Some _ \<Rightarrow> retG False
     | None \<Rightarrow> retG (any_installed prometheusCRDs (GetNonEmptyLines output)))"

definition UninstallCertManager :: "'w tools \<Rightarrow> ('w, unit) tool_op" where
  "UninstallCertManager env =
     bindG (Run env [''kubectl'', ''delete'', ''-f'', certmanagerURLTmpl certmanagerVersion]) (\<lambda>(_, err).
     case err of None \<Rightarrow> retG () | Some e \<Rightarrow> warnError env e)"

definition InstallCertManager :: "'w tools \<Rightarrow> ('w, unit) tool_op" where
  "InstallCertManager env =
     bindG (Run env [''kubectl'', ''apply'', ''-f'', certmanagerURLTmpl certmanagerVersion]) (\<lambda>(_, err).
     case err of Some e \<Rightarrow> failG e
     | None \<Rightarrow>
         bindG (Run env [''kubectl'', ''wait'', ''deployment.apps/cert-manager-webhook'', ''--for'', ''condition=Available'',
           ''--namespace'', ''cert-manager'', ''--timeout'', ''5m'']) (\<lambda>(_, err). returnG err))"

definition certManagerCRDs :: "string list" where
  "certManagerCRDs = [''certificates.cert-manager.io'', ''issuers.cert-manager.io'', ''clusterissuers.cert-manager.io'',
     ''certificaterequests.cert-manager.io'', ''orders.acme.cert-manager.io'', ''challenges.acme.cert-manager.io'']"

definition IsCertManagerCRDsInstalled :: "'w tools \<Rightarrow> ('w, bool) tool_op" where
  "IsCertManagerCRDsInstalled env =
     bindG (Run env [''kubectl'', ''get'', ''crds'']) (\<lambda>(output, err).
     case err of Some _ \<Rightarrow> retG False
     | None \<Rightarrow> retG (any_installed certManagerCRDs (GetNonEmptyLines output)))"

definition LoadImageToKindClusterWithName :: "'w tools \<Rightarrow> string \<Rightarrow> ('w, unit) tool_op" where
  "LoadImageToKindClusterWithName env name =
     bindG (askG (LookupEnv ''KIND_CLUSTER'') (t_lookup_env env ''KIND_CLUSTER'')) (\<lambda>v.
     let cluster = (case v of None \<Rightarrow> ''kind'' | Some v \<Rightarrow> v) in
     bindG (Run env (''kind'' # [''load'', ''docker-image'', name, ''--name'', cluster])) (\<lambda>(_, err). returnG err))"

text \<open>The loop of \<open>UncommentCode\<close>: the line that was scanned, then a newline before each next one.\<close>

fun uncomment_lines :: "string \<Rightarrow> string \<Rightarrow> string list \<Rightarrow> string" where
  "uncomment_lines pre l [] = trim_prefix l pre"
| "uncomment_lines pre l (l' # ls) = trim_prefix l pre @ newline # uncomment_lines pre l' ls"

definition UncommentCode :: "'w tools \<Rightarrow> string \<Rightarrow> string \<Rightarrow> string \<Rightarrow> ('w, unit) tool_op" where
  "UncommentCode env filename target pre =
     bindG (callG (ReadFile filename) (t_read_file env filename)) (\<lambda>content.
     case index_str content target of
       None \<Rightarrow> failG (NewError (''unable to find the code '' @ target @ '' to be uncomment''))
     | Some idx \<Rightarrow> (case scan_lines target of
         [] \<Rightarrow> retG ()
       | l # ls \<Rightarrow>
           let out = take idx content @ uncomment_lines pre l ls @ drop (idx + length target) content
           in callG (WriteFile filename out 420) (t_write_file env filename out 420)))"

section \<open>Lines\<close>

lemma split_lines_nonempty [simp]: "split_lines s \<noteq> []"
  by (induction s) (auto split: list.split)

lemma join_lines_Cons: "ls \<noteq> [] \<Longrightarrow> join_lines (l # ls) = l @ newline # join_lines ls"
  by (cases ls) simp_all

lemma join_split: "join_lines (split_lines s) = s"
proof (induction s)
  case (Cons c cs)
  obtain l ls where "split_lines cs = l # ls" by (cases "split_lines cs") auto
  with Cons show ?case by (cases ls) (simp_all add: join_lines_Cons)
qed simp

lemma split_line: "newline \<notin> set l \<Longrightarrow> split_lines l = [l]"
  by (induction l) auto

lemma split_append: "newline \<notin> set l \<Longrightarrow> split_lines (l @ newline # s) = l # split_lines s"
  by (induction l) auto

lemma split_join: "ls \<noteq> [] \<Longrightarrow> (\<And>l. l \<in> set ls \<Longrightarrow> newline \<notin> set l) \<Longrightarrow> split_lines (join_lines ls) = ls"
  by (induction ls rule: join_lines.induct) (simp_all add: split_line split_append)

lemma split_no_newline: "l \<in> set (split_lines s) \<Longrightarrow> newline \<notin> set l"
proof (induction s arbitrary: l)
  case (Cons c cs)
  obtain k ks where "split_lines cs = k # ks" by (cases "split_lines cs") auto
  with Cons show ?case by (auto split: if_splits)
qed simp

text \<open>What \<open>GetNonEmptyLines\<close> returns are the lines that are not empty, in order.\<close>

lemma non_empty_lines:
  assumes "ls \<noteq> []" and "\<And>l. l \<in> set ls \<Longrightarrow> newline \<notin> set l"
  shows "GetNonEmptyLines (join_lines ls) = filter (\<lambda>l. l \<noteq> []) ls"
  by (simp only: GetNonEmptyLines_def split_join [OF assms])

lemma non_empty_lines_clean: "l \<in> set (GetNonEmptyLines s) \<Longrightarrow> l \<noteq> [] \<and> newline \<notin> set l"
  by (auto simp: GetNonEmptyLines_def dest: split_no_newline)

section \<open>Finding and removing\<close>

lemma index_found: "index_str s sub = Some i \<Longrightarrow> s = take i s @ sub @ drop (i + length sub) s"
proof (induction s arbitrary: i)
  case (Cons c cs)
  show ?case
  proof (cases "prefix sub (c # cs)")
    case True
    with Cons.prems show ?thesis by (auto simp: prefix_def)
  next
    case False
    with Cons.prems obtain j where "index_str cs sub = Some j" "i = Suc j" by auto
    with Cons.IH [of j] show ?thesis by simp
  qed
qed (simp split: if_splits)

lemma index_first: "index_str s sub = Some i \<Longrightarrow> j < i \<Longrightarrow> \<not> prefix sub (drop j s)"
proof (induction s arbitrary: i j)
  case (Cons c cs)
  then obtain i' where i': "index_str cs sub = Some i'" "i = Suc i'" "\<not> prefix sub (c # cs)"
    by (auto split: if_splits)
  show ?case
  proof (cases j)
    case (Suc j')
    with Cons.IH [OF i'(1), of j'] Cons.prems(2) i'(2) show ?thesis by simp
  qed (use i' in simp)
qed (simp split: if_splits)

lemma index_missing: "index_str s sub = None \<longleftrightarrow> \<not> contains_str s sub"
proof (induction s)
  case (Cons c cs)
  then show ?case by (auto simp: contains_str_def sublist_Cons_right)
qed (simp add: contains_str_def)

lemma remove_first:
  assumes "sub \<noteq> []"
  shows "index_str s sub = Some i \<Longrightarrow> remove_all sub s = take i s @ remove_all sub (drop (i + length sub) s)"
proof (induction s arbitrary: i)
  case (Cons c cs)
  show ?case
  proof (cases "prefix sub (c # cs)")
    case False
    with Cons.prems obtain j where "index_str cs sub = Some j" "i = Suc j" by auto
    with Cons.IH [of j] False assms show ?thesis by simp
  qed (use Cons.prems assms in simp)
qed (use assms in simp)

lemma remove_none: "\<not> contains_str s sub \<Longrightarrow> remove_all sub s = s"
proof (induction s)
  case (Cons c cs)
  then show ?case by (auto simp: contains_str_def sublist_Cons_right)
qed simp

text \<open>From the directory of the end-to-end tests the project is found, and anywhere else the current
  directory is taken.\<close>

lemma project_dir:
  assumes "t_getwd env w = ((wd, None), w1)"
  shows "index_str wd ''/test/e2e'' = Some (length root) \<Longrightarrow> wd = root @ ''/test/e2e'' \<Longrightarrow>
      outcome (GetProjectDir env) w = Inr (root, None)"
    and "\<not> contains_str wd ''/test/e2e'' \<Longrightarrow> outcome (GetProjectDir env) w = Inr (wd, None)"
  using assms by (simp_all add: GetProjectDir_def run_defs bindG_apply askG_apply retG_apply remove_first remove_none)

section \<open>Uncommenting\<close>

lemma uncomment_join: "uncomment_lines pre l ls = join_lines (map (\<lambda>l. trim_prefix l pre) (l # ls))"
  by (induction ls arbitrary: l) simp_all

lemma trim_added [simp]: "trim_prefix (p @ l) p = l"
  by (simp add: trim_prefix_def)

text \<open>A line that the scanner delivers as it is.\<close>

definition plain_line :: "string \<Rightarrow> bool" where
  "plain_line l \<longleftrightarrow> newline \<notin> set l \<and> length l < 65536 \<and> (l = [] \<or> last l \<noteq> CHR 0x0D)"

lemma scan_join:
  assumes "ls \<noteq> []" and "\<And>l. l \<in> set ls \<Longrightarrow> plain_line l" and "last ls \<noteq> []"
  shows "scan_lines (join_lines ls) = ls" and "scan_lines (join_lines ls @ [newline]) = ls"
proof -
  have split: "split_lines (join_lines ls) = ls" "split_lines (join_lines ls @ [newline]) = ls @ [[]]"
  proof -
    show "split_lines (join_lines ls) = ls" by (rule split_join [OF assms(1)]) (use assms(2) in \<open>simp add: plain_line_def\<close>)
    have "split_lines (join_lines (ls @ [[]])) = ls @ [[]]"
      by (rule split_join) (use assms(2) in \<open>auto simp: plain_line_def\<close>)
    moreover have "join_lines (ls @ [[]]) = join_lines ls @ [newline]"
      using assms(1) by (induction ls rule: join_lines.induct) simp_all
    ultimately show "split_lines (join_lines ls @ [newline]) = ls @ [[]]" by simp
  qed
  have whole: "takeWhile (\<lambda>l. length l < 65536) ls = ls" "map drop_cr ls = ls"
    by (use assms(2) in \<open>simp add: plain_line_def takeWhile_eq_all_conv\<close>)
      (rule map_idI, use assms(2) in \<open>auto simp: plain_line_def drop_cr_def\<close>)
  show "scan_lines (join_lines ls) = ls" "scan_lines (join_lines ls @ [newline]) = ls"
    using assms(3) by (simp_all add: scan_lines_def split whole)
qed

lemma run_uncomment:
  "outcome (UncommentCode env f target pre) w = (case t_read_file env f w of
     (Inl e, w1) \<Rightarrow> Inl (Fail e)
   | (Inr content, w1) \<Rightarrow> (case index_str content target of
       None \<Rightarrow> Inl (Fail (NewError (''unable to find the code '' @ target @ '' to be uncomment'')))
     | Some i \<Rightarrow> (case scan_lines target of [] \<Rightarrow> Inr ()
       | l # ls \<Rightarrow> outcome (callG (WriteFile f (take i content @ uncomment_lines pre l ls @ drop (i + length target) content) 420)
           (t_write_file env f (take i content @ uncomment_lines pre l ls @ drop (i + length target) content) 420)) w1)))"
  "trace (UncommentCode env f target pre) w = ReadFile f # (case t_read_file env f w of
     (Inl e, w1) \<Rightarrow> []
   | (Inr content, w1) \<Rightarrow> (case index_str content target of None \<Rightarrow> []
     | Some i \<Rightarrow> (case scan_lines target of [] \<Rightarrow> []
       | l # ls \<Rightarrow> [WriteFile f (take i content @ uncomment_lines pre l ls @ drop (i + length target) content) 420])))"
  by (simp_all add: UncommentCode_def outcome_bindG trace_bindG outcome_callG world_callG trace_callG Let_def
      split: prod.split sum.split option.split list.split)

text \<open>A commented block is replaced, at its first occurrence and nowhere else, by the block; a newline
  at the end of the target is lost.\<close>

lemma uncomment_restores:
  assumes "t_read_file env f w = (Inr content, w1)" and "ls \<noteq> []" and "\<And>l. l \<in> set ls \<Longrightarrow> plain_line (pre @ l)"
    and "pre @ last ls \<noteq> []" and "target = join_lines (map (\<lambda>l. pre @ l) ls) @ nl" and "nl \<in> {[], [newline]}"
    and "index_str content target = Some i" and "after = drop (i + length target) content"
  shows "content = take i content @ target @ after \<and>
    trace (UncommentCode env f target pre) w = [ReadFile f, WriteFile f (take i content @ join_lines ls @ after) 420]"
proof -
  let ?cs = "map (\<lambda>l. pre @ l) ls"
  have cs: "?cs \<noteq> []" "last ?cs \<noteq> []" "\<And>c. c \<in> set ?cs \<Longrightarrow> plain_line c"
    using assms(2-4) by (auto simp: last_map)
  have "scan_lines target = ?cs"
    using assms(5,6) scan_join [OF cs(1,3,2)] by auto
  moreover obtain l ks where "ls = l # ks" using assms(2) by (cases ls) auto
  ultimately have "trace (UncommentCode env f target pre) w = [ReadFile f, WriteFile f (take i content @ join_lines ls @ after) 420]"
    using assms(1,7,8) by (simp add: run_uncomment(2) uncomment_join o_def del: uncomment_lines.simps)
  with index_found [OF assms(7)] assms(8) show ?thesis by simp
qed

text \<open>The error of the scanner is not looked at: a line of the target that does not fit its buffer is
  removed from the file, and so is everything of the target after it.\<close>

lemma uncomment_truncates:
  assumes "t_read_file env f w = (Inr content, w1)" and "index_str content target = Some i"
    and "ls \<noteq> []" and "\<And>l. l \<in> set ls \<Longrightarrow> plain_line l" and "split_lines target = ls @ long # rest"
    and "65536 \<le> length long"
  shows "trace (UncommentCode env f target pre) w = [ReadFile f,
    WriteFile f (take i content @ join_lines (map (\<lambda>l. trim_prefix l pre) ls) @ drop (i + length target) content) 420]"
proof -
  let ?xs = "if last (split_lines target) = [] then butlast (split_lines target) else split_lines target"
  have "long \<noteq> []" using assms(6) by auto
  then have "\<exists>r. ?xs = ls @ long # r" by (auto simp: assms(5) butlast_append)
  then obtain r where r: "?xs = ls @ long # r" ..
  have "takeWhile (\<lambda>l. length l < 65536) (ls @ long # r) = ls"
    using assms(4,6) by (simp add: takeWhile_append plain_line_def)
  moreover have "map drop_cr ls = ls" by (rule map_idI) (use assms(4) in \<open>auto simp: plain_line_def drop_cr_def\<close>)
  ultimately have "scan_lines target = ls" unfolding scan_lines_def Let_def r by simp
  moreover obtain l ks where "ls = l # ks" using assms(3) by (cases ls) auto
  ultimately show ?thesis
    using assms(1,2) by (simp add: run_uncomment(2) uncomment_join del: uncomment_lines.simps)
qed

text \<open>When the target is not there, or is empty, nothing is written; only the first is an error.\<close>

lemma uncomment_missing:
  "t_read_file env f w = (Inr content, w1) \<Longrightarrow> \<not> contains_str content target \<Longrightarrow>
   trace (UncommentCode env f target pre) w = [ReadFile f] \<and> (\<exists>e. outcome (UncommentCode env f target pre) w = Inl (Fail e))"
  by (simp add: run_uncomment index_missing [symmetric])

lemma uncomment_empty:
  "t_read_file env f w = (Inr content, w1) \<Longrightarrow>
   trace (UncommentCode env f [] pre) w = [ReadFile f] \<and> outcome (UncommentCode env f [] pre) w = Inr ()"
proof -
  assume r: "t_read_file env f w = (Inr content, w1)"
  have "index_str content [] = Some 0" by (cases content) simp_all
  with r show ?thesis by (simp add: run_uncomment scan_lines_def)
qed

section \<open>Running commands\<close>

lemma run_logG: "outcome (logG env t) w = Inr ()" "trace (logG env t) w = [Log t]"
  by (simp_all add: logG_def run_defs askG_apply split: prod.split)

text \<open>Whatever fails before, the command is run once, last, in the directory found and with the
  module mode set.\<close>

lemma run_once:
  "\<exists>cs dir vars. trace (Run env args) w = cs @ [Exec args dir (vars @ [''GO111MODULE=on''])]
     \<and> (\<forall>a d v. Exec a d v \<notin> set cs)"
proof -
  have "\<exists>dir e w1. GetProjectDir env w = (Inr (dir, e), [Getwd], w1)"
    by (auto simp: GetProjectDir_def go_simps askG_apply split: prod.split option.split)
  then obtain dir e w1 where "GetProjectDir env w = (Inr (dir, e), [Getwd], w1)" by blast
  then show ?thesis
    by (simp add: Run_def bindG_apply askG_apply logG_def retG_apply run_defs Let_def split: prod.split option.split)
qed

lemma run_never_stops: "\<exists>r. outcome (Run env args) w = Inr r"
  by (simp add: Run_def GetProjectDir_def bindG_apply askG_apply logG_def retG_apply run_defs Let_def split: prod.split option.split)

text \<open>A definition counts as installed when some line of a successful answer contains its name.\<close>

lemma installed_iff:
  "outcome (IsPrometheusCRDsInstalled env) w = Inr True \<longleftrightarrow>
     (\<exists>output. outcome (Run env [''kubectl'', ''get'', ''crds'', ''-o'', ''custom-columns=NAME:.metadata.name'']) w = Inr (output, None)
       \<and> (\<exists>line \<in> set (GetNonEmptyLines output). \<exists>crd \<in> set prometheusCRDs. contains_str line crd))"
  "outcome (IsCertManagerCRDsInstalled env) w = Inr True \<longleftrightarrow>
     (\<exists>output. outcome (Run env [''kubectl'', ''get'', ''crds'']) w = Inr (output, None)
       \<and> (\<exists>line \<in> set (GetNonEmptyLines output). \<exists>crd \<in> set certManagerCRDs. contains_str line crd))"
  by (auto simp: IsPrometheusCRDsInstalled_def IsCertManagerCRDsInstalled_def outcome_bindG any_installed_def list_ex_iff
      split: sum.splits option.splits prod.splits)

end
