(* ===== verification/Spec2Isabelle.thy ===== *)
theory Spec2Isabelle
  imports MachineLifecycle DeploymentController OwnerControllers Login Startup FleetRefusals DeepCopy Registration TestUtils
begin

text \<open>
  A verification development for the kt-cloud-operator, a Kubernetes operator in Go that keeps
  clusters on KT Cloud: it asks the cloud for one server per \<open>KTMachine\<close> object, gives control
  planes a public address with firewall rules, waits until a new control plane answers, stores
  its kubeconfig as a secret, and lets workers join it. This theory imports all others and holds
  the properties that span components.

  \<^bold>\<open>The program and its parts.\<close> The manager started by \<^verbatim>\<open>cmd/main.go\<close> runs one reconciler for each
  kind of object (\<^verbatim>\<open>internal/controller\<close>). A reconciler gets the name of an object, reads it, and
  changes other objects or the cloud; it keeps nothing between two calls, so the state of the
  program is the status of the stored objects and the cloud. The reconciler of machines uses
  \<^verbatim>\<open>cmd/httpapi\<close>, the client of the cloud, which logs in (\<^verbatim>\<open>login.go\<close>), creates and queries
  servers (\<^verbatim>\<open>cp_vm.go\<close>, \<^verbatim>\<open>worker_vm.go\<close>), attaches addresses and opens ports (\<^verbatim>\<open>network.go\<close>),
  fetches the kubeconfig (\<^verbatim>\<open>helpers.go\<close>) and deletes (\<^verbatim>\<open>common.go\<close>).

  \<^bold>\<open>How code becomes definitions.\<close>
  \<^item> A Go struct is a record with the struct's fields in order; \<open>zero_T\<close> is its zero value. An
    \<open>int\<close> is an \<open>int\<close>; where it comes from JSON it is bounded as in Go (\<open>int64\<close>).
  \<^item> A function that talks to the outside is a value of type \<open>'w \<Rightarrow> (stop + 'a) \<times> call list \<times> 'w\<close>
    (\<open>GoEffects\<close>): the outside state is passed through, each request is recorded, and the result
    is a value, a returned error (\<open>Fail\<close>), a panic, or the end of the process (\<open>log.Fatal\<close>). \<open>bindG\<close> is the
    \<^verbatim>\<open>if err != nil { return err }\<close> sequence, \<open>tryG\<close> the code that looks at an error and goes on,
    \<open>forG\<close> a loop over a slice.
  \<^item> Kubernetes, the cloud, the clock, the random source, URL and YAML libraries are the parameter
    \<open>env\<close> (\<open>Services\<close>), which may answer anything at any time. Where a theorem needs documented
    behaviour of one of them, the hypothesis says so by name (\<open>bounded_store\<close>, \<open>machine_store\<close>,
    \<open>firewall_api\<close>, \<open>firewall_up\<close>, \<open>plain_cloud\<close>, \<open>cloud_only\<close>, \<open>regular\<close>, \<open>services_up\<close>,
    \<open>random_source\<close>, \<open>kube\<close>, \<open>answers\<close>, \<open>readable\<close>, \<open>joinable\<close>, \<open>refuses_while\<close>,
    \<open>lists_without_state\<close>, \<open>lib_ok\<close>), and the theorem's witness gives an
    environment that satisfies it.
  \<^item> A range over a Go map goes through the keys in an order that \<open>env\<close> picks at each visit.
  \<^item> Log output is left out. A function that changes an object through a pointer returns the
    changed object; where the code passes a copy, the definition drops the change.

  \<^bold>\<open>The theories.\<close>
  \<^item> \<open>Prelude\<close>: fact collections, text functions of Go's \<open>strings\<close>, lemmas on lists.
    \<open>GoEffects\<close>: the effects, with a logic for all runs (\<open>spec\<close>: every request satisfies P, every
    result Q, every stop S), for the number of requests (\<open>atmost\<close>) and for what a run leaves alone
    (\<open>keeps\<close>). \<open>Simulation\<close>: runs as paths of an abstract system (\<open>follows\<close>).
  \<^item> \<open>ApiTypes\<close>: \<^verbatim>\<open>api/v1beta1\<close>. \<open>CloudTypes\<close>: the request and answer types of \<^verbatim>\<open>cmd/httpapi\<close> that
    are used, and their JSON decoders. \<open>Json\<close>, \<open>Base64\<close>: what the program uses of the packages
    \<^verbatim>\<open>encoding/json\<close> and \<^verbatim>\<open>encoding/base64\<close>. \<open>StatusJson\<close>: the JSON form of a machine's status, with
    the locale \<open>codec\<close> (decoding an encoded value over the zero value gives it back), interpreted on
    every type the status contains up to the status itself.
  \<^item> \<open>Services\<close>: the outside world, the configuration of \<^verbatim>\<open>internal/cloudapi/config.go\<close>, client set-up,
    and the locales \<open>query\<close> (an operation that only reads) and \<open>safe_query\<close> (and cannot panic or end
    the process), interpreted on the readiness loop and on every lookup of the program.
  \<^item> \<open>CloudVM\<close>: \<^verbatim>\<open>cp_vm.go\<close>, \<^verbatim>\<open>worker_vm.go\<close>, \<^verbatim>\<open>cp_bootstrap.go\<close>; \<open>CreateVM\<close>, \<open>GetCreatedVM\<close>,
    \<open>CheckControlPlaneMachineReady\<close>, \<open>JoinControlPlane\<close>. The lemmas give the content of every
    creation request and what each answer leads to.
  \<^item> \<open>CloudNetwork\<close>: \<^verbatim>\<open>network.go\<close>; \<open>AttachPublicIP\<close>, \<open>AddFirewallSettings\<close> and the firewall object
    that records the created policies. \<open>CloudDelete\<close>: \<^verbatim>\<open>common.go\<close>; \<open>DeleteVM\<close> and the order of the
    deletions, with the locale \<open>cloud_delete\<close> for the two deleting requests.
  \<^item> \<open>Kubeconfig\<close>: \<^verbatim>\<open>helpers.go\<close>; \<open>FetchAndCreateKubeconfigSecret\<close>, \<open>changeKubeconfigDomain\<close>.
  \<^item> \<open>Reconciler\<close>: results of a reconcile and the locale \<open>reconciler\<close> (read the object of the
    request; gone is success, another error is returned), interpreted on all six reconcilers that
    have a body.
  \<^item> \<open>MachineController\<close>: \<^verbatim>\<open>ktmachine_controller.go\<close>; \<open>reconcile_machine\<close> with the branches for control planes
    and workers, the locale \<open>no_create\<close> (never asks for a server) and its interpretations, the
    bounds on server creation, the invariant \<open>ready_ok\<close> of stored statuses.
    \<open>MachineLifecycle\<close>: the abstract control plane.
  \<^item> \<open>DeploymentController\<close>: \<^verbatim>\<open>machinedeployment_controller.go\<close> and the random names of
    \<^verbatim>\<open>internal/utils/util.go\<close>; the number of replicas, with the machines in the cluster (\<open>objs\<close>) apart
    from those in the cache that lists are answered from (\<open>cached\<close>). \<open>OwnerControllers\<close>: \<^verbatim>\<open>cluster_controller.go\<close>,
    \<^verbatim>\<open>ktcluster_controller.go\<close>, \<^verbatim>\<open>ktmachinetemplate_controller.go\<close>, \<^verbatim>\<open>ktsubjecttoken_controller.go\<close>
    with the locale \<open>adopter\<close>, and the four controllers whose \<open>Reconcile\<close> is empty.
  \<^item> \<open>Login\<close>: \<^verbatim>\<open>login.go\<close>; \<open>KTCloudLogin\<close>, the creation and renewal of the token object.
    \<open>Startup\<close>: \<^verbatim>\<open>cmd/main.go\<close> and the tables that the \<open>SetupWithManager\<close> functions register.
    \<open>Registration\<close>: what runs before \<open>main\<close>, the types of the scheme and the environment.
  \<^item> \<open>World\<close>: the effect of each request on the outside (\<open>effect\<close>), and that every operation changes
    the outside only by the requests it records (\<open>driven\<close>). \<open>StateLogic\<close>: triples on the outside
    (\<open>hoare\<close>). \<open>Fleet\<close>: all stored machines and all servers as a \<open>view\<close> of the outside, what other
    clients may do meanwhile (\<open>others\<close>), and the invariant. \<open>FleetRuns\<close>: a triple for each operation
    of the machine controller, and the controllers with the other clients as the transition system
    \<open>operates\<close>. \<open>FleetTheorems\<close>: what holds in every state it reaches, and a small Kubernetes and cloud
    to run it on. \<open>FleetProgress\<close>: in any endless run, a machine that is reconciled when it is \<open>due\<close>
    (stored, readable, and a control plane or a worker that can join) gets a server of its own and
    keeps it, whatever is reconciled later. \<open>FleetRefusals\<close>: a worker whose server was refused is
    stored as joined and then never changes.
  \<^item> \<open>GoHeap\<close>: memory with pointers, slices and maps, and the locale \<open>copying\<close> (the copy denotes the
    same value, and old and new memory are independent), closed under pointers, slices, maps and
    structs. \<open>ApiHeap\<close>: the structs of \<^verbatim>\<open>api/v1beta1\<close> as they lie in memory. \<open>DeepCopy\<close>:
    \<^verbatim>\<open>zz_generated.deepcopy.go\<close>, with the contract for every type.
  \<^item> \<open>TestUtils\<close>: \<^verbatim>\<open>test/utils/utils.go\<close>, the helpers of the end-to-end tests, over their own record
    \<open>tools\<close> of processes, files and the environment; the lines a \<open>bufio.Scanner\<close> delivers, and what
    \<open>UncommentCode\<close> writes.

  \<^bold>\<open>Abstract specifications.\<close> A control plane is in one of the phases \<open>Absent\<close>, \<open>Created\<close>,
  \<open>Exposed\<close>, \<open>Bootstrapping\<close>, \<open>Ready\<close> (\<open>phase_of\<close> reads it from the status); the reconcile refines
  \<open>control_plane_step\<close>: each status it writes is one step further or back to \<open>Created\<close>. A
  deployment is a number of machines: a reconcile with an up-to-date list takes it to the greater of
  that number and \<open>replicas\<close>, one with an older list goes beyond by at most what the list misses. A kubeconfig secret, a creation request, a firewall request and a login request are
  described member by member. The order of the deletions is a statement on the recorded requests.
  The fleet is a set of servers the cloud made, each of which belongs to one machine; the hypothesis
  \<open>kube\<close> says that the API server accepts an update of the current version only, that the cloud
  answers a creation with the new server and a query with the server asked for, and that other
  clients do not write the statuses of machines. With \<open>exclusive\<close>, reads are current, no answer is lost
  and the others leave existing machines alone; without it, all of this may happen. Then a machine
  that had a server in any version has that server for good (\<open>steady\<close>), so that one reconcile that
  succeeds is progress which no later one undoes. In memory, an
  object denotes the record of \<open>ApiTypes\<close> that its fields read as.

  \<^bold>\<open>Bounds and fuel.\<close> The JSON parser has fuel \<open>2 * length s + 2\<close>; \<open>parse_fuel_enough\<close> in \<open>Json\<close>
  shows that more fuel never changes its answer, since each level takes a character and at most
  two calls. The kubeconfig is fetched at most 24 times, with five seconds between. A reconcile
  of a machine asks for at most one server. A reconcile of a deployment ends after a number of
  requests that is linear in its replicas. The other loops run over lists, by structural
  recursion; all definitions are total.

  \<^bold>\<open>Where the code does not do what it means to.\<close> The theorems also show the behaviour in these
  cases: a refused server creation counts as success (\<open>create_vm_refusal_swallowed\<close>), which leaves
  a worker joined without a server (\<open>refused_worker_marked_joined\<close>); a control plane whose firewall
  request failed once stays exposed (\<open>exposed_control_plane_stuck\<close>); a change of the server's state
  drops the stored addresses (\<open>resync_forgets_addresses\<close>); an existing kubeconfig secret keeps a
  control plane from being ready (\<open>existing_secret_blocks_ready\<close>); a worker whose candidates do not
  answer panics (\<open>join_none_ready_panics\<close>); a machine without a firewall object cannot be deleted
  (\<open>delete_blocked_without_firewall\<close>); the server address of a kubeconfig is never rewritten
  (\<open>kubeconfig_domain_never_changed\<close>); the token of a login is not the one that is read
  (\<open>login_token_not_read\<close>); the reconcile that successfully creates a worker's server fails, because
  it updates an old version of the machine (\<open>accepted_join_conflicts\<close>), so the mark of a joined worker
  is only ever stored without a server (\<open>joined_without_server\<close>); and a server whose status update is
  refused is lost and asked for again (\<open>lost_update_asks_again\<close>). A deployment that is reconciled before its new machines are in the
  cache creates them again, and never deletes the surplus (\<open>stale_list_overshoots\<close>). The test helper \<open>UncommentCode\<close> loses
  the end of a target with an overlong line (\<open>uncomment_truncates\<close>).

  \<^bold>\<open>Not modelled.\<close> The parsing of flags and the webhook server, which are calls of libraries only;
  \<^verbatim>\<open>envconfig\<close> and \<^verbatim>\<open>zap\<close> themselves; the types of \<^verbatim>\<open>kubeconfig-types.go\<close>, which nothing uses; code that is commented out (finalizers); the tests, which are
  scenarios for a running cluster. The delivery of watch
  events and the queue of controller-runtime are outside the program: a reconcile is modelled for
  any request at any time, and sequences of reconciles where a theorem says so. Two reconciles do not
  overlap in \<open>operates\<close>: the manager runs one worker per controller, and the controllers other than
  that of machines do not touch what the fleet is about. Values are immutable outside of \<open>GoHeap\<close>;
  there, a slice or map that is nil denotes the empty one, as its JSON form does.
\<close>

section \<open>From a deployment to the cloud\<close>

text \<open>A request for a new server, made while a machine is reconciled, is the creation request of
  that machine.\<close>

definition own_create :: "'w env \<Rightarrow> KTMachine \<Rightarrow> string \<Rightarrow> call \<Rightarrow> bool" where
  "own_create env m token c \<longleftrightarrow> (server_create env c \<longrightarrow> (\<exists>script. c = HttpCall (create_request env token m script)))"

lemma no_create_own: "no_create env q \<Longrightarrow> spec (own_create env m token) q (\<lambda>_. True) (\<lambda>_. True)"
  unfolding no_create_def by (erule spec_weaken) (simp_all add: own_create_def)

lemma create_server_own: "spec (own_create env m token) (create_server env token m script) (\<lambda>_. True) (\<lambda>_. True)"
  by (rule spec_weaken [OF create_server_requests]) (auto simp: own_create_def server_create_def)

lemma join_own: "spec (own_create env m token) (JoinControlPlane env cps m token) (\<lambda>_. True) (\<lambda>_. True)"
  unfolding JoinControlPlane_def CreateWorkerVM_def
  by (intro spec_bind_any [OF no_create_own [OF loop_nc.no_create_axioms]] spec_if spec_stopI spec_list
      spec_bind_any [OF create_server_own] spec_ret TrueI)

lemma join_if_new_own: "spec (own_create env m token) (join_if_new env m token) (\<lambda>_. True) (\<lambda>_. True)"
  unfolding join_if_new_def
  by (intro spec_if spec_ret TrueI spec_bind_any [OF no_create_own [OF candidates_nc.no_create_axioms]]
      spec_bind_any [OF join_own] spec_bind_any [OF no_create_own [OF update_nc.no_create_axioms]])

lemma infrastructure_own:
  "spec (own_create env m token) (reconcileInfrastructure env m cluster token) (\<lambda>_. True) (\<lambda>_. True)"
proof -
  note own = no_create_own [OF get_nc.no_create_axioms] no_create_own [OF sync_nc.no_create_axioms]
    no_create_own [OF open_nc.no_create_axioms] no_create_own [OF finish_nc.no_create_axioms]
  show ?thesis
    unfolding reconcileInfrastructure_def reconcile_control_plane_def reconcile_worker_def CreateVM_def
    by (intro spec_if spec_ret TrueI spec_bind_any [OF create_server_own] spec_bind_any [OF own(1)] spec_bind_any [OF own(2)]
        spec_bind_any [OF own(3)] own(4) spec_bind_any [OF join_if_new_own] spec_option)
qed

lemma made_from_spec: "made_from env d t i m \<Longrightarrow> \<exists>s. m_Spec m = m_Spec (deployment_machine d t i s)"
  unfolding made_from_def by (metis KTMachine.simps(3) KTMachine.surjective KTMachine.update_convs(2))

text \<open>C10: The server that the cloud is asked for on behalf of a replica is the one its deployment and
  template describe: if a deployment's reconcile created a machine, and a machine with that spec
  is reconciled, whatever its status, then every request for a new server carries the template's
  flavor, key and networks, and the deployment's zone.\<close>

theorem replica_gets_template_server:
  assumes "CreateCall (OMachine m) \<in> set (trace (reconcile_deployment env req) w)"
    and "m_Spec m' = m_Spec m"
    and "HttpCall rq \<in> set (trace (reconcileInfrastructure env' m' cluster token) w')"
    and "server_create env' (HttpCall rq)"
  shows "\<exists>d w1 t w2 w3 sp kvs. e_get_deployment env req w = (Inr d, w1)
    \<and> e_get_template env (om_Name (md_Meta d), om_Namespace (md_Meta d)) w2 = (Inr t, w3)
    \<and> sp = te_Spec (ts_Template (mt_Spec t)) \<and> server_members rq = Some kvs
    \<and> map_of kvs ''flavorRef'' = Some (JStr (sp_Flavor sp)) \<and> map_of kvs ''key_name'' = Some (JStr (sp_SSHKeyName sp))
    \<and> map_of kvs ''networks'' = Some (JArr (map (\<lambda>n. JObj [(''uuid'', JStr (nt_ID n))]) (sp_NetworkTier sp)))
    \<and> map_of kvs ''availability_zone'' = Some (JStr (sd_FailureDomain (mp_Spec (ds_Template (md_Spec d)))))"
proof -
  obtain d w1 t w2 w3 i where d: "e_get_deployment env req w = (Inr d, w1)"
      and t: "e_get_template env (om_Name (md_Meta d), om_Namespace (md_Meta d)) w2 = (Inr t, w3)"
      and "made_from env d t i m"
    using deployment_writes [OF assms(1)] by auto
  then obtain s where m: "m_Spec m' = m_Spec (deployment_machine d t i s)"
    using made_from_spec assms(2) by metis
  obtain script where "rq = create_request env' token m' script"
    using spec_trace [OF infrastructure_own assms(3)] assms(4) by (auto simp: own_create_def)
  then obtain kvs where "server_members rq = Some kvs" "describes m' script kvs"
    using create_request_describes by blast
  with d t m show ?thesis
    by (auto simp: describes_def deployment_machine_def Let_def intro!: exI [of _ d] exI [of _ t])
qed

section \<open>The token of a login\<close>

lemma login_creates_token_key:
  assumes "CreateCall (OToken t) \<in> set (trace (KTCloudLogin env) w)"
  shows "(om_Name (kt_Meta t), om_Namespace (kt_Meta t)) = token_key"
proof -
  let ?P = "\<lambda>c. \<forall>t. c = CreateCall (OToken t) \<longrightarrow> (om_Name (kt_Meta t), om_Namespace (kt_Meta t)) = token_key"
  have "spec ?P (KTCloudLogin env) (\<lambda>_. True) (\<lambda>e. \<not> is_fail e)"
    by (intro KTCloudLogin_spec store_token_spec) (auto simp: token_object_def token_key_def)
  from spec_trace [OF this assms] show ?thesis by simp
qed

lemma subject_token_reads:
  "spec (\<lambda>c. \<forall>k. c = GetCall KindKTSubjectToken k \<longrightarrow> (\<exists>cl w w1.
       e_get_ktcluster env (ks_ClusterName (m_Spec m), m_Namespace m) w = (Inr cl, w1) \<and> k = (kc_Name cl, m_Namespace m)))
     (getSubjectToken env m) (\<lambda>_. True) (\<lambda>_. True)" (is "spec ?P _ _ _")
proof -
  let ?R = "\<lambda>cl. \<exists>w w1. e_get_ktcluster env (ks_ClusterName (m_Spec m), m_Namespace m) w = (Inr cl, w1)"
  have "spec ?P (GetMachineAssociatedCluster env m) ?R (\<lambda>_. True)"
    unfolding GetMachineAssociatedCluster_def Let_def
    by (rule spec_bind [where R = ?R]) (auto intro!: spec_call spec_if spec_stopI spec_ret)
  then have "spec ?P (tryG (GetMachineAssociatedCluster env m)) (\<lambda>r. case r of Inl _ \<Rightarrow> True | Inr cl \<Rightarrow> ?R cl) (\<lambda>_. True)"
    by (intro spec_try) (auto elim!: spec_weaken split: stop.split)
  then show ?thesis
    unfolding getSubjectToken_def Let_def
    by (rule spec_bind) (auto split: sum.split intro!: spec_call spec_stopI)
qed

text \<open>C34: The token that a login stores is not the one a machine's reconcile takes, unless the
  cluster is called \<^verbatim>\<open>ktcloudtoken\<close> and lives in the namespace \<^verbatim>\<open>default\<close>: the two sides
  name the object differently.\<close>

theorem login_token_not_read:
  assumes "\<And>k w c w1. e_get_ktcluster env k w = (Inr c, w1) \<Longrightarrow> kc_Name c = fst k"
    and "(ks_ClusterName (m_Spec m), m_Namespace m) \<noteq> (''ktcloudtoken'', ''default'')"
    and "CreateCall (OToken t) \<in> set (trace (KTCloudLogin env') w')"
  shows "GetCall KindKTSubjectToken (om_Name (kt_Meta t), om_Namespace (kt_Meta t)) \<notin> set (trace (getSubjectToken env m) w)"
proof
  let ?k = "(om_Name (kt_Meta t), om_Namespace (kt_Meta t))"
  assume "GetCall KindKTSubjectToken ?k \<in> set (trace (getSubjectToken env m) w)"
  from spec_trace [OF subject_token_reads this] obtain c w w1
    where "e_get_ktcluster env (ks_ClusterName (m_Spec m), m_Namespace m) w = (Inr c, w1)"
      and "?k = (kc_Name c, m_Namespace m)" by blast
  with assms(1) login_creates_token_key [OF assms(3)] assms(2) show False by (force simp: token_key_def)
qed

section \<open>Objects that are gone\<close>

text \<open>A reconcile of an object that is gone reads it once, changes nothing and is not queued
  again, in every controller that has a body.\<close>

theorem gone_objects_ignored:
  assumes "is_not_found e"
  shows "(e_get_machine env req w = (Inl e, w1) \<longrightarrow> reconcile_machine env req w = (Inr no_requeue, [GetCall KindKTMachine req], w1))
    \<and> (e_get_deployment env req w = (Inl e, w1) \<longrightarrow> reconcile_deployment env req w = (Inr no_requeue, [GetCall KindMachineDeployment req], w1))
    \<and> (e_get_cluster env req w = (Inl e, w1) \<longrightarrow> reconcile_cluster env req w = (Inr no_requeue, [GetCall KindCluster req], w1))
    \<and> (e_get_ktcluster env req w = (Inl e, w1) \<longrightarrow> reconcile_ktcluster env req w = (Inr no_requeue, [GetCall KindKTCluster req], w1))
    \<and> (e_get_template env req w = (Inl e, w1) \<longrightarrow> reconcile_template env req w = (Inr no_requeue, [GetCall KindKTMachineTemplate req], w1))
    \<and> (e_get_token env req w = (Inl e, w1) \<longrightarrow> reconcile_token env req w = (Inr no_requeue, [GetCall KindKTSubjectToken req], w1))"
  using assms by (simp add: machine_reconciler.gone deployment_reconciler.gone cluster_reconciler.gone
      ktcluster_reconciler.gone template_reconciler.gone token_reconciler.gone)

theorem gone_objects_ignored_witness:
  "reconcile_machine (down_env :: unit env) (''m'', '''') () = (Inr no_requeue, [GetCall KindKTMachine (''m'', '''')], ())"
  using gone_objects_ignored [of absent "down_env :: unit env" "(''m'', '''')" "()" "()"] by simp

section \<open>Instances\<close>

theorem replica_gets_template_server_witness:
  "\<exists>kvs. server_members (create_request vm_env ''t'' (sample_machine ''control-plane''\<lparr>m_Spec := m_Spec sample_created\<rparr>) cp_cloudInit) = Some kvs
     \<and> map_of kvs ''flavorRef'' = Some (JStr ''f'')"
proof -
  let ?m = "sample_machine ''control-plane''\<lparr>m_Spec := m_Spec sample_created\<rparr>"
  let ?rq = "create_request vm_env ''t'' ?m cp_cloudInit"
  have "HttpCall ?rq \<in> set (trace (reconcileInfrastructure vm_env ?m sample_cluster ''t'') ())"
    by (simp add: reconcileInfrastructure_def ControlPlaneLabel_def reconcile_control_plane_def CreateVM_def
        create_server_def http_do_def vm_env_def trace_def go_simps split: prod.split sum.split)
  moreover have "server_create vm_env (HttpCall ?rq)"
    by (simp add: server_create_def create_request_def cloud_request_def)
  ultimately show ?thesis
    using replica_gets_template_server [OF sample_created_call, of ?m ?rq vm_env sample_cluster "''t''" "()"]
    by (auto simp: sample_template_def)
qed

theorem login_token_not_read_witness:
  "GetCall KindKTSubjectToken (''ktcloudtoken'', ''default'') \<notin> set (trace (getSubjectToken (down_env :: unit env) (sample_machine ''w'')) ())"
  using login_token_not_read [OF _ _ login_env_creates, of "down_env :: unit env" "sample_machine ''w''" "()"]
  by (simp add: token_object_def sample_machine_def zero_KTMachine_def zero_ObjectMeta_def)

end
